(* ===== verification/Prelude.thy ===== *)
theory Prelude
  imports Main "HOL-Library.AList" "HOL-Library.Sublist"
begin

text \<open>
  Prelude of the development: the collections of facts the component proofs draw on, the
  64-bit signed arithmetic of Go's \<open>int\<close> and \<open>int64\<close>, and the generic lemmas on lists
  and association lists that several components share.

  \<^item> \<open>ok_iff\<close> collects, for every operation of the model, the equivalence that says when it
    returns successfully and what it then returns; \<open>simp add: ok_iff\<close> turns the statement
    that a use case succeeded into the facts its statements established.
  \<^item> \<open>run_simps\<close> collects the equations that evaluate a computation in a given world.
  \<^item> \<open>tab_simps\<close> collects the laws of the relational operations on tables.
\<close>

named_theorems ok_iff
named_theorems run_simps
named_theorems tab_simps

section \<open>Machine integers\<close>

text \<open>
  Go's \<open>int\<close> and \<open>int64\<close> are 64-bit two's complement on every platform the service is
  built for. They are modelled as \<open>int\<close>, and \<open>wrap64\<close> writes out the wrap-around at the
  places where the code computes with them.
\<close>

type_synonym go_int = int

definition max_int64 :: int where
  "max_int64 = 9223372036854775807"

definition min_int64 :: int where
  "min_int64 = - 9223372036854775808"

definition in_int64 :: "int \<Rightarrow> bool" where
  "in_int64 x \<longleftrightarrow> min_int64 \<le> x \<and> x \<le> max_int64"

definition wrap64 :: "int \<Rightarrow> int" where
  "wrap64 x = (x + 9223372036854775808) mod 18446744073709551616 - 9223372036854775808"

lemma wrap64_id [simp]: "in_int64 x \<Longrightarrow> wrap64 x = x"
  by (simp add: wrap64_def in_int64_def min_int64_def max_int64_def)

lemma in_int64_wrap64 [simp]: "in_int64 (wrap64 x)"
proof -
  have "0 \<le> (x + 9223372036854775808) mod 18446744073709551616"
    and "(x + 9223372036854775808) mod 18446744073709551616 < 18446744073709551616"
    by simp_all
  then show ?thesis
    unfolding in_int64_def wrap64_def min_int64_def max_int64_def by linarith
qed

text \<open>Go's integer division truncates towards zero.\<close>

definition go_div :: "int \<Rightarrow> int \<Rightarrow> int" where
  "go_div a b = sgn a * sgn b * (\<bar>a\<bar> div \<bar>b\<bar>)"

lemma go_div_nonneg: "0 \<le> a \<Longrightarrow> 0 < b \<Longrightarrow> go_div a b = a div b"
  by (cases "a = 0") (simp_all add: go_div_def)

section \<open>Lists\<close>

lemma find_Some_in_set: "find P xs = Some x \<Longrightarrow> x \<in> set xs \<and> P x"
  by (induction xs) (auto split: if_splits)

lemma Some_eq_map_option: "Some y = map_option f ox \<longleftrightarrow> (\<exists>x. ox = Some x \<and> y = f x)"
  by (cases ox) auto

lemma None_eq_map_option: "None = map_option f ox \<longleftrightarrow> ox = None"
  by (cases ox) auto

lemma find_None_conv: "find P xs = None \<longleftrightarrow> (\<forall>x \<in> set xs. \<not> P x)"
  by (induction xs) auto

lemma find_distinct_key:
  "distinct (map f xs) \<Longrightarrow> x \<in> set xs \<Longrightarrow> find (\<lambda>y. f y = f x) xs = Some x"
  by (induction xs) (auto simp: image_iff)

lemma distinct_map_eq:
  "distinct (map f xs) \<Longrightarrow> x \<in> set xs \<Longrightarrow> y \<in> set xs \<Longrightarrow> f x = f y \<Longrightarrow> x = y"
  by (auto simp: distinct_map dest: inj_onD)

lemma map_cond_key:
  "(\<And>x. x \<in> set xs \<Longrightarrow> P x \<Longrightarrow> k (f x) = k x) \<Longrightarrow>
   map k (map (\<lambda>x. if P x then f x else x) xs) = map k xs"
  by (induction xs) auto

lemma card_filter_set: "distinct xs \<Longrightarrow> card {x \<in> set xs. P x} = length (filter P xs)"
  using distinct_card [of "filter P xs"] by simp

lemma prefix_drop_length: "prefix p s \<Longrightarrow> s = p @ drop (length p) s"
  by (auto simp: prefix_def)

end
