(* ===== verification/Go_Strings.thy ===== *)
theory Go_Strings
  imports Prelude
begin

text \<open>
  What the source uses of Go's \<open>strings\<close>, \<open>strconv\<close>, \<open>fmt\<close> and \<open>unicode/utf8\<close>. A Go string
  is a sequence of bytes, so it is a \<open>string\<close> here (a list of 8-bit characters), and \<open>len\<close> is
  \<open>length\<close>. Operations that depend on a character's code point decode UTF-8 as Go does,
  malformed input included. The only table left as a parameter is Unicode case mapping beyond
  ASCII (\<open>unicode\<close>).
\<close>

section \<open>Bytes and case mapping\<close>

definition byte :: "char \<Rightarrow> nat" where
  "byte c = of_char c"

definition is_ascii :: "string \<Rightarrow> bool" where
  "is_ascii s \<longleftrightarrow> (\<forall>c \<in> set s. byte c < 128)"

definition ascii_lower :: "char \<Rightarrow> char" where
  "ascii_lower c = (if 65 \<le> byte c \<and> byte c \<le> 90 then char_of (byte c + 32) else c)"

definition ascii_upper :: "char \<Rightarrow> char" where
  "ascii_upper c = (if 97 \<le> byte c \<and> byte c \<le> 122 then char_of (byte c - 32) else c)"

record unicode =
  u_lower :: "string \<Rightarrow> string"
  u_upper :: "string \<Rightarrow> string"

definition ToLower :: "unicode \<Rightarrow> string \<Rightarrow> string" where
  "ToLower U s = (if is_ascii s then map ascii_lower s else u_lower U s)"

definition ToUpper :: "unicode \<Rightarrow> string \<Rightarrow> string" where
  "ToUpper U s = (if is_ascii s then map ascii_upper s else u_upper U s)"

section \<open>Trimming\<close>

text \<open>The UTF-8 encodings of the code points \<open>unicode.IsSpace\<close> accepts.\<close>

definition space_encodings :: "string list" where
  "space_encodings =
     [[CHR 0x09], [CHR 0x0A], [CHR 0x0B], [CHR 0x0C], [CHR 0x0D], [CHR 0x20],
      [CHR 0xC2, CHR 0x85], [CHR 0xC2, CHR 0xA0], [CHR 0xE1, CHR 0x9A, CHR 0x80],
      [CHR 0xE2, CHR 0x80, CHR 0x80], [CHR 0xE2, CHR 0x80, CHR 0x81], [CHR 0xE2, CHR 0x80, CHR 0x82],
      [CHR 0xE2, CHR 0x80, CHR 0x83], [CHR 0xE2, CHR 0x80, CHR 0x84], [CHR 0xE2, CHR 0x80, CHR 0x85],
      [CHR 0xE2, CHR 0x80, CHR 0x86], [CHR 0xE2, CHR 0x80, CHR 0x87], [CHR 0xE2, CHR 0x80, CHR 0x88],
      [CHR 0xE2, CHR 0x80, CHR 0x89], [CHR 0xE2, CHR 0x80, CHR 0x8A], [CHR 0xE2, CHR 0x80, CHR 0xA8],
      [CHR 0xE2, CHR 0x80, CHR 0xA9], [CHR 0xE2, CHR 0x80, CHR 0xAF], [CHR 0xE2, CHR 0x81, CHR 0x9F],
      [CHR 0xE3, CHR 0x80, CHR 0x80]]"

text \<open>Strips members of \<open>encs\<close> from the front for as long as one is a prefix.\<close>

function strip_front :: "string list \<Rightarrow> string \<Rightarrow> string" where
  "strip_front encs s =
     (case find (\<lambda>p. p \<noteq> [] \<and> prefix p s) encs of
        None \<Rightarrow> s
      | Some p \<Rightarrow> strip_front encs (drop (length p) s))"
  by pat_completeness auto
termination
proof (relation "measure (\<lambda>(encs, s). length s)")
  fix encs :: "string list" and s p :: string
  assume "find (\<lambda>p. p \<noteq> [] \<and> prefix p s) encs = Some p"
  then have "p \<noteq> []" and "prefix p s"
    by (auto dest: find_Some_in_set)
  then have "0 < length p" and "length p \<le> length s"
    by (auto dest: prefix_length_le)
  then show "((encs, drop (length p) s), (encs, s)) \<in> measure (\<lambda>(encs, s). length s)"
    unfolding in_measure length_drop by (simp del: length_greater_0_conv)
qed simp

declare strip_front.simps [simp del]

definition TrimSpace :: "string \<Rightarrow> string" where
  "TrimSpace s = rev (strip_front (map rev space_encodings) (rev (strip_front space_encodings s)))"

lemma strip_front_suffix: "suffix (strip_front encs s) s"
proof (induction encs s rule: strip_front.induct)
  case (1 encs s)
  show ?case
  proof (cases "find (\<lambda>p. p \<noteq> [] \<and> prefix p s) encs")
    case None
    then show ?thesis by (simp add: strip_front.simps [of encs s])
  next
    case (Some p)
    with 1 have "suffix (strip_front encs (drop (length p) s)) (drop (length p) s)" by blast
    then have "suffix (strip_front encs (drop (length p) s)) s"
      using suffix_drop suffix_order.trans by blast
    with Some show ?thesis by (simp add: strip_front.simps [of encs s])
  qed
qed

lemma strip_front_none: "find (\<lambda>p. p \<noteq> [] \<and> prefix p (strip_front encs s)) encs = None"
proof (induction encs s rule: strip_front.induct)
  case (1 encs s)
  show ?case
  proof (cases "find (\<lambda>p. p \<noteq> [] \<and> prefix p s) encs")
    case None
    then show ?thesis by (simp add: strip_front.simps [of encs s])
  next
    case (Some p)
    with 1 show ?thesis by (simp add: strip_front.simps [of encs s])
  qed
qed

lemma strip_front_id:
  "find (\<lambda>p. p \<noteq> [] \<and> prefix p s) encs = None \<Longrightarrow> strip_front encs s = s"
  by (simp add: strip_front.simps)

lemma strip_front_idem [simp]: "strip_front encs (strip_front encs s) = strip_front encs s"
  by (rule strip_front_id) (rule strip_front_none)

lemma prefix_TrimSpace: "prefix (TrimSpace s) (strip_front space_encodings s)"
  unfolding TrimSpace_def
  using strip_front_suffix [of "map rev space_encodings" "rev (strip_front space_encodings s)"]
  by (simp add: suffix_to_prefix)

lemma TrimSpace_no_front: "strip_front space_encodings (TrimSpace s) = TrimSpace s"
proof (rule strip_front_id)
  have none: "find (\<lambda>p. p \<noteq> [] \<and> prefix p (strip_front space_encodings s)) space_encodings = None"
    by (rule strip_front_none)
  have "\<not> (p \<noteq> [] \<and> prefix p (TrimSpace s))" if "p \<in> set space_encodings" for p
    using none that prefix_TrimSpace [of s] unfolding find_None_conv
    by (meson prefix_order.trans)
  then show "find (\<lambda>p. p \<noteq> [] \<and> prefix p (TrimSpace s)) space_encodings = None"
    by (simp add: find_None_conv)
qed

lemma TrimSpace_idem [simp]: "TrimSpace (TrimSpace s) = TrimSpace s"
proof -
  have "TrimSpace (TrimSpace s) = rev (strip_front (map rev space_encodings) (rev (TrimSpace s)))"
    using TrimSpace_no_front [of s] by (simp add: TrimSpace_def [of "TrimSpace s"])
  then show ?thesis by (simp add: TrimSpace_def)
qed

lemma set_TrimSpace: "set (TrimSpace s) \<subseteq> set s"
proof -
  have "set (TrimSpace s) \<subseteq> set (strip_front space_encodings s)"
    using prefix_TrimSpace set_mono_prefix by blast
  also have "\<dots> \<subseteq> set s" using strip_front_suffix set_mono_suffix by blast
  finally show ?thesis .
qed

lemma TrimSpace_Nil [simp]: "TrimSpace [] = []"
  using set_TrimSpace [of "[]"] by simp

text \<open>A string in which no byte can start or end a space encoding is left alone.\<close>

lemma TrimSpace_id:
  assumes "\<forall>c \<in> set s. 33 \<le> byte c \<and> byte c < 128"
  shows "TrimSpace s = s"
proof -
  have first: "\<not> (p \<noteq> [] \<and> prefix p s)" if p: "p \<in> set space_encodings" for p
  proof
    assume "p \<noteq> [] \<and> prefix p s"
    then have "hd p \<in> set s" by (cases p) (auto simp: prefix_def)
    with assms p show False by (auto simp: space_encodings_def byte_def)
  qed
  have last: "\<not> (p \<noteq> [] \<and> prefix p (rev s))" if p: "p \<in> set (map rev space_encodings)" for p
  proof
    assume a: "p \<noteq> [] \<and> prefix p (rev s)"
    then have "set p \<subseteq> set s" using set_mono_prefix [of p "rev s"] by simp
    then have "hd p \<in> set s" using a by auto
    with assms p show False by (auto simp: space_encodings_def byte_def)
  qed
  have "strip_front space_encodings s = s"
    by (rule strip_front_id) (use first in \<open>simp only: find_None_conv, blast\<close>)
  moreover have "strip_front (map rev space_encodings) (rev s) = rev s"
    by (rule strip_front_id) (use last in \<open>simp only: find_None_conv, blast\<close>)
  ultimately show ?thesis by (simp add: TrimSpace_def)
qed

definition TrimLeft :: "string \<Rightarrow> string \<Rightarrow> string" where
  "TrimLeft s cutset = dropWhile (\<lambda>c. c \<in> set cutset) s"

definition TrimRight :: "string \<Rightarrow> string \<Rightarrow> string" where
  "TrimRight s cutset = rev (dropWhile (\<lambda>c. c \<in> set cutset) (rev s))"

definition Trim :: "string \<Rightarrow> string \<Rightarrow> string" where
  "Trim s cutset = TrimRight (TrimLeft s cutset) cutset"

definition TrimPrefix :: "string \<Rightarrow> string \<Rightarrow> string" where
  "TrimPrefix s p = (if prefix p s then drop (length p) s else s)"

definition HasPrefix :: "string \<Rightarrow> string \<Rightarrow> bool" where
  "HasPrefix s p \<longleftrightarrow> prefix p s"

definition HasSuffix :: "string \<Rightarrow> string \<Rightarrow> bool" where
  "HasSuffix s p \<longleftrightarrow> suffix p s"

section \<open>Searching, splitting, replacing\<close>

text \<open>\<open>strings.Index\<close> and \<open>strings.LastIndex\<close>: a byte offset, or -1.\<close>

fun Index :: "string \<Rightarrow> string \<Rightarrow> int" where
  "Index [] sub = (if sub = [] then 0 else -1)"
| "Index (c # s) sub =
     (if prefix sub (c # s) then 0
      else let r = Index s sub in if r < 0 then -1 else r + 1)"

fun LastIndex :: "string \<Rightarrow> string \<Rightarrow> int" where
  "LastIndex [] sub = (if sub = [] then 0 else -1)"
| "LastIndex (c # s) sub =
     (let r = LastIndex s sub in
      if 0 \<le> r then r + 1 else if prefix sub (c # s) then 0 else -1)"

definition IndexByte :: "string \<Rightarrow> char \<Rightarrow> int" where
  "IndexByte s c = Index s [c]"

definition Contains :: "string \<Rightarrow> string \<Rightarrow> bool" where
  "Contains s sub \<longleftrightarrow> 0 \<le> Index s sub"

lemma Index_ge: "-1 \<le> Index s sub"
  by (induction s) (auto simp: Let_def)

lemma Index_bound: "0 \<le> Index s sub \<Longrightarrow> Index s sub + int (length sub) \<le> int (length s)"
  by (induction s) (auto simp: Let_def split: if_splits dest: prefix_length_le)

lemma Contains_iff: "Contains s sub \<longleftrightarrow> (\<exists>a b. s = a @ sub @ b)"
proof (induction s)
  case Nil
  then show ?case by (simp add: Contains_def)
next
  case (Cons c s)
  have "Contains (c # s) sub \<longleftrightarrow> prefix sub (c # s) \<or> Contains s sub"
    by (simp add: Contains_def Let_def)
  also have "\<dots> \<longleftrightarrow> (\<exists>a b. c # s = a @ sub @ b)"
    unfolding Cons.IH prefix_def
    by (metis append_Cons append_Nil list.inject neq_Nil_conv)
  finally show ?case .
qed

lemma LastIndex_ge: "-1 \<le> LastIndex s sub"
  by (induction s) (auto simp: Let_def)

fun Split :: "string \<Rightarrow> char \<Rightarrow> string list" where
  "Split [] sep = [[]]"
| "Split (c # s) sep =
     (if c = sep then [] # Split s sep
      else (case Split s sep of [] \<Rightarrow> [[c]] | p # ps \<Rightarrow> (c # p) # ps))"

text \<open>\<open>strings.SplitN(s, sep, 2)\<close>: one part when the separator does not occur, else two.\<close>

definition SplitN2 :: "string \<Rightarrow> char \<Rightarrow> string list" where
  "SplitN2 s sep =
     (let a = takeWhile (\<lambda>c. c \<noteq> sep) s in
      if length a = length s then [s] else [a, drop (length a + 1) s])"

fun Join :: "string list \<Rightarrow> string \<Rightarrow> string" where
  "Join [] sep = []"
| "Join [s] sep = s"
| "Join (s # ss) sep = s @ sep @ Join ss sep"

text \<open>\<open>strings.ReplaceAll\<close> for a non-empty \<open>old\<close>: left to right, without overlaps.\<close>

function ReplaceAll :: "string \<Rightarrow> string \<Rightarrow> string \<Rightarrow> string" where
  "ReplaceAll s old new =
     (case s of [] \<Rightarrow> []
      | c # t \<Rightarrow>
          (if old \<noteq> [] \<and> prefix old s then new @ ReplaceAll (drop (length old) s) old new
           else c # ReplaceAll t old new))"
  by pat_completeness auto
termination
  by (relation "measure (\<lambda>(s, old, new). length s)") (auto simp: neq_Nil_conv)

declare ReplaceAll.simps [simp del]

lemma ReplaceAll_Nil [simp]: "ReplaceAll [] old new = []"
  by (simp add: ReplaceAll.simps)

lemma ReplaceAll_match:
  "old \<noteq> [] \<Longrightarrow> prefix old s \<Longrightarrow> ReplaceAll s old new = new @ ReplaceAll (drop (length old) s) old new"
  by (subst ReplaceAll.simps) (auto split: list.split)

lemma ReplaceAll_skip:
  "\<not> (old \<noteq> [] \<and> prefix old (c # t)) \<Longrightarrow> ReplaceAll (c # t) old new = c # ReplaceAll t old new"
  by (subst ReplaceAll.simps) auto

lemma length_ReplaceAll: "length new \<le> length old \<Longrightarrow> length (ReplaceAll s old new) \<le> length s"
proof (induction s old new rule: ReplaceAll.induct)
  case (1 s old new)
  show ?case
  proof (cases s)
    case Nil
    then show ?thesis by simp
  next
    case s: (Cons c t)
    show ?thesis
    proof (cases "old \<noteq> [] \<and> prefix old s")
      case True
      then have "length old \<le> length s" by (auto dest: prefix_length_le)
      moreover have "length (ReplaceAll (drop (length old) s) old new) \<le> length (drop (length old) s)"
        by (rule 1(1) [OF s True 1(3)])
      ultimately show ?thesis using True 1(3) by (simp add: ReplaceAll_match)
    next
      case False
      have "length (ReplaceAll t old new) \<le> length t" by (rule 1(2) [OF s False 1(3)])
      moreover have "ReplaceAll s old new = c # ReplaceAll t old new"
        unfolding s by (rule ReplaceAll_skip) (use False s in simp)
      ultimately show ?thesis using s by simp
    qed
  qed
qed

lemma set_ReplaceAll: "set (ReplaceAll s old new) \<subseteq> set s \<union> set new"
proof (induction s old new rule: ReplaceAll.induct)
  case (1 s old new)
  show ?case
  proof (cases s)
    case Nil
    then show ?thesis by simp
  next
    case s: (Cons c t)
    show ?thesis
    proof (cases "old \<noteq> [] \<and> prefix old s")
      case True
      have "set (ReplaceAll (drop (length old) s) old new) \<subseteq> set (drop (length old) s) \<union> set new"
        by (rule 1(1) [OF s True])
      also have "\<dots> \<subseteq> set s \<union> set new" by (intro Un_mono set_drop_subset order_refl)
      finally show ?thesis using True by (simp add: ReplaceAll_match)
    next
      case False
      have "set (ReplaceAll t old new) \<subseteq> set t \<union> set new" by (rule 1(2) [OF s False])
      moreover have "ReplaceAll s old new = c # ReplaceAll t old new"
        unfolding s by (rule ReplaceAll_skip) (use False s in simp)
      ultimately show ?thesis using s by auto
    qed
  qed
qed

section \<open>Numbers\<close>

definition digit :: "nat \<Rightarrow> char" where
  "digit n = char_of (48 + n)"

definition is_digit :: "char \<Rightarrow> bool" where
  "is_digit c \<longleftrightarrow> 48 \<le> byte c \<and> byte c \<le> 57"

fun nat_digits :: "nat \<Rightarrow> string" where
  "nat_digits n = (if n < 10 then [digit n] else nat_digits (n div 10) @ [digit (n mod 10)])"

declare nat_digits.simps [simp del]

definition itoa :: "int \<Rightarrow> string" where
  "itoa i = (if i < 0 then CHR ''-'' # nat_digits (nat (- i)) else nat_digits (nat i))"

text \<open>\<open>fmt.Sprintf("%02d", i)\<close>.\<close>

definition pad2 :: "int \<Rightarrow> string" where
  "pad2 i = (if 0 \<le> i \<and> i < 10 then CHR ''0'' # itoa i else itoa i)"

fun digits_val :: "nat \<Rightarrow> string \<Rightarrow> nat option" where
  "digits_val acc [] = Some acc"
| "digits_val acc (c # s) = (if is_digit c then digits_val (10 * acc + (byte c - 48)) s else None)"

text \<open>
  \<open>strconv.ParseInt(s, 10, 64)\<close> and \<open>strconv.Atoi\<close>: the value and whether \<open>err\<close> is nil. A syntax
  error gives 0, a range error the nearest representable value.
\<close>

definition ParseInt :: "string \<Rightarrow> int \<times> bool" where
  "ParseInt s =
     (let neg = (s \<noteq> [] \<and> hd s = CHR ''-'');
          ds = (if s \<noteq> [] \<and> (hd s = CHR ''-'' \<or> hd s = CHR ''+'') then tl s else s) in
      if ds = [] then (0, False)
      else case digits_val 0 ds of
        None \<Rightarrow> (0, False)
      | Some n \<Rightarrow>
          (if neg then (if - int n < min_int64 then (min_int64, False) else (- int n, True))
           else (if max_int64 < int n then (max_int64, False) else (int n, True))))"

lemma byte_digit: "n < 10 \<Longrightarrow> byte (digit n) = 48 + n"
  by (simp add: byte_def digit_def)

lemma is_digit_digit [simp]: "n < 10 \<Longrightarrow> is_digit (digit n)"
  by (simp add: is_digit_def byte_digit)

lemma nat_digits_digits: "\<forall>c \<in> set (nat_digits n). is_digit c"
proof (induction n rule: nat_digits.induct)
  case (1 n)
  then show ?case by (subst nat_digits.simps) auto
qed

lemma nat_digits_nonempty [simp]: "nat_digits n \<noteq> []"
  by (subst nat_digits.simps) simp

lemma digits_val_append:
  "digits_val acc (s @ t) = (case digits_val acc s of None \<Rightarrow> None | Some v \<Rightarrow> digits_val v t)"
  by (induction s arbitrary: acc) auto

lemma digits_val_nat_digits: "digits_val 0 (nat_digits n) = Some n"
proof (induction n rule: nat_digits.induct)
  case (1 n)
  show ?case
  proof (cases "n < 10")
    case True
    then show ?thesis by (subst nat_digits.simps) (simp add: byte_digit)
  next
    case False
    with 1 have "digits_val 0 (nat_digits (n div 10)) = Some (n div 10)" by blast
    with False show ?thesis
      by (subst nat_digits.simps) (simp add: digits_val_append byte_digit)
  qed
qed

lemma nat_digits_hd: "0 < n \<Longrightarrow> hd (nat_digits n) \<noteq> CHR ''0''"
proof (induction n rule: nat_digits.induct)
  case (1 n)
  show ?case
  proof (cases "n < 10")
    case True
    have "digit n \<noteq> CHR ''0''"
    proof
      assume "digit n = CHR ''0''"
      then have "byte (digit n) = 48" by (simp add: byte_def)
      with True 1 show False by (simp add: byte_digit)
    qed
    with True show ?thesis by (subst nat_digits.simps) simp
  next
    case False
    with 1 show ?thesis by (subst nat_digits.simps) simp
  qed
qed

lemma digit_not_sign: "is_digit c \<Longrightarrow> c \<noteq> CHR ''-'' \<and> c \<noteq> CHR ''+''"
  by (auto simp: is_digit_def byte_def)

lemma hd_nat_digits: "is_digit (hd (nat_digits n))"
  by (rule bspec [OF nat_digits_digits [of n]]) simp

text \<open>Printing and parsing an \<open>int64\<close> is a round trip.\<close>

lemma ParseInt_itoa: "in_int64 i \<Longrightarrow> ParseInt (itoa i) = (i, True)"
  using hd_nat_digits [of "nat i"] digit_not_sign [of "hd (nat_digits (nat i))"]
  by (simp add: ParseInt_def itoa_def digits_val_nat_digits in_int64_def)

lemma set_itoa: "c \<in> set (itoa i) \<Longrightarrow> is_digit c \<or> c = CHR ''-''"
  using nat_digits_digits by (auto simp: itoa_def split: if_splits)

lemma itoa_nonempty [simp]: "itoa i \<noteq> []"
  by (simp add: itoa_def)

text \<open>What parses from a printed integer is that integer; printing is injective.\<close>

lemma ParseInt_itoa_eq: "ParseInt (itoa i) = (n, True) \<Longrightarrow> n = i"
  using hd_nat_digits [of "nat i"] digit_not_sign [of "hd (nat_digits (nat i))"]
  by (auto simp: ParseInt_def itoa_def digits_val_nat_digits split: if_splits)

lemma nat_digits_inject [simp]: "nat_digits m = nat_digits n \<longleftrightarrow> m = n"
  by (metis digits_val_nat_digits option.inject)

lemma itoa_inject [simp]: "itoa i = itoa j \<longleftrightarrow> i = j"
  using hd_nat_digits digit_not_sign by (auto simp: itoa_def) (metis list.sel(1))+

section \<open>Hexadecimal\<close>

text \<open>\<open>hex.EncodeToString\<close>: two lower-case digits for each byte.\<close>

definition hex_digit :: "bool \<Rightarrow> bool \<Rightarrow> bool \<Rightarrow> bool \<Rightarrow> char" where
  "hex_digit b3 b2 b1 b0 =
     ''0123456789abcdef'' ! (8 * of_bool b3 + 4 * of_bool b2 + 2 * of_bool b1 + of_bool b0)"

fun hex_byte :: "char \<Rightarrow> string" where
  "hex_byte (Char b0 b1 b2 b3 b4 b5 b6 b7) = [hex_digit b7 b6 b5 b4, hex_digit b3 b2 b1 b0]"

definition hex_EncodeToString :: "string \<Rightarrow> string" where
  "hex_EncodeToString s = concat (map hex_byte s)"

lemma length_hex_byte [simp]: "length (hex_byte c) = 2"
  by (cases c) simp

lemma hex_byte_nonempty [simp]: "hex_byte c \<noteq> []"
  by (cases c) simp

lemma length_hex [simp]: "length (hex_EncodeToString s) = 2 * length s"
  by (induction s) (simp_all add: hex_EncodeToString_def)

lemma hex_nonempty [simp]: "hex_EncodeToString s = [] \<longleftrightarrow> s = []"
  by (cases s) (simp_all add: hex_EncodeToString_def)

definition is_hex :: "char \<Rightarrow> bool" where
  "is_hex c \<longleftrightarrow> is_digit c \<or> (97 \<le> byte c \<and> byte c \<le> 102)"

lemma byte_less: "byte c < 256"
proof -
  have "byte c = byte c mod 256" by (simp add: byte_def)
  also have "\<dots> < 256" by simp
  finally show ?thesis .
qed

lemma is_hex_digit: "is_hex (hex_digit b3 b2 b1 b0)"
  by (cases b3; cases b2; cases b1; cases b0) (simp_all add: hex_digit_def is_hex_def is_digit_def byte_def)

lemma set_hex: "c \<in> set (hex_EncodeToString s) \<Longrightarrow> is_hex c"
proof -
  have "is_hex d" if "d \<in> set (hex_byte b)" for b d
    using that by (cases b) (auto simp: is_hex_digit)
  then show "c \<in> set (hex_EncodeToString s) \<Longrightarrow> is_hex c" by (auto simp: hex_EncodeToString_def)
qed


section \<open>Splitting and joining\<close>

lemma Split_nonempty [simp]: "Split s sep \<noteq> []"
  by (induction s) (auto split: list.split)

lemma Split_none: "sep \<notin> set s \<Longrightarrow> Split s sep = [s]"
  by (induction s) auto

lemma Split_append: "Split (a @ sep # b) sep = Split a sep @ Split b sep"
  by (induction a) (auto split: list.split)

lemma Split_Join:
  "ps \<noteq> [] \<Longrightarrow> \<forall>p \<in> set ps. sep \<notin> set p \<Longrightarrow> Split (Join ps [sep]) sep = ps"
proof (induction ps "[sep]" rule: Join.induct)
  case (3 s t ts)
  then show ?case by (simp add: Split_append Split_none)
qed (simp_all add: Split_none)

lemma Split_parts: "p \<in> set (Split s sep) \<Longrightarrow> sep \<notin> set p"
  by (induction s arbitrary: p) (auto split: if_splits list.splits)

lemma set_Join: "set (Join ps sep) \<subseteq> \<Union> (set ` set ps) \<union> set sep"
  by (induction ps sep rule: Join.induct) auto

text \<open>Cutting at the first occurrence of a byte.\<close>

lemma cut_at_first:
  "a @ c # s = b @ c # t \<Longrightarrow> c \<notin> set a \<Longrightarrow> c \<notin> set b \<Longrightarrow> a = b \<and> s = t"
  by (induction a arbitrary: b) (auto simp: Cons_eq_append_conv)

lemma SplitN2_first: "c \<notin> set a \<Longrightarrow> SplitN2 (a @ c # s) c = [a, s]"
proof -
  assume "c \<notin> set a"
  then have "takeWhile (\<lambda>d. d \<noteq> c) (a @ c # s) = a" by (induction a) auto
  then show ?thesis by (simp add: SplitN2_def Let_def)
qed

end
