(* ===== verification/App_Error.thy ===== *)
theory App_Error
  imports Go_Strings
begin

text \<open>
  Go errors as values (\<open>pkg/xhttp/errors.go\<close>, \<open>pkg/xpostgres/errors.go\<close>,
  \<open>internal/domain/model/errors.go\<close>) and the RFC 7807 rendering of
  \<open>pkg/xhttp/response.go\<close>. Human-readable messages are written without Vietnamese
  diacritics; the stable machine code, the status and the structure are the source's.
\<close>

section \<open>Error values\<close>

text \<open>What the Postgres driver reports: a server error with its fields, or anything else.\<close>

datatype dberr =
    PgError (pg_Code: string) (pg_ConstraintName: string) (pg_ColumnName: string)
  | DriverError string

text \<open>
  \<open>AppError\<close> is \<open>xhttp.AppError\<close>; \<open>Wrapped\<close> is \<open>fmt.Errorf("...: %w", err)\<close>; \<open>Plain\<close> is
  \<open>errors.New\<close>; \<open>RecordNotFound\<close> is \<open>gorm.ErrRecordNotFound\<close>.
\<close>

datatype gerr =
    AppError (ae_Code: string) (ae_Message: string) (ae_Field: string) (ae_Status: int)
      (ae_Err: "gerr option")
  | DbError dberr
  | RecordNotFound
  | Wrapped string gerr
  | Plain string

definition ErrUserDeleted :: gerr where
  "ErrUserDeleted = Plain ''user is deleted''"

fun Error :: "(dberr \<Rightarrow> string) \<Rightarrow> gerr \<Rightarrow> string" where
  "Error dbtext (AppError code msg field status (Some err)) =
     code @ '': '' @ msg @ '': '' @ Error dbtext err"
| "Error dbtext (AppError code msg field status None) = code @ '': '' @ msg"
| "Error dbtext (DbError d) = dbtext d"
| "Error dbtext RecordNotFound = ''record not found''"
| "Error dbtext (Wrapped pre err) = pre @ '': '' @ Error dbtext err"
| "Error dbtext (Plain msg) = msg"

fun Unwrap :: "gerr \<Rightarrow> gerr option" where
  "Unwrap (AppError code msg field status err) = err"
| "Unwrap (Wrapped pre err) = Some err"
| "Unwrap _ = None"

fun WithField :: "gerr \<Rightarrow> string \<Rightarrow> gerr" where
  "WithField (AppError code msg field status err) f = AppError code msg f status err"
| "WithField e f = e"

fun Wrap :: "gerr \<Rightarrow> gerr \<Rightarrow> gerr" where
  "Wrap (AppError code msg field status err) e = AppError code msg field status (Some e)"
| "Wrap x e = x"

definition newf :: "string \<Rightarrow> int \<Rightarrow> string \<Rightarrow> gerr" where
  "newf code status msg = AppError code msg '''' status None"

definition BadRequestErrorf :: "string \<Rightarrow> gerr" where
  "BadRequestErrorf msg = newf ''BAD_REQUEST'' 400 msg"

definition UnauthorizedErrorf :: "string \<Rightarrow> gerr" where
  "UnauthorizedErrorf msg = newf ''UNAUTHORIZED'' 401 msg"

definition ForbiddenErrorf :: "string \<Rightarrow> gerr" where
  "ForbiddenErrorf msg = newf ''FORBIDDEN'' 403 msg"

definition ForcePasswordChangeErrorf :: "string \<Rightarrow> gerr" where
  "ForcePasswordChangeErrorf msg = newf ''FORCE_PASSWORD_CHANGE'' 403 msg"

definition NotFoundErrorf :: "string \<Rightarrow> gerr" where
  "NotFoundErrorf msg = newf ''NOT_FOUND'' 404 msg"

definition ConflictErrorf :: "string \<Rightarrow> gerr" where
  "ConflictErrorf msg = newf ''CONFLICT'' 409 msg"

definition UnprocessableErrorf :: "string \<Rightarrow> gerr" where
  "UnprocessableErrorf msg = newf ''UNPROCESSABLE'' 422 msg"

definition TooManyRequestsErrorf :: "string \<Rightarrow> gerr" where
  "TooManyRequestsErrorf msg = newf ''TOO_MANY_REQUESTS'' 429 msg"

definition ServiceUnavailableErrorf :: "string \<Rightarrow> gerr" where
  "ServiceUnavailableErrorf msg = newf ''SERVICE_UNAVAILABLE'' 503 msg"

definition InternalErrorf :: "string \<Rightarrow> gerr" where
  "InternalErrorf msg = newf ''INTERNAL'' 500 msg"

lemmas app_error_defs =
  newf_def BadRequestErrorf_def UnauthorizedErrorf_def ForbiddenErrorf_def
  ForcePasswordChangeErrorf_def NotFoundErrorf_def ConflictErrorf_def UnprocessableErrorf_def
  TooManyRequestsErrorf_def ServiceUnavailableErrorf_def InternalErrorf_def

text \<open>\<open>errors.As\<close> walks the chain of wrapped errors and stops at the first match.\<close>

fun AsAppError :: "gerr \<Rightarrow> gerr option" where
  "AsAppError (AppError code msg field status err) = Some (AppError code msg field status err)"
| "AsAppError (Wrapped pre err) = AsAppError err"
| "AsAppError _ = None"

fun AsPgError :: "gerr \<Rightarrow> dberr option" where
  "AsPgError (DbError (PgError code cn col)) = Some (PgError code cn col)"
| "AsPgError (Wrapped pre err) = AsPgError err"
| "AsPgError (AppError code msg field status (Some err)) = AsPgError err"
| "AsPgError _ = None"

section \<open>Translating driver errors\<close>

definition MapError :: "gerr option \<Rightarrow> gerr option" where
  "MapError oerr =
     (case oerr of
        None \<Rightarrow> None
      | Some err \<Rightarrow>
          (case AsPgError err of
             Some (PgError code cn col) \<Rightarrow>
               (if code = ''23503'' then
                  Some (Wrap (WithField (UnprocessableErrorf ''du lieu tham chieu khong hop le'') cn) err)
                else if code = ''23505'' then
                  Some (Wrap (WithField (ConflictErrorf ''ban ghi da ton tai'') cn) err)
                else if code = ''23502'' then
                  Some (Wrap (WithField (BadRequestErrorf ''truong bat buoc bi thieu'') col) err)
                else if code = ''23514'' then
                  Some (Wrap (WithField (BadRequestErrorf ''du lieu vi pham rang buoc'') cn) err)
                else if code = ''22001'' then
                  Some (Wrap (WithField (BadRequestErrorf ''gia tri nhap vao qua dai'') col) err)
                else if code = ''22003'' \<or> code = ''22P02'' then
                  Some (Wrap (WithField (BadRequestErrorf ''gia tri so khong hop le'') col) err)
                else Some err)
           | _ \<Rightarrow> Some err))"

text \<open>The codes \<open>MapError\<close> translates, and the status each is given.\<close>

definition pg_status :: "string \<Rightarrow> int option" where
  "pg_status code =
     map_of [(''23503'', 422), (''23505'', 409), (''23502'', 400), (''23514'', 400),
             (''22001'', 400), (''22003'', 400), (''22P02'', 400)] code"

lemma AsPgError_is_PgError: "AsPgError e = Some d \<Longrightarrow> \<exists>code cn col. d = PgError code cn col"
  by (induction e rule: AsPgError.induct) auto

section \<open>Rendering\<close>

record problem =
  pb_Title :: string
  pb_Status :: int
  pb_Detail :: string
  pb_Code :: string
  pb_Field :: string

text \<open>\<open>http.StatusText\<close> for the codes the service itself answers with.\<close>

definition StatusText :: "int \<Rightarrow> string" where
  "StatusText code =
     (case map_of
        [(200, ''OK''), (201, ''Created''), (204, ''No Content''), (400, ''Bad Request''),
         (401, ''Unauthorized''), (403, ''Forbidden''), (404, ''Not Found''),
         (405, ''Method Not Allowed''), (409, ''Conflict''), (413, ''Request Entity Too Large''),
         (415, ''Unsupported Media Type''), (422, ''Unprocessable Entity''),
         (429, ''Too Many Requests''), (500, ''Internal Server Error''),
         (503, ''Service Unavailable'')] code of
        Some t \<Rightarrow> t | None \<Rightarrow> '''')"

definition masked_detail :: string where
  "masked_detail = ''Da co loi xay ra. Vui long thu lai sau.''"

text \<open>
  \<open>AppErrorResponse\<close>: the body it writes, and the error it leaves under
  \<open>RawErrorContextKey\<close> for the request log.
\<close>

definition AppErrorResponse :: "gerr \<Rightarrow> problem \<times> gerr option" where
  "AppErrorResponse err =
     (case AsAppError err of
        Some (AppError code msg field status inner) \<Rightarrow>
          (\<lparr>pb_Title = StatusText status, pb_Status = status, pb_Detail = msg, pb_Code = code,
            pb_Field = field\<rparr>, inner)
      | _ \<Rightarrow>
          (\<lparr>pb_Title = StatusText 500, pb_Status = 500, pb_Detail = masked_detail,
            pb_Code = ''INTERNAL'', pb_Field = ''''\<rparr>, Some err))"

record page_meta =
  pm_Page :: int
  pm_Limit :: int
  pm_Total :: int
  pm_TotalPages :: int

definition PaginatedMeta :: "int \<Rightarrow> int \<Rightarrow> int \<Rightarrow> page_meta" where
  "PaginatedMeta page limit tot =
     \<lparr>pm_Page = page, pm_Limit = limit, pm_Total = tot,
      pm_TotalPages =
        (if 0 < limit then go_div (wrap64 (wrap64 (tot + limit) - 1)) limit else 0)\<rparr>"

lemma AppErrorResponse_app [simp]:
  "AppErrorResponse (AppError code msg field status inner) =
     (\<lparr>pb_Title = StatusText status, pb_Status = status, pb_Detail = msg, pb_Code = code,
       pb_Field = field\<rparr>, inner)"
  by (simp add: AppErrorResponse_def)

lemma AppErrorResponse_masked:
  "AsAppError err = None \<Longrightarrow>
     AppErrorResponse err =
       (\<lparr>pb_Title = StatusText 500, pb_Status = 500, pb_Detail = masked_detail,
         pb_Code = ''INTERNAL'', pb_Field = ''''\<rparr>, Some err)"
  by (simp add: AppErrorResponse_def)

end
