(* ===== verification/Request_Context.thy ===== *)
theory Request_Context
  imports Prelude
begin

text \<open>
  The request context (\<open>pkg/xhttp/context.go\<close>, and the transaction handle of
  \<open>pkg/xpostgres/postgres.go\<close>): one optional value per context key; the readers give the zero
  value when the key was never stored.
\<close>

type_synonym time = int
  \<comment> \<open>nanoseconds since Go's zero time, so that \<open>IsZero\<close> is \<open>= 0\<close>\<close>

record ctx =
  ctxKeyUserID :: "int option"
  ctxKeyRole :: "string option"
  ctxKeyRequestID :: "string option"
  ctxKeyTokenID :: "string option"
  ctxKeyTokenExpiry :: "time option"
  ctxKeyClientIP :: "string option"
  ctxKeyTx :: bool \<comment> \<open>a \<open>*gorm.DB\<close> is stored: the context is inside a transaction\<close>

definition background :: ctx where
  "background = \<lparr>ctxKeyUserID = None, ctxKeyRole = None, ctxKeyRequestID = None,
     ctxKeyTokenID = None, ctxKeyTokenExpiry = None, ctxKeyClientIP = None, ctxKeyTx = False\<rparr>"

definition WithUserID :: "ctx \<Rightarrow> int \<Rightarrow> ctx" where
  "WithUserID c v = c\<lparr>ctxKeyUserID := Some v\<rparr>"

definition UserID :: "ctx \<Rightarrow> int" where
  "UserID c = (case ctxKeyUserID c of Some v \<Rightarrow> v | None \<Rightarrow> 0)"

definition WithRole :: "ctx \<Rightarrow> string \<Rightarrow> ctx" where
  "WithRole c v = c\<lparr>ctxKeyRole := Some v\<rparr>"

definition Role :: "ctx \<Rightarrow> string" where
  "Role c = (case ctxKeyRole c of Some v \<Rightarrow> v | None \<Rightarrow> '''')"

definition WithRequestID :: "ctx \<Rightarrow> string \<Rightarrow> ctx" where
  "WithRequestID c v = c\<lparr>ctxKeyRequestID := Some v\<rparr>"

definition RequestID :: "ctx \<Rightarrow> string" where
  "RequestID c = (case ctxKeyRequestID c of Some v \<Rightarrow> v | None \<Rightarrow> '''')"

definition WithTokenID :: "ctx \<Rightarrow> string \<Rightarrow> ctx" where
  "WithTokenID c v = c\<lparr>ctxKeyTokenID := Some v\<rparr>"

definition TokenID :: "ctx \<Rightarrow> string" where
  "TokenID c = (case ctxKeyTokenID c of Some v \<Rightarrow> v | None \<Rightarrow> '''')"

definition WithTokenExpiry :: "ctx \<Rightarrow> time \<Rightarrow> ctx" where
  "WithTokenExpiry c v = c\<lparr>ctxKeyTokenExpiry := Some v\<rparr>"

definition TokenExpiry :: "ctx \<Rightarrow> time" where
  "TokenExpiry c = (case ctxKeyTokenExpiry c of Some v \<Rightarrow> v | None \<Rightarrow> 0)"

definition WithClientIP :: "ctx \<Rightarrow> string \<Rightarrow> ctx" where
  "WithClientIP c v = c\<lparr>ctxKeyClientIP := Some v\<rparr>"

definition ClientIP :: "ctx \<Rightarrow> string" where
  "ClientIP c = (case ctxKeyClientIP c of Some v \<Rightarrow> v | None \<Rightarrow> '''')"

text \<open>\<open>xpostgres.With\<close>: the context carries the transaction's handle.\<close>

definition With :: "ctx \<Rightarrow> ctx" where
  "With c = c\<lparr>ctxKeyTx := True\<rparr>"

lemmas ctx_defs =
  WithUserID_def UserID_def WithRole_def Role_def WithRequestID_def RequestID_def
  WithTokenID_def TokenID_def WithTokenExpiry_def TokenExpiry_def WithClientIP_def ClientIP_def
  With_def

lemma With_readers [simp]:
  "UserID (With c) = UserID c" "Role (With c) = Role c" "RequestID (With c) = RequestID c"
  "TokenID (With c) = TokenID c" "TokenExpiry (With c) = TokenExpiry c"
  "ClientIP (With c) = ClientIP c" "ctxKeyTx (With c)"
  by (simp_all add: ctx_defs)

end
