(* ===== verification/Domain_Model.thy ===== *)
theory Domain_Model
  imports App_Error Request_Context
begin

text \<open>
  The entities of \<open>internal/domain/model\<close> and the constants of \<open>internal/domain/consts\<close>:
  users with their state transitions, pagination, announcements, notifications, settings. Go's
  named string types (\<open>Role\<close>, \<open>UserStatus\<close>, \<open>EmploymentType\<close>, priorities) stay strings, with the
  predicates the code tests them by, since nothing in Go stops another value.
\<close>

section \<open>Constants\<close>

abbreviation RoleAdmin :: string where "RoleAdmin \<equiv> ''admin''"
abbreviation RoleManager :: string where "RoleManager \<equiv> ''manager''"
abbreviation RoleStaff :: string where "RoleStaff \<equiv> ''staff''"

abbreviation UserStatusActive :: string where "UserStatusActive \<equiv> ''active''"
abbreviation UserStatusLocked :: string where "UserStatusLocked \<equiv> ''locked''"

abbreviation AuditUserCreated :: string where "AuditUserCreated \<equiv> ''user.created''"
abbreviation AuditUserInvited :: string where "AuditUserInvited \<equiv> ''user.invited''"
abbreviation AuditUserUpdated :: string where "AuditUserUpdated \<equiv> ''user.updated''"
abbreviation AuditUserPasswordReset :: string where "AuditUserPasswordReset \<equiv> ''user.password_reset''"
abbreviation AuditUserStatusToggled :: string where "AuditUserStatusToggled \<equiv> ''user.status_toggled''"
abbreviation AuditUserLocked :: string where "AuditUserLocked \<equiv> ''user.locked''"
abbreviation AuditUserUnlocked :: string where "AuditUserUnlocked \<equiv> ''user.unlocked''"
abbreviation AuditUserDeleted :: string where "AuditUserDeleted \<equiv> ''user.deleted''"
abbreviation AuditAuthLoginSucceeded :: string where "AuditAuthLoginSucceeded \<equiv> ''auth.login_succeeded''"
abbreviation AuditAuthLoginFailed :: string where "AuditAuthLoginFailed \<equiv> ''auth.login_failed''"
abbreviation AuditAnnouncementCreated :: string where "AuditAnnouncementCreated \<equiv> ''announcement.created''"
abbreviation AuditAnnouncementUpdated :: string where "AuditAnnouncementUpdated \<equiv> ''announcement.updated''"
abbreviation AuditAnnouncementDeleted :: string where "AuditAnnouncementDeleted \<equiv> ''announcement.deleted''"
abbreviation AuditUserPermissionCreated :: string where "AuditUserPermissionCreated \<equiv> ''user_permission.created''"
abbreviation AuditUserPermissionUpdated :: string where "AuditUserPermissionUpdated \<equiv> ''user_permission.updated''"
abbreviation AuditUserPermissionDeleted :: string where "AuditUserPermissionDeleted \<equiv> ''user_permission.deleted''"

definition RedisKeyTokenBlacklist :: string where
  "RedisKeyTokenBlacklist = ''app:token_blacklist:''"

section \<open>Pagination\<close>

record page =
  Number :: int
  Size :: int

definition Offset :: "page \<Rightarrow> int" where
  "Offset p = (if Number p < 1 then 0 else wrap64 (wrap64 (Number p - 1) * Size p))"

definition NewPage :: "int \<Rightarrow> int \<Rightarrow> page" where
  "NewPage pg limit =
     (let pg' = (if pg < 1 then 1 else pg);
          limit' = (if limit < 1 then 20 else if 1000 < limit then 1000 else limit) in
      \<lparr>Number = pg', Size = limit'\<rparr>)"

lemma NewPage_bounds: "1 \<le> Number (NewPage p l)" "1 \<le> Size (NewPage p l)" "Size (NewPage p l) \<le> 1000"
  by (auto simp: NewPage_def Let_def)

section \<open>Users\<close>

record user =
  usr_ID :: int
  usr_Username :: string
  usr_PasswordHash :: string
  usr_FullName :: string
  usr_Email :: "string option"
  usr_Phone :: "string option"
  usr_Role :: string
  usr_Status :: string
  usr_StaffCode :: "string option"
  usr_AvatarURL :: "string option"
  usr_ForcePasswordChange :: bool
  usr_EmploymentType :: string
  usr_CreatedAt :: time
  usr_UpdatedAt :: time
  usr_CreatedBy :: int
  usr_UpdatedBy :: int
  usr_DeletedAt :: "time option"

definition Role_Valid :: "string \<Rightarrow> bool" where
  "Role_Valid r \<longleftrightarrow> r \<in> set [RoleAdmin, RoleManager, RoleStaff]"

definition EmploymentType_Valid :: "string \<Rightarrow> bool" where
  "EmploymentType_Valid e \<longleftrightarrow> e \<in> set [''fulltime'', ''parttime'']"

definition IsDeleted :: "user \<Rightarrow> bool" where
  "IsDeleted u \<longleftrightarrow> usr_DeletedAt u \<noteq> None"

definition IsLocked :: "user \<Rightarrow> bool" where
  "IsLocked u \<longleftrightarrow> usr_Status u = UserStatusLocked"

definition IsActive :: "user \<Rightarrow> bool" where
  "IsActive u \<longleftrightarrow> usr_Status u = UserStatusActive \<and> \<not> IsDeleted u"

text \<open>\<open>Lock\<close> and \<open>Unlock\<close> return the mutated aggregate, or the error that leaves it as it was.\<close>

definition Lock :: "user \<Rightarrow> gerr + user" where
  "Lock u = (if IsDeleted u then Inl ErrUserDeleted else Inr (u\<lparr>usr_Status := UserStatusLocked\<rparr>))"

definition Unlock :: "user \<Rightarrow> gerr + user" where
  "Unlock u = (if IsDeleted u then Inl ErrUserDeleted else Inr (u\<lparr>usr_Status := UserStatusActive\<rparr>))"

definition SetPasswordHash :: "string \<Rightarrow> user \<Rightarrow> user" where
  "SetPasswordHash hash u = u\<lparr>usr_PasswordHash := hash\<rparr>"

definition ClearForcePasswordChange :: "user \<Rightarrow> user" where
  "ClearForcePasswordChange u = u\<lparr>usr_ForcePasswordChange := False\<rparr>"

lemma Lock_ok: "Lock u = Inr u' \<longleftrightarrow> \<not> IsDeleted u \<and> u' = u\<lparr>usr_Status := UserStatusLocked\<rparr>"
  by (auto simp: Lock_def)

lemma Unlock_ok: "Unlock u = Inr u' \<longleftrightarrow> \<not> IsDeleted u \<and> u' = u\<lparr>usr_Status := UserStatusActive\<rparr>"
  by (auto simp: Unlock_def)

lemma not_active_and_locked: "IsActive u \<Longrightarrow> \<not> IsLocked u"
  by (simp add: IsActive_def IsLocked_def)

section \<open>Announcements, notifications, settings\<close>

record announcement =
  an_ID :: int
  an_Title :: string
  an_Body :: string
  an_Priority :: string
  an_PublishedAt :: "time option"
  an_ExpiresAt :: "time option"
  an_CreatedAt :: time
  an_UpdatedAt :: time
  an_CreatedBy :: int
  an_UpdatedBy :: int
  an_DeletedAt :: "time option"

definition IsPublished :: "time \<Rightarrow> announcement \<Rightarrow> bool" where
  "IsPublished now a =
     (case an_PublishedAt a of
        None \<Rightarrow> False
      | Some p \<Rightarrow>
          if now < p then False
          else if (case an_ExpiresAt a of None \<Rightarrow> False | Some x \<Rightarrow> x < now) then False
          else an_DeletedAt a = None)"

record notification =
  nt_ID :: int
  nt_UserID :: int
  nt_Type :: string
  nt_Category :: string
  nt_Title :: string
  nt_Body :: string
  nt_Link :: "string option"
  nt_RefType :: "string option"
  nt_RefID :: "int option"
  nt_IsRead :: bool
  nt_IsImportant :: bool
  nt_ReadAt :: "time option"
  nt_CreatedAt :: time

abbreviation NotificationCategoryTask :: string where "NotificationCategoryTask \<equiv> ''task''"
abbreviation NotificationCategoryAnnouncement :: string where "NotificationCategoryAnnouncement \<equiv> ''announcement''"
abbreviation NotificationCategorySystem :: string where "NotificationCategorySystem \<equiv> ''system''"

record notification_filter =
  nf_UnreadOnly :: bool
  nf_ImportantOnly :: bool
  nf_Category :: string
  nf_DateFrom :: "time option"
  nf_DateTo :: "time option"

record setting =
  st_Key :: string
  st_Value :: string
  st_Description :: string
  st_UpdatedAt :: time
  st_UpdatedBy :: "int option"

end
