(* ===== verification/Permission_Map.thy ===== *)
theory Permission_Map
  imports Prelude
begin

text \<open>
  The permission engine: \<open>internal/domain/consts/permission.go\<close> (the declared resources and
  actions), \<open>internal/domain/model/permission.go\<close> (\<open>PermissionMap\<close> and the role defaults) and
  the pure functions of \<open>internal/usecase/permission.go\<close>. A Go map is an association list; the
  operations keep its keys distinct (\<open>wf_pmap\<close>), and \<open>plookup\<close> is what an index into the
  nested map gives, so statements about \<open>plookup\<close> do not depend on the iteration order.
\<close>

section \<open>The declared resources and actions\<close>

record action_def =
  act_ID :: string
  act_Name :: string

datatype permission =
  Permission (pn_ID: string) (pn_Name: string) (pn_Description: string) (pn_Actions: "string list")
    (pn_Children: "permission list")

definition ActionsDefinitions :: "action_def list" where
  "ActionsDefinitions =
     [\<lparr>act_ID = ''read'', act_Name = ''Xem''\<rparr>,
      \<lparr>act_ID = ''write'', act_Name = ''Chinh sua''\<rparr>,
      \<lparr>act_ID = ''delete'', act_Name = ''Xoa''\<rparr>,
      \<lparr>act_ID = ''verify'', act_Name = ''Xac minh''\<rparr>,
      \<lparr>act_ID = ''approve'', act_Name = ''Phe duyet''\<rparr>,
      \<lparr>act_ID = ''reject'', act_Name = ''Tu choi''\<rparr>,
      \<lparr>act_ID = ''import'', act_Name = ''Tai du lieu''\<rparr>,
      \<lparr>act_ID = ''export'', act_Name = ''Xuat du lieu''\<rparr>,
      \<lparr>act_ID = ''upload'', act_Name = ''Tai len tep tai lieu''\<rparr>,
      \<lparr>act_ID = ''download'', act_Name = ''Tai xuong tep tai lieu''\<rparr>,
      \<lparr>act_ID = ''send_mail'', act_Name = ''Gui mail''\<rparr>,
      \<lparr>act_ID = ''sync_data'', act_Name = ''Lam moi du lieu''\<rparr>,
      \<lparr>act_ID = ''manage'', act_Name = ''Quan tri''\<rparr>]"

definition PermissionsDefinitions :: "permission list" where
  "PermissionsDefinitions =
     [Permission ''dashboard'' ''Tong quan'' ''Truy cap dashboard'' [''read''] [],
      Permission ''notifications'' ''Thong bao ca nhan'' ''Hop thong bao cua tai khoan''
        [''read'', ''write''] [],
      Permission ''announcements'' ''Bang tin'' ''Dang announcement cho toan he thong''
        [''read'', ''write'', ''delete'', ''approve''] [],
      Permission ''audit_logs'' ''Nhat ky hoat dong'' ''Xem activity / audit log''
        [''read'', ''delete''] [],
      Permission ''users'' ''Quan ly nguoi dung'' ''CRUD tai khoan noi bo''
        [''read'', ''write'', ''delete'']
        [Permission ''users.permissions'' ''Phan quyen nguoi dung''
           ''Cap/thu hoi quyen cho nguoi dung -- cap than trong'' [''read'', ''write'', ''delete''] []],
      Permission ''settings'' ''Cai dat he thong'' ''Cac tham so he thong'' [''read'', ''write''] [],
      Permission ''internal'' ''Internal API'' ''Goi API service-to-service'' [''manage''] []]"

section \<open>Permission maps\<close>

type_synonym pmap = "(string \<times> (string \<times> bool) list) list"

definition wf_pmap :: "pmap \<Rightarrow> bool" where
  "wf_pmap p \<longleftrightarrow> distinct (map fst p) \<and> (\<forall>(r, acts) \<in> set p. distinct (map fst acts))"

definition plookup :: "pmap \<Rightarrow> string \<Rightarrow> string \<Rightarrow> bool option" where
  "plookup p r a = (case map_of p r of None \<Rightarrow> None | Some acts \<Rightarrow> map_of acts a)"

definition HasAction :: "pmap \<Rightarrow> string \<Rightarrow> string \<Rightarrow> bool" where
  "HasAction p resource action =
     (if (case map_of p ''*'' of Some wild \<Rightarrow> map_of wild ''*'' = Some True | None \<Rightarrow> False) then True
      else (case map_of p resource of
              None \<Rightarrow> False
            | Some acts \<Rightarrow> map_of acts action = Some True))"

text \<open>\<open>out[r][a] = v\<close> for an existing \<open>out[r]\<close>, and the guard that creates it first.\<close>

definition set_cell :: "string \<Rightarrow> string \<Rightarrow> bool \<Rightarrow> pmap \<Rightarrow> pmap" where
  "set_cell r a v out =
     AList.update r (AList.update a v (case map_of out r of Some acts \<Rightarrow> acts | None \<Rightarrow> [])) out"

definition ensure_row :: "string \<Rightarrow> pmap \<Rightarrow> pmap" where
  "ensure_row r out = (if map_of out r = None then AList.update r [] out else out)"

text \<open>Copying an action map entry by entry, as the loops over \<open>range acts\<close> do.\<close>

definition put_all :: "(string \<times> bool) list \<Rightarrow> (string \<times> bool) list \<Rightarrow> (string \<times> bool) list" where
  "put_all acts m = fold (\<lambda>(a, v). AList.update a v) acts m"

definition MergeOver :: "pmap \<Rightarrow> pmap \<Rightarrow> pmap" where
  "MergeOver p override =
     fold (\<lambda>(r, acts) out. fold (\<lambda>(a, v). set_cell r a v) acts (ensure_row r out)) override
       (fold (\<lambda>(r, acts) out. AList.update r (put_all acts []) out) p [])"

definition Count :: "pmap \<Rightarrow> int" where
  "Count p = fold (\<lambda>(r, acts) n. fold (\<lambda>(a, granted) n. if granted then n + 1 else n) acts n) p 0"

definition RoleDefaultPermissions :: "string \<Rightarrow> pmap" where
  "RoleDefaultPermissions role =
     (let rw = [(''read'', True), (''write'', True)];
          rwd = [(''read'', True), (''write'', True), (''delete'', True)];
          r = [(''read'', True)] in
      if role = ''manager'' then
        [(''dashboard'', r), (''users'', rwd), (''users.permissions'', rwd), (''announcements'', rwd),
         (''notifications'', rw), (''settings'', r)]
      else if role = ''staff'' then
        [(''dashboard'', r), (''announcements'', r), (''notifications'', rw)]
      else [])"

section \<open>Filtering against the declarations\<close>

text \<open>\<open>flatReferenceMatrix\<close>: its local \<open>walk\<close> recurses through the children.\<close>

fun walk_matrix :: "permission \<Rightarrow> pmap \<Rightarrow> pmap" where
  "walk_matrix (Permission pid nm desc acts children) out =
     fold walk_matrix children
       (AList.update pid (fold (\<lambda>a m. AList.update a True m) acts []) out)"

definition flatReferenceMatrix :: pmap where
  "flatReferenceMatrix = fold walk_matrix PermissionsDefinitions []"

definition filterValidPermissions :: "pmap \<Rightarrow> pmap" where
  "filterValidPermissions inp =
     fold (\<lambda>(resource, actions) out.
             case map_of flatReferenceMatrix resource of
               None \<Rightarrow> out
             | Some refActs \<Rightarrow>
                 fold (\<lambda>(action, granted) out.
                         if map_of refActs action \<noteq> Some True then out
                         else set_cell resource action granted (ensure_row resource out))
                   actions out)
       inp []"

text \<open>
  The loop of \<open>Update\<close> and \<open>UpdateByUserID\<close> that denies explicitly the role defaults the
  administrator left unchecked.
\<close>

definition deny_cell :: "string \<Rightarrow> string \<Rightarrow> pmap \<Rightarrow> pmap" where
  "deny_cell resource action cleaned =
     (let cleaned = ensure_row resource cleaned in
      if plookup cleaned resource action = None then set_cell resource action False cleaned
      else cleaned)"

definition deny_unset_defaults :: "string \<Rightarrow> pmap \<Rightarrow> pmap" where
  "deny_unset_defaults role cleaned =
     fold (\<lambda>(resource, acts) cleaned. fold (\<lambda>(action, _). deny_cell resource action) acts cleaned)
       (RoleDefaultPermissions role) cleaned"

fun count_walk :: "permission \<Rightarrow> int \<Rightarrow> int" where
  "count_walk (Permission pid nm desc acts children) n =
     fold count_walk children (n + int (length acts))"

definition CountPermissionsAvailable :: int where
  "CountPermissionsAvailable = fold count_walk PermissionsDefinitions 0"

section \<open>Laws of the primitive operations\<close>

lemma wf_pmap_Nil [simp, intro]: "wf_pmap []"
  by (simp add: wf_pmap_def)

lemma plookup_Nil [simp]: "plookup [] r a = None"
  by (simp add: plookup_def)

lemma wf_pmap_Cons:
  "wf_pmap ((r, acts) # p) \<longleftrightarrow> map_of p r = None \<and> distinct (map fst acts) \<and> wf_pmap p"
  by (auto simp: wf_pmap_def map_of_eq_None_iff)

lemma set_update_subset: "set (AList.update k v al) \<subseteq> insert (k, v) (set al)"
  by (induction al) auto

lemma wf_pmap_update [simp, intro]:
  "wf_pmap p \<Longrightarrow> distinct (map fst acts) \<Longrightarrow> wf_pmap (AList.update r acts p)"
  using set_update_subset [of r acts p] by (auto simp: wf_pmap_def distinct_update)

lemma wf_pmap_row: "wf_pmap p \<Longrightarrow> map_of p r = Some acts \<Longrightarrow> distinct (map fst acts)"
  by (auto simp: wf_pmap_def dest: map_of_SomeD)

lemma wf_pmap_set_cell [simp, intro]: "wf_pmap p \<Longrightarrow> wf_pmap (set_cell r a v p)"
  unfolding set_cell_def
  by (rule wf_pmap_update) (auto intro!: distinct_update dest: wf_pmap_row split: option.split)

lemma wf_pmap_ensure_row [simp, intro]: "wf_pmap p \<Longrightarrow> wf_pmap (ensure_row r p)"
  by (auto simp: ensure_row_def)

lemma map_of_put_all:
  "distinct (map fst acts) \<Longrightarrow> map_of (put_all acts m) = map_of m ++ map_of acts"
proof (induction acts arbitrary: m)
  case Nil
  then show ?case by (simp add: put_all_def)
next
  case (Cons x acts)
  obtain a v where x: "x = (a, v)" by force
  have "put_all (x # acts) m = put_all acts (AList.update a v m)" by (simp add: put_all_def x)
  then have "map_of (put_all (x # acts) m) = (map_of m)(a \<mapsto> v) ++ map_of acts"
    using Cons by (simp add: update_conv')
  moreover have "map_of acts a = None" using Cons.prems by (simp add: x map_of_eq_None_iff)
  ultimately show ?case by (auto simp: x fun_eq_iff map_add_def split: option.split)
qed

lemma distinct_put_all: "distinct (map fst m) \<Longrightarrow> distinct (map fst (put_all acts m))"
  unfolding put_all_def
  by (rule fold_invariant [where Q = "\<lambda>_. True"]) (auto simp: distinct_update)

lemma plookup_set_cell [simp]:
  "plookup (set_cell r a v p) r' a' = (if r' = r \<and> a' = a then Some v else plookup p r' a')"
  by (auto simp: plookup_def set_cell_def update_conv' split: option.split)

lemma plookup_ensure_row [simp]: "plookup (ensure_row r p) r' a = plookup p r' a"
  by (auto simp: plookup_def ensure_row_def update_conv')

text \<open>The inner loops of \<open>MergeOver\<close>: one row of the override written over the map.\<close>

lemma plookup_fold_cells:
  "distinct (map fst acts) \<Longrightarrow>
   plookup (fold (\<lambda>(a, v). set_cell r a v) acts p) r' a' =
     (if r' = r then (case map_of acts a' of Some v \<Rightarrow> Some v | None \<Rightarrow> plookup p r' a')
      else plookup p r' a')"
proof (induction acts arbitrary: p)
  case (Cons x acts)
  obtain a v where x: "x = (a, v)" by force
  then have "map_of acts a = None" using Cons.prems by (simp add: map_of_eq_None_iff)
  with Cons show ?case by (auto simp: x split: option.split)
qed simp

lemma plookup_copy:
  "wf_pmap p \<Longrightarrow>
   plookup (fold (\<lambda>(r, acts) out. AList.update r (put_all acts []) out) p out) r a =
     (case map_of p r of Some acts \<Rightarrow> map_of acts a | None \<Rightarrow> plookup out r a)"
proof (induction p arbitrary: out)
  case (Cons x p)
  then show ?case
    by (cases x)
      (auto simp: wf_pmap_Cons map_of_put_all plookup_def update_conv' split: option.split)
qed simp

lemma plookup_overlay:
  "wf_pmap q \<Longrightarrow>
   plookup (fold (\<lambda>(r, acts) out. fold (\<lambda>(a, v). set_cell r a v) acts (ensure_row r out)) q p) r a =
     (case plookup q r a of Some v \<Rightarrow> Some v | None \<Rightarrow> plookup p r a)"
proof (induction q arbitrary: p)
  case (Cons x q)
  then show ?case
    by (cases x)
      (auto simp: wf_pmap_Cons plookup_fold_cells plookup_def [of "_ # _"] plookup_def [of q]
        split: option.split)
qed simp

lemma plookup_MergeOver:
  assumes "wf_pmap p" and "wf_pmap q"
  shows "plookup (MergeOver p q) r a =
    (case plookup q r a of Some v \<Rightarrow> Some v | None \<Rightarrow> plookup p r a)"
proof -
  let ?copy = "fold (\<lambda>(r, acts) out. AList.update r (put_all acts []) out) p []"
  have "plookup ?copy r a = plookup p r a"
    unfolding plookup_copy [OF assms(1)] by (simp add: plookup_def [of p] split: option.split)
  then show ?thesis unfolding MergeOver_def plookup_overlay [OF assms(2)] by (rule arg_cong)
qed

lemma wf_fold_cells: "wf_pmap p \<Longrightarrow> wf_pmap (fold (\<lambda>(a, v). set_cell r a v) acts p)"
  by (rule fold_invariant [where Q = "\<lambda>_. True"]) auto

lemma wf_MergeOver [simp, intro]: "wf_pmap (MergeOver p q)"
  unfolding MergeOver_def
  by (rule fold_invariant [where Q = "\<lambda>_. True"],
      simp, rule fold_invariant [where Q = "\<lambda>_. True"])
    (auto intro!: wf_fold_cells distinct_put_all)

text \<open>\<open>HasAction\<close> in terms of the lookups.\<close>

lemma HasAction_iff:
  "HasAction p r a \<longleftrightarrow> plookup p ''*'' ''*'' = Some True \<or> plookup p r a = Some True"
  by (auto simp: HasAction_def plookup_def split: option.split if_splits)

section \<open>Counting\<close>

lemma fold_count_acts:
  "fold (\<lambda>(a, granted) n. if granted then n + 1 else n) acts n = n + int (length (filter snd acts))"
  by (induction acts arbitrary: n) auto

lemma fold_Count:
  "fold (\<lambda>(r, acts) n. fold (\<lambda>(a, granted) n. if granted then n + 1 else n) acts n) p n
     = n + (\<Sum>(r, acts) \<leftarrow> p. int (length (filter snd acts)))"
  by (induction p arbitrary: n) (auto simp: fold_count_acts)

lemma Count_sum: "Count p = (\<Sum>(r, acts) \<leftarrow> p. int (length (filter snd acts)))"
  unfolding Count_def fold_Count by simp

lemma Count_Cons: "Count ((r, acts) # p) = int (length (filter snd acts)) + Count p"
  by (simp add: Count_sum)

lemma granted_actions:
  "distinct (map fst acts) \<Longrightarrow> {a. map_of acts a = Some True} = fst ` set (filter snd acts)"
  by (auto simp: map_of_eq_Some_iff image_iff)

lemma card_granted_actions:
  assumes "distinct (map fst acts)"
  shows "card {a. map_of acts a = Some True} = length (filter snd acts)"
proof -
  have "distinct (map fst (filter snd acts))" using assms by (rule distinct_map_filter)
  then have "card (set (map fst (filter snd acts))) = length (filter snd acts)"
    using distinct_card by fastforce
  then show ?thesis by (simp add: granted_actions [OF assms])
qed

lemma Count_card: "wf_pmap p \<Longrightarrow>
   finite {(r, a). plookup p r a = Some True} \<and> Count p = int (card {(r, a). plookup p r a = Some True})"
proof (induction p)
  case Nil
  then show ?case by (simp add: Count_def)
next
  case (Cons x p)
  obtain r acts where x: "x = (r, acts)" by force
  from Cons.prems have none: "map_of p r = None" and d: "distinct (map fst acts)" and wf: "wf_pmap p"
    by (simp_all add: x wf_pmap_Cons)
  let ?here = "{r} \<times> {a. map_of acts a = Some True}"
  let ?rest = "{(r, a). plookup p r a = Some True}"
  have split: "{(r', a). plookup (x # p) r' a = Some True} = ?here \<union> ?rest"
    using none by (auto simp: x plookup_def split: option.splits if_splits)
  have disj: "?here \<inter> ?rest = {}" using none by (auto simp: plookup_def)
  have fin: "finite {a. map_of acts a = Some True}" by (simp add: granted_actions [OF d])
  have "finite ?rest" and IH: "Count p = int (card ?rest)" using Cons.IH wf by simp_all
  with fin disj have "card (?here \<union> ?rest) = card ?here + card ?rest" by (intro card_Un_disjoint) auto
  then show ?case
    using fin \<open>finite ?rest\<close> IH unfolding split
    by (simp add: x Count_Cons card_granted_actions [OF d] card_cartesian_product)
qed

section \<open>The filter and the explicit denials\<close>

text \<open>The declarations read as a predicate: a node of the tree with that id and that action.\<close>

fun nodes :: "permission \<Rightarrow> permission list" where
  "nodes (Permission pid nm desc acts children) =
     Permission pid nm desc acts children # concat (map nodes children)"

definition declared :: "string \<Rightarrow> string \<Rightarrow> bool" where
  "declared r a \<longleftrightarrow>
     list_ex (\<lambda>p. pn_ID p = r \<and> a \<in> set (pn_Actions p)) (concat (map nodes PermissionsDefinitions))"

lemma flatReferenceMatrix_value:
  "flatReferenceMatrix =
     [(''dashboard'', [(''read'', True)]),
      (''notifications'', [(''read'', True), (''write'', True)]),
      (''announcements'', [(''read'', True), (''write'', True), (''delete'', True), (''approve'', True)]),
      (''audit_logs'', [(''read'', True), (''delete'', True)]),
      (''users'', [(''read'', True), (''write'', True), (''delete'', True)]),
      (''users.permissions'', [(''read'', True), (''write'', True), (''delete'', True)]),
      (''settings'', [(''read'', True), (''write'', True)]),
      (''internal'', [(''manage'', True)])]"
  by (simp add: flatReferenceMatrix_def PermissionsDefinitions_def)

lemma wf_flatReferenceMatrix: "wf_pmap flatReferenceMatrix"
  by (simp add: flatReferenceMatrix_value wf_pmap_def)

lemma plookup_flatReferenceMatrix: "plookup flatReferenceMatrix r a = Some True \<longleftrightarrow> declared r a"
  unfolding flatReferenceMatrix_value plookup_def declared_def PermissionsDefinitions_def
  by simp

lemma not_declared_wildcard: "\<not> declared ''*'' a"
  by (simp add: declared_def PermissionsDefinitions_def)

lemma plookup_filter_row:
  "distinct (map fst acts) \<Longrightarrow>
   plookup (fold (\<lambda>(a, g) out. if map_of ref a \<noteq> Some True then out
                              else set_cell r a g (ensure_row r out)) acts out) r' a' =
     (if r' = r \<and> map_of ref a' = Some True
      then (case map_of acts a' of Some v \<Rightarrow> Some v | None \<Rightarrow> plookup out r' a')
      else plookup out r' a')"
proof (induction acts arbitrary: out)
  case (Cons x acts)
  obtain a v where x: "x = (a, v)" by force
  then have "map_of acts a = None" using Cons.prems by (simp add: map_of_eq_None_iff)
  with Cons show ?case by (auto simp: x split: option.split)
qed simp

lemma plookup_filter_fold:
  "wf_pmap inp \<Longrightarrow>
   plookup (fold (\<lambda>(resource, actions) out.
             case map_of ref resource of
               None \<Rightarrow> out
             | Some refActs \<Rightarrow>
                 fold (\<lambda>(action, granted) out.
                         if map_of refActs action \<noteq> Some True then out
                         else set_cell resource action granted (ensure_row resource out))
                   actions out) inp out) r a =
     (if plookup ref r a = Some True
      then (case plookup inp r a of Some v \<Rightarrow> Some v | None \<Rightarrow> plookup out r a)
      else plookup out r a)"
proof (induction inp arbitrary: out)
  case (Cons x inp)
  then show ?case
    by (cases x)
      (auto simp: wf_pmap_Cons plookup_filter_row plookup_def [of "_ # _"] plookup_def [of inp]
          plookup_def [of ref] split: option.split)
qed simp

lemma plookup_filterValidPermissions:
  "wf_pmap inp \<Longrightarrow>
   plookup (filterValidPermissions inp) r a = (if declared r a then plookup inp r a else None)"
  unfolding filterValidPermissions_def plookup_flatReferenceMatrix [symmetric]
  by (subst plookup_filter_fold) (auto split: option.split)

text \<open>The same pass over the role defaults, cell by cell.\<close>

lemma plookup_deny_cell [simp]:
  "plookup (deny_cell r a c) r' a' =
     (if r' = r \<and> a' = a \<and> plookup c r a = None then Some False else plookup c r' a')"
  by (simp add: deny_cell_def Let_def)

lemma wf_deny_cell [simp, intro]: "wf_pmap c \<Longrightarrow> wf_pmap (deny_cell r a c)"
  by (simp add: deny_cell_def Let_def)

lemma plookup_deny_row:
  "distinct (map fst acts) \<Longrightarrow>
   plookup (fold (\<lambda>(a, _). deny_cell r a) acts c) r' a' =
     (if r' = r \<and> plookup c r' a' = None \<and> map_of acts a' \<noteq> None then Some False
      else plookup c r' a')"
proof (induction acts arbitrary: c)
  case (Cons x acts)
  obtain a v where x: "x = (a, v)" by force
  then have "map_of acts a = None" using Cons.prems by (simp add: map_of_eq_None_iff)
  with Cons show ?case by (auto simp: x)
qed simp

lemma plookup_deny_fold:
  "wf_pmap d \<Longrightarrow>
   plookup (fold (\<lambda>(r, acts) c. fold (\<lambda>(a, _). deny_cell r a) acts c) d c) r a =
     (if plookup c r a = None \<and> plookup d r a \<noteq> None then Some False else plookup c r a)"
proof (induction d arbitrary: c)
  case (Cons x d)
  then show ?case
    by (cases x)
      (auto simp: wf_pmap_Cons plookup_deny_row plookup_def [of "_ # _"] plookup_def [of d]
        simp del: map_of_eq_Some_iff)
qed simp

lemma wf_RoleDefaultPermissions [simp]: "wf_pmap (RoleDefaultPermissions role)"
  by (simp add: RoleDefaultPermissions_def wf_pmap_def Let_def)

lemma plookup_deny_unset_defaults:
  "plookup (deny_unset_defaults role c) r a =
     (if plookup c r a = None \<and> plookup (RoleDefaultPermissions role) r a \<noteq> None then Some False
      else plookup c r a)"
  unfolding deny_unset_defaults_def by (rule plookup_deny_fold) simp

lemma wf_filterValidPermissions [simp, intro]: "wf_pmap (filterValidPermissions inp)"
  unfolding filterValidPermissions_def
  by (rule fold_invariant [where Q = "\<lambda>_. True"])
    (auto intro!: fold_invariant [where Q = "\<lambda>_. True" and P = wf_pmap] split: option.split)

lemma wf_deny_unset_defaults [simp, intro]: "wf_pmap c \<Longrightarrow> wf_pmap (deny_unset_defaults role c)"
  unfolding deny_unset_defaults_def
  by (rule fold_invariant [where Q = "\<lambda>_. True"])
    (auto simp: Let_def intro!: fold_invariant [where Q = "\<lambda>_. True" and P = wf_pmap])

lemma RoleDefaultPermissions_granted:
  "plookup (RoleDefaultPermissions role) r a \<noteq> None \<Longrightarrow>
     plookup (RoleDefaultPermissions role) r a = Some True \<and> declared r a"
  by (auto simp: RoleDefaultPermissions_def plookup_def declared_def PermissionsDefinitions_def
      Let_def split: if_splits)

lemma plookup_defaults_Some:
  "plookup (RoleDefaultPermissions role) r a = Some v \<Longrightarrow> v \<and> declared r a"
  using RoleDefaultPermissions_granted [of role r a] by auto

text \<open>
  What the permission page saves, and what the user then effectively has: \<open>saved_matrix\<close> is the
  map \<open>Update\<close> and \<open>UpdateByUserID\<close> store for a submitted matrix.
\<close>

definition saved_matrix :: "string \<Rightarrow> pmap \<Rightarrow> pmap" where
  "saved_matrix role m = deny_unset_defaults role (filterValidPermissions m)"

lemma wf_saved_matrix [simp, intro]: "wf_pmap (saved_matrix role m)"
  by (auto simp: saved_matrix_def)

lemma plookup_effective:
  assumes "wf_pmap m"
  shows "plookup (MergeOver (RoleDefaultPermissions role) (saved_matrix role m)) r a =
    (if declared r a then
       (case plookup m r a of
          Some v \<Rightarrow> Some v
        | None \<Rightarrow> if plookup (RoleDefaultPermissions role) r a \<noteq> None then Some False else None)
     else None)"
  using assms RoleDefaultPermissions_granted [of role r a]
  by (auto simp: plookup_MergeOver saved_matrix_def plookup_deny_unset_defaults
      plookup_filterValidPermissions split: option.splits if_splits)

lemma HasAction_effective:
  assumes "wf_pmap m"
  shows "HasAction (MergeOver (RoleDefaultPermissions role) (saved_matrix role m)) r a \<longleftrightarrow>
    declared r a \<and> plookup m r a = Some True"
  using not_declared_wildcard [of "''*''"]
  by (auto simp: HasAction_iff plookup_effective [OF assms] split: option.splits if_splits)

end
