(* ===== verification/World.thy ===== *)
theory World
  imports Domain_Model Permission_Map
begin

text \<open>
  The world the service acts on and the computations that act on it. The database is a record of
  tables (lists of rows); the SQL of the repositories is read as relational operations on them.
  Everything the service does not define itself is a field of \<open>env\<close>: the clock, the random
  source, bcrypt, the JSON codecs, Postgres' \<open>lower\<close> and \<open>ILIKE\<close>, and which of the external
  calls fail. A computation is a function of the environment and the world that returns an
  error or a value, and the new world.
\<close>

section \<open>Tables\<close>

record userRow =
  ur_ID :: int
  ur_Username :: string
  ur_PasswordHash :: string
  ur_FullName :: string
  ur_Email :: "string option"
  ur_Phone :: "string option"
  ur_Role :: string
  ur_Status :: string
  ur_StaffCode :: "string option"
  ur_AvatarURL :: "string option"
  ur_ForcePasswordChange :: bool
  ur_EmploymentType :: string
  ur_CreatedAt :: time
  ur_UpdatedAt :: time
  ur_CreatedBy :: int
  ur_UpdatedBy :: int
  ur_DeletedAt :: "time option"

text \<open>The row of the table has two columns that no struct reads.\<close>

record userTuple = userRow +
  password_reset_token_hash :: "string option"
  password_reset_expires_at :: "time option"

record userPermissionRow =
  pr_ID :: int
  pr_UserID :: int
  pr_PermissionCount :: int
  pr_Permissions :: string
  pr_CreatedAt :: time
  pr_UpdatedAt :: time
  pr_CreatedBy :: int
  pr_UpdatedBy :: int

record auditRow =
  ar_ID :: int
  ar_ActorUserID :: "int option"
  ar_ActorName :: string
  ar_ActorRole :: string
  ar_Action :: string
  ar_EntityType :: string
  ar_EntityID :: "int option"
  ar_EntityName :: string
  ar_Summary :: string
  ar_Changes :: "string option"
  ar_IPAddress :: string
  ar_RequestID :: string
  ar_CreatedAt :: time

record announcementRow =
  nr_ID :: int
  nr_Title :: string
  nr_Body :: string
  nr_Priority :: string
  nr_PublishedAt :: "time option"
  nr_ExpiresAt :: "time option"
  nr_DeletedAt :: "time option"
  nr_CreatedAt :: time
  nr_UpdatedAt :: time
  nr_CreatedBy :: int
  nr_UpdatedBy :: int

record notificationRow =
  tr_ID :: int
  tr_UserID :: int
  tr_Type :: string
  tr_Category :: string
  tr_Title :: string
  tr_Body :: string
  tr_Link :: "string option"
  tr_RefType :: "string option"
  tr_RefID :: "int option"
  tr_IsRead :: bool
  tr_IsImportant :: bool
  tr_ReadAt :: "time option"
  tr_CreatedAt :: time

record settingRow =
  sr_Key :: string
  sr_Value :: string
  sr_Description :: string
  sr_UpdatedAt :: time
  sr_UpdatedBy :: "int option"

record db =
  users :: "userTuple list"
  user_permissions :: "userPermissionRow list"
  audit_log :: "auditRow list"
  settings :: "settingRow list"
  announcements :: "announcementRow list"
  notifications :: "notificationRow list"

section \<open>Environment and world\<close>

text \<open>An e-mail as \<open>pkg/xmail\<close> sends it, and an event as \<open>pkg/xnotify\<close> publishes it.\<close>

record message =
  msg_To :: "string list"
  msg_Subject :: string
  msg_Text :: string
  msg_HTML :: string

record event =
  ev_Type :: string
  ev_Data :: string

text \<open>The claims of a token (\<open>pkg/xauth/jwt.go\<close>), times in whole seconds as \<open>NumericDate\<close> keeps them.\<close>

record claims =
  cl_UserID :: int
  cl_Role :: string
  cl_ID :: string
  cl_IssuedAt :: int
  cl_ExpiresAt :: "int option"
  cl_Subject :: string

record world =
  w_db :: db
  w_seq :: "string \<Rightarrow> int" \<comment> \<open>last value of each table's identity sequence\<close>
  w_tick :: nat \<comment> \<open>external calls made so far\<close>
  w_redis :: "(string \<times> int \<times> time) list" \<comment> \<open>key, value, expiry\<close>
  w_outbox :: "message list" \<comment> \<open>newest first\<close>
  w_published :: "(int \<times> event) list" \<comment> \<open>newest first\<close>
  w_objects :: "(string \<times> string \<times> string) list" \<comment> \<open>object key, content type, bytes\<close>

record env =
  fault :: "nat \<Rightarrow> dberr option" \<comment> \<open>does the n-th external call fail as a statement\<close>
  net_fault :: "nat \<Rightarrow> string option" \<comment> \<open>the same for Redis, SMTP and the object store\<close>
  clock :: "nat \<Rightarrow> time"
  rand_int :: "nat \<Rightarrow> int \<Rightarrow> int option" \<comment> \<open>\<open>rand.Int(rand.Reader, max)\<close>\<close>
  rand_bytes :: "nat \<Rightarrow> nat \<Rightarrow> string option" \<comment> \<open>\<open>rand.Read\<close>\<close>
  bcrypt_hash :: "nat \<Rightarrow> string \<Rightarrow> string option"
  bcrypt_cmp :: "string \<Rightarrow> string \<Rightarrow> bool" \<comment> \<open>hash, plain\<close>
  sha256_hex :: "string \<Rightarrow> string"
  jwt_encode :: "claims \<Rightarrow> string option" \<comment> \<open>signed with HS256 under the configured secret\<close>
  jwt_parse :: "time \<Rightarrow> string \<Rightarrow> claims option" \<comment> \<open>\<open>ParseWithClaims\<close>, HS256 only\<close>
  unicode_tables :: unicode
  db_text :: "dberr \<Rightarrow> string" \<comment> \<open>the driver error's own \<open>Error()\<close>\<close>
  pg_lower :: "string \<Rightarrow> string"
  pg_ilike :: "string \<Rightarrow> string \<Rightarrow> bool" \<comment> \<open>value, pattern\<close>
  pg_rank :: "string \<Rightarrow> int" \<comment> \<open>position of a text in the collation's order\<close>
  pg_date :: "string \<Rightarrow> time option" \<comment> \<open>\<open>?::date\<close>, at midnight\<close>
  pg_text :: "time \<Rightarrow> string" \<comment> \<open>\<open>created_at::text\<close>\<close>
  perm_marshal :: "pmap \<Rightarrow> string"
  perm_unmarshal :: "string \<Rightarrow> pmap" \<comment> \<open>empty on a decoding error, which the code ignores\<close>
  changes_marshal :: "(string \<times> string) list \<Rightarrow> string"
  notification_marshal :: "notification \<Rightarrow> string"
  parse_rfc3339 :: "string \<Rightarrow> time option"
  format_ict :: "time \<Rightarrow> string" \<comment> \<open>\<open>15:04 02/01/2006\<close> in UTC+7\<close>

type_synonym 'a comp = "env \<Rightarrow> world \<Rightarrow> (gerr + 'a) \<times> world"

definition tick :: "world \<Rightarrow> world" where
  "tick w = w\<lparr>w_tick := Suc (w_tick w)\<rparr>"

section \<open>Computations\<close>

definition ret :: "'a \<Rightarrow> 'a comp" where
  "ret x e w = (Inr x, w)"

definition throw :: "gerr \<Rightarrow> 'a comp" where
  "throw err e w = (Inl err, w)"

text \<open>\<open>x, err := m(); if err != nil { return err }\<close>, then the rest of the function.\<close>

definition bind :: "'a comp \<Rightarrow> ('a \<Rightarrow> 'b comp) \<Rightarrow> 'b comp" where
  "bind m f e w = (case m e w of (Inl err, w') \<Rightarrow> (Inl err, w') | (Inr x, w') \<Rightarrow> f x e w')"

text \<open>The call whose error the caller inspects or ignores itself.\<close>

definition attempt :: "'a comp \<Rightarrow> (gerr + 'a) comp" where
  "attempt m e w = (case m e w of (r, w') \<Rightarrow> (Inr r, w'))"

definition ignore :: "'a comp \<Rightarrow> unit comp" where
  "ignore m e w = (case m e w of (r, w') \<Rightarrow> (Inr (), w'))"

definition ask :: "env comp" where
  "ask e w = (Inr e, w)"

definition lift :: "gerr + 'a \<Rightarrow> 'a comp" where
  "lift r e w = (r, w)"

definition now :: "time comp" where
  "now e w = (Inr (clock e (w_tick w)), tick w)"

text \<open>
  One SQL statement: it fails, or it reads and rewrites the tables. \<open>insert_row\<close> also draws the
  next value of the table's identity sequence, which a rollback does not give back.
\<close>

definition stmt :: "(db \<Rightarrow> db \<times> 'a) \<Rightarrow> 'a comp" where
  "stmt q e w =
     (case fault e (w_tick w) of
        Some d \<Rightarrow> (Inl (DbError d), tick w)
      | None \<Rightarrow> (case q (w_db w) of (d', x) \<Rightarrow> (Inr x, (tick w)\<lparr>w_db := d'\<rparr>)))"

definition query :: "(db \<Rightarrow> 'a) \<Rightarrow> 'a comp" where
  "query q = stmt (\<lambda>d. (d, q d))"

text \<open>A statement whose \<open>WHERE\<close> clause reads the database's own clock.\<close>

definition query_now :: "(time \<Rightarrow> db \<Rightarrow> 'a) \<Rightarrow> 'a comp" where
  "query_now q e w = query (q (clock e (w_tick w))) e w"

definition exec :: "(db \<Rightarrow> db) \<Rightarrow> unit comp" where
  "exec f = stmt (\<lambda>d. (f d, ()))"

definition insert_row :: "string \<Rightarrow> (int \<Rightarrow> db \<Rightarrow> db) \<Rightarrow> int comp" where
  "insert_row tbl f e w =
     (case fault e (w_tick w) of
        Some d \<Rightarrow> (Inl (DbError d), tick w)
      | None \<Rightarrow>
          (let i = w_seq w tbl + 1 in
           (Inr i, (tick w)\<lparr>w_db := f i (w_db w), w_seq := (w_seq w)(tbl := i)\<rparr>)))"

text \<open>\<open>First\<close> on the rows a \<open>WHERE\<close> clause selects: the one with the least primary key.\<close>

definition first_row :: "('r \<Rightarrow> int) \<Rightarrow> ('r \<Rightarrow> bool) \<Rightarrow> 'r list \<Rightarrow> 'r option" where
  "first_row pk P rows = (case sort_key pk (filter P rows) of [] \<Rightarrow> None | r # _ \<Rightarrow> Some r)"

definition update_where :: "('r \<Rightarrow> bool) \<Rightarrow> ('r \<Rightarrow> 'r) \<Rightarrow> 'r list \<Rightarrow> 'r list" where
  "update_where P f rows = map (\<lambda>r. if P r then f r else r) rows"

definition delete_where :: "('r \<Rightarrow> bool) \<Rightarrow> 'r list \<Rightarrow> 'r list" where
  "delete_where P rows = filter (\<lambda>r. \<not> P r) rows"

text \<open>\<open>LIMIT\<close> and \<open>OFFSET\<close>; GORM leaves out an offset that is not positive.\<close>

definition limit_offset :: "int \<Rightarrow> int \<Rightarrow> 'r list \<Rightarrow> 'r list" where
  "limit_offset lim off rows = take (nat lim) (drop (nat off) rows)"

text \<open>\<open>Count\<close> of the selected rows.\<close>

definition count_where :: "('r \<Rightarrow> bool) \<Rightarrow> 'r list \<Rightarrow> int" where
  "count_where P rows = int (length (filter P rows))"

section \<open>Transactions (\<open>pkg/xpostgres/postgres.go\<close>)\<close>

text \<open>
  \<open>Run\<close> joins the transaction of the context, or begins one and commits it if \<open>fn\<close> succeeds.
  A failed \<open>fn\<close> or a failed commit restores the tables; sequences, mails, events and Redis are
  outside the transaction.
\<close>

definition Run :: "ctx \<Rightarrow> (ctx \<Rightarrow> 'a comp) \<Rightarrow> 'a comp" where
  "Run cx fn e w =
     (if ctxKeyTx cx then fn cx e w
      else
        (case fault e (w_tick w) of
           Some d \<Rightarrow> (Inl (DbError d), tick w)
         | None \<Rightarrow>
             (case fn (With cx) e (tick w) of
                (Inl err, w') \<Rightarrow> (Inl err, (tick w')\<lparr>w_db := w_db w\<rparr>)
              | (Inr x, w') \<Rightarrow>
                  (case fault e (w_tick w') of
                     Some d \<Rightarrow> (Inl (DbError d), (tick w')\<lparr>w_db := w_db w\<rparr>)
                   | None \<Rightarrow> (Inr x, tick w')))))"

section \<open>Evaluating and inverting computations\<close>

lemma tick_simps [simp]:
  "w_db (tick w) = w_db w" "w_seq (tick w) = w_seq w" "w_tick (tick w) = Suc (w_tick w)"
  "w_redis (tick w) = w_redis w" "w_outbox (tick w) = w_outbox w"
  "w_published (tick w) = w_published w" "w_objects (tick w) = w_objects w"
  by (simp_all add: tick_def)

lemma tick_db_id [simp]: "(tick w)\<lparr>w_db := w_db w\<rparr> = tick w"
  by (simp add: tick_def)

lemma ret_ok [ok_iff]: "ret x e w = (Inr y, w') \<longleftrightarrow> y = x \<and> w' = w"
  by (auto simp: ret_def)

lemma throw_ok [ok_iff]: "throw err e w = (Inr y, w') \<longleftrightarrow> False"
  by (simp add: throw_def)

lemma bind_ok [ok_iff]:
  "bind m f e w = (Inr y, w') \<longleftrightarrow> (\<exists>x w1. m e w = (Inr x, w1) \<and> f x e w1 = (Inr y, w'))"
  by (auto simp: bind_def split: prod.splits sum.splits)

lemma attempt_ok [ok_iff]: "attempt m e w = (Inr r, w') \<longleftrightarrow> m e w = (r, w')"
  by (auto simp: attempt_def split: prod.splits)

lemma ignore_ok [ok_iff]: "ignore m e w = (Inr u, w') \<longleftrightarrow> snd (m e w) = w'"
  by (auto simp: ignore_def split: prod.splits)

lemma ask_ok [ok_iff]: "ask e w = (Inr x, w') \<longleftrightarrow> x = e \<and> w' = w"
  by (auto simp: ask_def)

lemma lift_ok [ok_iff]: "lift r e w = (Inr x, w') \<longleftrightarrow> r = Inr x \<and> w' = w"
  by (auto simp: lift_def)

lemma now_ok [ok_iff]: "now e w = (Inr t, w') \<longleftrightarrow> t = clock e (w_tick w) \<and> w' = tick w"
  by (auto simp: now_def)

lemma query_ok [ok_iff]:
  "query q e w = (Inr x, w') \<longleftrightarrow> fault e (w_tick w) = None \<and> x = q (w_db w) \<and> w' = tick w"
  by (auto simp: query_def stmt_def split: option.splits)

lemma query_now_ok [ok_iff]:
  "query_now q e w = (Inr x, w') \<longleftrightarrow>
     fault e (w_tick w) = None \<and> x = q (clock e (w_tick w)) (w_db w) \<and> w' = tick w"
  by (simp add: query_now_def query_ok)

lemma exec_ok [ok_iff]:
  "exec f e w = (Inr x, w') \<longleftrightarrow> fault e (w_tick w) = None \<and> w' = (tick w)\<lparr>w_db := f (w_db w)\<rparr>"
  by (auto simp: exec_def stmt_def split: option.splits)

lemma insert_row_ok [ok_iff]:
  "insert_row tbl f e w = (Inr i, w') \<longleftrightarrow>
     fault e (w_tick w) = None \<and> i = w_seq w tbl + 1 \<and>
     w' = (tick w)\<lparr>w_db := f i (w_db w), w_seq := (w_seq w)(tbl := i)\<rparr>"
  by (auto simp: insert_row_def Let_def split: option.splits)

lemma Run_ok:
  "Run cx fn e w = (Inr y, w') \<longleftrightarrow>
     (if ctxKeyTx cx then fn cx e w = (Inr y, w')
      else fault e (w_tick w) = None \<and>
        (\<exists>w1. fn (With cx) e (tick w) = (Inr y, w1) \<and> fault e (w_tick w1) = None \<and> w' = tick w1))"
  by (auto simp: Run_def split: option.splits prod.splits sum.splits)

text \<open>The early returns: a guard that throws, and the two ways a lookup is tested.\<close>

lemma if_throw_ok [ok_iff]:
  "(if b then throw err else m) e w = (Inr y, w') \<longleftrightarrow> \<not> b \<and> m e w = (Inr y, w')"
  by (simp add: throw_def)

lemma case_throw_ok [ok_iff]:
  "(case ox of None \<Rightarrow> throw err | Some x \<Rightarrow> f x) e w = (Inr y, w') \<longleftrightarrow>
     (\<exists>x. ox = Some x \<and> f x e w = (Inr y, w'))"
  by (cases ox) (simp_all add: throw_def)

lemma case_some_throw_ok [ok_iff]:
  "(case ox of None \<Rightarrow> m | Some x \<Rightarrow> throw (f x)) e w = (Inr y, w') \<longleftrightarrow>
     ox = None \<and> m e w = (Inr y, w')"
  by (cases ox) (simp_all add: throw_def)

text \<open>The same inversions as elimination rules, to walk through a handler statement by statement.\<close>

lemma bind_okE:
  assumes "bind m f e w = (Inr y, w')"
  obtains x w1 where "m e w = (Inr x, w1)" and "f x e w1 = (Inr y, w')"
  using assms by (auto simp: bind_ok)

lemma case_throw_okE:
  assumes "(case ox of None \<Rightarrow> throw err | Some x \<Rightarrow> f x) e w = (Inr y, w')"
  obtains x where "ox = Some x" and "f x e w = (Inr y, w')"
  using assms by (auto simp: case_throw_ok)

lemma case_some_throw_okE:
  assumes "(case ox of None \<Rightarrow> m | Some x \<Rightarrow> throw (g x)) e w = (Inr y, w')"
  obtains "ox = None" and "m e w = (Inr y, w')"
  using assms by (auto simp: case_some_throw_ok)

lemma if_throw_okE:
  assumes "(if b then throw err else m) e w = (Inr y, w')"
  obtains "\<not> b" and "m e w = (Inr y, w')"
  using assms by (auto simp: if_throw_ok)

lemma Let_okE:
  assumes "(Let a f) e w = (Inr y, w')"
  obtains "f a e w = (Inr y, w')"
  using assms by simp

lemma ret_okE:
  assumes "ret x e w = (Inr y, w')"
  obtains "y = x" and "w' = w"
  using assms by (auto simp: ret_ok)

lemma ask_okE:
  assumes "ask e w = (Inr y, w')"
  obtains "y = e" and "w' = w"
  using assms by (auto simp: ask_ok)

lemma lift_okE:
  assumes "lift r e w = (Inr y, w')"
  obtains "r = Inr y" and "w' = w"
  using assms by (auto simp: lift_ok)

lemmas ok_elims =
  bind_okE case_throw_okE case_some_throw_okE if_throw_okE Let_okE ret_okE ask_okE lift_okE

text \<open>A transaction that reports an error has left the tables as they were.\<close>

lemma Run_error: "\<not> ctxKeyTx cx \<Longrightarrow> Run cx fn e w = (Inl err, w') \<Longrightarrow> w_db w' = w_db w"
  by (auto simp: Run_def split: option.splits prod.splits sum.splits)

text \<open>The equations that run a computation when its calls succeed.\<close>

definition quiet :: "env \<Rightarrow> bool" where
  "quiet e \<longleftrightarrow> (\<forall>n. fault e n = None)"

lemma quietD [simp]: "quiet e \<Longrightarrow> fault e n = None"
  by (simp add: quiet_def)

lemma run_ret [run_simps]: "ret x e w = (Inr x, w)"
  by (simp add: ret_def)

lemma run_throw [run_simps]: "throw err e w = (Inl err, w)"
  by (simp add: throw_def)

lemma run_bind [run_simps]:
  "bind m f e w = (case m e w of (Inl err, w') \<Rightarrow> (Inl err, w') | (Inr x, w') \<Rightarrow> f x e w')"
  by (simp add: bind_def)

lemma run_query [run_simps]:
  "fault e (w_tick w) = None \<Longrightarrow> query q e w = (Inr (q (w_db w)), tick w)"
  by (simp add: query_def stmt_def)

lemma run_query_now [run_simps]:
  "fault e (w_tick w) = None \<Longrightarrow>
   query_now q e w = (Inr (q (clock e (w_tick w)) (w_db w)), tick w)"
  by (simp add: query_now_def run_query)

lemma run_exec [run_simps]:
  "fault e (w_tick w) = None \<Longrightarrow> exec f e w = (Inr (), (tick w)\<lparr>w_db := f (w_db w)\<rparr>)"
  by (simp add: exec_def stmt_def)

lemma run_insert_row [run_simps]:
  "fault e (w_tick w) = None \<Longrightarrow>
   insert_row tbl f e w =
     (Inr (w_seq w tbl + 1),
      (tick w)\<lparr>w_db := f (w_seq w tbl + 1) (w_db w), w_seq := (w_seq w)(tbl := w_seq w tbl + 1)\<rparr>)"
  by (simp add: insert_row_def Let_def)

lemma run_Run [run_simps]:
  "\<not> ctxKeyTx cx \<Longrightarrow> quiet e \<Longrightarrow>
   Run cx fn e w =
     (case fn (With cx) e (tick w) of
        (Inl err, w') \<Rightarrow> (Inl err, (tick w')\<lparr>w_db := w_db w\<rparr>)
      | (Inr x, w') \<Rightarrow> (Inr x, tick w'))"
  by (simp add: Run_def split: prod.splits sum.splits)

lemmas run_steps = run_simps now_def attempt_def ignore_def ask_def lift_def

section \<open>Frame properties\<close>

text \<open>
  \<open>keeps R m\<close>: whatever \<open>m\<close> returns, the world before and the world after are related by \<open>R\<close>.
\<close>

definition keeps :: "(world \<Rightarrow> world \<Rightarrow> bool) \<Rightarrow> 'a comp \<Rightarrow> bool" where
  "keeps R m \<longleftrightarrow> (\<forall>e w. R w (snd (m e w)))"

named_theorems keeps_intros

definition frame :: "(world \<Rightarrow> world \<Rightarrow> bool) \<Rightarrow> bool" where
  "frame R \<longleftrightarrow> (\<forall>w. R w w) \<and> (\<forall>a b c. R a b \<longrightarrow> R b c \<longrightarrow> R a c) \<and> (\<forall>w. R w (tick w))"

lemma keepsD: "keeps R m \<Longrightarrow> m e w = (r, w') \<Longrightarrow> R w w'"
  unfolding keeps_def by (metis snd_conv)

lemma frame_refl: "frame R \<Longrightarrow> R w w"
  by (simp add: frame_def)

lemma frame_trans: "frame R \<Longrightarrow> R a b \<Longrightarrow> R b c \<Longrightarrow> R a c"
  unfolding frame_def by blast

lemma frame_tick: "frame R \<Longrightarrow> R w (tick w)"
  by (simp add: frame_def)

lemma keeps_ret [keeps_intros]: "frame R \<Longrightarrow> keeps R (ret x)"
  by (simp add: keeps_def ret_def frame_refl)

lemma keeps_throw [keeps_intros]: "frame R \<Longrightarrow> keeps R (throw err)"
  by (simp add: keeps_def throw_def frame_refl)

lemma keeps_ask [keeps_intros]: "frame R \<Longrightarrow> keeps R ask"
  by (simp add: keeps_def ask_def frame_refl)

lemma keeps_lift [keeps_intros]: "frame R \<Longrightarrow> keeps R (lift r)"
  by (simp add: keeps_def lift_def frame_refl)

lemma keeps_now [keeps_intros]: "frame R \<Longrightarrow> keeps R now"
  by (simp add: keeps_def now_def frame_tick)

lemma keeps_query [keeps_intros]: "frame R \<Longrightarrow> keeps R (query q)"
  by (auto simp: keeps_def query_def stmt_def frame_tick split: option.splits)

lemma keeps_query_now [keeps_intros]: "frame R \<Longrightarrow> keeps R (query_now q)"
  using keeps_query by (auto simp: keeps_def query_now_def)

lemma keeps_bind [keeps_intros]:
  assumes "frame R" and "keeps R m" and "\<And>x. keeps R (f x)"
  shows "keeps R (bind m f)"
proof -
  have "R w (snd (bind m f e w))" for e w
  proof (cases "m e w")
    case (Pair r w1)
    then have step: "R w w1" using keepsD [OF assms(2)] by blast
    show ?thesis
    proof (cases r)
      case (Inl err)
      with Pair step show ?thesis by (simp add: bind_def)
    next
      case (Inr x)
      have "R w1 (snd (f x e w1))" using assms(3) by (simp add: keeps_def)
      with step have "R w (snd (f x e w1))" by (rule frame_trans [OF assms(1)])
      with Pair Inr show ?thesis by (simp add: bind_def)
    qed
  qed
  then show ?thesis by (simp add: keeps_def)
qed

lemma keeps_attempt [keeps_intros]: "keeps R m \<Longrightarrow> keeps R (attempt m)"
  by (auto simp: keeps_def attempt_def split: prod.splits) (metis snd_conv)

lemma keeps_ignore [keeps_intros]: "keeps R m \<Longrightarrow> keeps R (ignore m)"
  by (auto simp: keeps_def ignore_def split: prod.splits) (metis snd_conv)

lemma keeps_if [keeps_intros]: "keeps R a \<Longrightarrow> keeps R b \<Longrightarrow> keeps R (if c then a else b)"
  by simp

lemma keeps_case_option [keeps_intros]:
  "keeps R a \<Longrightarrow> (\<And>x. keeps R (f x)) \<Longrightarrow> keeps R (case o1 of None \<Rightarrow> a | Some x \<Rightarrow> f x)"
  by (simp split: option.split)

lemma keeps_case_sum [keeps_intros]:
  "(\<And>x. keeps R (f x)) \<Longrightarrow> (\<And>x. keeps R (g x)) \<Longrightarrow> keeps R (case s of Inl x \<Rightarrow> f x | Inr x \<Rightarrow> g x)"
  by (simp split: sum.split)

lemma keeps_Let [keeps_intros]: "(\<And>x. keeps R (f x)) \<Longrightarrow> keeps R (Let a f)"
  by simp

end
