(* ===== verification/Tables.thy ===== *)
theory Tables
  imports World
begin

text \<open>
  The laws of the relational operations, and the interface every identity-keyed table offers its
  repository: a lens on the rows, a primary key and the name of its sequence. The lemmas proved
  in the locale say what an insert, an update and a lookup by primary key give; each repository
  theory interprets it on its own table.
\<close>

section \<open>Selecting and rewriting rows\<close>

lemma first_row_Some:
  assumes "first_row pk P rows = Some r"
  shows "r \<in> set rows" and "P r" and "\<And>r'. r' \<in> set rows \<Longrightarrow> P r' \<Longrightarrow> pk r \<le> pk r'"
proof -
  from assms obtain rs where rs: "sort_key pk (filter P rows) = r # rs"
    by (auto simp: first_row_def split: list.splits)
  then have set: "set (r # rs) = {r \<in> set rows. P r}" by (metis set_filter set_sort)
  then show "r \<in> set rows" and "P r" by auto
  have "sorted (map pk (r # rs))" by (metis rs sorted_sort_key)
  then show "pk r \<le> pk r'" if "r' \<in> set rows" and "P r'" for r'
    using that set by auto
qed

lemma first_row_None: "first_row pk P rows = None \<longleftrightarrow> (\<forall>r \<in> set rows. \<not> P r)"
proof -
  have "first_row pk P rows = None \<longleftrightarrow> sort_key pk (filter P rows) = []"
    by (simp add: first_row_def split: list.split)
  also have "\<dots> \<longleftrightarrow> filter P rows = []" by (metis set_empty set_sort)
  finally show ?thesis by (simp add: filter_empty_conv)
qed

lemma first_row_unique:
  assumes "r \<in> set rows" and "P r" and "\<And>r'. r' \<in> set rows \<Longrightarrow> P r' \<Longrightarrow> r' = r"
  shows "first_row pk P rows = Some r"
proof (cases "first_row pk P rows")
  case None
  with assms(1,2) show ?thesis by (simp add: first_row_None)
next
  case (Some r')
  with first_row_Some [OF this] assms(3) show ?thesis by auto
qed

lemma insort_key_map:
  "(\<And>x. k (g x) = k x) \<Longrightarrow> insort_key k (g x) (map g xs) = map g (insort_key k x xs)"
  by (induction xs) auto

lemma sort_key_map: "(\<And>x. k (g x) = k x) \<Longrightarrow> sort_key k (map g xs) = map g (sort_key k xs)"
  by (induction xs) (simp_all add: insort_key_map)

text \<open>The first selected row after an update that keeps keys and membership in the selection.\<close>

lemma first_row_update_where:
  assumes "\<And>r. pk (f r) = pk r" and "\<And>r. r \<in> set rows \<Longrightarrow> Q r \<Longrightarrow> P (f r) = P r"
  shows "first_row pk P (update_where Q f rows) =
    map_option (\<lambda>r. if Q r then f r else r) (first_row pk P rows)"
proof -
  let ?g = "\<lambda>r. if Q r then f r else r"
  have "filter P (update_where Q f rows) = map ?g (filter P rows)"
    using assms(2) by (induction rows) (auto simp: update_where_def)
  moreover have "sort_key pk (map ?g (filter P rows)) = map ?g (sort_key pk (filter P rows))"
    by (rule sort_key_map) (simp add: assms(1))
  ultimately show ?thesis by (simp add: first_row_def split: list.split)
qed

lemma first_row_append_new:
  "first_row pk P rows = None \<Longrightarrow> first_row pk P (rows @ [r]) = (if P r then Some r else None)"
proof -
  assume "first_row pk P rows = None"
  then have "filter P rows = []" by (simp add: first_row_None filter_empty_conv)
  then show ?thesis by (simp add: first_row_def)
qed

lemma set_update_where: "set (update_where P f rows) = {if P r then f r else r | r. r \<in> set rows}"
  by (auto simp: update_where_def)

lemma length_update_where [simp]: "length (update_where P f rows) = length rows"
  by (simp add: update_where_def)

lemma map_update_where:
  "(\<And>r. P r \<Longrightarrow> k (f r) = k r) \<Longrightarrow> map k (update_where P f rows) = map k rows"
  by (auto simp: update_where_def)

lemma update_where_none: "(\<And>r. r \<in> set rows \<Longrightarrow> \<not> P r) \<Longrightarrow> update_where P f rows = rows"
  by (simp add: update_where_def map_idI)

lemma filter_update_where:
  "(\<And>r. r \<in> set rows \<Longrightarrow> P r \<Longrightarrow> Q (f r) = Q r) \<Longrightarrow>
   filter Q (update_where P f rows) = update_where P f (filter Q rows)"
  by (induction rows) (auto simp: update_where_def)

section \<open>Identity-keyed tables\<close>

locale id_table =
  fixes rows :: "db \<Rightarrow> 'r list"
    and upd :: "('r list \<Rightarrow> 'r list) \<Rightarrow> db \<Rightarrow> db"
    and pk :: "'r \<Rightarrow> int"
    and name :: string
  assumes rows_upd: "rows (upd f d) = f (rows d)"
begin

text \<open>Primary keys are distinct, positive, and none is ahead of the sequence.\<close>

definition ids_ok :: "world \<Rightarrow> bool" where
  "ids_ok w \<longleftrightarrow> distinct (map pk (rows (w_db w))) \<and> 0 \<le> w_seq w name \<and>
     (\<forall>r \<in> set (rows (w_db w)). 0 < pk r \<and> pk r \<le> w_seq w name)"

lemma ids_ok_cong:
  "ids_ok w \<Longrightarrow> map pk (rows (w_db w')) = map pk (rows (w_db w)) \<Longrightarrow> w_seq w' name = w_seq w name \<Longrightarrow>
   ids_ok w'"
  unfolding ids_ok_def by (metis (no_types, lifting) image_iff set_map)

lemma insert_ok:
  assumes "insert_row name (\<lambda>i. upd (\<lambda>rs. rs @ [mk i])) e w = (Inr i, w')"
    and "ids_ok w" and "\<And>i. pk (mk i) = i"
  shows "ids_ok w'" and "0 < i" and "rows (w_db w') = rows (w_db w) @ [mk i]"
    and "i \<notin> pk ` set (rows (w_db w))"
proof -
  from assms(1) have i: "i = w_seq w name + 1"
    and w': "w' = (tick w)\<lparr>w_db := upd (\<lambda>rs. rs @ [mk i]) (w_db w), w_seq := (w_seq w)(name := i)\<rparr>"
    by (auto simp: insert_row_ok)
  show rows: "rows (w_db w') = rows (w_db w) @ [mk i]" by (simp add: w' rows_upd)
  show "0 < i" using assms(2) by (simp add: i ids_ok_def)
  show fresh: "i \<notin> pk ` set (rows (w_db w))"
    using assms(2) by (auto simp: i ids_ok_def)
  have "w_seq w' name = i" by (simp add: w')
  with rows fresh assms(2) show "ids_ok w'" by (auto simp: ids_ok_def assms(3) i)
qed

lemma get_unique:
  "ids_ok w \<Longrightarrow> r \<in> set (rows (w_db w)) \<Longrightarrow> first_row pk (\<lambda>r'. pk r' = pk r) (rows (w_db w)) = Some r"
  by (rule first_row_unique) (auto simp: ids_ok_def dest: distinct_map_eq)

lemma get_Some:
  "ids_ok w \<Longrightarrow> first_row pk (\<lambda>r'. pk r' = i) (rows (w_db w)) = Some r \<longleftrightarrow>
     r \<in> set (rows (w_db w)) \<and> pk r = i"
  using get_unique first_row_Some [of pk "\<lambda>r'. pk r' = i"] by blast

lemma get_None:
  "first_row pk (\<lambda>r'. pk r' = i) (rows (w_db w)) = None \<longleftrightarrow> i \<notin> pk ` set (rows (w_db w))"
  by (auto simp: first_row_None)

text \<open>An update by primary key that leaves the key alone changes that row and no other.\<close>

lemma update_id_ids: "ids_ok w \<Longrightarrow> (\<And>r. pk (f r) = pk r) \<Longrightarrow>
   ids_ok (w\<lparr>w_db := upd (update_where P f) (w_db w)\<rparr>)"
  by (erule ids_ok_cong) (simp_all add: rows_upd map_update_where)

lemma update_id_get:
  assumes "ids_ok w" and "r \<in> set (rows (w_db w))" and "\<And>r. pk (f r) = pk r"
  shows "first_row pk (\<lambda>r'. pk r' = j) (update_where (\<lambda>r'. pk r' = pk r) f (rows (w_db w))) =
    (if j = pk r then Some (f r) else first_row pk (\<lambda>r'. pk r' = j) (rows (w_db w)))"
proof (cases "j = pk r")
  case True
  have "first_row pk (\<lambda>r'. pk r' = pk r) (update_where (\<lambda>r'. pk r' = pk r) f (rows (w_db w))) = Some (f r)"
    using assms distinct_map_eq [of pk "rows (w_db w)" _ r]
    by (intro first_row_unique) (auto simp: set_update_where ids_ok_def split: if_splits)
  with True show ?thesis by simp
next
  case False
  have "filter (\<lambda>r'. pk r' = j) (update_where (\<lambda>r'. pk r' = pk r) f (rows (w_db w))) =
      filter (\<lambda>r'. pk r' = j) (rows (w_db w))"
    using False assms(3) by (subst filter_update_where) (auto intro: update_where_none)
  with False show ?thesis by (simp add: first_row_def)
qed

end

section \<open>Effects of the calls\<close>

text \<open>Two worlds that agree on everything but the tables, the sequences and the call counter.\<close>

definition outside_db :: "world \<Rightarrow> world \<Rightarrow> bool" where
  "outside_db w w' \<longleftrightarrow> w_redis w' = w_redis w \<and> w_outbox w' = w_outbox w \<and>
     w_published w' = w_published w \<and> w_objects w' = w_objects w"

lemma outside_db_refl [simp]: "outside_db w w"
  by (simp add: outside_db_def)

lemma outside_db_trans [trans]: "outside_db a b \<Longrightarrow> outside_db b c \<Longrightarrow> outside_db a c"
  by (simp add: outside_db_def)

lemma outside_db_tick [simp]:
  "outside_db w (tick w') \<longleftrightarrow> outside_db w w'" "outside_db (tick w) w' \<longleftrightarrow> outside_db w w'"
  by (simp_all add: outside_db_def)

lemma outside_db_update [simp]:
  "outside_db w (w'\<lparr>w_db := d\<rparr>) \<longleftrightarrow> outside_db w w'" "outside_db w (w'\<lparr>w_seq := s\<rparr>) \<longleftrightarrow> outside_db w w'"
  "outside_db (w\<lparr>w_db := d\<rparr>) w' \<longleftrightarrow> outside_db w w'"
  by (simp_all add: outside_db_def)

text \<open>
  \<open>effects\<close> collects, for each repository operation, what a successful call returned and what it
  did to the tables and the sequences.
\<close>

named_theorems effects

definition same_db :: "world \<Rightarrow> world \<Rightarrow> bool" where
  "same_db w w' \<longleftrightarrow> w_db w' = w_db w \<and> w_seq w' = w_seq w \<and> outside_db w w'"

lemma frame_same_db [simp]: "frame same_db"
  by (auto simp: frame_def same_db_def dest: outside_db_trans)

lemma same_db_refl [simp]: "same_db w w"
  by (simp add: same_db_def)

lemma same_db_tick [simp]: "same_db w (tick w)"
  by (simp add: same_db_def)

lemma same_dbD: "same_db w w' \<Longrightarrow> w_db w' = w_db w \<and> w_seq w' = w_seq w \<and> outside_db w w'"
  by (simp add: same_db_def)

lemma Run_okE:
  assumes "Run cx fn e w = (Inr y, w')"
  obtains cx' w0 w1 where "fn cx' e w0 = (Inr y, w1)" and "same_db w w0" and "same_db w1 w'"
    and "UserID cx' = UserID cx"
  using assms by (auto simp: Run_ok split: if_splits)

lemma frame_outside_db [simp]: "frame outside_db"
  by (auto simp: frame_def dest: outside_db_trans)

lemma keeps_outside_exec [keeps_intros]: "keeps outside_db (exec f)"
  by (auto simp: keeps_def exec_def stmt_def split: option.split)

lemma keeps_outside_insert [keeps_intros]: "keeps outside_db (insert_row tbl f)"
  by (auto simp: keeps_def insert_row_def Let_def split: option.split)

lemma keeps_outside_Run [keeps_intros]:
  assumes "\<And>cx. keeps outside_db (fn cx)"
  shows "keeps outside_db (Run cx fn)"
  using assms unfolding keeps_def Run_def
  by (auto split: option.split prod.split sum.split) (metis outside_db_tick(2) snd_conv)+

text \<open>The same, with the body no earlier than the call.\<close>

lemma Run_later_okE:
  assumes "Run cx fn e w = (Inr y, w')"
  obtains cx' w0 w1 where "fn cx' e w0 = (Inr y, w1)" and "same_db w w0" and "same_db w1 w'"
    and "UserID cx' = UserID cx" and "w_tick w \<le> w_tick w0"
  using assms by (auto simp: Run_ok split: if_splits)

end
