(* ===== verification/Audit_Repo.thy ===== *)
theory Audit_Repo
  imports Tables
begin

text \<open>
  \<open>internal/repository/audit.go\<close> with the entry and filter types of
  \<open>internal/domain/repository/audit.go\<close>: writing an audit row, enriched from the request context,
  and the two listings of the activity log.
\<close>

section \<open>Writing\<close>

record AuditEntry =
  au_ActorUserID :: int
  au_ActorName :: string
  au_ActorRole :: string
  au_Action :: string
  au_EntityType :: string
  au_EntityID :: int
  au_EntityName :: string
  au_Summary :: string
  au_Changes :: "(string \<times> string) list"
  au_IPAddress :: string
  au_RequestID :: string
  au_CreatedAt :: time

text \<open>The composite literals of the use cases name some fields and leave the rest zero.\<close>

definition AuditEntry0 :: AuditEntry where
  "AuditEntry0 = \<lparr>au_ActorUserID = 0, au_ActorName = '''', au_ActorRole = '''', au_Action = '''',
     au_EntityType = '''', au_EntityID = 0, au_EntityName = '''', au_Summary = '''', au_Changes = [],
     au_IPAddress = '''', au_RequestID = '''', au_CreatedAt = 0\<rparr>"

definition enrich :: "ctx \<Rightarrow> AuditEntry \<Rightarrow> AuditEntry" where
  "enrich cx a =
     a\<lparr>au_ActorUserID := (if au_ActorUserID a = 0 then UserID cx else au_ActorUserID a),
       au_ActorRole := (if au_ActorRole a = '''' then Role cx else au_ActorRole a),
       au_RequestID := (if au_RequestID a = '''' then RequestID cx else au_RequestID a),
       au_IPAddress := (if au_IPAddress a = '''' then ClientIP cx else au_IPAddress a)\<rparr>"

definition audit_row :: "env \<Rightarrow> AuditEntry \<Rightarrow> time \<Rightarrow> int \<Rightarrow> auditRow" where
  "audit_row e a createdAt i =
     \<lparr>ar_ID = i,
      ar_ActorUserID = (if au_ActorUserID a \<noteq> 0 then Some (au_ActorUserID a) else None),
      ar_ActorName = au_ActorName a, ar_ActorRole = au_ActorRole a, ar_Action = au_Action a,
      ar_EntityType = au_EntityType a,
      ar_EntityID = (if au_EntityID a \<noteq> 0 then Some (au_EntityID a) else None),
      ar_EntityName = au_EntityName a, ar_Summary = au_Summary a,
      ar_Changes = (if au_Changes a \<noteq> [] then Some (changes_marshal e (au_Changes a)) else None),
      ar_IPAddress = au_IPAddress a, ar_RequestID = au_RequestID a, ar_CreatedAt = createdAt\<rparr>"

definition auditRepo_Write :: "ctx \<Rightarrow> AuditEntry \<Rightarrow> unit comp" where
  "auditRepo_Write cx a =
     (let a = enrich cx a in
      bind ask (\<lambda>e.
      bind (if au_CreatedAt a = 0 then now else ret (au_CreatedAt a)) (\<lambda>createdAt.
      bind (insert_row ''audit_log'' (\<lambda>i. audit_log_update (\<lambda>rs. rs @ [audit_row e a createdAt i]))) (\<lambda>_.
      ret ()))))"

section \<open>Listing\<close>

record AuditFilter =
  af_Search :: string
  af_Action :: string
  af_UserID :: "int option"
  af_EntityType :: string
  af_DateFrom :: string
  af_DateTo :: string
  af_Page :: int
  af_Limit :: int

record AuditLogRow =
  al_ID :: int
  al_UserID :: "int option"
  al_UserFullName :: "string option"
  al_UserRole :: "string option"
  al_Action :: string
  al_EntityType :: string
  al_EntityID :: "int option"
  al_EntityName :: "string option"
  al_Description :: "string option"
  al_Metadata :: "string option"
  al_IPAddress :: "string option"
  al_CreatedAt :: string

record AuditActor =
  ac_UserID :: int
  ac_UserFullName :: string
  ac_UserRole :: string

text \<open>Casting a text that is no date is an error of the statement.\<close>

definition date_arg :: "string \<Rightarrow> time option comp" where
  "date_arg s =
     (if s = '''' then ret None
      else bind ask (\<lambda>e. case pg_date e s of
             None \<Rightarrow> throw (DbError (PgError ''22007'' '''' ''''))
           | Some t \<Rightarrow> ret (Some t)))"

definition one_day :: time where
  "one_day = 86400000000000"

definition audit_where ::
  "env \<Rightarrow> AuditFilter \<Rightarrow> time option \<Rightarrow> time option \<Rightarrow> auditRow \<Rightarrow> bool" where
  "audit_where e f dateFrom dateTo r \<longleftrightarrow>
     (af_Search f = '''' \<or>
        (let like = ''%'' @ af_Search f @ ''%'' in
         pg_ilike e (ar_Action r) like \<or> pg_ilike e (ar_EntityName r) like \<or>
         pg_ilike e (ar_Summary r) like \<or> pg_ilike e (ar_ActorName r) like)) \<and>
     (af_Action f = '''' \<or> pg_ilike e (ar_Action r) (''%'' @ af_Action f @ ''%'')) \<and>
     (case af_UserID f of None \<Rightarrow> True | Some u \<Rightarrow> ar_ActorUserID r = Some u) \<and>
     (af_EntityType f = '''' \<or> ar_EntityType r = af_EntityType f) \<and>
     (case dateFrom of None \<Rightarrow> True | Some t \<Rightarrow> t \<le> ar_CreatedAt r) \<and>
     (case dateTo of None \<Rightarrow> True | Some t \<Rightarrow> ar_CreatedAt r < t + one_day)"

definition nullif_empty :: "string \<Rightarrow> string option" where
  "nullif_empty s = (if s = '''' then None else Some s)"

definition coalesce :: "'a option \<Rightarrow> 'a option \<Rightarrow> 'a option" where
  "coalesce a b = (case a of None \<Rightarrow> b | Some x \<Rightarrow> Some x)"

definition audit_log_row :: "env \<Rightarrow> userTuple list \<Rightarrow> auditRow \<Rightarrow> AuditLogRow" where
  "audit_log_row e us r =
     (let u = (case ar_ActorUserID r of None \<Rightarrow> None | Some i \<Rightarrow> find (\<lambda>u. ur_ID u = i) us) in
      \<lparr>al_ID = ar_ID r, al_UserID = ar_ActorUserID r,
       al_UserFullName = coalesce (nullif_empty (ar_ActorName r)) (map_option ur_FullName u),
       al_UserRole = coalesce (nullif_empty (ar_ActorRole r)) (map_option ur_Role u),
       al_Action = ar_Action r, al_EntityType = ar_EntityType r, al_EntityID = ar_EntityID r,
       al_EntityName = Some (ar_EntityName r), al_Description = Some (ar_Summary r),
       al_Metadata = ar_Changes r, al_IPAddress = Some (ar_IPAddress r),
       al_CreatedAt = pg_text e (ar_CreatedAt r)\<rparr>)"

text \<open>The page and limit the listing falls back to, and the offset it computes in 64 bits.\<close>

definition audit_page :: "AuditFilter \<Rightarrow> int \<times> int" where
  "audit_page f =
     (let page = (if af_Page f \<le> 0 then 1 else af_Page f);
          limit = (if af_Limit f \<le> 0 \<or> 200 < af_Limit f then 50 else af_Limit f) in
      (limit, wrap64 ((page - 1) * limit)))"

definition auditRepo_ListLogs :: "AuditFilter \<Rightarrow> (AuditLogRow list \<times> int) comp" where
  "auditRepo_ListLogs f =
     bind ask (\<lambda>e.
     bind (date_arg (af_DateFrom f)) (\<lambda>dateFrom.
     bind (date_arg (af_DateTo f)) (\<lambda>dateTo.
     bind (query (\<lambda>d. count_where (audit_where e f dateFrom dateTo) (audit_log d))) (\<lambda>tot.
     case audit_page f of (limit, offset) \<Rightarrow>
       if offset < 0 then throw (DbError (PgError ''2201X'' '''' ''''))
       else
         bind (query (\<lambda>d. map (audit_log_row e (users d))
                 (limit_offset limit offset
                   (rev (sort_key ar_ID (filter (audit_where e f dateFrom dateTo) (audit_log d)))))))
           (\<lambda>rows. ret (rows, tot))))))"

definition auditRepo_ListActors :: "AuditActor list comp" where
  "auditRepo_ListActors =
     bind ask (\<lambda>e.
     query (\<lambda>d. sort_key (\<lambda>a. pg_rank e (ac_UserFullName a))
       (remdups (map (\<lambda>u. \<lparr>ac_UserID = ur_ID u, ac_UserFullName = ur_FullName u,
                              ac_UserRole = ur_Role u\<rparr>)
         (filter (\<lambda>u. list_ex (\<lambda>a. ar_ActorUserID a = Some (ur_ID u)) (audit_log d)) (users d))))))"

section \<open>Laws\<close>

interpretation audit_table: id_table audit_log audit_log_update ar_ID "''audit_log''"
  by unfold_locales simp

text \<open>
  A successful write appends one row and touches nothing else: \<open>audited\<close> is that relation, with
  the row's identity and time abstracted.
\<close>

definition audited :: "env \<Rightarrow> ctx \<Rightarrow> AuditEntry \<Rightarrow> db \<Rightarrow> db \<Rightarrow> bool" where
  "audited e cx a d d' \<longleftrightarrow>
     users d' = users d \<and> user_permissions d' = user_permissions d \<and> settings d' = settings d \<and>
     announcements d' = announcements d \<and> notifications d' = notifications d \<and>
     (\<exists>t i. audit_log d' = audit_log d @ [audit_row e (enrich cx a) t i])"



lemma auditRepo_Write_ok:
  assumes "auditRepo_Write cx a e w = (Inr u, w')"
  shows "audited e cx a (w_db w) (w_db w')" and "outside_db w w'"
    and "w_seq w' = (w_seq w)(''audit_log'' := w_seq w ''audit_log'' + 1)"
proof -
  from assms obtain t w1 i where
    w1: "(if au_CreatedAt (enrich cx a) = 0 then now else ret (au_CreatedAt (enrich cx a))) e w = (Inr t, w1)"
    and ins: "insert_row ''audit_log''
          (\<lambda>i. audit_log_update (\<lambda>rs. rs @ [audit_row e (enrich cx a) t i])) e w1 = (Inr i, w')"
    unfolding auditRepo_Write_def Let_def by (auto simp: bind_ok ask_ok ret_ok)
  from w1 have "w1 = w \<or> w1 = tick w" by (auto simp: ok_iff split: if_splits)
  with ins show "audited e cx a (w_db w) (w_db w')" and "outside_db w w'"
    and "w_seq w' = (w_seq w)(''audit_log'' := w_seq w ''audit_log'' + 1)"
    by (auto simp: insert_row_ok audited_def outside_db_def)
qed

lemma auditedD:
  assumes "audited e cx a d d'"
  shows "users d' = users d" and "user_permissions d' = user_permissions d"
    and "settings d' = settings d" and "announcements d' = announcements d"
    and "notifications d' = notifications d"
    and "length (audit_log d') = Suc (length (audit_log d))"
  using assms by (auto simp: audited_def)

lemma enrich_With [simp]: "enrich (With cx) a = enrich cx a"
  by (simp add: enrich_def)

lemma audited_With [simp]: "audited e (With cx) a = audited e cx a"
  by (simp add: audited_def fun_eq_iff)

lemma auditRepo_Write_effect [effects]:
  "auditRepo_Write cx a e w = (Inr u, w') \<Longrightarrow>
     audited e cx a (w_db w) (w_db w') \<and> outside_db w w' \<and>
     w_seq w' = (w_seq w)(''audit_log'' := w_seq w ''audit_log'' + 1)"
  using auditRepo_Write_ok by blast

lemma audit_row_enriched [simp]:
  "ar_Action (audit_row e (enrich cx a) t i) = au_Action a"
  "ar_ID (audit_row e a t i) = i"
  "ar_EntityID (audit_row e (enrich cx a) t i) = (if au_EntityID a \<noteq> 0 then Some (au_EntityID a) else None)"
  "ar_RequestID (audit_row e (enrich cx a) t i) =
     (if au_RequestID a = '''' then RequestID cx else au_RequestID a)"
  "ar_ActorUserID (audit_row e (enrich cx a) t i) =
     (let u = (if au_ActorUserID a = 0 then UserID cx else au_ActorUserID a) in
      if u = 0 then None else Some u)"
  by (simp_all add: audit_row_def enrich_def Let_def)

end
