(* ===== verification/User_Repo.thy ===== *)
theory User_Repo
  imports Tables
begin

text \<open>
  \<open>internal/repository/user.go\<close>: the Postgres user repository. The record \<open>userRow\<close> is the Go
  row struct; the table's tuples extend it with the two password-reset columns. Since the row's
  \<open>DeletedAt\<close> is a plain \<open>*time.Time\<close>, GORM adds no soft-delete filter: only the queries that say
  \<open>deleted_at IS NULL\<close> exclude deleted users.
\<close>

section \<open>Rows and aggregates\<close>

definition employmentTypeOrDefault :: "string \<Rightarrow> string" where
  "employmentTypeOrDefault e = (if EmploymentType_Valid e then e else ''fulltime'')"

definition user_toDomain :: "'a userRow_scheme \<Rightarrow> user" where
  "user_toDomain r =
     \<lparr>usr_ID = ur_ID r, usr_Username = ur_Username r, usr_PasswordHash = ur_PasswordHash r,
      usr_FullName = ur_FullName r, usr_Email = ur_Email r, usr_Phone = ur_Phone r,
      usr_Role = ur_Role r, usr_Status = ur_Status r, usr_StaffCode = ur_StaffCode r,
      usr_AvatarURL = ur_AvatarURL r, usr_ForcePasswordChange = ur_ForcePasswordChange r,
      usr_EmploymentType = ur_EmploymentType r, usr_CreatedAt = ur_CreatedAt r,
      usr_UpdatedAt = ur_UpdatedAt r, usr_CreatedBy = ur_CreatedBy r,
      usr_UpdatedBy = ur_UpdatedBy r, usr_DeletedAt = ur_DeletedAt r\<rparr>"

text \<open>The row \<open>Create\<close> inserts, under the id the database assigns.\<close>

definition new_user_tuple :: "user \<Rightarrow> int \<Rightarrow> userTuple" where
  "new_user_tuple u i =
     \<lparr>ur_ID = i, ur_Username = usr_Username u, ur_PasswordHash = usr_PasswordHash u,
      ur_FullName = usr_FullName u, ur_Email = usr_Email u, ur_Phone = usr_Phone u,
      ur_Role = usr_Role u, ur_Status = usr_Status u, ur_StaffCode = usr_StaffCode u,
      ur_AvatarURL = usr_AvatarURL u, ur_ForcePasswordChange = usr_ForcePasswordChange u,
      ur_EmploymentType = employmentTypeOrDefault (usr_EmploymentType u),
      ur_CreatedAt = usr_CreatedAt u, ur_UpdatedAt = usr_UpdatedAt u,
      ur_CreatedBy = usr_CreatedBy u, ur_UpdatedBy = usr_UpdatedBy u, ur_DeletedAt = None,
      password_reset_token_hash = None, password_reset_expires_at = None\<rparr>"

text \<open>The columns \<open>Update\<close> writes.\<close>

definition set_user_columns :: "user \<Rightarrow> userTuple \<Rightarrow> userTuple" where
  "set_user_columns u r =
     r\<lparr>ur_Username := usr_Username u, ur_PasswordHash := usr_PasswordHash u,
       ur_FullName := usr_FullName u, ur_Email := usr_Email u, ur_Phone := usr_Phone u,
       ur_Role := usr_Role u, ur_Status := usr_Status u, ur_StaffCode := usr_StaffCode u,
       ur_AvatarURL := usr_AvatarURL u, ur_ForcePasswordChange := usr_ForcePasswordChange u,
       ur_EmploymentType := employmentTypeOrDefault (usr_EmploymentType u),
       ur_UpdatedAt := usr_UpdatedAt u, ur_UpdatedBy := usr_UpdatedBy u,
       ur_DeletedAt := usr_DeletedAt u\<rparr>"

section \<open>Operations\<close>

definition userRepo_GetByID :: "int \<Rightarrow> user option comp" where
  "userRepo_GetByID i =
     query (\<lambda>d. map_option user_toDomain (first_row ur_ID (\<lambda>r. ur_ID r = i) (users d)))"

definition same_username :: "env \<Rightarrow> string \<Rightarrow> userTuple \<Rightarrow> bool" where
  "same_username e username r \<longleftrightarrow> pg_lower e (ur_Username r) = pg_lower e (TrimSpace username)"

definition userRepo_GetByUsername :: "string \<Rightarrow> user option comp" where
  "userRepo_GetByUsername username =
     bind ask (\<lambda>e.
     query (\<lambda>d. map_option user_toDomain (first_row ur_ID (same_username e username) (users d))))"

definition userRepo_ExistsByUsername :: "string \<Rightarrow> bool comp" where
  "userRepo_ExistsByUsername username =
     bind ask (\<lambda>e. query (\<lambda>d. 0 < count_where (same_username e username) (users d)))"

record user_list_filter =
  uf_Search :: string
  uf_Role :: string
  uf_Status :: string
  uf_Roles :: "string list"
  uf_Statuses :: "string list"
  uf_Page :: page

definition ilike_opt :: "env \<Rightarrow> string option \<Rightarrow> string \<Rightarrow> bool" where
  "ilike_opt e v pat = (case v of None \<Rightarrow> False | Some s \<Rightarrow> pg_ilike e s pat)"

definition user_list_where :: "env \<Rightarrow> user_list_filter \<Rightarrow> userTuple \<Rightarrow> bool" where
  "user_list_where e f r \<longleftrightarrow>
     ur_DeletedAt r = None \<and>
     (let s = TrimSpace (uf_Search f); like = ''%'' @ s @ ''%'' in
      s = '''' \<or> pg_ilike e (ur_Username r) like \<or> pg_ilike e (ur_FullName r) like \<or>
        ilike_opt e (ur_Email r) like) \<and>
     (if uf_Roles f \<noteq> [] then ur_Role r \<in> set (uf_Roles f)
      else uf_Role f = '''' \<or> ur_Role r = uf_Role f) \<and>
     (if uf_Statuses f \<noteq> [] then ur_Status r \<in> set (uf_Statuses f)
      else uf_Status f = '''' \<or> ur_Status r = uf_Status f)"

definition userRepo_List :: "user_list_filter \<Rightarrow> (user list \<times> int) comp" where
  "userRepo_List f =
     bind ask (\<lambda>e.
     bind (query (\<lambda>d. count_where (user_list_where e f) (users d))) (\<lambda>tot.
     bind (query (\<lambda>d. limit_offset (Size (uf_Page f)) (Offset (uf_Page f))
                    (sort_key ur_CreatedAt (filter (user_list_where e f) (users d))))) (\<lambda>rows.
     ret (map user_toDomain rows, tot))))"

definition userRepo_Create :: "user \<Rightarrow> user comp" where
  "userRepo_Create u =
     bind now (\<lambda>t.
     let u = (if usr_CreatedAt u = 0 then u\<lparr>usr_CreatedAt := t\<rparr> else u)\<lparr>usr_UpdatedAt := t\<rparr> in
     bind (insert_row ''users'' (\<lambda>i. users_update (\<lambda>rs. rs @ [new_user_tuple u i]))) (\<lambda>i.
     ret (u\<lparr>usr_ID := i\<rparr>)))"

definition userRepo_Update :: "user \<Rightarrow> user comp" where
  "userRepo_Update u =
     bind now (\<lambda>t.
     let u = u\<lparr>usr_UpdatedAt := t\<rparr> in
     bind (exec (users_update (update_where (\<lambda>r. ur_ID r = usr_ID u) (set_user_columns u)))) (\<lambda>_.
     ret u))"

definition userRepo_MustForcePasswordChange :: "int \<Rightarrow> bool comp" where
  "userRepo_MustForcePasswordChange i =
     query (\<lambda>d. case filter (\<lambda>r. ur_ID r = i \<and> ur_DeletedAt r = None) (users d) of
                  [] \<Rightarrow> False
                | r # _ \<Rightarrow> ur_ForcePasswordChange r)"

definition userRepo_SoftDelete :: "int \<Rightarrow> int \<Rightarrow> unit comp" where
  "userRepo_SoftDelete i actorID =
     bind now (\<lambda>t.
     exec (users_update (update_where (\<lambda>r. ur_ID r = i \<and> ur_DeletedAt r = None)
       (\<lambda>r. r\<lparr>ur_DeletedAt := Some t, ur_UpdatedAt := t, ur_UpdatedBy := actorID\<rparr>))))"

definition userRepo_StaffCodesWithPrefix :: "string \<Rightarrow> string list comp" where
  "userRepo_StaffCodesWithPrefix pre =
     bind ask (\<lambda>e.
     query (\<lambda>d. map (\<lambda>r. the (ur_StaffCode r))
       (filter (\<lambda>r. ilike_opt e (ur_StaffCode r) (pre @ ''%'')) (users d))))"

definition userRepo_SetResetToken :: "int \<Rightarrow> string \<Rightarrow> time option \<Rightarrow> unit comp" where
  "userRepo_SetResetToken userID tokenHash expiresAt =
     bind now (\<lambda>t.
     exec (users_update (update_where (\<lambda>r. ur_ID r = userID)
       (\<lambda>r. if tokenHash = ''''
             then r\<lparr>ur_UpdatedAt := t, password_reset_token_hash := None,
                    password_reset_expires_at := None\<rparr>
             else r\<lparr>ur_UpdatedAt := t, password_reset_token_hash := Some tokenHash,
                    password_reset_expires_at := expiresAt\<rparr>))))"

definition userRepo_FindByResetTokenHash :: "string \<Rightarrow> user option comp" where
  "userRepo_FindByResetTokenHash tokenHash =
     (if tokenHash = '''' then ret None
      else query_now (\<lambda>t d. map_option user_toDomain (first_row ur_ID
             (\<lambda>r. password_reset_token_hash r = Some tokenHash \<and>
                  (case password_reset_expires_at r of None \<Rightarrow> False | Some x \<Rightarrow> t < x) \<and>
                  ur_DeletedAt r = None) (users d))))"

section \<open>Laws\<close>

interpretation user_table: id_table users users_update ur_ID "''users''"
  by unfold_locales simp

lemma user_toDomain_simps [simp]:
  "usr_ID (user_toDomain r) = ur_ID r" "usr_Username (user_toDomain r) = ur_Username r"
  "usr_PasswordHash (user_toDomain r) = ur_PasswordHash r"
  "usr_Role (user_toDomain r) = ur_Role r" "usr_Status (user_toDomain r) = ur_Status r"
  "usr_FullName (user_toDomain r) = ur_FullName r" "usr_Email (user_toDomain r) = ur_Email r"
  "usr_DeletedAt (user_toDomain r) = ur_DeletedAt r"
  "usr_ForcePasswordChange (user_toDomain r) = ur_ForcePasswordChange r"
  by (simp_all add: user_toDomain_def)

lemma ur_ID_set_user_columns [simp]: "ur_ID (set_user_columns u r) = ur_ID r"
  by (simp add: set_user_columns_def)

lemma ur_ID_new_user_tuple [simp]: "ur_ID (new_user_tuple u i) = i"
  by (simp add: new_user_tuple_def)

text \<open>Storing an aggregate and reading it back: the round trip through the columns.\<close>

lemma toDomain_set_user_columns:
  "EmploymentType_Valid (usr_EmploymentType u) \<Longrightarrow> usr_ID u = ur_ID r \<Longrightarrow>
   usr_CreatedAt u = ur_CreatedAt r \<Longrightarrow> usr_CreatedBy u = ur_CreatedBy r \<Longrightarrow>
   user_toDomain (set_user_columns u r) = u"
  by (simp add: user_toDomain_def set_user_columns_def employmentTypeOrDefault_def)

lemma toDomain_new_user_tuple:
  "user_toDomain (new_user_tuple u i) =
     u\<lparr>usr_ID := i, usr_EmploymentType := employmentTypeOrDefault (usr_EmploymentType u),
       usr_DeletedAt := None\<rparr>"
  by (simp add: user_toDomain_def new_user_tuple_def)

section \<open>Effects\<close>

lemma userRepo_GetByID_effect [effects]:
  "userRepo_GetByID i e w = (Inr ou, w') \<Longrightarrow>
     ou = map_option user_toDomain (first_row ur_ID (\<lambda>r. ur_ID r = i) (users (w_db w))) \<and> same_db w w'"
  by (simp add: userRepo_GetByID_def ok_iff)

lemma userRepo_GetByUsername_effect [effects]:
  "userRepo_GetByUsername n e w = (Inr ou, w') \<Longrightarrow>
     ou = map_option user_toDomain (first_row ur_ID (same_username e n) (users (w_db w))) \<and> same_db w w'"
  by (simp add: userRepo_GetByUsername_def ok_iff)

lemma userRepo_ExistsByUsername_effect [effects]:
  "userRepo_ExistsByUsername n e w = (Inr b, w') \<Longrightarrow>
     b = (\<exists>r \<in> set (users (w_db w)). same_username e n r) \<and> same_db w w'"
  by (auto simp: userRepo_ExistsByUsername_def ok_iff count_where_def filter_empty_conv
      length_greater_0_conv [symmetric] simp del: length_greater_0_conv)

lemma userRepo_Create_effect [effects]:
  assumes "userRepo_Create u e w = (Inr u', w')"
  shows "\<exists>t. u' = u\<lparr>usr_ID := w_seq w ''users'' + 1,
            usr_CreatedAt := (if usr_CreatedAt u = 0 then t else usr_CreatedAt u), usr_UpdatedAt := t\<rparr> \<and>
     w_db w' = (w_db w)\<lparr>users := users (w_db w) @ [new_user_tuple u' (usr_ID u')]\<rparr> \<and>
     w_seq w' = (w_seq w)(''users'' := usr_ID u') \<and> outside_db w w'"
proof -
  have "new_user_tuple (v\<lparr>usr_ID := j\<rparr>) i = new_user_tuple v i" for v i j
    by (simp add: new_user_tuple_def)
  with assms show ?thesis
    by (intro exI [of _ "clock e (w_tick w)"]) (auto simp: userRepo_Create_def Let_def ok_iff)
qed

lemma userRepo_Update_effect [effects]:
  "userRepo_Update u e w = (Inr u', w') \<Longrightarrow>
     \<exists>t. u' = u\<lparr>usr_UpdatedAt := t\<rparr> \<and>
     w_db w' = (w_db w)\<lparr>users := update_where (\<lambda>r. ur_ID r = usr_ID u) (set_user_columns u')
                                (users (w_db w))\<rparr> \<and>
     w_seq w' = w_seq w \<and> outside_db w w'"
  by (intro exI [of _ "clock e (w_tick w)"]) (auto simp: userRepo_Update_def Let_def ok_iff)

lemma userRepo_SoftDelete_effect [effects]:
  "userRepo_SoftDelete i actor e w = (Inr u, w') \<Longrightarrow>
     \<exists>t. w_db w' = (w_db w)\<lparr>users := update_where (\<lambda>r. ur_ID r = i \<and> ur_DeletedAt r = None)
       (\<lambda>r. r\<lparr>ur_DeletedAt := Some t, ur_UpdatedAt := t, ur_UpdatedBy := actor\<rparr>) (users (w_db w))\<rparr> \<and>
     w_seq w' = w_seq w \<and> outside_db w w'"
  by (intro exI [of _ "clock e (w_tick w)"]) (auto simp: userRepo_SoftDelete_def ok_iff)

end
