(* ===== verification/Perm_Repo.thy ===== *)
theory Perm_Repo
  imports User_Repo
begin

text \<open>
  \<open>internal/repository/permission.go\<close> with the aggregate of \<open>internal/domain/model/permission.go\<close>:
  permission rows hold the map as JSON text, marshalled and unmarshalled at the boundary.
\<close>

record UserPermission =
  up_ID :: int
  up_UserID :: int
  up_PermissionCount :: int
  up_Permissions :: pmap
  up_CreatedAt :: time
  up_UpdatedAt :: time
  up_CreatedBy :: int
  up_UpdatedBy :: int
  up_UserFullName :: string
  up_UserUsername :: string
  up_UserStaffCode :: "string option"

definition UserPermission0 :: UserPermission where
  "UserPermission0 = \<lparr>up_ID = 0, up_UserID = 0, up_PermissionCount = 0, up_Permissions = [],
     up_CreatedAt = 0, up_UpdatedAt = 0, up_CreatedBy = 0, up_UpdatedBy = 0, up_UserFullName = '''',
     up_UserUsername = '''', up_UserStaffCode = None\<rparr>"

definition perm_toDomain :: "env \<Rightarrow> userPermissionRow \<Rightarrow> UserPermission" where
  "perm_toDomain e r =
     UserPermission0\<lparr>up_ID := pr_ID r, up_UserID := pr_UserID r,
       up_PermissionCount := pr_PermissionCount r, up_CreatedAt := pr_CreatedAt r,
       up_UpdatedAt := pr_UpdatedAt r, up_CreatedBy := pr_CreatedBy r, up_UpdatedBy := pr_UpdatedBy r,
       up_Permissions := (if pr_Permissions r \<noteq> '''' then perm_unmarshal e (pr_Permissions r) else [])\<rparr>"

definition permRepo_GetByID :: "int \<Rightarrow> UserPermission option comp" where
  "permRepo_GetByID i =
     bind ask (\<lambda>e.
     query (\<lambda>d. map_option (perm_toDomain e) (first_row pr_ID (\<lambda>r. pr_ID r = i) (user_permissions d))))"

definition permRepo_GetByUserID :: "int \<Rightarrow> UserPermission option comp" where
  "permRepo_GetByUserID userID =
     bind ask (\<lambda>e.
     query (\<lambda>d. map_option (perm_toDomain e)
       (first_row pr_ID (\<lambda>r. pr_UserID r = userID) (user_permissions d))))"

record perm_list_filter =
  pf_Search :: string
  pf_UserID :: "int option"
  pf_Page :: page

text \<open>A row of \<open>user_permissions up LEFT JOIN users u ON u.id = up.user_id\<close>.\<close>

definition join_user :: "userTuple list \<Rightarrow> userPermissionRow \<Rightarrow> userPermissionRow \<times> userTuple option" where
  "join_user us r = (r, find (\<lambda>u. ur_ID u = pr_UserID r) us)"

definition perm_list_where ::
  "env \<Rightarrow> perm_list_filter \<Rightarrow> userPermissionRow \<times> userTuple option \<Rightarrow> bool" where
  "perm_list_where e f j \<longleftrightarrow>
     (case j of (r, ou) \<Rightarrow>
       (let s = TrimSpace (pf_Search f); like = ''%'' @ s @ ''%'' in
        s = '''' \<or>
        (case ou of None \<Rightarrow> False
         | Some u \<Rightarrow> pg_ilike e (ur_Username u) like \<or> pg_ilike e (ur_FullName u) like \<or>
                    ilike_opt e (ur_StaffCode u) like)) \<and>
       (case pf_UserID f of None \<Rightarrow> True | Some i \<Rightarrow> 0 < i \<longrightarrow> pr_UserID r = i))"

definition joined_toDomain :: "env \<Rightarrow> userPermissionRow \<times> userTuple option \<Rightarrow> UserPermission" where
  "joined_toDomain e j =
     (case j of (r, ou) \<Rightarrow>
       (perm_toDomain e r)
         \<lparr>up_UserFullName := (case ou of None \<Rightarrow> '''' | Some u \<Rightarrow> ur_FullName u),
          up_UserUsername := (case ou of None \<Rightarrow> '''' | Some u \<Rightarrow> ur_Username u),
          up_UserStaffCode := (case ou of None \<Rightarrow> None | Some u \<Rightarrow> ur_StaffCode u)\<rparr>)"

definition permRepo_List :: "perm_list_filter \<Rightarrow> (UserPermission list \<times> int) comp" where
  "permRepo_List f =
     bind ask (\<lambda>e.
     bind (query (\<lambda>d. count_where (perm_list_where e f)
                    (map (join_user (users d)) (user_permissions d)))) (\<lambda>tot.
     bind (query (\<lambda>d. limit_offset (Size (pf_Page f)) (Offset (pf_Page f))
                    (sort_key (\<lambda>j. - pr_CreatedAt (fst j))
                      (filter (perm_list_where e f)
                        (map (join_user (users d)) (user_permissions d)))))) (\<lambda>rows.
     ret (map (joined_toDomain e) rows, tot))))"

definition perm_row :: "env \<Rightarrow> UserPermission \<Rightarrow> int \<Rightarrow> userPermissionRow" where
  "perm_row e up i =
     \<lparr>pr_ID = i, pr_UserID = up_UserID up, pr_PermissionCount = up_PermissionCount up,
      pr_Permissions = perm_marshal e (up_Permissions up), pr_CreatedAt = up_CreatedAt up,
      pr_UpdatedAt = up_UpdatedAt up, pr_CreatedBy = up_CreatedBy up, pr_UpdatedBy = up_UpdatedBy up\<rparr>"

definition permRepo_Create :: "UserPermission \<Rightarrow> UserPermission comp" where
  "permRepo_Create up =
     bind ask (\<lambda>e.
     bind now (\<lambda>t.
     let up = (if up_CreatedAt up = 0 then up\<lparr>up_CreatedAt := t\<rparr> else up)\<lparr>up_UpdatedAt := t\<rparr> in
     bind (insert_row ''user_permissions''
             (\<lambda>i. user_permissions_update (\<lambda>rs. rs @ [perm_row e up i]))) (\<lambda>i.
     ret (up\<lparr>up_ID := i\<rparr>))))"

definition set_perm_columns :: "env \<Rightarrow> UserPermission \<Rightarrow> userPermissionRow \<Rightarrow> userPermissionRow" where
  "set_perm_columns e up r =
     r\<lparr>pr_PermissionCount := up_PermissionCount up,
       pr_Permissions := perm_marshal e (up_Permissions up),
       pr_UpdatedAt := up_UpdatedAt up, pr_UpdatedBy := up_UpdatedBy up\<rparr>"

definition permRepo_Update :: "UserPermission \<Rightarrow> UserPermission comp" where
  "permRepo_Update up =
     bind ask (\<lambda>e.
     bind now (\<lambda>t.
     let up = up\<lparr>up_UpdatedAt := t\<rparr> in
     bind (exec (user_permissions_update
             (update_where (\<lambda>r. pr_ID r = up_ID up) (set_perm_columns e up)))) (\<lambda>_.
     ret up)))"

definition permRepo_Delete :: "int \<Rightarrow> unit comp" where
  "permRepo_Delete i = exec (user_permissions_update (delete_where (\<lambda>r. pr_ID r = i)))"

definition permRepo_HasPermission :: "int \<Rightarrow> string \<Rightarrow> string \<Rightarrow> bool comp" where
  "permRepo_HasPermission userID resource action =
     bind (permRepo_GetByUserID userID) (\<lambda>oup.
     case oup of
       None \<Rightarrow> ret False
     | Some up \<Rightarrow> ret (HasAction (up_Permissions up) resource action))"

section \<open>Laws\<close>

interpretation perm_table: id_table user_permissions user_permissions_update pr_ID "''user_permissions''"
  by unfold_locales simp

text \<open>
  What the code relies on of \<open>encoding/json\<close> and the \<open>jsonb\<close> column: writing a map whose entries
  have ASCII keys and reading it back gives a map with the same lookups, what is written is never
  the empty text, and what is read has distinct keys. (Keys that are not valid UTF-8 would be
  replaced by the encoder, so nothing is said of them.)
\<close>

definition ascii_cells :: "pmap \<Rightarrow> bool" where
  "ascii_cells p \<longleftrightarrow> (\<forall>r a. plookup p r a \<noteq> None \<longrightarrow> is_ascii r \<and> is_ascii a)"

definition json_ok :: "env \<Rightarrow> bool" where
  "json_ok e \<longleftrightarrow>
     (\<forall>p. wf_pmap p \<longrightarrow> ascii_cells p \<longrightarrow>
        plookup (perm_unmarshal e (perm_marshal e p)) = plookup p) \<and>
     (\<forall>p. perm_marshal e p \<noteq> '''') \<and>
     (\<forall>s. wf_pmap (perm_unmarshal e s))"

lemma json_okD:
  "json_ok e \<Longrightarrow> wf_pmap p \<Longrightarrow> ascii_cells p \<Longrightarrow>
     plookup (perm_unmarshal e (perm_marshal e p)) = plookup p"
  "json_ok e \<Longrightarrow> perm_marshal e p \<noteq> ''''"
  "json_ok e \<Longrightarrow> wf_pmap (perm_unmarshal e s)"
  by (simp_all add: json_ok_def)

lemma declared_ascii: "declared r a \<Longrightarrow> is_ascii r \<and> is_ascii a"
  by (auto simp: declared_def PermissionsDefinitions_def is_ascii_def byte_def)

lemma ascii_cells_declared: "(\<And>r a. plookup p r a \<noteq> None \<Longrightarrow> declared r a) \<Longrightarrow> ascii_cells p"
  using declared_ascii by (auto simp: ascii_cells_def)

lemma ascii_cells_saved_matrix: "wf_pmap m \<Longrightarrow> ascii_cells (saved_matrix role m)"
  by (rule ascii_cells_declared)
    (auto simp: saved_matrix_def plookup_deny_unset_defaults plookup_filterValidPermissions
      split: if_splits dest: plookup_defaults_Some)

lemma ascii_cells_defaults: "ascii_cells (RoleDefaultPermissions role)"
  by (rule ascii_cells_declared) (rule RoleDefaultPermissions_granted [THEN conjunct2])

lemma ascii_cells_Nil [simp]: "ascii_cells []"
  by (simp add: ascii_cells_def)

lemma perm_toDomain_simps [simp]:
  "up_ID (perm_toDomain e r) = pr_ID r" "up_UserID (perm_toDomain e r) = pr_UserID r"
  "up_PermissionCount (perm_toDomain e r) = pr_PermissionCount r"
  by (simp_all add: perm_toDomain_def)

lemma pr_ID_set_perm_columns [simp]:
  "pr_ID (set_perm_columns e up r) = pr_ID r" "pr_UserID (set_perm_columns e up r) = pr_UserID r"
  by (simp_all add: set_perm_columns_def)

lemma perm_row_simps [simp]: "pr_ID (perm_row e up i) = i" "pr_UserID (perm_row e up i) = up_UserID up"
  by (simp_all add: perm_row_def)

lemma wf_toDomain: "json_ok e \<Longrightarrow> wf_pmap (up_Permissions (perm_toDomain e r))"
  by (simp add: perm_toDomain_def json_okD)

lemma plookup_row_toDomain:
  "json_ok e \<Longrightarrow> wf_pmap (up_Permissions up) \<Longrightarrow> ascii_cells (up_Permissions up) \<Longrightarrow>
     plookup (up_Permissions (perm_toDomain e (perm_row e up i))) = plookup (up_Permissions up)"
  "json_ok e \<Longrightarrow> wf_pmap (up_Permissions up) \<Longrightarrow> ascii_cells (up_Permissions up) \<Longrightarrow>
     plookup (up_Permissions (perm_toDomain e (set_perm_columns e up r))) = plookup (up_Permissions up)"
  by (simp_all add: perm_toDomain_def perm_row_def set_perm_columns_def json_okD)

section \<open>Effects\<close>

lemma permRepo_GetByID_effect [effects]:
  "permRepo_GetByID i e w = (Inr oup, w') \<Longrightarrow>
     oup = map_option (perm_toDomain e) (first_row pr_ID (\<lambda>r. pr_ID r = i) (user_permissions (w_db w)))
     \<and> same_db w w'"
  by (simp add: permRepo_GetByID_def ok_iff)

lemma permRepo_GetByUserID_effect [effects]:
  "permRepo_GetByUserID i e w = (Inr oup, w') \<Longrightarrow>
     oup = map_option (perm_toDomain e)
             (first_row pr_ID (\<lambda>r. pr_UserID r = i) (user_permissions (w_db w))) \<and> same_db w w'"
  by (simp add: permRepo_GetByUserID_def ok_iff)

lemma permRepo_Create_effect [effects]:
  assumes "permRepo_Create up e w = (Inr up', w')"
  shows "\<exists>t. up' = up\<lparr>up_ID := w_seq w ''user_permissions'' + 1,
            up_CreatedAt := (if up_CreatedAt up = 0 then t else up_CreatedAt up), up_UpdatedAt := t\<rparr> \<and>
     w_db w' = (w_db w)\<lparr>user_permissions := user_permissions (w_db w) @ [perm_row e up' (up_ID up')]\<rparr> \<and>
     w_seq w' = (w_seq w)(''user_permissions'' := up_ID up') \<and> outside_db w w'"
proof -
  have "perm_row e (v\<lparr>up_ID := j\<rparr>) i = perm_row e v i" for v i j
    by (simp add: perm_row_def)
  with assms show ?thesis
    by (intro exI [of _ "clock e (w_tick w)"]) (auto simp: permRepo_Create_def Let_def ok_iff)
qed

lemma permRepo_Update_effect [effects]:
  "permRepo_Update up e w = (Inr up', w') \<Longrightarrow>
     \<exists>t. up' = up\<lparr>up_UpdatedAt := t\<rparr> \<and>
     w_db w' = (w_db w)\<lparr>user_permissions := update_where (\<lambda>r. pr_ID r = up_ID up)
                          (set_perm_columns e up') (user_permissions (w_db w))\<rparr> \<and>
     w_seq w' = w_seq w \<and> outside_db w w'"
  by (intro exI [of _ "clock e (w_tick w)"]) (auto simp: permRepo_Update_def Let_def ok_iff)

lemma permRepo_Delete_effect [effects]:
  "permRepo_Delete i e w = (Inr u, w') \<Longrightarrow>
     w_db w' = (w_db w)\<lparr>user_permissions := delete_where (\<lambda>r. pr_ID r = i) (user_permissions (w_db w))\<rparr> \<and>
     w_seq w' = w_seq w \<and> outside_db w w'"
  by (simp add: permRepo_Delete_def ok_iff)

end
