(* ===== verification/Sample.thy ===== *)
theory Sample
  imports Perm_Repo
begin

text \<open>
  A concrete environment and world. No property depends on them: they show that the hypotheses on
  the environment can hold together, with every parameter instantiated by a function, and they are
  the input the witnesses evaluate the model at.
\<close>

section \<open>A codec for permission maps\<close>

fun enc_str :: "string \<Rightarrow> string" where
  "enc_str [] = ''.''"
| "enc_str (c # s) = CHR ''x'' # c # enc_str s"

fun dec_str :: "string \<Rightarrow> string \<times> string" where
  "dec_str (c # d # s) =
     (if c = CHR ''x'' then (d # fst (dec_str s), snd (dec_str s)) else ([], d # s))"
| "dec_str [c] = ([], [])"
| "dec_str [] = ([], [])"

fun enc_list :: "('a \<Rightarrow> string) \<Rightarrow> 'a list \<Rightarrow> string" where
  "enc_list f [] = ''.''"
| "enc_list f (x # xs) = CHR ''x'' # f x @ enc_list f xs"

fun dec_list :: "(string \<Rightarrow> 'a \<times> string) \<Rightarrow> nat \<Rightarrow> string \<Rightarrow> 'a list \<times> string" where
  "dec_list g 0 s = ([], s)"
| "dec_list g (Suc n) [] = ([], [])"
| "dec_list g (Suc n) (c # s) =
     (if c = CHR ''x''
      then (fst (g s) # fst (dec_list g n (snd (g s))), snd (dec_list g n (snd (g s))))
      else ([], s))"

definition enc_action :: "string \<times> bool \<Rightarrow> string" where
  "enc_action x = enc_str (fst x) @ (if snd x then ''1'' else ''0'')"

definition dec_action :: "string \<Rightarrow> (string \<times> bool) \<times> string" where
  "dec_action s = ((fst (dec_str s), take 1 (snd (dec_str s)) = ''1''), drop 1 (snd (dec_str s)))"

definition enc_row :: "string \<times> (string \<times> bool) list \<Rightarrow> string" where
  "enc_row x = enc_str (fst x) @ enc_list enc_action (snd x)"

definition dec_row :: "string \<Rightarrow> (string \<times> (string \<times> bool) list) \<times> string" where
  "dec_row s =
     (let t = snd (dec_str s); r = dec_list dec_action (length t) t in
      ((fst (dec_str s), fst r), snd r))"

definition sample_marshal :: "pmap \<Rightarrow> string" where
  "sample_marshal p = enc_list enc_row p"

definition sample_unmarshal :: "string \<Rightarrow> pmap" where
  "sample_unmarshal s =
     (let p = fst (dec_list dec_row (length s) s) in if wf_pmap p then p else [])"

lemma enc_str_nonempty [simp]: "enc_str s \<noteq> []"
  by (cases s) simp_all

lemma dec_enc_str: "dec_str (enc_str s @ t) = (s, t)"
proof (induction s)
  case Nil
  then show ?case by (cases t) simp_all
qed simp

lemma dec_enc_list:
  assumes "\<And>x t. g (f x @ t) = (x, t)" and "length (enc_list f xs) \<le> n"
  shows "dec_list g n (enc_list f xs @ t) = (xs, t)"
  using assms(2)
proof (induction xs arbitrary: n)
  case Nil
  then show ?case by (cases n) simp_all
next
  case (Cons x xs)
  then show ?case by (cases n) (simp_all add: assms(1))
qed

lemma dec_enc_action: "dec_action (enc_action x @ t) = (x, t)"
  by (cases x) (simp add: dec_action_def enc_action_def dec_enc_str)

lemma dec_enc_row: "dec_row (enc_row x @ t) = (x, t)"
  by (cases x) (simp add: dec_row_def enc_row_def dec_enc_str dec_enc_list dec_enc_action Let_def)

lemma sample_round_trip: "wf_pmap p \<Longrightarrow> sample_unmarshal (sample_marshal p) = p"
  using dec_enc_list [of dec_row enc_row p "length (sample_marshal p)" "[]"]
  by (simp add: sample_unmarshal_def sample_marshal_def dec_enc_row Let_def)

section \<open>A codec for tokens\<close>

definition enc_int :: "int \<Rightarrow> string" where
  "enc_int n = enc_str (replicate (nat n) (CHR ''i'')) @ enc_str (replicate (nat (- n)) (CHR ''i''))"

definition dec_int :: "string \<Rightarrow> int \<times> string" where
  "dec_int s =
     (let a = dec_str s; b = dec_str (snd a) in
      (int (length (fst a)) - int (length (fst b)), snd b))"

definition sample_jwt_encode :: "claims \<Rightarrow> string option" where
  "sample_jwt_encode c =
     Some (enc_int (cl_UserID c) @ enc_str (cl_Role c) @ enc_str (cl_ID c) @ enc_str (cl_Subject c) @
       enc_int (cl_IssuedAt c) @ (case cl_ExpiresAt c of None \<Rightarrow> '''' | Some x \<Rightarrow> CHR ''e'' # enc_int x))"

text \<open>Parsing also checks the expiry, as the library does.\<close>

definition sample_jwt_parse :: "time \<Rightarrow> string \<Rightarrow> claims option" where
  "sample_jwt_parse t s =
     (let (uid, s) = dec_int s; (role, s) = dec_str s; (jti, s) = dec_str s; (sub, s) = dec_str s;
          (iat, s) = dec_int s; x = (if s = '''' then None else Some (fst (dec_int (tl s)))) in
      if (case x of None \<Rightarrow> True | Some x \<Rightarrow> t < x * 1000000000)
      then Some \<lparr>cl_UserID = uid, cl_Role = role, cl_ID = jti, cl_IssuedAt = iat, cl_ExpiresAt = x,
                 cl_Subject = sub\<rparr>
      else None)"

lemma dec_enc_int: "dec_int (enc_int n @ t) = (n, t)"
  by (simp add: dec_int_def enc_int_def dec_enc_str Let_def)

lemma dec_enc_int_end: "dec_int (enc_int n) = (n, [])"
  using dec_enc_int [of n "[]"] by simp

lemma sample_jwt_round_trip:
  "sample_jwt_encode c = Some s \<Longrightarrow>
   sample_jwt_parse t s =
     (if case cl_ExpiresAt c of None \<Rightarrow> True | Some x \<Rightarrow> t < x * 1000000000 then Some c else None)"
  by (cases "cl_ExpiresAt c")
    (auto simp: sample_jwt_encode_def sample_jwt_parse_def dec_enc_int dec_enc_int_end dec_enc_str Let_def)

section \<open>The environment\<close>

definition sample_unicode :: unicode where
  "sample_unicode = \<lparr>u_lower = (\<lambda>s. s), u_upper = (\<lambda>s. s)\<rparr>"

definition sample_env :: env where
  "sample_env =
     \<lparr>fault = (\<lambda>_. None), net_fault = (\<lambda>_. None), clock = (\<lambda>n. 1000000000000 + int n),
      rand_int = (\<lambda>n m. Some (int n mod m)),
      rand_bytes = (\<lambda>n k. Some (replicate k (if even n then CHR ''a'' else CHR ''b''))),
      bcrypt_hash = (\<lambda>n s. if length s \<le> 72 then Some (''$2a$12$'' @ s) else None),
      bcrypt_cmp = (\<lambda>h s. h = ''$2a$12$'' @ s),
      sha256_hex = (\<lambda>s. ''sha'' @ s),
      jwt_encode = sample_jwt_encode, jwt_parse = sample_jwt_parse,
      unicode_tables = sample_unicode,
      db_text = (\<lambda>d. ''driver error''),
      pg_lower = map ascii_lower,
      pg_ilike = (\<lambda>s pat. Contains (map ascii_lower s) (filter (\<lambda>c. c \<noteq> CHR ''%'') (map ascii_lower pat))),
      pg_rank = (\<lambda>s. int (length s)),
      pg_date = (\<lambda>s. Some 0), pg_text = itoa,
      perm_marshal = sample_marshal, perm_unmarshal = sample_unmarshal,
      changes_marshal = (\<lambda>c. concat (map (\<lambda>(a, b). a @ ''='' @ b) c)),
      notification_marshal = (\<lambda>n. nt_Title n),
      parse_rfc3339 = (\<lambda>s. if s = '''' then None else Some 0),
      format_ict = itoa\<rparr>"

lemma sample_env_fields:
  "fault sample_env n = None" "net_fault sample_env n = None"
  "clock sample_env n = 1000000000000 + int n" "rand_int sample_env n m = Some (int n mod m)"
  "bcrypt_hash sample_env n s = (if length s \<le> 72 then Some (''$2a$12$'' @ s) else None)"
  "bcrypt_cmp sample_env h s \<longleftrightarrow> h = ''$2a$12$'' @ s" "sha256_hex sample_env s = ''sha'' @ s"
  "jwt_encode sample_env = sample_jwt_encode" "jwt_parse sample_env = sample_jwt_parse"
  "unicode_tables sample_env = sample_unicode" "pg_lower sample_env = map ascii_lower"
  by (simp_all add: sample_env_def)

lemma quiet_sample_env [simp]: "quiet sample_env"
  by (simp add: quiet_def sample_env_def)

lemma sample_marshal_nonempty: "sample_marshal p \<noteq> ''''"
  by (cases p) (simp_all add: sample_marshal_def)

lemma wf_sample_unmarshal: "wf_pmap (sample_unmarshal s)"
  by (simp add: sample_unmarshal_def Let_def)

lemma sample_env_codec [simp]: "perm_marshal sample_env = sample_marshal" "perm_unmarshal sample_env = sample_unmarshal"
  by (simp_all add: sample_env_def)

lemma json_ok_sample_env [simp]: "json_ok sample_env"
  by (simp add: json_ok_def sample_round_trip sample_marshal_nonempty wf_sample_unmarshal)

section \<open>The world\<close>

definition sample_user :: "int \<Rightarrow> string \<Rightarrow> string \<Rightarrow> userTuple" where
  "sample_user i name role =
     \<lparr>ur_ID = i, ur_Username = name, ur_PasswordHash = ''$2a$12$password'', ur_FullName = name,
      ur_Email = None, ur_Phone = None, ur_Role = role, ur_Status = UserStatusActive,
      ur_StaffCode = None, ur_AvatarURL = None, ur_ForcePasswordChange = False,
      ur_EmploymentType = ''fulltime'', ur_CreatedAt = 1, ur_UpdatedAt = 1, ur_CreatedBy = 0,
      ur_UpdatedBy = 0, ur_DeletedAt = None, password_reset_token_hash = None,
      password_reset_expires_at = None\<rparr>"

definition empty_db :: db where
  "empty_db = \<lparr>users = [], user_permissions = [], audit_log = [], settings = [],
     announcements = [], notifications = []\<rparr>"

definition sample_db :: db where
  "sample_db = empty_db\<lparr>users := [sample_user 1 ''root'' RoleAdmin, sample_user 2 ''mia'' RoleManager,
     sample_user 3 ''stan'' RoleStaff]\<rparr>"

definition sample_world :: world where
  "sample_world = \<lparr>w_db = sample_db, w_seq = (\<lambda>t. if t = ''users'' then 3 else 0), w_tick = 0, w_redis = [],
     w_outbox = [], w_published = [], w_objects = []\<rparr>"

text \<open>A request of user 1 outside any transaction.\<close>

definition sample_ctx :: ctx where
  "sample_ctx = WithRole (WithUserID background 1) RoleAdmin"

lemma sample_ctx_simps [simp]: "\<not> ctxKeyTx sample_ctx" "UserID sample_ctx = 1" "Role sample_ctx = RoleAdmin"
  by (simp_all add: sample_ctx_def background_def ctx_defs)

lemmas sample_defs = sample_world_def sample_db_def empty_db_def sample_user_def

end

