(* ===== verification/Use_Case.thy ===== *)
theory Use_Case
  imports Audit_Repo Sample
begin

text \<open>
  The contract of a mutating use case: its successful run appends exactly one audit row of its
  action, its failed run leaves the tables as they were. The locale \<open>audited_use_case\<close> states it
  and draws its consequences; the use-case theories interpret it on their operations. The rules
  collected in \<open>logs_intros\<close> derive the contract from the shape of a handler.
\<close>

section \<open>Calls that leave the audit log alone\<close>

definition same_log :: "world \<Rightarrow> world \<Rightarrow> bool" where
  "same_log w w' \<longleftrightarrow> audit_log (w_db w') = audit_log (w_db w)"

lemma frame_same_log [simp]: "frame same_log"
  by (auto simp: frame_def same_log_def)

lemma keeps_same_log_exec [keeps_intros]:
  "(\<And>d. audit_log (f d) = audit_log d) \<Longrightarrow> keeps same_log (exec f)"
  by (auto simp: keeps_def same_log_def exec_def stmt_def split: option.splits)

lemma keeps_same_log_insert [keeps_intros]:
  "(\<And>i d. audit_log (f i d) = audit_log d) \<Longrightarrow> keeps same_log (insert_row tbl f)"
  by (auto simp: keeps_def same_log_def insert_row_def Let_def split: option.splits)

lemma keeps_same_log_userRepo [keeps_intros]:
  "keeps same_log (userRepo_GetByID i)" "keeps same_log (userRepo_GetByUsername n)"
  "keeps same_log (userRepo_ExistsByUsername n)" "keeps same_log (userRepo_Create u)"
  "keeps same_log (userRepo_Update u)" "keeps same_log (userRepo_SoftDelete i actor)"
  "keeps same_log (userRepo_SetResetToken i h t)" "keeps same_log (userRepo_FindByResetTokenHash h)"
  unfolding userRepo_GetByID_def userRepo_GetByUsername_def userRepo_ExistsByUsername_def
    userRepo_Create_def userRepo_Update_def userRepo_SoftDelete_def userRepo_SetResetToken_def
    userRepo_FindByResetTokenHash_def
  by (intro keeps_intros frame_same_log; simp)+

lemma keeps_same_log_permRepo [keeps_intros]:
  "keeps same_log (permRepo_GetByID i)" "keeps same_log (permRepo_GetByUserID i)"
  "keeps same_log (permRepo_Create up)" "keeps same_log (permRepo_Update up)"
  "keeps same_log (permRepo_Delete i)"
  unfolding permRepo_GetByID_def permRepo_GetByUserID_def permRepo_Create_def permRepo_Update_def
    permRepo_Delete_def
  by (intro keeps_intros frame_same_log; simp)+

section \<open>Handlers that end with an audit row\<close>

definition logs :: "ctx \<Rightarrow> string \<Rightarrow> 'a comp \<Rightarrow> bool" where
  "logs cx action m \<longleftrightarrow>
     (\<forall>e w y w'. m e w = (Inr y, w') \<longrightarrow>
        (\<exists>a t i. au_Action a = action \<and>
           audit_log (w_db w') = audit_log (w_db w) @ [audit_row e (enrich cx a) t i]))"

named_theorems logs_intros

lemma logs_throw [logs_intros]: "logs cx action (throw err)"
  by (simp add: logs_def throw_def)

lemma logs_if [logs_intros]:
  "logs cx action m \<Longrightarrow> logs cx action m' \<Longrightarrow> logs cx action (if b then m else m')"
  by simp

lemma logs_case_option [logs_intros]:
  "logs cx action m \<Longrightarrow> (\<And>x. logs cx action (f x)) \<Longrightarrow>
     logs cx action (case ox of None \<Rightarrow> m | Some x \<Rightarrow> f x)"
  by (simp split: option.split)

lemma logs_case_sum [logs_intros]:
  "(\<And>x. logs cx action (f x)) \<Longrightarrow> (\<And>x. logs cx action (g x)) \<Longrightarrow>
     logs cx action (case s of Inl x \<Rightarrow> f x | Inr x \<Rightarrow> g x)"
  by (simp split: sum.split)

lemma logs_Let [logs_intros]: "(\<And>x. logs cx action (f x)) \<Longrightarrow> logs cx action (Let a f)"
  by simp

lemma logs_write:
  "au_Action a = action \<Longrightarrow> logs cx action (auditRepo_Write cx a)"
  unfolding logs_def audited_def by (auto dest!: auditRepo_Write_ok(1) simp: audited_def)

lemma logs_write_ret:
  assumes "au_Action a = action"
  shows "logs cx action (bind (auditRepo_Write cx a) (\<lambda>_. ret y))"
  using logs_write [OF assms] unfolding logs_def by (auto simp: bind_ok ret_ok)

lemma logs_bind:
  assumes "keeps same_log m" and "\<And>x. logs cx action (f x)"
  shows "logs cx action (bind m f)"
  unfolding logs_def
proof (intro allI impI)
  fix e w y w'
  assume "bind m f e w = (Inr y, w')"
  then obtain x w1 where m: "m e w = (Inr x, w1)" and f: "f x e w1 = (Inr y, w')"
    by (auto simp: bind_ok)
  from keepsD [OF assms(1) m] have "audit_log (w_db w1) = audit_log (w_db w)"
    by (simp add: same_log_def)
  with f assms(2) [of x]
  show "\<exists>a t i. au_Action a = action \<and>
      audit_log (w_db w') = audit_log (w_db w) @ [audit_row e (enrich cx a) t i]"
    unfolding logs_def by metis
qed

text \<open>Writes before binds: the tail call must be recognised as the audit row.\<close>

lemmas logs_rules = logs_write_ret logs_write logs_bind logs_intros

lemma logs_With [simp]: "logs (With cx) action m = logs cx action m"
  by (simp add: logs_def)

lemma logs_Run:
  assumes "\<And>cx. logs cx action (fn cx)"
  shows "logs cx action (Run cx fn)"
  using assms [of cx] assms [of "With cx"]
  unfolding logs_def by (auto simp: Run_ok split: if_splits) (metis enrich_With tick_simps(1))+

lemma logs_then:
  assumes "logs cx action m" and "\<And>x. keeps same_log (f x)"
  shows "logs cx action (bind m f)"
  unfolding logs_def
proof (intro allI impI)
  fix e w y w'
  assume "bind m f e w = (Inr y, w')"
  then obtain x w1 where m: "m e w = (Inr x, w1)" and f: "f x e w1 = (Inr y, w')"
    by (auto simp: bind_ok)
  from keepsD [OF assms(2) f] have "audit_log (w_db w') = audit_log (w_db w1)"
    by (simp add: same_log_def)
  with m assms(1)
  show "\<exists>a t i. au_Action a = action \<and>
      audit_log (w_db w') = audit_log (w_db w) @ [audit_row e (enrich cx a) t i]"
    unfolding logs_def by metis
qed

section \<open>Failed runs\<close>

text \<open>
  \<open>reverts m\<close>: a failed run of \<open>m\<close> leaves the tables as they were. \<open>Run\<close> has the property for any
  body; what precedes it only reads, and what follows it catches every error.
\<close>

definition same_tables :: "world \<Rightarrow> world \<Rightarrow> bool" where
  "same_tables w w' \<longleftrightarrow> w_db w' = w_db w"

lemma frame_same_tables [simp]: "frame same_tables"
  by (auto simp: frame_def same_tables_def)

definition reverts :: "'a comp \<Rightarrow> bool" where
  "reverts m \<longleftrightarrow> (\<forall>e w err w'. m e w = (Inl err, w') \<longrightarrow> w_db w' = w_db w)"

definition nofail :: "'a comp \<Rightarrow> bool" where
  "nofail m \<longleftrightarrow> (\<forall>e w. \<exists>y w'. m e w = (Inr y, w'))"

named_theorems reverts_intros

lemma revertsD: "reverts m \<Longrightarrow> m e w = (Inl err, w') \<Longrightarrow> w_db w' = w_db w"
  unfolding reverts_def by blast

lemma reverts_Run [reverts_intros]: "\<not> ctxKeyTx cx \<Longrightarrow> reverts (Run cx fn)"
  unfolding reverts_def by (blast dest: Run_error)

lemma reverts_keeps: "keeps same_tables m \<Longrightarrow> reverts m"
  unfolding reverts_def by (auto dest: keepsD simp: same_tables_def)

lemma reverts_throw [reverts_intros]: "reverts (throw err)"
  by (simp add: reverts_def throw_def)

lemma reverts_if [reverts_intros]: "reverts a \<Longrightarrow> reverts b \<Longrightarrow> reverts (if c then a else b)"
  by simp

lemma reverts_Let [reverts_intros]: "(\<And>x. reverts (f x)) \<Longrightarrow> reverts (Let a f)"
  by simp

lemma reverts_case_option [reverts_intros]:
  "reverts a \<Longrightarrow> (\<And>x. reverts (f x)) \<Longrightarrow> reverts (case ox of None \<Rightarrow> a | Some x \<Rightarrow> f x)"
  by (simp split: option.split)

lemma reverts_bind:
  assumes "keeps same_tables m" and "\<And>x. reverts (f x)"
  shows "reverts (bind m f)"
  unfolding reverts_def
proof (intro allI impI)
  fix e w err w'
  assume "bind m f e w = (Inl err, w')"
  then consider "m e w = (Inl err, w')" | x w1 where "m e w = (Inr x, w1)" "f x e w1 = (Inl err, w')"
    by (auto simp: bind_def split: prod.splits sum.splits)
  then show "w_db w' = w_db w"
    using keepsD [OF assms(1)] revertsD [OF assms(2)] by cases (fastforce simp: same_tables_def)+
qed

lemma nofail_ret [reverts_intros]: "nofail (ret x)"
  by (simp add: nofail_def ret_def)

lemma nofail_bind_attempt [reverts_intros]:
  assumes "\<And>r. nofail (f r)"
  shows "nofail (bind (attempt m) f)"
  using assms by (auto simp: nofail_def bind_def attempt_def split: prod.splits)

lemma nofail_bind_ignore [reverts_intros]:
  assumes "\<And>r. nofail (f r)"
  shows "nofail (bind (ignore m) f)"
  using assms by (auto simp: nofail_def bind_def ignore_def split: prod.splits)

lemma nofail_case_sum [reverts_intros]:
  "(\<And>x. nofail (f x)) \<Longrightarrow> (\<And>x. nofail (g x)) \<Longrightarrow> nofail (case s of Inl x \<Rightarrow> f x | Inr x \<Rightarrow> g x)"
  by (simp split: sum.split)

lemma nofail_case_option [reverts_intros]:
  "nofail a \<Longrightarrow> (\<And>x. nofail (f x)) \<Longrightarrow> nofail (case ox of None \<Rightarrow> a | Some x \<Rightarrow> f x)"
  by (simp split: option.split)

lemma nofail_if [reverts_intros]: "nofail a \<Longrightarrow> nofail b \<Longrightarrow> nofail (if c then a else b)"
  by simp

lemma nofail_Let [reverts_intros]: "(\<And>x. nofail (f x)) \<Longrightarrow> nofail (Let a f)"
  by simp

lemma reverts_then:
  assumes "reverts m" and "\<And>x. nofail (f x)"
  shows "reverts (bind m f)"
  unfolding reverts_def
proof (intro allI impI)
  fix e w err w'
  assume r: "bind m f e w = (Inl err, w')"
  have "m e w = (Inl err, w')"
  proof (cases "m e w")
    case (Pair r w1)
    with r assms(2) show ?thesis
      by (cases r) (auto simp: bind_def nofail_def, metis Inr_not_Inl prod.inject)
  qed
  then show "w_db w' = w_db w" by (rule revertsD [OF assms(1)])
qed

section \<open>The contract\<close>

text \<open>The row of an action; its request id is missing only when the request had none (\<open>rid\<close>).\<close>

definition entry_of :: "string \<Rightarrow> string \<Rightarrow> auditRow \<Rightarrow> bool" where
  "entry_of action rid row \<longleftrightarrow> ar_Action row = action \<and> (ar_RequestID row \<noteq> '''' \<or> rid = '''')"

definition atomic_audited :: "string \<Rightarrow> (ctx \<Rightarrow> 'a comp) \<Rightarrow> bool" where
  "atomic_audited action op \<longleftrightarrow>
     (\<forall>cx e w. \<not> ctxKeyTx cx \<longrightarrow>
        (case op cx e w of
           (Inl err, w') \<Rightarrow> w_db w' = w_db w
         | (Inr y, w') \<Rightarrow>
             \<exists>row. audit_log (w_db w') = audit_log (w_db w) @ [row] \<and> entry_of action (RequestID cx) row))"

locale audited_use_case =
  fixes op :: "ctx \<Rightarrow> 'a comp"
    and action :: string
  assumes success_logs: "logs cx action (op cx)"
    and failure_reverts: "\<not> ctxKeyTx cx \<Longrightarrow> op cx e w = (Inl err, w') \<Longrightarrow> w_db w' = w_db w"
begin

lemma success_row:
  assumes "op cx e w = (Inr y, w')"
  obtains r where "audit_log (w_db w') = audit_log (w_db w) @ [r]" and "ar_Action r = action"
    and "ar_RequestID r \<noteq> '''' \<or> RequestID cx = ''''"
proof -
  from assms success_logs obtain a t i where a: "au_Action a = action"
    and "audit_log (w_db w') = audit_log (w_db w) @ [audit_row e (enrich cx a) t i]"
    unfolding logs_def by blast
  then show thesis by (intro that [of "audit_row e (enrich cx a) t i"]) simp_all
qed

lemma atomic: "atomic_audited action op"
  unfolding atomic_audited_def
  by (auto simp: entry_of_def split: prod.splits sum.splits dest: failure_reverts elim: success_row)

lemma log_length:
  "\<not> ctxKeyTx cx \<Longrightarrow>
   length (audit_log (w_db (snd (op cx e w)))) =
     length (audit_log (w_db w)) + (case fst (op cx e w) of Inl _ \<Rightarrow> 0 | Inr _ \<Rightarrow> 1)"
proof (cases "op cx e w")
  case (Pair r w')
  assume "\<not> ctxKeyTx cx"
  with Pair show ?thesis
    by (cases r) (auto dest: failure_reverts elim!: success_row)
qed

lemma log_append_only:
  "\<not> ctxKeyTx cx \<Longrightarrow> prefix (audit_log (w_db w)) (audit_log (w_db (snd (op cx e w))))"
proof (cases "op cx e w")
  case (Pair r w')
  assume "\<not> ctxKeyTx cx"
  with Pair show ?thesis
    by (cases r) (auto dest: failure_reverts elim!: success_row)
qed

end

end
