(* ===== verification/User_UC.thy ===== *)
theory User_UC
  imports Use_Case
begin

text \<open>
  \<open>internal/usecase/user.go\<close>, administration of accounts: \<open>Get\<close>, \<open>List\<close>, \<open>Create\<close>, \<open>Update\<close>,
  \<open>ResetPassword\<close>, \<open>ToggleStatus\<close>, \<open>UpdateProfile\<close>, \<open>NextStaffCode\<close>, \<open>UploadAvatar\<close>, with
  \<open>pkg/xcrypto/password.go\<close> and \<open>internal/usecase/avatar.go\<close>. Lengths of passwords are in bytes.
\<close>

section \<open>Passwords\<close>

definition minPasswordLen :: nat where
  "minPasswordLen = 8"

definition HashPassword :: "string \<Rightarrow> string comp" where
  "HashPassword plain e w =
     (case bcrypt_hash e (w_tick w) plain of
        None \<Rightarrow> (Inl (Plain ''bcrypt: password length exceeds 72 bytes''), tick w)
      | Some h \<Rightarrow> (Inr h, tick w))"

definition ComparePassword :: "env \<Rightarrow> string \<Rightarrow> string \<Rightarrow> bool" where
  "ComparePassword e plain hash = bcrypt_cmp e hash plain"

definition password_too_short :: gerr where
  "password_too_short = BadRequestErrorf (''mat khau phai co it nhat '' @ itoa (int minPasswordLen) @ '' ky tu'')"

section \<open>Inputs\<close>

definition trimPtr :: "string option \<Rightarrow> string option" where
  "trimPtr p = (case p of None \<Rightarrow> None | Some v \<Rightarrow>
     (let s = TrimSpace v in if s = '''' then None else Some s))"

definition upperPtr :: "unicode \<Rightarrow> string option \<Rightarrow> string option" where
  "upperPtr U p = (case p of None \<Rightarrow> None | Some v \<Rightarrow>
     (let s = ToUpper U (TrimSpace v) in if s = '''' then None else Some s))"

record CreateUserInput =
  ci_Username :: string
  ci_Password :: string
  ci_FullName :: string
  ci_Email :: "string option"
  ci_Phone :: "string option"
  ci_StaffCode :: "string option"
  ci_Role :: string
  ci_EmploymentType :: string
  ci_ForcePasswordChange :: bool

record UpdateUserInput =
  ui_FullName :: "string option"
  ui_Email :: "string option"
  ui_Phone :: "string option"
  ui_Role :: "string option"
  ui_StaffCode :: "string option"
  ui_EmploymentType :: "string option"

record UpdateProfileInput =
  pi_FullName :: "string option"
  pi_Email :: "string option"
  pi_Phone :: "string option"
  pi_AvatarURL :: "string option"
  pi_Password :: "string option"
  pi_CurrentPassword :: "string option"

text \<open>The zero \<open>model.User\<close>, which the composite literals fill in.\<close>

definition User0 :: user where
  "User0 = \<lparr>usr_ID = 0, usr_Username = '''', usr_PasswordHash = '''', usr_FullName = '''',
     usr_Email = None, usr_Phone = None, usr_Role = '''', usr_Status = '''', usr_StaffCode = None,
     usr_AvatarURL = None, usr_ForcePasswordChange = False, usr_EmploymentType = '''',
     usr_CreatedAt = 0, usr_UpdatedAt = 0, usr_CreatedBy = 0, usr_UpdatedBy = 0,
     usr_DeletedAt = None\<rparr>"

definition user_audit :: "string \<Rightarrow> user \<Rightarrow> string \<Rightarrow> AuditEntry" where
  "user_audit action u summary =
     AuditEntry0\<lparr>au_Action := action, au_EntityType := ''user'', au_EntityID := usr_ID u,
       au_EntityName := usr_Username u, au_Summary := summary\<rparr>"

text \<open>\<open>xhttp.InternalErrorf(...).Wrap(err)\<close> on a failing call.\<close>

definition wrap_internal :: "string \<Rightarrow> 'a comp \<Rightarrow> 'a comp" where
  "wrap_internal msg m =
     bind (attempt m) (\<lambda>r.
     case r of Inl err \<Rightarrow> throw (Wrap (InternalErrorf msg) err) | Inr x \<Rightarrow> ret x)"

lemma wrap_internal_ok: "wrap_internal msg m e w = (Inr x, w') \<longleftrightarrow> m e w = (Inr x, w')"
  by (auto simp: wrap_internal_def bind_def attempt_def throw_def ret_def split: prod.splits sum.splits)

section \<open>Operations\<close>

definition not_found_user :: "int \<Rightarrow> gerr" where
  "not_found_user i = NotFoundErrorf (''khong tim thay nguoi dung '' @ itoa i)"

definition userUC_Get :: "int \<Rightarrow> user comp" where
  "userUC_Get i =
     bind (userRepo_GetByID i) (\<lambda>ouser.
     case ouser of None \<Rightarrow> throw (not_found_user i) | Some user \<Rightarrow> ret user)"

definition userUC_List :: "user_list_filter \<Rightarrow> (user list \<times> int) comp" where
  "userUC_List f = userRepo_List f"

text \<open>Role-default permissions of a fresh account (\<open>Create\<close> and \<open>Invite\<close>).\<close>

definition seed_permissions :: "user \<Rightarrow> string \<Rightarrow> int \<Rightarrow> unit comp" where
  "seed_permissions user role actor =
     (if role \<noteq> RoleAdmin then
        (let defaults = RoleDefaultPermissions role in
         bind (permRepo_Create (UserPermission0\<lparr>up_UserID := usr_ID user, up_Permissions := defaults,
                 up_PermissionCount := Count defaults, up_CreatedBy := actor, up_UpdatedBy := actor\<rparr>))
           (\<lambda>_. ret ()))
      else ret ())"

definition userUC_Create :: "CreateUserInput \<Rightarrow> ctx \<Rightarrow> user comp" where
  "userUC_Create inp cx =
     (let username = TrimSpace (ci_Username inp); role = ci_Role inp in
      if username = '''' \<or> TrimSpace (ci_FullName inp) = '''' then
        throw (BadRequestErrorf ''username va full_name la bat buoc'')
      else if length (ci_Password inp) < minPasswordLen then throw password_too_short
      else if \<not> Role_Valid role then throw (BadRequestErrorf ''role khong hop le'')
      else Run cx (\<lambda>cx.
        bind (userRepo_ExistsByUsername username) (\<lambda>exists.
        if exists then throw (ConflictErrorf ''username da ton tai'')
        else
          bind (HashPassword (ci_Password inp)) (\<lambda>hash.
          bind ask (\<lambda>e.
          let actor = UserID cx;
              user = User0\<lparr>usr_Username := username, usr_PasswordHash := hash,
                usr_FullName := TrimSpace (ci_FullName inp), usr_Email := trimPtr (ci_Email inp),
                usr_Phone := trimPtr (ci_Phone inp), usr_Role := role,
                usr_Status := UserStatusActive,
                usr_StaffCode := upperPtr (unicode_tables e) (ci_StaffCode inp),
                usr_EmploymentType := ci_EmploymentType inp,
                usr_ForcePasswordChange := ci_ForcePasswordChange inp,
                usr_CreatedBy := actor, usr_UpdatedBy := actor\<rparr> in
          bind (userRepo_Create user) (\<lambda>user.
          bind (seed_permissions user role actor) (\<lambda>_.
          bind (auditRepo_Write cx (user_audit AuditUserCreated user
                  (''tao nguoi dung '' @ usr_Username user))) (\<lambda>_.
          ret user))))))))"

definition apply_update :: "unicode \<Rightarrow> UpdateUserInput \<Rightarrow> user \<Rightarrow> user" where
  "apply_update U inp user =
     (let user = (case ui_FullName inp of
                    Some n \<Rightarrow> if TrimSpace n \<noteq> '''' then user\<lparr>usr_FullName := TrimSpace n\<rparr> else user
                  | None \<Rightarrow> user);
          user = (if ui_Email inp \<noteq> None then user\<lparr>usr_Email := trimPtr (ui_Email inp)\<rparr> else user);
          user = (if ui_Phone inp \<noteq> None then user\<lparr>usr_Phone := trimPtr (ui_Phone inp)\<rparr> else user);
          user = (case ui_Role inp of Some r \<Rightarrow> user\<lparr>usr_Role := r\<rparr> | None \<Rightarrow> user);
          user = (if ui_StaffCode inp \<noteq> None
                  then user\<lparr>usr_StaffCode := upperPtr U (ui_StaffCode inp)\<rparr> else user) in
      case ui_EmploymentType inp of
        Some t \<Rightarrow> user\<lparr>usr_EmploymentType := TrimSpace t\<rparr>
      | None \<Rightarrow> user)"

definition userUC_Update :: "int \<Rightarrow> UpdateUserInput \<Rightarrow> ctx \<Rightarrow> user comp" where
  "userUC_Update i inp cx =
     (if (case ui_Role inp of Some r \<Rightarrow> \<not> Role_Valid r | None \<Rightarrow> False)
      then throw (BadRequestErrorf ''role khong hop le'')
      else Run cx (\<lambda>cx.
        bind (userRepo_GetByID i) (\<lambda>ouser.
        case ouser of
          None \<Rightarrow> throw (not_found_user i)
        | Some user \<Rightarrow>
            bind ask (\<lambda>e.
            let user = (apply_update (unicode_tables e) inp user)\<lparr>usr_UpdatedBy := UserID cx\<rparr> in
            bind (userRepo_Update user) (\<lambda>user.
            bind (auditRepo_Write cx (user_audit AuditUserUpdated user
                    (''cap nhat nguoi dung '' @ usr_Username user))) (\<lambda>_.
            ret user))))))"

definition userUC_ResetPassword :: "int \<Rightarrow> string \<Rightarrow> ctx \<Rightarrow> unit comp" where
  "userUC_ResetPassword i newPassword cx =
     (if length newPassword < minPasswordLen then throw password_too_short
      else Run cx (\<lambda>cx.
        bind (userRepo_GetByID i) (\<lambda>ouser.
        case ouser of
          None \<Rightarrow> throw (not_found_user i)
        | Some user \<Rightarrow>
            bind (HashPassword newPassword) (\<lambda>hash.
            let user = (SetPasswordHash hash user)\<lparr>usr_UpdatedBy := UserID cx\<rparr> in
            bind (userRepo_Update user) (\<lambda>user.
            auditRepo_Write cx (user_audit AuditUserPasswordReset user
              (''dat lai mat khau cho '' @ usr_Username user)))))))"

text \<open>The transition \<open>ToggleStatus\<close> performs, an error of the aggregate becoming a 422.\<close>

definition toggle :: "env \<Rightarrow> user \<Rightarrow> gerr + user" where
  "toggle e user =
     (case (if IsLocked user then Unlock user else Lock user) of
        Inl err \<Rightarrow> Inl (UnprocessableErrorf (Error (db_text e) err))
      | Inr user \<Rightarrow> Inr user)"

definition userUC_ToggleStatus :: "int \<Rightarrow> ctx \<Rightarrow> user comp" where
  "userUC_ToggleStatus i cx =
     (if i = UserID cx then throw (BadRequestErrorf ''khong the tu khoa tai khoan cua minh'')
      else Run cx (\<lambda>cx.
        bind (userRepo_GetByID i) (\<lambda>ouser.
        case ouser of
          None \<Rightarrow> throw (not_found_user i)
        | Some user \<Rightarrow>
            bind ask (\<lambda>e.
            bind (lift (toggle e user)) (\<lambda>user.
            let user = user\<lparr>usr_UpdatedBy := UserID cx\<rparr> in
            bind (userRepo_Update user) (\<lambda>user.
            bind (auditRepo_Write cx ((user_audit AuditUserStatusToggled user
                    (''doi trang thai thanh '' @ usr_Status user))
                    \<lparr>au_Changes := [(''status'', usr_Status user)]\<rparr>)) (\<lambda>_.
            ret user)))))))"

definition apply_profile :: "UpdateProfileInput \<Rightarrow> user \<Rightarrow> user" where
  "apply_profile inp user =
     (let user = (case pi_FullName inp of
                    Some n \<Rightarrow> if TrimSpace n \<noteq> '''' then user\<lparr>usr_FullName := TrimSpace n\<rparr> else user
                  | None \<Rightarrow> user);
          user = (if pi_Email inp \<noteq> None then user\<lparr>usr_Email := trimPtr (pi_Email inp)\<rparr> else user);
          user = (if pi_Phone inp \<noteq> None then user\<lparr>usr_Phone := trimPtr (pi_Phone inp)\<rparr> else user) in
      if pi_AvatarURL inp \<noteq> None then user\<lparr>usr_AvatarURL := trimPtr (pi_AvatarURL inp)\<rparr> else user)"

text \<open>The password part of \<open>UpdateProfile\<close>.\<close>

definition profile_password :: "UpdateProfileInput \<Rightarrow> user \<Rightarrow> user comp" where
  "profile_password inp user =
     (case pi_Password inp of
        None \<Rightarrow> ret user
      | Some new \<Rightarrow>
          (let current = (case pi_CurrentPassword inp of None \<Rightarrow> '''' | Some c \<Rightarrow> c) in
           if current = '''' then
             throw (BadRequestErrorf ''thieu mat khau hien tai de xac nhan doi'')
           else
             bind ask (\<lambda>e.
             if \<not> ComparePassword e current (usr_PasswordHash user) then
               throw (UnauthorizedErrorf ''mat khau hien tai khong dung'')
             else if new = current then
               throw (BadRequestErrorf ''mat khau moi khong duoc trung mat khau hien tai'')
             else bind (HashPassword new) (\<lambda>hash. ret (SetPasswordHash hash user)))))"

definition userUC_UpdateProfile :: "UpdateProfileInput \<Rightarrow> ctx \<Rightarrow> user comp" where
  "userUC_UpdateProfile inp cx =
     (if (case pi_Password inp of Some p \<Rightarrow> length p < minPasswordLen | None \<Rightarrow> False)
      then throw password_too_short
      else Run cx (\<lambda>cx.
        let i = UserID cx in
        bind (userRepo_GetByID i) (\<lambda>ouser.
        case ouser of
          None \<Rightarrow> throw (UnauthorizedErrorf ''khong tim thay nguoi dung'')
        | Some user \<Rightarrow>
            bind (profile_password inp (apply_profile inp user)) (\<lambda>user.
            let user = user\<lparr>usr_UpdatedBy := i\<rparr> in
            bind (userRepo_Update user) (\<lambda>user.
            bind (auditRepo_Write cx (user_audit ''user.profile_updated'' user
                    ''cap nhat ho so ca nhan'')) (\<lambda>_.
            ret user))))))"

section \<open>The contract\<close>

lemma keeps_HashPassword [keeps_intros]: "frame R \<Longrightarrow> keeps R (HashPassword p)"
  by (auto simp: keeps_def HashPassword_def frame_tick split: option.split)

lemma keeps_profile_password [keeps_intros]: "frame R \<Longrightarrow> keeps R (profile_password inp u)"
  unfolding profile_password_def by (intro keeps_intros; assumption)

lemma keeps_same_log_seed [keeps_intros]: "keeps same_log (seed_permissions u role actor)"
  unfolding seed_permissions_def by (intro keeps_intros frame_same_log)

lemma logs_userUC:
  "logs cx AuditUserCreated (userUC_Create cin cx)" "logs cx AuditUserUpdated (userUC_Update i uin cx)"
  "logs cx AuditUserPasswordReset (userUC_ResetPassword i p cx)"
  "logs cx AuditUserStatusToggled (userUC_ToggleStatus i cx)"
  "logs cx ''user.profile_updated'' (userUC_UpdateProfile pin cx)"
  unfolding userUC_Create_def userUC_Update_def userUC_ResetPassword_def userUC_ToggleStatus_def
    userUC_UpdateProfile_def
  by (intro logs_Run logs_rules keeps_intros; simp add: user_audit_def)+

lemma reverts_userUC:
  assumes "\<not> ctxKeyTx cx"
  shows "userUC_Create cin cx e w = (Inl err, w') \<Longrightarrow> w_db w' = w_db w"
    and "userUC_Update i uin cx e w = (Inl err, w') \<Longrightarrow> w_db w' = w_db w"
    and "userUC_ResetPassword i p cx e w = (Inl err, w') \<Longrightarrow> w_db w' = w_db w"
    and "userUC_ToggleStatus i cx e w = (Inl err, w') \<Longrightarrow> w_db w' = w_db w"
    and "userUC_UpdateProfile pin cx e w = (Inl err, w') \<Longrightarrow> w_db w' = w_db w"
  using assms
  by (auto simp: userUC_Create_def userUC_Update_def userUC_ResetPassword_def userUC_ToggleStatus_def
      userUC_UpdateProfile_def throw_def Let_def dest: Run_error split: if_splits)

interpretation user_create: audited_use_case "userUC_Create cin" AuditUserCreated
  by unfold_locales (rule logs_userUC, rule reverts_userUC)

interpretation user_update: audited_use_case "userUC_Update i uin" AuditUserUpdated
  by unfold_locales (rule logs_userUC, rule reverts_userUC)

interpretation user_reset: audited_use_case "userUC_ResetPassword i p" AuditUserPasswordReset
  by unfold_locales (rule logs_userUC, rule reverts_userUC)

interpretation user_toggle: audited_use_case "userUC_ToggleStatus i" AuditUserStatusToggled
  by unfold_locales (rule logs_userUC, rule reverts_userUC)

interpretation user_profile: audited_use_case "userUC_UpdateProfile pin" "''user.profile_updated''"
  by unfold_locales (rule logs_userUC, rule reverts_userUC)

section \<open>Edits of one account\<close>

text \<open>
  \<open>edit_user i F\<close> is the abstract specification of the operations that change one account: the
  account \<open>i\<close> exists, its aggregate is replaced by one that \<open>F\<close> relates to it, and no other
  table but the audit log changes.
\<close>

definition edit_user :: "int \<Rightarrow> (user \<Rightarrow> user \<Rightarrow> bool) \<Rightarrow> db \<Rightarrow> db \<Rightarrow> bool" where
  "edit_user i F d d' \<longleftrightarrow>
     (\<exists>r u t. first_row ur_ID (\<lambda>r. ur_ID r = i) (users d) = Some r \<and> F (user_toDomain r) u \<and>
        users d' = update_where (\<lambda>r. ur_ID r = i) (set_user_columns (u\<lparr>usr_UpdatedAt := t\<rparr>)) (users d)) \<and>
     user_permissions d' = user_permissions d \<and> settings d' = settings d \<and>
     announcements d' = announcements d \<and> notifications d' = notifications d"

lemma edit_userI:
  assumes "userRepo_GetByID i e w0 = (Inr ouser, w1)" and "userRepo_Update u e w2 = (Inr u', w3)"
    and "auditRepo_Write cx a e w3 = (Inr x, w4)" and "ouser = Some user"
    and "same_db w w0" and "same_db w1 w2" and "same_db w4 w'"
    and "F user u" and "usr_ID user = i \<Longrightarrow> usr_ID u = i"
  shows "edit_user i F (w_db w) (w_db w')"
proof -
  from userRepo_GetByID_effect [OF assms(1)] assms(4,5) obtain r
    where r: "first_row ur_ID (\<lambda>r. ur_ID r = i) (users (w_db w)) = Some r" "user = user_toDomain r"
      and "w_db w1 = w_db w"
    by (auto simp: Some_eq_map_option same_db_def)
  moreover have "w_db w2 = w_db w1" and "w_db w' = w_db w4" using assms(6,7) by (auto simp: same_db_def)
  moreover have "usr_ID u = i" using r assms(9) first_row_Some(2) [OF r(1)] by simp
  moreover from userRepo_Update_effect [OF assms(2)] obtain t
    where "w_db w3 = (w_db w2)\<lparr>users := update_where (\<lambda>r. ur_ID r = usr_ID u)
        (set_user_columns (u\<lparr>usr_UpdatedAt := t\<rparr>)) (users (w_db w2))\<rparr>" by auto
  moreover note auditedD [OF conjunct1 [OF auditRepo_Write_effect [OF assms(3)]]]
  ultimately show ?thesis using assms(8) by (auto simp: edit_user_def)
qed

lemma HashPassword_ok:
  "HashPassword p e w = (Inr h, w') \<longleftrightarrow> bcrypt_hash e (w_tick w) p = Some h \<and> w' = tick w"
  by (auto simp: HashPassword_def split: option.splits)

lemma HashPassword_okE:
  assumes "HashPassword p e w = (Inr h, w')"
  obtains n where "bcrypt_hash e n p = Some h" and "same_db w w'"
  using assms by (auto simp: HashPassword_ok)

lemma usr_ID_apply [simp]:
  "usr_ID (apply_update U inp u) = usr_ID u" "usr_Username (apply_update U inp u) = usr_Username u"
  "usr_ID (apply_profile pin u) = usr_ID u" "usr_Username (apply_profile pin u) = usr_Username u"
  by (simp_all add: apply_update_def apply_profile_def Let_def split: option.split)

lemma userUC_Update_spec:
  assumes "userUC_Update i inp cx e w = (Inr u', w')"
  shows "edit_user i (\<lambda>u v. v = (apply_update (unicode_tables e) inp u)\<lparr>usr_UpdatedBy := UserID cx\<rparr>)
    (w_db w) (w_db w')"
  using assms unfolding userUC_Update_def
  by (elim Run_okE ok_elims) (rule edit_userI, (assumption | (simp; fail) | (simp, blast))+)

lemma userUC_ResetPassword_spec:
  assumes "userUC_ResetPassword i p cx e w = (Inr x, w')"
  shows "edit_user i (\<lambda>u v. \<exists>h n. bcrypt_hash e n p = Some h \<and>
      v = u\<lparr>usr_PasswordHash := h, usr_UpdatedBy := UserID cx\<rparr>) (w_db w) (w_db w')"
  using assms unfolding userUC_ResetPassword_def SetPasswordHash_def
  by (elim Run_okE ok_elims HashPassword_okE) (rule edit_userI, (assumption | (simp; fail) | (simp, blast))+)

lemma toggle_ok:
  "toggle e u = Inr u' \<longleftrightarrow>
     \<not> IsDeleted u \<and>
     u' = u\<lparr>usr_Status := (if IsLocked u then UserStatusActive else UserStatusLocked)\<rparr>"
  by (auto simp: toggle_def Lock_def Unlock_def)

lemma userUC_ToggleStatus_spec:
  assumes "userUC_ToggleStatus i cx e w = (Inr u', w')"
  shows "edit_user i (\<lambda>u v. \<not> IsDeleted u \<and> v = u\<lparr>usr_Status :=
        (if IsLocked u then UserStatusActive else UserStatusLocked), usr_UpdatedBy := UserID cx\<rparr>)
      (w_db w) (w_db w')"
  using assms unfolding userUC_ToggleStatus_def
  by (elim Run_okE ok_elims) (rule edit_userI, (assumption | (simp add: toggle_ok; fail))+)

lemma profile_password_spec:
  assumes "profile_password inp u e w = (Inr v, w')"
  shows "same_db w w' \<and>
    (case pi_Password inp of
       None \<Rightarrow> v = u
     | Some new \<Rightarrow> \<exists>c h n. pi_CurrentPassword inp = Some c \<and> bcrypt_cmp e (usr_PasswordHash u) c \<and>
         new \<noteq> c \<and> bcrypt_hash e n new = Some h \<and> v = u\<lparr>usr_PasswordHash := h\<rparr>)"
proof (cases "pi_Password inp")
  case None
  with assms show ?thesis by (simp add: profile_password_def ret_ok)
next
  case (Some new)
  with assms show ?thesis
    unfolding profile_password_def
    by (cases "pi_CurrentPassword inp")
      (auto simp: ok_iff Let_def ComparePassword_def HashPassword_ok SetPasswordHash_def split: if_splits)
qed

text \<open>What a successful \<open>UpdateProfile\<close> made of the caller's own account.\<close>

definition profile_edit :: "env \<Rightarrow> UpdateProfileInput \<Rightarrow> int \<Rightarrow> user \<Rightarrow> user \<Rightarrow> bool" where
  "profile_edit e inp i u v \<longleftrightarrow>
     (case pi_Password inp of
        None \<Rightarrow> v = (apply_profile inp u)\<lparr>usr_UpdatedBy := i\<rparr>
      | Some new \<Rightarrow> \<exists>c h n. pi_CurrentPassword inp = Some c \<and> bcrypt_cmp e (usr_PasswordHash u) c \<and>
          new \<noteq> c \<and> bcrypt_hash e n new = Some h \<and>
          v = (apply_profile inp u)\<lparr>usr_PasswordHash := h, usr_UpdatedBy := i\<rparr>)"

lemma usr_PasswordHash_apply_profile [simp]: "usr_PasswordHash (apply_profile inp u) = usr_PasswordHash u"
  by (simp add: apply_profile_def Let_def split: option.split)

lemma profile_password_okE:
  assumes "profile_password inp (apply_profile inp u) e w = (Inr v, w')"
  obtains "same_db w w'" and "profile_edit e inp i u (v\<lparr>usr_UpdatedBy := i\<rparr>)"
    and "usr_ID v = usr_ID u" and "usr_Username v = usr_Username u"
proof (rule that)
  note spec = profile_password_spec [OF assms]
  then show "same_db w w'" by blast
  show "profile_edit e inp i u (v\<lparr>usr_UpdatedBy := i\<rparr>)"
    using spec by (cases "pi_Password inp") (auto simp: profile_edit_def; blast)+
  show "usr_ID v = usr_ID u" and "usr_Username v = usr_Username u"
    using spec by (auto split: option.splits)
qed

lemma userUC_UpdateProfile_spec:
  assumes "userUC_UpdateProfile inp cx e w = (Inr u', w')"
  shows "edit_user (UserID cx) (profile_edit e inp (UserID cx)) (w_db w) (w_db w')"
  using assms unfolding userUC_UpdateProfile_def
  by (elim Run_okE ok_elims profile_password_okE [where i = "UserID cx"])
    (rule edit_userI, (assumption | (simp; fail))+)

section \<open>Accounts created\<close>

text \<open>
  The abstract specification of \<open>Create\<close> and \<open>Invite\<close>: one new account under a fresh id, and one
  permission row with the role's defaults unless the account is an administrator's.
\<close>

definition account_created :: "env \<Rightarrow> user \<Rightarrow> string \<Rightarrow> world \<Rightarrow> world \<Rightarrow> bool" where
  "account_created e u role w w' \<longleftrightarrow>
     usr_ID u = w_seq w ''users'' + 1 \<and>
     users (w_db w') = users (w_db w) @ [new_user_tuple u (usr_ID u)] \<and>
     (\<exists>up. up_UserID up = usr_ID u \<and> up_Permissions up = RoleDefaultPermissions role \<and>
        up_PermissionCount up = Count (RoleDefaultPermissions role) \<and>
        user_permissions (w_db w') = user_permissions (w_db w) @
          (if role = RoleAdmin then [] else [perm_row e up (w_seq w ''user_permissions'' + 1)])) \<and>
     w_seq w' ''users'' = usr_ID u \<and>
     w_seq w' ''user_permissions'' = w_seq w ''user_permissions'' + (if role = RoleAdmin then 0 else 1) \<and>
     settings (w_db w') = settings (w_db w) \<and> announcements (w_db w') = announcements (w_db w) \<and>
     notifications (w_db w') = notifications (w_db w)"

lemma account_createdI:
  assumes "userRepo_Create u0 e w2 = (Inr u, w3)" and "seed_permissions u role actor e w3 = (Inr x, w4)"
    and "auditRepo_Write cx a e w4 = (Inr y, w5)"
    and "same_db w w2" and "same_db w5 w'"
  shows "account_created e u role w w'"
proof -
  have dbs: "w_db w2 = w_db w" "w_seq w2 = w_seq w" "w_db w' = w_db w5" "w_seq w' = w_seq w5"
    using assms(4,5) by (simp_all add: same_db_def)
  note create = userRepo_Create_effect [OF assms(1)]
  have audit: "audited e cx a (w_db w4) (w_db w5)"
      "w_seq w5 = (w_seq w4)(''audit_log'' := w_seq w4 ''audit_log'' + 1)"
    using auditRepo_Write_effect [OF assms(3)] by blast+
  note aud = auditedD [OF audit(1)]
  show ?thesis
  proof (cases "role = RoleAdmin")
    case True
    then have "w4 = w3" using assms(2) by (simp add: seed_permissions_def ret_ok)
    with True create aud dbs audit(2) show ?thesis
      by (auto simp: account_created_def intro!: exI [of _ "UserPermission0\<lparr>up_UserID := usr_ID u,
          up_Permissions := RoleDefaultPermissions role, up_PermissionCount := Count (RoleDefaultPermissions role)\<rparr>"])
  next
    case False
    then obtain up where "permRepo_Create (UserPermission0\<lparr>up_UserID := usr_ID u,
          up_Permissions := RoleDefaultPermissions role, up_PermissionCount := Count (RoleDefaultPermissions role),
          up_CreatedBy := actor, up_UpdatedBy := actor\<rparr>) e w3 = (Inr up, w4)"
      using assms(2) by (auto simp: seed_permissions_def Let_def ok_iff)
    from permRepo_Create_effect [OF this] False create aud dbs audit(2) show ?thesis
      by (auto simp: account_created_def intro!: exI [of _ up])
  qed
qed

lemma ExistsByUsername_okE:
  assumes "userRepo_ExistsByUsername n e w = (Inr b, w')"
  obtains "same_db w w'" and "b \<longleftrightarrow> (\<exists>r \<in> set (users (w_db w)). same_username e n r)"
  using userRepo_ExistsByUsername_effect [OF assms] by blast

lemma userRepo_Create_aggregate:
  assumes "userRepo_Create u e w = (Inr u', w')"
  shows "usr_Username u' = usr_Username u \<and> usr_Role u' = usr_Role u \<and>
    usr_Status u' = usr_Status u \<and> usr_PasswordHash u' = usr_PasswordHash u \<and>
    usr_ForcePasswordChange u' = usr_ForcePasswordChange u \<and> usr_Email u' = usr_Email u"
  using userRepo_Create_effect [OF assms] by auto

lemma userUC_Create_spec:
  assumes "userUC_Create inp cx e w = (Inr u, w')"
  shows "account_created e u (ci_Role inp) w w' \<and> Role_Valid (ci_Role inp) \<and>
    usr_Username u = TrimSpace (ci_Username inp) \<and> usr_Username u \<noteq> '''' \<and>
    usr_Role u = ci_Role inp \<and> usr_Status u = UserStatusActive \<and>
    minPasswordLen \<le> length (ci_Password inp) \<and> (\<exists>n. bcrypt_hash e n (ci_Password inp) = Some (usr_PasswordHash u)) \<and>
    (\<forall>r \<in> set (users (w_db w)). \<not> same_username e (usr_Username u) r)"
  using assms unfolding userUC_Create_def
proof (elim Run_okE ok_elims HashPassword_okE ExistsByUsername_okE, goal_cases)
  case (1 cx' w0 w1 x w1a xa w1b xb w1c xc w1d xd w1e xe w1f n)
  have "same_db w w1c" and "same_db w1f w'"
    using 1(4,5) 1(12-18) by (auto simp: same_db_def outside_db_def)
  with account_createdI [OF 1(8-10)] 1(11) have "account_created e u (ci_Role inp) w w'" by simp
  moreover have "w_db w0 = w_db w" using 1(4) by (simp add: same_db_def)
  ultimately show ?case
    using userRepo_Create_aggregate [OF 1(8)] 1 by (auto simp: User0_def same_username_def)
qed

end
