(* ===== verification/Mail.thy ===== *)
theory Mail
  imports World
begin

text \<open>
  \<open>pkg/xmail/smtp.go\<close>: the sender as the use cases see it, the MIME body it writes, RFC 2047
  subject encoding with the package's own base64, and the bare-address extraction; and
  \<open>escapeHTML\<close> of \<open>internal/usecase/auth.go\<close>. The SMTP dialogue itself is in \<open>Smtp\<close>.
\<close>

section \<open>Sending\<close>

text \<open>
  \<open>Sender.Send\<close>: one external call, which delivers the message or fails; the checks that come
  before the dialogue are \<open>SMTPSender.Send\<close>'s own.
\<close>

record mail_config =
  mc_Host :: string
  mc_Port :: int
  mc_Username :: string
  mc_Password :: string
  mc_From :: string

definition IsConfigured :: "mail_config \<Rightarrow> bool" where
  "IsConfigured c \<longleftrightarrow> TrimSpace (mc_Host c) \<noteq> '''' \<and> TrimSpace (mc_From c) \<noteq> ''''"

definition deliver :: "message \<Rightarrow> unit comp" where
  "deliver msg e w =
     (case net_fault e (w_tick w) of
        Some t \<Rightarrow> (Inl (Wrapped ''smtp'' (Plain t)), tick w)
      | None \<Rightarrow> (Inr (), (tick w)\<lparr>w_outbox := msg # w_outbox w\<rparr>))"

definition smtp_Send :: "mail_config \<Rightarrow> message \<Rightarrow> unit comp" where
  "smtp_Send cfg msg =
     (if \<not> IsConfigured cfg then throw (Plain ''smtp: not configured (host/from empty)'')
      else if msg_To msg = [] then throw (Plain ''smtp: no recipients'')
      else deliver msg)"

text \<open>
  The two implementations of \<open>Sender\<close>. The second, chosen when SMTP is not configured, hands the
  message to a log callback and always answers that it was sent.
\<close>

datatype sender = SMTPSender mail_config | LoggerSender

fun Send :: "sender \<Rightarrow> message \<Rightarrow> unit comp" where
  "Send (SMTPSender cfg) msg = smtp_Send cfg msg"
| "Send LoggerSender msg = ret ()"

text \<open>What a call leaves: nothing but the submitted message, and only if it reports success.\<close>

lemma Send_result:
  "Send s msg e w = (r, w') \<Longrightarrow>
   w_db w' = w_db w \<and> w_seq w' = w_seq w \<and>
   w_outbox w' = (if r = Inr () \<and> s \<noteq> LoggerSender then msg # w_outbox w else w_outbox w)"
  by (cases s) (auto simp: smtp_Send_def deliver_def throw_def ret_def split: if_splits option.splits)

section \<open>HTML escaping\<close>

text \<open>\<open>strings.NewReplacer\<close> with one-byte patterns: a single pass over the bytes.\<close>

definition escape_char :: "char \<Rightarrow> string" where
  "escape_char c =
     (if c = CHR ''&'' then ''&amp;''
      else if c = CHR ''<'' then ''&lt;''
      else if c = CHR ''>'' then ''&gt;''
      else if c = CHR 0x22 then ''&quot;''
      else if c = CHR 0x27 then ''&#39;''
      else [c])"

definition escapeHTML :: "string \<Rightarrow> string" where
  "escapeHTML s = concat (map escape_char s)"

text \<open>The browser's reading of the five entities, to state that nothing is lost.\<close>

fun unescapeHTML :: "string \<Rightarrow> string" where
  "unescapeHTML [] = []"
| "unescapeHTML (c # s) =
     (if prefix ''&amp;'' (c # s) then CHR ''&'' # unescapeHTML (drop 4 s)
      else if prefix ''&lt;'' (c # s) then CHR ''<'' # unescapeHTML (drop 3 s)
      else if prefix ''&gt;'' (c # s) then CHR ''>'' # unescapeHTML (drop 3 s)
      else if prefix ''&quot;'' (c # s) then CHR 0x22 # unescapeHTML (drop 5 s)
      else if prefix ''&#39;'' (c # s) then CHR 0x27 # unescapeHTML (drop 4 s)
      else c # unescapeHTML s)"

lemma unescape_escape: "unescapeHTML (escapeHTML s) = s"
proof (induction s)
  case Nil
  then show ?case by (simp add: escapeHTML_def)
next
  case (Cons c s)
  have "escapeHTML (c # s) = escape_char c @ escapeHTML s" by (simp add: escapeHTML_def)
  with Cons show ?case by (auto simp: escape_char_def)
qed

lemma escapeHTML_safe:
  "set (escapeHTML s) \<inter> {CHR ''<'', CHR ''>'', CHR 0x22, CHR 0x27} = {}"
  by (auto simp: escapeHTML_def escape_char_def split: if_splits)

section \<open>Base64\<close>

definition base64_alphabet :: string where
  "base64_alphabet = ''ABCDEFGHIJKLMNOPQRSTUVWXYZabcdefghijklmnopqrstuvwxyz0123456789+/''"

definition sextet :: "nat \<Rightarrow> nat \<Rightarrow> char" where
  "sextet n k = base64_alphabet ! (n div 2 ^ k mod 64)"

fun base64Encode :: "string \<Rightarrow> string" where
  "base64Encode (a # b # c # src) =
     (let n = byte a * 65536 + byte b * 256 + byte c in
      sextet n 18 # sextet n 12 # sextet n 6 # sextet n 0 # base64Encode src)"
| "base64Encode [a, b] =
     (let n = byte a * 65536 + byte b * 256 in
      [sextet n 18, sextet n 12, sextet n 6, CHR ''='' ])"
| "base64Encode [a] = (let n = byte a * 65536 in [sextet n 18, sextet n 12] @ ''=='')"
| "base64Encode [] = []"

definition isAllASCII :: "string \<Rightarrow> bool" where
  "isAllASCII s \<longleftrightarrow> (\<forall>c \<in> set s. \<not> 127 < byte c)"

definition encodeHeader :: "string \<Rightarrow> string" where
  "encodeHeader s = (if isAllASCII s then s else ''=?UTF-8?B?'' @ base64Encode s @ ''?='')"

definition extractBareEmail :: "string \<Rightarrow> string" where
  "extractBareEmail s =
     (let s = TrimSpace s; i = LastIndex s ''<''; j = LastIndex s ''>'' in
      if 0 \<le> i \<and> i < j then TrimSpace (take (nat (j - (i + 1))) (drop (nat (i + 1)) s)) else s)"

definition crlf :: string where
  "crlf = [CHR 0x0D, CHR 0x0A]"

text \<open>\<open>nanos\<close> is \<open>time.Now().UnixNano()\<close>, the varying part of the boundary.\<close>

definition buildMIME :: "int \<Rightarrow> string \<Rightarrow> message \<Rightarrow> string" where
  "buildMIME nanos from msg =
     (let boundary = ''app-'' @ itoa nanos in
      ''From: '' @ from @ crlf @
      ''To: '' @ Join (msg_To msg) '', '' @ crlf @
      ''Subject: '' @ encodeHeader (msg_Subject msg) @ crlf @
      ''MIME-Version: 1.0'' @ crlf @
      (if msg_HTML msg \<noteq> '''' then
         ''Content-Type: multipart/alternative; boundary='' @ [CHR 0x22] @ boundary @ [CHR 0x22] @ crlf @ crlf @
         ''--'' @ boundary @ crlf @
         ''Content-Type: text/plain; charset=UTF-8'' @ crlf @ ''Content-Transfer-Encoding: 8bit'' @ crlf @ crlf @
         msg_Text msg @ crlf @ crlf @
         ''--'' @ boundary @ crlf @
         ''Content-Type: text/html; charset=UTF-8'' @ crlf @ ''Content-Transfer-Encoding: 8bit'' @ crlf @ crlf @
         msg_HTML msg @ crlf @ crlf @ ''--'' @ boundary @ ''--'' @ crlf
       else
         ''Content-Type: text/plain; charset=UTF-8'' @ crlf @ ''Content-Transfer-Encoding: 8bit'' @ crlf @ crlf @
         msg_Text msg @ crlf))"

text \<open>The standard decoder, four characters to three bytes.\<close>

definition sextet_val :: "char \<Rightarrow> nat" where
  "sextet_val c = length (takeWhile (\<lambda>d. d \<noteq> c) base64_alphabet)"

fun base64Decode :: "string \<Rightarrow> string" where
  "base64Decode (a # b # c # d # s) =
     (let n = sextet_val a * 262144 + sextet_val b * 4096 +
              (if c = CHR ''='' then 0 else sextet_val c * 64) +
              (if d = CHR ''='' then 0 else sextet_val d) in
      if c = CHR ''='' then [char_of (n div 65536)]
      else if d = CHR ''='' then [char_of (n div 65536), char_of (n div 256 mod 256)]
      else char_of (n div 65536) # char_of (n div 256 mod 256) # char_of (n mod 256) # base64Decode s)"
| "base64Decode _ = []"

lemma alphabet_length: "length base64_alphabet = 64"
  by (simp add: base64_alphabet_def)

lemma distinct_alphabet: "distinct base64_alphabet"
  by (simp add: base64_alphabet_def)

lemma sextet_val_nth: "k < 64 \<Longrightarrow> sextet_val (base64_alphabet ! k) = k"
proof -
  assume k: "k < 64"
  have "takeWhile (\<lambda>d. d \<noteq> base64_alphabet ! k) base64_alphabet = take k base64_alphabet"
    using k alphabet_length distinct_alphabet
    by (intro takeWhile_eq_take_P_nth) (auto simp: nth_eq_iff_index_eq)
  with k alphabet_length show ?thesis by (simp add: sextet_val_def)
qed

lemma sextet_val_sextet [simp]: "sextet_val (sextet n k) = n div 2 ^ k mod 64"
  by (simp add: sextet_def sextet_val_nth)

lemma sextet_no_pad [simp]: "sextet n k \<noteq> CHR ''=''"
proof -
  have "sextet n k \<in> set base64_alphabet" unfolding sextet_def by (rule nth_mem) (simp add: alphabet_length)
  then show ?thesis by (auto simp: base64_alphabet_def)
qed

lemma char_of_byte [simp]: "char_of (byte c) = c"
  by (simp add: byte_def)

lemma sextets_sum:
  "n = 64 * q1 + r1 \<Longrightarrow> q1 = 64 * q2 + r2 \<Longrightarrow> q2 = 64 * q3 + r3 \<Longrightarrow>
   q3 * 262144 + r3 * 4096 + r2 * 64 + r1 = (n::nat)"
  by simp

lemma sextets_value:
  assumes "n < 16777216"
  shows "n div 262144 mod 64 * 262144 + n div 4096 mod 64 * 4096 + n div 64 mod 64 * 64 + n mod 64 = (n::nat)"
proof -
  have div: "n div 4096 = n div 64 div 64" "n div 262144 = n div 64 div 64 div 64"
    by (simp_all add: div_mult2_eq [symmetric])
  have "n div 262144 < 64" using assms by (simp add: less_mult_imp_div_less)
  then have "n div 262144 mod 64 = n div 262144" by (rule mod_less)
  then show ?thesis
    unfolding div by (simp only:) (rule sextets_sum; rule mult_div_mod_eq [symmetric])
qed

lemma bytes_of_triple:
  assumes "a < 256" and "b < 256" and "c < (256::nat)"
  shows "(a * 65536 + b * 256 + c) div 65536 = a" and "(a * 65536 + b * 256 + c) div 256 mod 256 = b"
    and "(a * 65536 + b * 256 + c) mod 256 = c" and "a * 65536 + b * 256 + c < 16777216"
proof -
  have n: "a * 65536 + b * 256 + c = c + (a * 256 + b) * 256" by simp
  have d: "(a * 65536 + b * 256 + c) div 256 = a * 256 + b"
    unfolding n using assms(3) by (subst div_mult_self1) simp_all
  show "(a * 65536 + b * 256 + c) mod 256 = c"
    unfolding n using assms(3) by (simp only: mod_mult_self1 mod_less)
  have "(a * 256 + b) mod 256 = (b + a * 256) mod 256" by (simp only: add.commute)
  then show "(a * 65536 + b * 256 + c) div 256 mod 256 = b"
    unfolding d using assms(2) by (simp only: mod_mult_self1 mod_less)
  have "(a * 65536 + b * 256 + c) div 65536 = (a * 65536 + b * 256 + c) div 256 div 256"
    by (simp add: div_mult2_eq [symmetric])
  also have "\<dots> = (b + a * 256) div 256" unfolding d by (simp only: add.commute)
  also have "\<dots> = a" using assms(2) by (subst div_mult_self1) simp_all
  finally show "(a * 65536 + b * 256 + c) div 65536 = a" .
  show "a * 65536 + b * 256 + c < 16777216" using assms by simp
qed

lemma powers: "(2::nat) ^ 18 = 262144" "(2::nat) ^ 12 = 4096" "(2::nat) ^ 6 = 64" "(2::nat) ^ 0 = 1"
  by simp_all

lemma decode4:
  assumes "n < 16777216"
  shows "base64Decode (sextet n 18 # sextet n 12 # sextet n 6 # sextet n 0 # s) =
      char_of (n div 65536) # char_of (n div 256 mod 256) # char_of (n mod 256) # base64Decode s"
    and "n mod 64 = 0 \<Longrightarrow> base64Decode [sextet n 18, sextet n 12, sextet n 6, CHR ''=''] =
      [char_of (n div 65536), char_of (n div 256 mod 256)]"
    and "n mod 64 = 0 \<Longrightarrow> n div 64 mod 64 = 0 \<Longrightarrow>
      base64Decode [sextet n 18, sextet n 12, CHR ''='', CHR ''=''] = [char_of (n div 65536)]"
proof -
  note v = sextets_value [OF assms]
  show "base64Decode (sextet n 18 # sextet n 12 # sextet n 6 # sextet n 0 # s) =
      char_of (n div 65536) # char_of (n div 256 mod 256) # char_of (n mod 256) # base64Decode s"
    by (simp only: base64Decode.simps sextet_no_pad if_False sextet_val_sextet powers div_by_1 v Let_def)
  show "base64Decode [sextet n 18, sextet n 12, sextet n 6, CHR ''=''] =
      [char_of (n div 65536), char_of (n div 256 mod 256)]" if "n mod 64 = 0"
    using v [unfolded that]
    by (simp only: base64Decode.simps sextet_no_pad if_False if_True simp_thms sextet_val_sextet powers Let_def)
  show "base64Decode [sextet n 18, sextet n 12, CHR ''='', CHR ''=''] = [char_of (n div 65536)]"
    if "n mod 64 = 0" and "n div 64 mod 64 = 0"
    using v [unfolded that]
    by (simp only: base64Decode.simps if_True simp_thms sextet_val_sextet powers Let_def mult_0 add_0_right)
qed

lemma decode_encode: "base64Decode (base64Encode s) = s"
proof (induction s rule: base64Encode.induct)
  case (1 a b c src)
  note t = bytes_of_triple [OF byte_less [of a] byte_less [of b] byte_less [of c]]
  show ?case
    unfolding base64Encode.simps Let_def decode4(1) [OF t(4)] t(1-3) char_of_byte by (simp only: 1 [OF refl])
next
  case (2 a b)
  note t = bytes_of_triple [OF byte_less [of a] byte_less [of b] zero_less_numeral, unfolded add_0_right]
  have "(byte a * 65536 + byte b * 256) = 64 * (byte a * 1024 + byte b * 4)" by simp
  then have "(byte a * 65536 + byte b * 256) mod 64 = 0" by (simp only: mod_mult_self1_is_0)
  then show ?case
    unfolding base64Encode.simps Let_def decode4(2) [OF t(4)] by (simp only: t(1,2) char_of_byte decode4(2) [OF t(4)])
next
  case (3 a)
  note t = bytes_of_triple [OF byte_less [of a] zero_less_numeral zero_less_numeral, unfolded mult_0 add_0_right]
  have n: "byte a * 65536 = 64 * (64 * (byte a * 16))" by simp
  then have "byte a * 65536 mod 64 = 0" by (simp only: mod_mult_self1_is_0)
  moreover have "byte a * 65536 div 64 mod 64 = 0"
    unfolding n by (simp only: nonzero_mult_div_cancel_left mod_mult_self1_is_0 zero_neq_numeral not_False_eq_True)
  ultimately show ?case using decode4(3) [OF t(4)] t(1) by (simp add: Let_def)
qed simp

end
