(* ===== verification/Mail_Templates.thy ===== *)
theory Mail_Templates
  imports Mail
begin

text \<open>
  The two mails the use cases compose: \<open>buildInviteEmail\<close> of \<open>internal/usecase/user.go\<close> and
  \<open>buildResetEmail\<close> of \<open>internal/usecase/auth.go\<close>. The literals are the source's, written without
  Vietnamese diacritics; \<open>dquote\<close>, \<open>squote\<close> and \<open>newline\<close> are the two quotes and the line feed.
\<close>

definition dquote :: string where "dquote = [CHR 0x22]"
definition squote :: string where "squote = [CHR 0x27]"
definition newline :: string where "newline = [CHR 0x0A]"

section \<open>Invitation\<close>

definition invite_text :: "string \<Rightarrow> string \<Rightarrow> string \<Rightarrow> string \<Rightarrow> string" where
  "invite_text name username password loginURL =
     ''Xin chao '' @ name @ '','' @ newline @ newline @
     ''Ban da duoc moi tham gia he thong VTV. Thong tin dang nhap:'' @ newline @ newline @
     ''  Trang dang nhap: '' @ loginURL @ newline @ ''  Ten dang nhap:   '' @ username @ newline @
     ''  Mat khau tam:    '' @ password @ newline @ newline @
     ''Quan trong: vi ly do bao mat, he thong se buoc ban doi mat khau '' @
     ''ngay sau khi dang nhap lan dau tien. Tuyet doi khong chia se '' @
     ''mat khau nay cho bat ky ai.'' @ newline @ newline @
     ''Neu ban khong yeu cau tai khoan nay, vui long lien he quan tri vien.'' @ newline @ newline @
     ''-- He thong VTV''"

definition invite_html :: "string \<Rightarrow> string \<Rightarrow> string \<Rightarrow> string \<Rightarrow> string" where
  "invite_html name username password loginURL =
     ''<!DOCTYPE html><html><body style='' @ dquote @ ''font-family:-apple-system,'' @ squote @ ''Segoe UI'' @
     squote @
     '',Roboto,sans-serif;max-width:560px;margin:32px auto;padding:0;color:#0f172a;line-height:1.6;background:#f8fafc'' @
     dquote @ ''>'' @ ''<div style='' @ dquote @
     ''background:linear-gradient(135deg,#4f46e5 0%,#7c3aed 100%);padding:32px 24px;border-radius:12px 12px 0 0;color:#fff'' @
     dquote @ ''>'' @ ''<h2 style='' @ dquote @ ''margin:0;font-size:22px'' @ dquote @ ''>Chao mung den VTV</h2>'' @
     ''<p style='' @ dquote @ ''margin:8px 0 0;opacity:.9;font-size:14px'' @ dquote @
     ''>Tai khoan noi bo da duoc tao cho ban.</p>'' @ ''</div>'' @ ''<div style='' @ dquote @
     ''background:#fff;padding:24px;border-radius:0 0 12px 12px;border:1px solid #e2e8f0;border-top:none'' @
     dquote @ ''>'' @ ''<p>Xin chao <strong>'' @ escapeHTML name @ ''</strong>,</p>'' @
     ''<p>Quan tri vien vua tao cho ban mot tai khoan dang nhap <strong>VTV</strong>. Duoi day la thong tin truy cap:</p>'' @
     ''<div style='' @ dquote @
     ''background:#f1f5f9;border-radius:8px;padding:16px 20px;margin:16px 0;font-family:'' @ squote @
     ''SF Mono'' @ squote @ '',Menlo,Consolas,monospace;font-size:14px'' @ dquote @ ''>'' @
     ''<div><span style='' @ dquote @ ''color:#64748b'' @ dquote @ ''>Ten dang nhap:</span> <strong>'' @
     escapeHTML username @ ''</strong></div>'' @ ''<div style='' @ dquote @ ''margin-top:6px'' @ dquote @
     ''><span style='' @ dquote @ ''color:#64748b'' @ dquote @ ''>Mat khau tam:</span> <strong style='' @ dquote @
     ''color:#4f46e5'' @ dquote @ ''>'' @ escapeHTML password @ ''</strong></div>'' @ ''</div>'' @
     ''<p style='' @ dquote @ ''margin:24px 0'' @ dquote @ ''><a href='' @ dquote @ escapeHTML loginURL @ dquote @
     '' style='' @ dquote @
     ''display:inline-block;padding:12px 28px;background:#4f46e5;color:#fff;text-decoration:none;border-radius:8px;font-weight:600'' @
     dquote @ ''>Dang nhap ngay</a></p>'' @ ''<div style='' @ dquote @
     ''background:#fef3c7;border-left:3px solid #f59e0b;border-radius:4px;padding:12px 16px;margin:20px 0;font-size:13px;color:#78350f'' @
     dquote @ ''>'' @
     ''<strong>! Quan trong:</strong> He thong se buoc ban doi mat khau ngay sau khi dang nhap lan dau. Tuyet doi khong chia se mat khau nay.'' @
     ''</div>'' @ ''<p style='' @ dquote @ ''font-size:12px;color:#64748b;margin-top:24px'' @ dquote @
     ''>Neu nut khong hoat dong, mo link: <span style='' @ dquote @ ''word-break:break-all'' @ dquote @ ''>'' @
     escapeHTML loginURL @ ''</span></p>'' @ ''<hr style='' @ dquote @
     ''border:none;border-top:1px solid #e2e8f0;margin:24px 0'' @ dquote @ ''>'' @ ''<p style='' @ dquote @
     ''font-size:12px;color:#64748b;margin:0'' @ dquote @
     ''>Neu ban khong yeu cau tai khoan nay, hay lien he quan tri vien ngay.</p>'' @
     ''</div></body></html>''"

definition buildInviteEmail :: "string \<Rightarrow> string \<Rightarrow> string \<Rightarrow> string \<Rightarrow> string \<Rightarrow> message" where
  "buildInviteEmail to fullName username password loginURL =
     (let name = (if TrimSpace fullName = '''' then to else fullName);
          loginURL = (if TrimSpace loginURL = '''' then ''/login'' else loginURL) in
      \<lparr>msg_To = [to], msg_Subject = ''Tai khoan VTV cua ban'',
       msg_Text = invite_text name username password loginURL,
       msg_HTML = invite_html name username password loginURL\<rparr>)"

section \<open>Password reset\<close>

text \<open>The front-end base address of a link, a public one when the link is local.\<close>

definition fe_base :: "string \<Rightarrow> string" where
  "fe_base link =
     (let i = Index link ''://'';
          feBase =
            (if 0 \<le> i then
               (let j = Index (drop (nat (i + 3)) link) ''/'' in
                if 0 \<le> j then take (nat (i + 3 + j)) link else link)
             else link) in
      if Contains feBase ''localhost'' \<or> Contains feBase ''127.0.0.1''
      then ''https://app.example.com'' else feBase)"

definition reset_text :: "string \<Rightarrow> string \<Rightarrow> string \<Rightarrow> string" where
  "reset_text name link expiresVN =
     ''Xin chao '' @ name @ '','' @ newline @ newline @
     ''Ban vua yeu cau dat lai mat khau cho tai khoan VTV.'' @ newline @
     ''Click vao link sau de dat mat khau moi (het han '' @ expiresVN @ ''):'' @ newline @ newline @ link @
     newline @ newline @ ''Link chi dung duoc 1 lan. Neu ban khong yeu cau, hay bo qua email nay.'' @ newline @ newline @
     ''-- VTV''"

definition reset_html :: "string \<Rightarrow> string \<Rightarrow> string \<Rightarrow> string \<Rightarrow> string" where
  "reset_html name link logoURL expiresVN =
     ''<!DOCTYPE html><html><body style='' @ dquote @ ''font-family:-apple-system,'' @ squote @ ''Segoe UI'' @
     squote @
     '',Roboto,sans-serif;max-width:560px;margin:32px auto;padding:0;color:#0f172a;line-height:1.6;background:#f8fafc'' @
     dquote @ ''>'' @ ''<div style='' @ dquote @
     ''background:linear-gradient(135deg,#5BCAD2 0%,#2DA5AE 100%);padding:28px 28px 24px;border-radius:16px 16px 0 0;color:#fff;text-align:center'' @
     dquote @ ''>'' @ ''<img src='' @ dquote @ escapeHTML logoURL @ dquote @ '' alt='' @ dquote @ ''VTV'' @ dquote @
     '' width='' @ dquote @ ''64'' @ dquote @ '' height='' @ dquote @ ''64'' @ dquote @ '' style='' @ dquote @
     ''display:inline-block;width:64px;height:64px;border-radius:16px;background:#fff;padding:4px;box-shadow:0 2px 8px rgba(0,0,0,0.08);object-fit:contain'' @
     dquote @ ''>'' @ ''<p style='' @ dquote @
     ''margin:14px 0 0;font-size:11px;letter-spacing:2px;text-transform:uppercase;opacity:0.9;font-weight:600'' @
     dquote @ ''>VTV</p>'' @ ''<h2 style='' @ dquote @
     ''margin:6px 0 0;color:#fff;font-size:24px;font-weight:800;letter-spacing:-0.02em'' @ dquote @
     ''>Dat lai mat khau</h2>'' @ ''</div>'' @ ''<div style='' @ dquote @
     ''background:#fff;padding:28px;border:1px solid #e2e8f0;border-top:0;border-radius:0 0 16px 16px'' @
     dquote @ ''>'' @ ''<p style='' @ dquote @ ''margin:0 0 12px'' @ dquote @ ''>Xin chao <strong>'' @
     escapeHTML name @ ''</strong>,</p>'' @ ''<p style='' @ dquote @ ''margin:0 0 20px'' @ dquote @
     ''>Ban vua yeu cau dat lai mat khau cho tai khoan <strong>VTV</strong>. Bam nut ben duoi de dat mat khau moi:</p>'' @
     ''<p style='' @ dquote @ ''margin:0 0 8px;text-align:center'' @ dquote @ ''><a href='' @ dquote @
     escapeHTML link @ dquote @ '' style='' @ dquote @
     ''display:inline-block;padding:14px 32px;background:linear-gradient(135deg,#5BCAD2 0%,#2DA5AE 100%);color:#fff;text-decoration:none;border-radius:10px;font-weight:600;font-size:15px;box-shadow:0 4px 12px rgba(45,165,174,0.25)'' @
     dquote @ ''>Dat mat khau moi</a></p>'' @ ''<p style='' @ dquote @
     ''margin:8px 0 24px;text-align:center;font-size:12px;color:#64748b'' @ dquote @
     ''>Link het han luc <strong>'' @ escapeHTML expiresVN @
     ''</strong> va chi dung duoc 1 lan.</p>'' @ ''<div style='' @ dquote @
     ''padding:14px 16px;background:#f1f5f9;border-radius:10px;border-left:3px solid #2DA5AE'' @ dquote @
     ''>'' @ ''<p style='' @ dquote @ ''margin:0;font-size:12px;color:#475569'' @ dquote @
     ''><strong>Luu y bao mat:</strong> Dung forward email nay cho ai khac. Neu khong phai ban yeu cau doi mat khau, vui long bo qua -- mat khau hien tai van an toan.</p>'' @
     ''</div>'' @ ''<hr style='' @ dquote @
     ''border:none;border-top:1px solid #e2e8f0;margin:24px 0 16px'' @ dquote @ ''>'' @ ''<p style='' @
     dquote @ ''margin:0;font-size:11px;color:#94a3b8;text-align:center'' @ dquote @
     ''>Email tu dong -- khong tra loi email nay.</p>'' @ ''</div>'' @ ''</body></html>''"

definition buildResetEmail :: "env \<Rightarrow> string \<Rightarrow> string \<Rightarrow> string \<Rightarrow> time \<Rightarrow> message" where
  "buildResetEmail e to fullName link expires =
     (let name = (if TrimSpace fullName = '''' then to else fullName);
          logoURL = fe_base link @ ''/images/logo.png'';
          expiresVN = format_ict e expires in
      \<lparr>msg_To = [to], msg_Subject = ''Dat lai mat khau VTV'',
       msg_Text = reset_text name link expiresVN,
       msg_HTML = reset_html name link logoURL expiresVN\<rparr>)"

end
