(* ===== verification/Go_Runes.thy ===== *)
theory Go_Runes
  imports Go_Strings
begin

text \<open>
  Decoding a Go string into runes, as \<open>for _, r := range s\<close> does: one code point per
  well-formed UTF-8 sequence, and \<open>utf8.RuneError\<close> (65533) for each byte that starts none.
\<close>

definition rune_error :: nat where
  "rune_error = 65533"

definition is_cont :: "nat \<Rightarrow> bool" where
  "is_cont b \<longleftrightarrow> 128 \<le> b \<and> b \<le> 191"

text \<open>The bounds of the second byte depend on the first (no overlong forms, no surrogates).\<close>

definition second_ok :: "nat \<Rightarrow> nat \<Rightarrow> bool" where
  "second_ok b0 b1 \<longleftrightarrow>
     (if b0 = 224 then 160 \<le> b1 \<and> b1 \<le> 191
      else if b0 = 237 then 128 \<le> b1 \<and> b1 \<le> 159
      else if b0 = 240 then 144 \<le> b1 \<and> b1 \<le> 191
      else if b0 = 244 then 128 \<le> b1 \<and> b1 \<le> 143
      else is_cont b1)"

text \<open>The rune at the front of the bytes, and how many bytes it takes.\<close>

definition decode_rune :: "nat list \<Rightarrow> nat \<times> nat" where
  "decode_rune bs =
     (let b0 = bs ! 0; b1 = bs ! 1; b2 = bs ! 2; b3 = bs ! 3; n = length bs in
      if b0 < 128 then (b0, 1)
      else if 194 \<le> b0 \<and> b0 \<le> 223 \<and> 2 \<le> n \<and> is_cont b1
        then ((b0 - 192) * 64 + (b1 - 128), 2)
      else if 224 \<le> b0 \<and> b0 \<le> 239 \<and> 3 \<le> n \<and> second_ok b0 b1 \<and> is_cont b2
        then ((b0 - 224) * 4096 + (b1 - 128) * 64 + (b2 - 128), 3)
      else if 240 \<le> b0 \<and> b0 \<le> 244 \<and> 4 \<le> n \<and> second_ok b0 b1 \<and> is_cont b2 \<and> is_cont b3
        then ((b0 - 240) * 262144 + (b1 - 128) * 4096 + (b2 - 128) * 64 + (b3 - 128), 4)
      else (rune_error, 1))"

lemma decode_rune_width: "0 < snd (decode_rune bs)"
  by (simp add: decode_rune_def Let_def)

function runes_of :: "nat list \<Rightarrow> nat list" where
  "runes_of bs =
     (if bs = [] then [] else fst (decode_rune bs) # runes_of (drop (snd (decode_rune bs)) bs))"
  by pat_completeness auto
termination
proof (relation "measure length")
  fix bs :: "nat list"
  assume "bs \<noteq> []"
  then have "0 < length bs" by simp
  then show "(drop (snd (decode_rune bs)) bs, bs) \<in> measure length"
    unfolding in_measure length_drop by (rule diff_less [OF decode_rune_width])
qed simp

declare runes_of.simps [simp del]

definition runes :: "string \<Rightarrow> nat list" where
  "runes s = runes_of (map byte s)"

lemma decode_rune_ascii: "bs \<noteq> [] \<Longrightarrow> hd bs < 128 \<Longrightarrow> decode_rune bs = (hd bs, 1)"
  by (simp add: decode_rune_def hd_conv_nth Let_def)

text \<open>A sequence that does not start with an ASCII byte has no ASCII byte and no ASCII rune.\<close>

lemma second_ok_high: "second_ok b0 b1 \<Longrightarrow> 128 \<le> b1"
  by (auto simp: second_ok_def is_cont_def split: if_splits)

lemma all_less_numeral:
  "(\<forall>i < 1. P i) \<longleftrightarrow> P (0::nat)"
  "(\<forall>i < 2. P i) \<longleftrightarrow> P 0 \<and> P (1::nat)"
  "(\<forall>i < 3. P i) \<longleftrightarrow> P 0 \<and> P 1 \<and> P (2::nat)"
  "(\<forall>i < 4. P i) \<longleftrightarrow> P 0 \<and> P 1 \<and> P 2 \<and> P (3::nat)"
  by (auto simp: less_Suc_eq eval_nat_numeral)

lemma decode_rune_high:
  assumes "128 \<le> bs ! 0"
  shows "128 \<le> fst (decode_rune bs) \<and> (\<forall>i < snd (decode_rune bs). 128 \<le> bs ! i)"
proof (cases "194 \<le> bs ! 0 \<and> bs ! 0 \<le> 223 \<and> 2 \<le> length bs \<and> is_cont (bs ! 1)")
  case True
  then have "128 \<le> (bs ! 0 - 192) * 64 + (bs ! 1 - 128)" by (auto intro: trans_le_add1)
  with True show ?thesis by (simp add: decode_rune_def Let_def all_less_numeral is_cont_def)
next
  case two: False
  show ?thesis
  proof (cases "224 \<le> bs ! 0 \<and> bs ! 0 \<le> 239 \<and> 3 \<le> length bs \<and> second_ok (bs ! 0) (bs ! 1) \<and> is_cont (bs ! 2)")
    case True
    have "128 \<le> (bs ! 0 - 224) * 4096 + (bs ! 1 - 128) * 64"
      using True by (cases "bs ! 0 = 224") (auto simp: second_ok_def)
    then have "128 \<le> (bs ! 0 - 224) * 4096 + (bs ! 1 - 128) * 64 + (bs ! 2 - 128)"
      by (rule trans_le_add1)
    moreover have "128 \<le> bs ! 1" "128 \<le> bs ! 2"
      using True second_ok_high by (auto simp: is_cont_def)
    ultimately show ?thesis using True two by (simp add: decode_rune_def Let_def all_less_numeral)
  next
    case three: False
    show ?thesis
    proof (cases "240 \<le> bs ! 0 \<and> bs ! 0 \<le> 244 \<and> 4 \<le> length bs \<and> second_ok (bs ! 0) (bs ! 1)
        \<and> is_cont (bs ! 2) \<and> is_cont (bs ! 3)")
      case True
      have "128 \<le> (bs ! 0 - 240) * 262144 + (bs ! 1 - 128) * 4096"
        using True by (cases "bs ! 0 = 240") (auto simp: second_ok_def)
      then have "128 \<le> (bs ! 0 - 240) * 262144 + (bs ! 1 - 128) * 4096 + (bs ! 2 - 128) * 64 + (bs ! 3 - 128)"
        by (rule trans_le_add1 [OF trans_le_add1])
      moreover have "128 \<le> bs ! 1" "128 \<le> bs ! 2" "128 \<le> bs ! 3"
        using True second_ok_high by (auto simp: is_cont_def)
      ultimately show ?thesis using True two three by (simp add: decode_rune_def Let_def all_less_numeral)
    next
      case False
      then have "decode_rune bs = (rune_error, 1)"
        using two three assms unfolding decode_rune_def Let_def by (simp only: if_False not_less [symmetric] refl)
      then show ?thesis using assms by (simp add: rune_error_def)
    qed
  qed
qed

lemma decode_rune_multi:
  assumes "bs \<noteq> []" and "128 \<le> hd bs"
  shows "128 \<le> fst (decode_rune bs)"
    and "\<forall>b \<in> set (take (snd (decode_rune bs)) bs). 128 \<le> b"
  using decode_rune_high [of bs] assms by (auto simp: hd_conv_nth in_set_conv_nth)

lemma filter_ascii_runes_of: "filter (\<lambda>r. r < 128) (runes_of bs) = filter (\<lambda>b. b < 128) bs"
proof (induction bs rule: runes_of.induct)
  case (1 bs)
  show ?case
  proof (cases "bs = []")
    case True
    then show ?thesis by (simp add: runes_of.simps)
  next
    case False
    let ?n = "snd (decode_rune bs)"
    have split: "filter (\<lambda>b. b < 128) bs =
        filter (\<lambda>b. b < 128) (take ?n bs) @ filter (\<lambda>b. b < 128) (drop ?n bs)"
      by (metis append_take_drop_id filter_append)
    have IH: "filter (\<lambda>r. r < 128) (runes_of (drop ?n bs)) = filter (\<lambda>b. b < 128) (drop ?n bs)"
      using 1 False by blast
    have rs: "runes_of bs = fst (decode_rune bs) # runes_of (drop ?n bs)"
      using False by (simp add: runes_of.simps [of bs])
    show ?thesis
    proof (cases "hd bs < 128")
      case True
      with False have "decode_rune bs = (hd bs, 1)" by (rule decode_rune_ascii)
      with True False IH split rs show ?thesis by (cases bs) simp_all
    next
      case hd: False
      then have "\<not> fst (decode_rune bs) < 128"
        using decode_rune_multi(1) [OF False] by simp
      moreover have "filter (\<lambda>b. b < 128) (take ?n bs) = []"
        using decode_rune_multi(2) [OF False] hd by (auto simp: filter_empty_conv not_less)
      ultimately show ?thesis using IH split rs by simp
    qed
  qed
qed

lemma filter_ascii_runes: "filter (\<lambda>r. r < 128) (runes s) = filter (\<lambda>b. b < 128) (map byte s)"
  by (simp add: runes_def filter_ascii_runes_of)

lemma runes_of_ascii: "\<forall>b \<in> set bs. b < 128 \<Longrightarrow> runes_of bs = bs"
  by (induction bs) (simp_all add: runes_of.simps decode_rune_ascii)

end
