(* ===== verification/Invite_UC.thy ===== *)
theory Invite_UC
  imports User_UC Mail_Templates Go_Runes "HOL-Library.Multiset"
begin

text \<open>
  The invitation flow of \<open>internal/usecase/user.go\<close>: the random password, the user name derived
  from the e-mail address, the search for a free one, the account, and the mail that carries the
  credentials.
\<close>

section \<open>Random passwords\<close>

definition rand_Int :: "int \<Rightarrow> int comp" where
  "rand_Int m e w =
     (case rand_int e (w_tick w) m of
        None \<Rightarrow> (Inl (Plain ''crypto/rand: read error''), tick w)
      | Some j \<Rightarrow> (Inr j, tick w))"

definition upper_set :: string where "upper_set = ''ABCDEFGHJKLMNPQRSTUVWXYZ''"
definition lower_set :: string where "lower_set = ''abcdefghijkmnopqrstuvwxyz''"
definition digit_set :: string where "digit_set = ''23456789''"

definition invitePasswordAlphabet :: string where
  "invitePasswordAlphabet = ''ABCDEFGHJKLMNPQRSTUVWXYZabcdefghijkmnopqrstuvwxyz23456789''"

definition randCharFrom :: "string \<Rightarrow> char comp" where
  "randCharFrom cs =
     bind (rand_Int (int (length cs))) (\<lambda>idx. ret (cs ! nat idx))"

fun gen_parts :: "string list \<Rightarrow> string \<Rightarrow> string comp" where
  "gen_parts [] buf = ret buf"
| "gen_parts (cs # parts) buf = bind (randCharFrom cs) (\<lambda>c. gen_parts parts (buf @ [c]))"

text \<open>\<open>for len(buf) < length\<close>: one more character per round.\<close>

fun gen_fill :: "nat \<Rightarrow> string \<Rightarrow> string comp" where
  "gen_fill 0 buf = ret buf"
| "gen_fill (Suc n) buf =
     bind (randCharFrom invitePasswordAlphabet) (\<lambda>c. gen_fill n (buf @ [c]))"

definition swap :: "nat \<Rightarrow> nat \<Rightarrow> string \<Rightarrow> string" where
  "swap i j buf = buf[i := buf ! j, j := buf ! i]"

text \<open>Fisher-Yates, from the last index down to 1.\<close>

fun shuffle_down :: "nat \<Rightarrow> string \<Rightarrow> string comp" where
  "shuffle_down 0 buf = ret buf"
| "shuffle_down (Suc i) buf =
     bind (rand_Int (int (Suc i) + 1)) (\<lambda>j. shuffle_down i (swap (Suc i) (nat j) buf))"

definition generateInvitePassword :: "string comp" where
  "generateInvitePassword =
     bind (gen_parts [upper_set, lower_set, digit_set] '''') (\<lambda>buf.
     bind (gen_fill (12 - length buf) buf) (\<lambda>buf.
     shuffle_down (length buf - 1) buf))"

section \<open>User names\<close>

text \<open>The switch of the loop over the runes of the local part.\<close>

definition username_rune :: "nat \<Rightarrow> string" where
  "username_rune r =
     (if (97 \<le> r \<and> r \<le> 122) \<or> (48 \<le> r \<and> r \<le> 57) then [char_of r]
      else if r = 46 \<or> r = 95 \<or> r = 45 \<or> r = 43 then ''-''
      else '''')"

text \<open>\<open>for strings.Contains(out, "--")\<close>: each round shortens the string, so the loop ends.\<close>

lemma ReplaceAll_dashes_shorter:
  "Contains s ''--'' \<Longrightarrow> length (ReplaceAll s ''--'' ''-'') < length s"
proof (induction s)
  case Nil
  then show ?case by (simp add: Contains_def)
next
  case (Cons c s)
  show ?case
  proof (cases "prefix ''--'' (c # s)")
    case True
    have "length (ReplaceAll (drop 2 (c # s)) ''--'' ''-'') \<le> length (drop 2 (c # s))"
      by (rule length_ReplaceAll) simp
    moreover have "2 \<le> length (c # s)" using prefix_length_le [OF True] by simp
    moreover have "ReplaceAll (c # s) ''--'' ''-'' = ''-'' @ ReplaceAll (drop 2 (c # s)) ''--'' ''-''"
      using ReplaceAll_match [OF _ True, of "''-''"] by (simp only: length_Cons list.size(3)) simp
    ultimately show ?thesis by simp
  next
    case False
    then have "Contains s ''--''" using Cons.prems by (auto simp: Contains_def Let_def split: if_splits)
    with Cons.IH False show ?thesis by (simp add: ReplaceAll_skip)
  qed
qed

function collapse_dashes :: "string \<Rightarrow> string" where
  "collapse_dashes out =
     (if Contains out ''--'' then collapse_dashes (ReplaceAll out ''--'' ''-'') else out)"
  by pat_completeness auto
termination
  by (relation "measure length") (simp_all add: ReplaceAll_dashes_shorter)

declare collapse_dashes.simps [simp del]

definition deriveUsername :: "unicode \<Rightarrow> string \<Rightarrow> string" where
  "deriveUsername U email =
     (let at = IndexByte email (CHR ''@'');
          local_part = (if 0 < at then take (nat at) email else email);
          local_part = ToLower U (TrimSpace local_part);
          b = concat (map username_rune (runes local_part));
          out = collapse_dashes (Trim b ''-'');
          out = (if out = '''' then ''user'' else out) in
      if 60 < length out then take 60 out else out)"

section \<open>The invitation\<close>

record InviteUserInput =
  ii_Email :: string
  ii_FullName :: string
  ii_Role :: string
  ii_StaffCode :: "string option"
  ii_Phone :: "string option"

record invite_config =
  ic_mailer :: "sender option"
  ic_loginURL :: string

text \<open>
  The loop \<open>for i := 2; i < 100; i++\<close>: \<open>n\<close> counts the rounds that are left, so it starts at 98 with
  \<open>i = 2\<close>.
\<close>

fun pick_username :: "nat \<Rightarrow> int \<Rightarrow> string \<Rightarrow> string \<Rightarrow> string comp" where
  "pick_username 0 i base username = ret username"
| "pick_username (Suc n) i base username =
     bind (userRepo_ExistsByUsername username) (\<lambda>exists.
     if \<not> exists then ret username
     else pick_username n (i + 1) base (base @ ''-'' @ itoa i))"

text \<open>The body of the transaction, then what follows the commit.\<close>

definition invite_account :: "InviteUserInput \<Rightarrow> string \<Rightarrow> ctx \<Rightarrow> user comp" where
  "invite_account inp hash cx =
     bind ask (\<lambda>e.
     let email = TrimSpace (ii_Email inp); base = deriveUsername (unicode_tables e) email in
     bind (pick_username 98 2 base base) (\<lambda>username.
     bind (attempt (userRepo_ExistsByUsername username)) (\<lambda>r.
     if r = Inr True then
       throw (ConflictErrorf (''khong the sinh username duy nhat tu email '' @ email))
     else
       (let actor = UserID cx;
            user = User0\<lparr>usr_Username := username, usr_PasswordHash := hash,
              usr_FullName := TrimSpace (ii_FullName inp), usr_Email := Some email,
              usr_Phone := trimPtr (ii_Phone inp), usr_Role := ii_Role inp,
              usr_Status := UserStatusActive,
              usr_StaffCode := upperPtr (unicode_tables e) (ii_StaffCode inp),
              usr_ForcePasswordChange := True,
              usr_CreatedBy := actor, usr_UpdatedBy := actor\<rparr> in
        bind (userRepo_Create user) (\<lambda>user.
        bind (seed_permissions user (ii_Role inp) actor) (\<lambda>_.
        bind (auditRepo_Write cx (user_audit AuditUserInvited user
                (''moi nguoi dung '' @ usr_Username user @ '' ('' @ email @ '')''))) (\<lambda>_.
        ret user)))))))"

definition invite_mail :: "invite_config \<Rightarrow> InviteUserInput \<Rightarrow> string \<Rightarrow> user \<Rightarrow> (user \<times> bool \<times> string) comp" where
  "invite_mail cfg inp plainPw created =
     (case ic_mailer cfg of
        None \<Rightarrow> ret (created, False, plainPw)
      | Some mailer \<Rightarrow>
          bind (attempt (Send mailer
            (buildInviteEmail (TrimSpace (ii_Email inp)) (TrimSpace (ii_FullName inp))
               (usr_Username created) plainPw (ic_loginURL cfg)))) (\<lambda>r.
          case r of
            Inl err \<Rightarrow> ret (created, False, plainPw)
          | Inr _ \<Rightarrow> ret (created, True, '''')))"

definition userUC_Invite :: "invite_config \<Rightarrow> InviteUserInput \<Rightarrow> ctx \<Rightarrow> (user \<times> bool \<times> string) comp" where
  "userUC_Invite cfg inp cx =
     (if TrimSpace (ii_Email inp) = '''' \<or> TrimSpace (ii_FullName inp) = '''' then
        throw (BadRequestErrorf ''email va ho ten la bat buoc'')
      else if \<not> Role_Valid (ii_Role inp) \<or> ii_Role inp = RoleAdmin then
        throw (BadRequestErrorf ''vai tro khong hop le'')
      else
        bind (wrap_internal ''sinh mat khau that bai'' generateInvitePassword) (\<lambda>plainPw.
        bind (wrap_internal ''hash mat khau that bai'' (HashPassword plainPw)) (\<lambda>hash.
        bind (Run cx (invite_account inp hash)) (\<lambda>created.
        invite_mail cfg inp plainPw created))))"

section \<open>The password's composition\<close>

text \<open>Documented of \<open>rand.Int\<close>: a value below the bound.\<close>

definition rand_ok :: "env \<Rightarrow> bool" where
  "rand_ok e \<longleftrightarrow> (\<forall>n m j. 0 < m \<longrightarrow> rand_int e n m = Some j \<longrightarrow> 0 \<le> j \<and> j < m)"

lemma rand_ok_sample_env [simp]: "rand_ok sample_env"
  by (simp add: rand_ok_def sample_env_def)

lemma rand_Int_ok:
  "rand_ok e \<Longrightarrow> 0 < m \<Longrightarrow> rand_Int m e w = (Inr j, w') \<Longrightarrow> 0 \<le> j \<and> j < m \<and> same_db w w'"
  by (auto simp: rand_Int_def rand_ok_def split: option.splits)

lemma randCharFrom_ok:
  assumes "rand_ok e" and "cs \<noteq> ''''" and "randCharFrom cs e w = (Inr c, w')"
  shows "c \<in> set cs \<and> same_db w w'"
proof -
  from assms(3) obtain j where j: "rand_Int (int (length cs)) e w = (Inr j, w')" "c = cs ! nat j"
    by (auto simp: randCharFrom_def ok_iff)
  with rand_Int_ok [OF assms(1) _ j(1)] assms(2) show ?thesis by (auto intro!: nth_mem)
qed

lemma gen_parts_ok:
  assumes "rand_ok e" and "\<forall>cs \<in> set parts. cs \<noteq> ''''" and "gen_parts parts buf e w = (Inr buf', w')"
  shows "\<exists>cs. buf' = buf @ cs \<and> list_all2 (\<lambda>c s. c \<in> set s) cs parts \<and> same_db w w'"
  using assms(2,3)
proof (induction parts arbitrary: buf w)
  case Nil
  then show ?case by (auto simp: ret_ok)
next
  case (Cons s parts)
  from Cons.prems(2) obtain c w1 where c: "randCharFrom s e w = (Inr c, w1)"
    and rest: "gen_parts parts (buf @ [c]) e w1 = (Inr buf', w')" by (auto simp: bind_ok)
  from randCharFrom_ok [OF assms(1) _ c] Cons.prems(1) have "c \<in> set s" and "same_db w w1" by auto
  moreover from Cons.IH [OF _ rest] Cons.prems(1) obtain cs
    where "buf' = (buf @ [c]) @ cs" "list_all2 (\<lambda>c s. c \<in> set s) cs parts" "same_db w1 w'" by auto
  ultimately show ?case by (intro exI [of _ "c # cs"]) (auto simp: same_db_def outside_db_def)
qed

lemma gen_fill_ok:
  assumes "rand_ok e" and "gen_fill n buf e w = (Inr buf', w')"
  shows "\<exists>cs. buf' = buf @ cs \<and> length cs = n \<and> set cs \<subseteq> set invitePasswordAlphabet \<and> same_db w w'"
  using assms(2)
proof (induction n arbitrary: buf w)
  case 0
  then show ?case by (auto simp: ret_ok)
next
  case (Suc n)
  then obtain c w1 where c: "randCharFrom invitePasswordAlphabet e w = (Inr c, w1)"
    and rest: "gen_fill n (buf @ [c]) e w1 = (Inr buf', w')" by (auto simp: bind_ok)
  have "invitePasswordAlphabet \<noteq> ''''" by (simp add: invitePasswordAlphabet_def)
  from randCharFrom_ok [OF assms(1) this c] Suc.IH [OF rest]
  show ?case by (auto simp: same_db_def outside_db_def)
qed

lemma mset_swap_password: "i < length s \<Longrightarrow> j < length s \<Longrightarrow> mset (swap i j s) = mset s"
  by (simp add: swap_def mset_swap)

lemma shuffle_down_ok:
  assumes "rand_ok e" and "i < length buf" and "shuffle_down i buf e w = (Inr buf', w')"
  shows "mset buf' = mset buf \<and> same_db w w'"
  using assms(2,3)
proof (induction i arbitrary: buf w)
  case 0
  then show ?case by (auto simp: ret_ok)
next
  case (Suc i)
  then obtain j w1 where j: "rand_Int (int (Suc i) + 1) e w = (Inr j, w1)"
    and rest: "shuffle_down i (swap (Suc i) (nat j) buf) e w1 = (Inr buf', w')" by (auto simp: bind_ok)
  from rand_Int_ok [OF assms(1) _ j] Suc.prems(1) have "nat j < length buf" and "same_db w w1" by auto
  with Suc.IH [OF _ rest] mset_swap_password [of "Suc i" buf "nat j"] Suc.prems(1)
  show ?case by (auto simp: swap_def same_db_def outside_db_def)
qed

lemma alphabet_parts:
  "set upper_set \<union> set lower_set \<union> set digit_set = set invitePasswordAlphabet"
proof -
  have alphabet: "invitePasswordAlphabet = upper_set @ lower_set @ digit_set"
    by (simp add: upper_set_def lower_set_def digit_set_def invitePasswordAlphabet_def)
  show ?thesis by (simp only: alphabet set_append Un_assoc)
qed

definition strong_password :: "string \<Rightarrow> bool" where
  "strong_password p \<longleftrightarrow> length p = 12 \<and> set p \<subseteq> set invitePasswordAlphabet \<and>
     set p \<inter> set upper_set \<noteq> {} \<and> set p \<inter> set lower_set \<noteq> {} \<and> set p \<inter> set digit_set \<noteq> {}"

lemma generateInvitePassword_ok:
  assumes "rand_ok e" and "generateInvitePassword e w = (Inr p, w')"
  shows "strong_password p \<and> same_db w w'"
proof -
  from assms(2) obtain b1 w1 b2 w2 where
    1: "gen_parts [upper_set, lower_set, digit_set] '''' e w = (Inr b1, w1)"
    and 2: "gen_fill (12 - length b1) b1 e w1 = (Inr b2, w2)"
    and 3: "shuffle_down (length b2 - 1) b2 e w2 = (Inr p, w')"
    by (auto simp: generateInvitePassword_def bind_ok)
  have "\<forall>cs \<in> set [upper_set, lower_set, digit_set]. cs \<noteq> ''''"
    by (simp add: upper_set_def lower_set_def digit_set_def)
  from gen_parts_ok [OF assms(1) this 1] obtain cu cl cd where
    b1: "b1 = [cu, cl, cd]" "cu \<in> set upper_set" "cl \<in> set lower_set" "cd \<in> set digit_set"
    and db1: "same_db w w1"
    by (auto simp: list_all2_Cons2)
  from gen_fill_ok [OF assms(1) 2] obtain cs where
    b2: "b2 = b1 @ cs" "length cs = 9" "set cs \<subseteq> set invitePasswordAlphabet" and db2: "same_db w1 w2"
    by (auto simp: b1)
  from shuffle_down_ok [OF assms(1) _ 3] b1 b2 have m: "mset p = mset b2" and db3: "same_db w2 w'"
    by auto
  then have "set p = set b2" and "length p = length b2" by (metis set_mset_mset, metis size_mset)
  moreover have "set b2 \<subseteq> set invitePasswordAlphabet" using b1 b2 alphabet_parts by auto
  ultimately show ?thesis
    using b1 b2 db1 db2 db3 by (auto simp: strong_password_def same_db_def outside_db_def)
qed

section \<open>The derived user name\<close>

definition username_char :: "char \<Rightarrow> bool" where
  "username_char c \<longleftrightarrow> (97 \<le> byte c \<and> byte c \<le> 122) \<or> (48 \<le> byte c \<and> byte c \<le> 57) \<or> c = CHR ''-''"

lemma username_rune_chars: "c \<in> set (username_rune r) \<Longrightarrow> username_char c"
  by (auto simp: username_rune_def username_char_def byte_def split: if_splits)

lemma set_Trim: "set (Trim s cs) \<subseteq> set s"
  by (auto simp: Trim_def TrimLeft_def TrimRight_def dest!: set_dropWhileD)

lemma collapse_dashes_props:
  "set (collapse_dashes s) \<subseteq> insert (CHR ''-'') (set s) \<and> \<not> Contains (collapse_dashes s) ''--''"
proof (induction s rule: collapse_dashes.induct)
  case (1 s)
  show ?case
  proof (cases "Contains s ''--''")
    case True
    with 1 set_ReplaceAll [of s "''--''" "''-''"] show ?thesis
      by (subst (1 2) collapse_dashes.simps) auto
  next
    case False
    then show ?thesis by (subst (1 2) collapse_dashes.simps) auto
  qed
qed

lemma Trim_hd: "Trim s cs \<noteq> '''' \<Longrightarrow> hd (Trim s cs) \<notin> set cs"
proof -
  assume ne: "Trim s cs \<noteq> ''''"
  have "prefix (TrimRight t cs) t" for t
    by (metis TrimRight_def rev_rev_ident suffix_dropWhile suffix_to_prefix)
  then have "prefix (Trim s cs) (TrimLeft s cs)" by (simp add: Trim_def)
  with ne have "hd (Trim s cs) = hd (TrimLeft s cs)" and "TrimLeft s cs \<noteq> ''''"
    by (auto simp: prefix_def)
  then show ?thesis using hd_dropWhile [of "\<lambda>c. c \<in> set cs" s] by (auto simp: TrimLeft_def)
qed

lemma ReplaceAll_hd:
  "s \<noteq> '''' \<Longrightarrow> hd s \<noteq> CHR ''-'' \<Longrightarrow>
     ReplaceAll s ''--'' ''-'' \<noteq> '''' \<and> hd (ReplaceAll s ''--'' ''-'') = hd s"
  by (cases s) (auto simp: ReplaceAll_skip)

lemma collapse_dashes_hd:
  "s \<noteq> '''' \<Longrightarrow> hd s \<noteq> CHR ''-'' \<Longrightarrow> collapse_dashes s \<noteq> '''' \<and> hd (collapse_dashes s) = hd s"
proof (induction s rule: collapse_dashes.induct)
  case (1 s)
  then show ?case
    using ReplaceAll_hd [OF 1(2,3)] by (subst (1 2) collapse_dashes.simps) auto
qed

lemma collapse_dashes_Nil [simp]: "collapse_dashes '''' = ''''"
  by (simp add: collapse_dashes.simps Contains_def)

section \<open>The contract\<close>

lemma keeps_Send [keeps_intros]: "keeps same_tables (Send s msg)" "keeps same_log (Send s msg)"
  by (simp_all add: keeps_def same_tables_def same_log_def Send_result [OF prod.collapse [symmetric]])

lemma keeps_rand_Int [keeps_intros]: "frame R \<Longrightarrow> keeps R (rand_Int m)"
  by (auto simp: keeps_def rand_Int_def frame_tick split: option.split)

lemma keeps_gen_parts [keeps_intros]: "frame R \<Longrightarrow> keeps R (gen_parts parts buf)"
  by (induction parts arbitrary: buf) (auto simp: randCharFrom_def intro!: keeps_intros)

lemma keeps_gen_fill [keeps_intros]: "frame R \<Longrightarrow> keeps R (gen_fill n buf)"
  by (induction n arbitrary: buf) (auto simp: randCharFrom_def intro!: keeps_intros)

lemma keeps_shuffle_down [keeps_intros]: "frame R \<Longrightarrow> keeps R (shuffle_down n buf)"
  by (induction n arbitrary: buf) (auto intro!: keeps_intros)

lemma keeps_generateInvitePassword [keeps_intros]: "frame R \<Longrightarrow> keeps R generateInvitePassword"
  unfolding generateInvitePassword_def by (intro keeps_intros; assumption)

lemma keeps_wrap_internal [keeps_intros]: "frame R \<Longrightarrow> keeps R m \<Longrightarrow> keeps R (wrap_internal msg m)"
  unfolding wrap_internal_def by (intro keeps_intros; assumption)

lemma keeps_pick_username [keeps_intros]: "frame R \<Longrightarrow> keeps R (pick_username n i base u)"
  by (induction n arbitrary: i u)
    (auto simp: userRepo_ExistsByUsername_def intro!: keeps_intros)

lemma logs_invite_account: "logs cx AuditUserInvited (invite_account inp hash cx)"
  unfolding invite_account_def
  by (intro logs_rules keeps_intros frame_same_log; simp add: user_audit_def)

lemma logs_userUC_Invite: "logs cx AuditUserInvited (userUC_Invite cfg inp cx)"
  unfolding userUC_Invite_def invite_mail_def
  by (intro logs_if logs_throw logs_bind [where m = "wrap_internal msg m" for msg m] logs_then
      logs_Run logs_invite_account keeps_intros frame_same_log)

lemma reverts_userUC_Invite: "\<not> ctxKeyTx cx \<Longrightarrow> reverts (userUC_Invite cfg inp cx)"
  unfolding userUC_Invite_def invite_mail_def
  by (intro reverts_if reverts_throw reverts_bind [where m = "wrap_internal msg m" for msg m]
      reverts_then reverts_Run reverts_intros keeps_intros frame_same_tables)


interpretation user_invite: audited_use_case "userUC_Invite cfg iin" AuditUserInvited
  by unfold_locales (rule logs_userUC_Invite, erule (1) revertsD [OF reverts_userUC_Invite])

section \<open>Properties\<close>

lemma Contains_take: "Contains (take n s) p \<Longrightarrow> Contains s p"
  unfolding Contains_iff by (metis append.assoc append_take_drop_id)

lemma deriveUsername_facts:
  assumes "u = deriveUsername U email"
  shows "u \<noteq> ''''" and "length u \<le> 60" and "\<forall>c \<in> set u. username_char c"
    and "hd u \<noteq> CHR ''-''" and "\<not> Contains u ''--''"
proof -
  define at where "at = IndexByte email (CHR ''@'')"
  define b where "b = concat (map username_rune
    (runes (ToLower U (TrimSpace (if 0 < at then take (nat at) email else email)))))"
  define s where "s = collapse_dashes (Trim b ''-'')"
  define t where "t = (if s = '''' then ''user'' else s)"
  have u: "u = take 60 t"
    by (simp add: assms deriveUsername_def Let_def t_def s_def b_def at_def)
  have "set b \<subseteq> Collect username_char" using username_rune_chars by (auto simp: b_def)
  moreover have "set s \<subseteq> insert (CHR ''-'') (set b)"
    using collapse_dashes_props [of "Trim b ''-''"] set_Trim [of b "''-''"] by (auto simp: s_def)
  moreover have "username_char (CHR ''-'')" by (simp add: username_char_def)
  ultimately have "set s \<subseteq> Collect username_char" by blast
  then have "set t \<subseteq> Collect username_char" by (auto simp: t_def username_char_def byte_def)
  then show "\<forall>c \<in> set u. username_char c" using set_take_subset [of 60 t] by (auto simp: u)
  have t: "t \<noteq> ''''" by (simp add: t_def)
  then show "u \<noteq> ''''" by (simp add: u)
  show "length u \<le> 60" by (simp add: u)
  have "hd t \<noteq> CHR ''-''"
  proof (cases "s = ''''")
    case False
    then have ne: "Trim b ''-'' \<noteq> ''''" by (auto simp: s_def)
    have "hd (Trim b ''-'') \<noteq> CHR ''-''" using Trim_hd [OF ne] by simp
    then have "hd s \<noteq> CHR ''-''" using collapse_dashes_hd [OF ne] by (simp only: s_def simp_thms)
    with False show ?thesis by (simp only: t_def if_False simp_thms)
  qed (simp add: t_def)
  with t show "hd u \<noteq> CHR ''-''" by (simp add: u)
  have "\<not> Contains s ''--''" using collapse_dashes_props unfolding s_def by blast
  moreover have "\<not> Contains ''user'' ''--''"
  proof
    assume "Contains ''user'' ''--''"
    then have "CHR ''-'' \<in> set ''user''" unfolding Contains_iff by (elim exE) (simp only: set_append, simp)
    then show False by simp
  qed
  ultimately have "\<not> Contains t ''--''" unfolding t_def by presburger
  then show "\<not> Contains u ''--''" unfolding u by (rule contrapos_nn) (rule Contains_take)
qed

text \<open>
  The user name derived from any e-mail address is a well-formed identifier: it is not empty,
  has at most 60 bytes, consists of lower-case letters, digits and single dashes, and does not
  begin with a dash.
\<close>

theorem derived_username_well_formed:
  "deriveUsername U email \<noteq> '''' \<and> length (deriveUsername U email) \<le> 60 \<and>
   list_all username_char (deriveUsername U email) \<and> hd (deriveUsername U email) \<noteq> CHR ''-'' \<and>
   \<not> Contains (deriveUsername U email) ''--''"
  using deriveUsername_facts [OF refl, of U email] by (simp add: list_all_iff)

lemma sample_password_runs: "\<exists>p w'. generateInvitePassword sample_env sample_world = (Inr p, w')"
  by (simp add: generateInvitePassword_def randCharFrom_def rand_Int_def bind_def ret_def
      numeral_eq_Suc sample_env_def)

lemma invite_sample_password:
  "\<exists>p w1. generateInvitePassword sample_env sample_world = (Inr p, w1) \<and> strong_password p \<and>
     same_db sample_world w1"
  using sample_password_runs generateInvitePassword_ok [OF rand_ok_sample_env] by blast

text \<open>
  Every generated invitation password has 12 characters of the unambiguous alphabet, with at
  least one upper-case letter, one lower-case letter and one digit, whatever the random source
  returns; generating it touches no state.
\<close>

theorem invite_password_strong:
  assumes "rand_ok e" and "generateInvitePassword e w = (Inr p, w')"
  shows "strong_password p \<and> same_db w w'"
  using generateInvitePassword_ok [OF assms] .

theorem invite_password_strong_witness:
  "case generateInvitePassword sample_env sample_world of
     (Inr p, w') \<Rightarrow> strong_password p \<and> same_db sample_world w' | (Inl _, _) \<Rightarrow> False"
  using sample_password_runs invite_password_strong [OF rand_ok_sample_env]
  by (fastforce split: prod.split sum.split)

lemma pick_username_ok:
  assumes "pick_username n i b u e w = (Inr u', w')"
  shows "same_db w w'"
  using assms
proof (induction n arbitrary: i u w)
  case 0
  then show ?case by (simp add: ok_iff)
next
  case (Suc n)
  then show ?case
    by (auto simp: bind_ok ret_ok same_db_def outside_db_def split: if_splits elim!: ExistsByUsername_okE)
qed

lemma same_db_trans [trans]: "same_db a b \<Longrightarrow> same_db b c \<Longrightarrow> same_db a c"
  by (auto simp: same_db_def dest: outside_db_trans)

text \<open>What was submitted: the invitation, unless the sender only logs.\<close>

definition submitted :: "sender option \<Rightarrow> message \<Rightarrow> message list \<Rightarrow> message list" where
  "submitted mailer msg outbox = (if mailer = Some LoggerSender then outbox else msg # outbox)"

lemma exists_quiet:
  assumes "quiet e" and "attempt (userRepo_ExistsByUsername n) e w = (Inr r, w')"
  shows "r = Inr (\<exists>r \<in> set (users (w_db w)). same_username e n r) \<and> same_db w w'"
proof -
  from assms(2) have run: "userRepo_ExistsByUsername n e w = (r, w')" by (simp add: attempt_ok)
  with assms(1) obtain b where r: "r = Inr b"
    by (auto simp: userRepo_ExistsByUsername_def bind_def ask_def query_def stmt_def quiet_def)
  with userRepo_ExistsByUsername_effect run show ?thesis by blast
qed

lemma invite_account_spec:
  assumes "invite_account inp hash cx e w = (Inr u, w')" and "quiet e" and "same_db w0 w" and "same_db w' w1"
  shows "account_created e u (ii_Role inp) w0 w1 \<and> usr_Role u = ii_Role inp \<and>
    usr_PasswordHash u = hash \<and> usr_Status u = UserStatusActive \<and> usr_ForcePasswordChange u \<and>
    usr_Email u = Some (TrimSpace (ii_Email inp)) \<and>
    (\<forall>r \<in> set (users (w_db w0)). \<not> same_username e (usr_Username u) r)"
  using assms(1) unfolding invite_account_def
proof (elim ok_elims, goal_cases)
  case (1 x wa name wb r wc u' wd s we a wf)
  note pick = pick_username_ok [OF 1(1)] and free = exists_quiet [OF assms(2) 1(2)]
  note create = userRepo_Create_aggregate [OF 1(4)]
  have "same_db w0 wc" and "same_db wf w1"
    using pick free assms(3,4) 1 same_db_trans by blast+
  with account_createdI [OF 1(4-6)] 1 have "account_created e u (ii_Role inp) w0 w1" by simp
  moreover have "w_db wb = w_db w0" using pick assms(3) 1 by (simp add: same_db_def)
  ultimately show ?case
    using create free 1(3) by (auto simp: 1(7) User0_def same_username_def)
qed

lemma keeps_outside_invite: "keeps outside_db (invite_account inp hash cx)"
  unfolding invite_account_def seed_permissions_def userRepo_Create_def permRepo_Create_def
    auditRepo_Write_def userRepo_ExistsByUsername_def
  by (intro keeps_intros frame_outside_db)

lemma invite_mail_result:
  assumes "invite_mail cfg inp p u e w = (Inr (v, sent, pw), w')"
  shows "v = u \<and> w_db w' = w_db w \<and> w_seq w' = w_seq w \<and>
    (if sent then pw = '''' \<and> w_outbox w' = submitted (ic_mailer cfg) (buildInviteEmail
         (TrimSpace (ii_Email inp)) (TrimSpace (ii_FullName inp)) (usr_Username u) p (ic_loginURL cfg)) (w_outbox w)
     else pw = p \<and> w_outbox w' = w_outbox w)"
proof (cases "ic_mailer cfg")
  case None
  with assms show ?thesis by (auto simp: invite_mail_def ret_ok)
next
  case (Some mc)
  define msg where "msg = buildInviteEmail (TrimSpace (ii_Email inp)) (TrimSpace (ii_FullName inp))
    (usr_Username u) p (ic_loginURL cfg)"
  obtain r w1 where send: "Send mc msg e w = (r, w1)" by fastforce
  with assms Some have "w' = w1 \<and> (v, sent, pw) = (if r = Inr () then (u, True, []) else (u, False, p))"
    by (cases r) (auto simp: invite_mail_def bind_def attempt_def ret_def msg_def)
  with Send_result [OF send] Some show ?thesis by (auto simp: msg_def submitted_def split: if_splits)
qed

text \<open>
  C8: a successful invitation creates exactly one account, active, with the invited role and a
  user name nobody had, that must change its password; its password hash is the hash of a strong
  random password, which is submitted once as a mail to the invited address or, when sending
  failed, returned to the administrator. The exception is the sender that only logs: it reports the
  mail as sent, so the password is neither mailed nor returned.
\<close>

theorem invite_creates_account:
  assumes "quiet e" and "rand_ok e" and "userUC_Invite cfg inp cx e w = (Inr (u, sent, pw), w')"
  shows "account_created e u (ii_Role inp) w w' \<and> usr_Status u = UserStatusActive \<and>
    usr_Role u = ii_Role inp \<and> ii_Role inp \<noteq> RoleAdmin \<and> usr_ForcePasswordChange u \<and>
    (\<forall>r \<in> set (users (w_db w)). \<not> same_username e (usr_Username u) r) \<and>
    (\<exists>p n. strong_password p \<and> bcrypt_hash e n p = Some (usr_PasswordHash u) \<and>
      (if sent then pw = '''' \<and> w_outbox w' = submitted (ic_mailer cfg) (buildInviteEmail
           (TrimSpace (ii_Email inp)) (TrimSpace (ii_FullName inp)) (usr_Username u) p (ic_loginURL cfg)) (w_outbox w)
       else pw = p \<and> w_outbox w' = w_outbox w))"
proof -
  from assms(3) obtain p w1 hash w2 v w3 where role: "ii_Role inp \<noteq> RoleAdmin"
    and gen: "generateInvitePassword e w = (Inr p, w1)"
    and hash: "HashPassword p e w1 = (Inr hash, w2)"
    and run: "Run cx (invite_account inp hash) e w2 = (Inr v, w3)"
    and mail: "invite_mail cfg inp p v e w3 = (Inr (u, sent, pw), w')"
    by (auto simp: userUC_Invite_def bind_ok throw_ok wrap_internal_ok split: if_splits)
  note strong = generateInvitePassword_ok [OF assms(2) gen]
  obtain n where n: "bcrypt_hash e n p = Some hash" and db2: "same_db w1 w2"
    by (rule HashPassword_okE [OF hash])
  have db: "same_db w w2" using strong db2 same_db_trans by blast
  obtain cx' w4 w5 where body: "invite_account inp hash cx' e w4 = (Inr v, w5)"
    and "same_db w2 w4" and out: "same_db w5 w3"
    by (rule Run_okE [OF run])
  with db have "same_db w w4" using same_db_trans by blast
  note acc = invite_account_spec [OF body assms(1) this out]
  note m = invite_mail_result [OF mail]
  have "outside_db w2 w3"
    using keepsD [OF keeps_outside_Run [OF keeps_outside_invite] run] .
  then have "w_outbox w3 = w_outbox w" using db by (simp add: same_db_def outside_db_def)
  with acc m strong n role show ?thesis by (auto simp: account_created_def)
qed

definition sample_invite :: InviteUserInput where
  "sample_invite = \<lparr>ii_Email = ''Stan.B+x@vtv.vn'', ii_FullName = ''Stan'', ii_Role = RoleStaff,
     ii_StaffCode = None, ii_Phone = None\<rparr>"

definition sample_invite_config :: invite_config where
  "sample_invite_config = \<lparr>ic_mailer = Some (SMTPSender \<lparr>mc_Host = ''mail'', mc_Port = 587,
     mc_Username = '''', mc_Password = '''', mc_From = ''a@b.c''\<rparr>), ic_loginURL = ''''\<rparr>"

text \<open>Nothing but a taken name, bad input or a failed call stands in the way of an invitation.\<close>

lemma invite_succeeds:
  assumes "quiet e" and "generateInvitePassword e w = (Inr p, w1)" and "same_db w w1"
    and "bcrypt_hash e (w_tick w1) p = Some h" and "\<not> ctxKeyTx cx"
    and "TrimSpace (ii_Email inp) \<noteq> ''''" and "TrimSpace (ii_FullName inp) \<noteq> ''''"
    and "Role_Valid (ii_Role inp)" and "ii_Role inp \<noteq> RoleAdmin"
    and "\<forall>r \<in> set (users (w_db w)). \<not> same_username e (deriveUsername (unicode_tables e) (TrimSpace (ii_Email inp))) r"
  shows "\<exists>u sent pw w'. userUC_Invite cfg inp cx e w = (Inr (u, sent, pw), w')"
proof -
  have cnt: "count_where (same_username e (deriveUsername (unicode_tables e) (TrimSpace (ii_Email inp)))) (users (w_db w1)) = 0"
    using assms(3,10) by (simp add: count_where_def filter_empty_conv same_db_def)
  have q: "fault e n = None" for n using assms(1) by (simp add: quiet_def)
  have "\<exists>u w2. Run cx (invite_account inp h) e (tick w1) = (Inr u, w2)"
    using assms(1,5,9)
    by (simp add: run_steps invite_account_def userRepo_ExistsByUsername_def userRepo_Create_def seed_permissions_def Let_def 
       permRepo_Create_def auditRepo_Write_def numeral_eq_Suc cnt q)
  then obtain u w2 where run: "Run cx (invite_account inp h) e (tick w1) = (Inr u, w2)" by blast
  show ?thesis
    using assms(2,4,6-9) run
    by (auto simp: userUC_Invite_def wrap_internal_def run_steps HashPassword_def invite_mail_def
        split: option.split prod.split sum.split)
qed

lemma sample_invite_runs:
  "\<exists>u sent pw w'. userUC_Invite sample_invite_config sample_invite sample_ctx sample_env sample_world =
     (Inr (u, sent, pw), w')"
proof -
  obtain p w1 where gen: "generateInvitePassword sample_env sample_world = (Inr p, w1)"
    and strong: "strong_password p" and db: "same_db sample_world w1"
    using invite_sample_password by blast
  have name: "deriveUsername (unicode_tables sample_env) (TrimSpace (ii_Email sample_invite)) = ''stan-b-x''"
    by code_simp
  have "bcrypt_hash sample_env (w_tick w1) p = Some (''$2a$12$'' @ p)"
    using strong by (simp add: sample_env_def strong_password_def)
  moreover have "\<forall>r \<in> set (users (w_db sample_world)). \<not> same_username sample_env ''stan-b-x'' r"
    by code_simp
  moreover have "TrimSpace (ii_Email sample_invite) \<noteq> ''''" "TrimSpace (ii_FullName sample_invite) \<noteq> ''''"
    "Role_Valid (ii_Role sample_invite)" "ii_Role sample_invite \<noteq> RoleAdmin" by code_simp+
  ultimately show ?thesis
    by (intro invite_succeeds [OF quiet_sample_env gen db]) (simp_all add: name)
qed

theorem invite_creates_account_witness:
  "case userUC_Invite sample_invite_config sample_invite sample_ctx sample_env sample_world of
     (Inr (u, sent, pw), w') \<Rightarrow> account_created sample_env u RoleStaff sample_world w' \<and>
       usr_ForcePasswordChange u
   | (Inl _, _) \<Rightarrow> False"
proof -
  obtain u sent pw w' where run: "userUC_Invite sample_invite_config sample_invite sample_ctx sample_env
      sample_world = (Inr (u, sent, pw), w')" using sample_invite_runs by blast
  from invite_creates_account [OF quiet_sample_env rand_ok_sample_env run] run show ?thesis
    by (simp add: sample_invite_def)
qed

end
