(* ===== verification/User_Bulk.thy ===== *)
theory User_Bulk
  imports User_UC
begin

text \<open>
  The bulk operations of \<open>internal/usecase/user.go\<close>: \<open>bulkApply\<close> and its three clients
  \<open>BulkLock\<close>, \<open>BulkUnlock\<close>, \<open>BulkDelete\<close>. Each id runs in a transaction of its own; what a client
  passes as \<open>perform\<close> must satisfy the contract of the locale \<open>bulk_client\<close>, and what the batch
  guarantees is proved once from that contract.
\<close>

section \<open>The loop\<close>

record BulkUserFailure =
  bf_UserID :: int
  bf_Reason :: string

definition bulk_one :: "ctx \<Rightarrow> (ctx \<Rightarrow> user \<Rightarrow> string comp) \<Rightarrow> int \<Rightarrow> string comp" where
  "bulk_one cx perform i =
     Run cx (\<lambda>cx.
       bind (userRepo_GetByID i) (\<lambda>ouser.
       case ouser of
         None \<Rightarrow> ret ''khong tim thay nguoi dung''
       | Some user \<Rightarrow>
           if usr_Role user = RoleAdmin
           then ret ''khong thao tac duoc len tai khoan quan tri''
           else perform cx user))"

fun bulk_loop ::
  "ctx \<Rightarrow> (ctx \<Rightarrow> user \<Rightarrow> string comp) \<Rightarrow> int list \<Rightarrow> int list \<Rightarrow> int \<Rightarrow> BulkUserFailure list \<Rightarrow>
     (int \<times> BulkUserFailure list) comp" where
  "bulk_loop cx perform [] seen ok failures = ret (ok, failures)"
| "bulk_loop cx perform (i # ids) seen ok failures =
     (if i \<in> set seen then bulk_loop cx perform ids seen ok failures
      else if i = UserID cx then
        bulk_loop cx perform ids (i # seen) ok
          (failures @ [\<lparr>bf_UserID = i,
                        bf_Reason = ''khong the tu thao tac voi tai khoan cua minh''\<rparr>])
      else
        bind ask (\<lambda>e.
        bind (attempt (bulk_one cx perform i)) (\<lambda>r.
        case r of
          Inl err \<Rightarrow>
            bulk_loop cx perform ids (i # seen) ok
              (failures @ [\<lparr>bf_UserID = i, bf_Reason = Error (db_text e) err\<rparr>])
        | Inr skip \<Rightarrow>
            if skip \<noteq> '''' then
              bulk_loop cx perform ids (i # seen) ok
                (failures @ [\<lparr>bf_UserID = i, bf_Reason = skip\<rparr>])
            else bulk_loop cx perform ids (i # seen) (ok + 1) failures)))"

definition bulkApply ::
  "ctx \<Rightarrow> int list \<Rightarrow> (ctx \<Rightarrow> user \<Rightarrow> string comp) \<Rightarrow> (int \<times> BulkUserFailure list) comp" where
  "bulkApply cx ids perform = bulk_loop cx perform ids [] 0 []"

section \<open>The clients\<close>

definition lock_one :: "ctx \<Rightarrow> user \<Rightarrow> string comp" where
  "lock_one cx user =
     (if IsDeleted user then ret ''tai khoan da bi xoa''
      else if IsLocked user then ret ''da bi khoa''
      else
        case Lock user of
          Inl err \<Rightarrow> bind ask (\<lambda>e. ret (Error (db_text e) err))
        | Inr user \<Rightarrow>
            (let user = user\<lparr>usr_UpdatedBy := UserID cx\<rparr> in
             bind (userRepo_Update user) (\<lambda>user.
             bind (auditRepo_Write cx (user_audit AuditUserLocked user
                     (''khoa nguoi dung '' @ usr_Username user))) (\<lambda>_.
             ret ''''))))"

definition unlock_one :: "ctx \<Rightarrow> user \<Rightarrow> string comp" where
  "unlock_one cx user =
     (if IsDeleted user then ret ''tai khoan da bi xoa''
      else if usr_Status user = UserStatusActive then ret ''da hoat dong''
      else
        case Unlock user of
          Inl err \<Rightarrow> bind ask (\<lambda>e. ret (Error (db_text e) err))
        | Inr user \<Rightarrow>
            (let user = user\<lparr>usr_UpdatedBy := UserID cx\<rparr> in
             bind (userRepo_Update user) (\<lambda>user.
             bind (auditRepo_Write cx (user_audit AuditUserUnlocked user
                     (''mo khoa nguoi dung '' @ usr_Username user))) (\<lambda>_.
             ret ''''))))"

definition delete_one :: "ctx \<Rightarrow> user \<Rightarrow> string comp" where
  "delete_one cx user =
     (if IsDeleted user then ret ''da bi xoa''
      else
        (let actor = UserID cx in
         bind (userRepo_SoftDelete (usr_ID user) actor) (\<lambda>_.
         bind (auditRepo_Write cx (user_audit AuditUserDeleted user
                 (''xoa nguoi dung '' @ usr_Username user))) (\<lambda>_.
         ret ''''))))"

definition userUC_BulkLock :: "int list \<Rightarrow> ctx \<Rightarrow> (int \<times> BulkUserFailure list) comp" where
  "userUC_BulkLock userIDs cx = bulkApply cx userIDs lock_one"

definition userUC_BulkUnlock :: "int list \<Rightarrow> ctx \<Rightarrow> (int \<times> BulkUserFailure list) comp" where
  "userUC_BulkUnlock userIDs cx = bulkApply cx userIDs unlock_one"

definition userUC_BulkDelete :: "int list \<Rightarrow> ctx \<Rightarrow> (int \<times> BulkUserFailure list) comp" where
  "userUC_BulkDelete userIDs cx = bulkApply cx userIDs delete_one"

section \<open>What a batch guarantees\<close>

text \<open>The tables a bulk operation never touches.\<close>

definition other_tables :: "db \<Rightarrow> db \<Rightarrow> bool" where
  "other_tables d d' \<longleftrightarrow> user_permissions d' = user_permissions d \<and> settings d' = settings d \<and>
     announcements d' = announcements d \<and> notifications d' = notifications d"

definition touches_only :: "int \<Rightarrow> db \<Rightarrow> db \<Rightarrow> bool" where
  "touches_only i d d' \<longleftrightarrow>
     map ur_ID (users d') = map ur_ID (users d) \<and> other_tables d d' \<and>
     (\<forall>r \<in> set (users d). ur_ID r \<noteq> i \<longrightarrow> r \<in> set (users d'))"

text \<open>
  The outcome of the ids in \<open>A\<close>: \<open>k\<close> successes and the failures \<open>fs\<close> account for every id once;
  one audit row per success; accounts outside \<open>A\<close>, the caller's and administrators' are as before;
  an id that is not reported as failed satisfies \<open>goal\<close>.
\<close>

definition bulk_outcome ::
  "int \<Rightarrow> string \<Rightarrow> (userTuple \<Rightarrow> bool) \<Rightarrow> int set \<Rightarrow> db \<Rightarrow> db \<Rightarrow> int \<Rightarrow> BulkUserFailure list \<Rightarrow> bool" where
  "bulk_outcome caller action goal A d d' k fs \<longleftrightarrow>
     k + int (length fs) = int (card A) \<and> 0 \<le> k \<and>
     bf_UserID ` set fs \<subseteq> A \<and> distinct (map bf_UserID fs) \<and>
     (\<exists>rows. audit_log d' = audit_log d @ rows \<and> int (length rows) = k \<and>
        (\<forall>r \<in> set rows. ar_Action r = action)) \<and>
     map ur_ID (users d') = map ur_ID (users d) \<and> other_tables d d' \<and>
     (\<forall>r \<in> set (users d). ur_ID r \<notin> A \<or> ur_ID r = caller \<or> ur_Role r = RoleAdmin \<longrightarrow>
        r \<in> set (users d')) \<and>
     (\<forall>r \<in> set (users d'). ur_ID r \<in> A \<longrightarrow> ur_ID r \<notin> bf_UserID ` set fs \<longrightarrow> goal r)"

lemma bulk_outcome_empty: "bulk_outcome caller action goal {} d d 0 []"
  by (simp add: bulk_outcome_def other_tables_def)

lemma bulk_outcome_failed:
  "bulk_outcome caller action goal {i} d d 0 [\<lparr>bf_UserID = i, bf_Reason = s\<rparr>]"
  by (simp add: bulk_outcome_def other_tables_def)

lemma other_tables_trans: "other_tables a b \<Longrightarrow> other_tables b c \<Longrightarrow> other_tables a c"
  by (simp add: other_tables_def)

lemma bulk_outcome_Un:
  assumes 1: "bulk_outcome caller action goal A d d1 k1 fs1"
    and 2: "bulk_outcome caller action goal B d1 d2 k2 fs2"
    and disj: "A \<inter> B = {}" and fin: "finite A" "finite B" and dist: "distinct (map ur_ID (users d))"
  shows "bulk_outcome caller action goal (A \<union> B) d d2 (k1 + k2) (fs1 @ fs2)"
proof -
  have ids: "map ur_ID (users d1) = map ur_ID (users d)" "map ur_ID (users d2) = map ur_ID (users d1)"
    using 1 2 by (auto simp: bulk_outcome_def)
  have keep: "r \<in> set (users d1)" if r: "r \<in> set (users d2)" "ur_ID r \<notin> B" for r
  proof -
    from r(1) ids(2) obtain r1 where r1: "r1 \<in> set (users d1)" "ur_ID r1 = ur_ID r"
      by (metis image_iff image_set)
    with r(2) 2 have "r1 \<in> set (users d2)" by (auto simp: bulk_outcome_def)
    moreover have "distinct (map ur_ID (users d2))" using dist ids by simp
    ultimately have "r1 = r" using r(1) r1(2) distinct_map_eq by metis
    with r1 show ?thesis by simp
  qed
  have goal: "goal r" if r: "r \<in> set (users d2)" "ur_ID r \<in> A \<union> B"
    and nf: "ur_ID r \<notin> bf_UserID ` set (fs1 @ fs2)" for r
  proof (cases "ur_ID r \<in> B")
    case True
    with 2 r nf show ?thesis by (auto simp: bulk_outcome_def)
  next
    case False
    with keep r 1 nf show ?thesis by (auto simp: bulk_outcome_def)
  qed
  have prot: "r \<in> set (users d2)" if "r \<in> set (users d)"
    and "ur_ID r \<notin> A \<union> B \<or> ur_ID r = caller \<or> ur_Role r = RoleAdmin" for r
    using that 1 2 unfolding bulk_outcome_def by blast
  obtain rows1 where rows1: "audit_log d1 = audit_log d @ rows1" "int (length rows1) = k1"
      "\<forall>r \<in> set rows1. ar_Action r = action"
    using 1 unfolding bulk_outcome_def by blast
  obtain rows2 where rows2: "audit_log d2 = audit_log d1 @ rows2" "int (length rows2) = k2"
      "\<forall>r \<in> set rows2. ar_Action r = action"
    using 2 unfolding bulk_outcome_def by blast
  have "audit_log d2 = audit_log d @ (rows1 @ rows2) \<and> int (length (rows1 @ rows2)) = k1 + k2 \<and>
      (\<forall>r \<in> set (rows1 @ rows2). ar_Action r = action)"
    using rows1 rows2 by auto
  moreover have "k1 + k2 + int (length (fs1 @ fs2)) = int (card (A \<union> B))"
    using 1 2 card_Un_disjoint [OF fin disj] by (simp add: bulk_outcome_def)
  moreover have "distinct (map bf_UserID (fs1 @ fs2))"
    using 1 2 disj by (auto simp: bulk_outcome_def)
  moreover have "other_tables d d2" using 1 2 other_tables_trans by (auto simp: bulk_outcome_def)
  moreover have "0 \<le> k1 + k2" "bf_UserID ` set (fs1 @ fs2) \<subseteq> A \<union> B"
    using 1 2 by (auto simp: bulk_outcome_def)
  ultimately show ?thesis using ids goal prot unfolding bulk_outcome_def by (auto 0 3)
qed

section \<open>The contract of a client\<close>

locale bulk_client =
  fixes perform :: "ctx \<Rightarrow> user \<Rightarrow> string comp"
    and action :: string
    and goal :: "userTuple \<Rightarrow> bool"
  assumes performed: "perform cx u e w = (Inr '''', w') \<Longrightarrow>
      touches_only (usr_ID u) (w_db w) (w_db w') \<and>
      (\<exists>row. audit_log (w_db w') = audit_log (w_db w) @ [row] \<and> ar_Action row = action) \<and>
      (\<forall>r \<in> set (users (w_db w')). ur_ID r = usr_ID u \<longrightarrow> goal r)"
    and skipped: "perform cx u e w = (Inr s, w') \<Longrightarrow> s \<noteq> '''' \<Longrightarrow> w_db w' = w_db w"
begin

lemma bulk_one_failed: "\<not> ctxKeyTx cx \<Longrightarrow> bulk_one cx perform i e w = (Inl err, w') \<Longrightarrow> w_db w' = w_db w"
  unfolding bulk_one_def by (rule Run_error)

lemma bulk_one_ok:
  assumes "bulk_one cx perform i e w = (Inr s, w')" and "i \<noteq> caller"
    and dist: "distinct (map ur_ID (users (w_db w)))"
  shows "if s = '''' then bulk_outcome caller action goal {i} (w_db w) (w_db w') 1 []
    else w_db w' = w_db w"
  using assms(1) unfolding bulk_one_def
proof (elim Run_okE bind_okE)
  fix cx' w0 w1 ouser w2
  assume w: "same_db w w0" "same_db w1 w'" and get: "userRepo_GetByID i e w0 = (Inr ouser, w2)"
    and body: "(case ouser of None \<Rightarrow> ret ''khong tim thay nguoi dung''
       | Some user \<Rightarrow>
           if usr_Role user = RoleAdmin
           then ret ''khong thao tac duoc len tai khoan quan tri''
           else perform cx' user) e w2 = (Inr s, w1)"
  have dbs: "w_db w0 = w_db w" "w_db w' = w_db w1" "w_db w2 = w_db w"
    using w userRepo_GetByID_effect [OF get] by (auto simp: same_db_def)
  show ?thesis
  proof (cases "\<exists>user. ouser = Some user \<and> usr_Role user \<noteq> RoleAdmin")
    case False
    with body have "s \<noteq> ''''" and "w1 = w2" by (auto simp: ret_ok split: option.splits if_splits)
    with dbs show ?thesis by simp
  next
    case True
    then obtain user where user: "ouser = Some user" "usr_Role user \<noteq> RoleAdmin" by blast
    with body have p: "perform cx' user e w2 = (Inr s, w1)" by simp
    from userRepo_GetByID_effect [OF get] user obtain r
      where r: "first_row ur_ID (\<lambda>r. ur_ID r = i) (users (w_db w)) = Some r" "user = user_toDomain r"
      by (auto simp: Some_eq_map_option dbs)
    note row = first_row_Some(1,2) [OF r(1)]
    show ?thesis
    proof (cases "s = ''''")
      case False
      with skipped [OF p] dbs show ?thesis by simp
    next
      case True
      from performed [OF p [unfolded True]] r(2) row(2) dbs
      have t: "touches_only i (w_db w) (w_db w')"
        and rows: "\<exists>row. audit_log (w_db w') = audit_log (w_db w) @ [row] \<and> ar_Action row = action"
        and g: "\<forall>r \<in> set (users (w_db w')). ur_ID r = i \<longrightarrow> goal r" by auto
      have "r' \<in> set (users (w_db w'))" if "r' \<in> set (users (w_db w))" and "ur_ID r' = i" and "ur_Role r' = RoleAdmin" for r'
        using that distinct_map_eq [OF dist, of r' r] row r(2) user(2) by auto
      with t rows g assms(2) True show ?thesis
        by (auto simp: bulk_outcome_def touches_only_def)
    qed
  qed
qed

text \<open>One new id: the loop goes on from its outcome.\<close>

lemma loop_step:
  assumes "\<not> ctxKeyTx cx" and dist: "distinct (map ur_ID (users (w_db w)))" and new: "i \<notin> set seen"
  obtains k fs w1 where "bulk_loop cx perform (i # ids) seen ok failures e w =
      bulk_loop cx perform ids (i # seen) (ok + k) (failures @ fs) e w1"
    and "bulk_outcome (UserID cx) action goal {i} (w_db w) (w_db w1) k fs"
proof (cases "i = UserID cx")
  case True
  with new bulk_outcome_failed show ?thesis by (intro that [of 0 _ w]) auto
next
  case other: False
  obtain r w1 where one: "bulk_one cx perform i e w = (r, w1)" by force
  show ?thesis
  proof (cases r)
    case (Inl err)
    with one bulk_one_failed [OF assms(1)] have "w_db w1 = w_db w" by blast
    with new other one Inl bulk_outcome_failed show ?thesis
      by (intro that [of 0 "[\<lparr>bf_UserID = i, bf_Reason = Error (db_text e) err\<rparr>]" w1])
        (auto simp: bind_def ask_def attempt_def)
  next
    case (Inr s)
    note ok = bulk_one_ok [OF one [unfolded Inr] other dist]
    show ?thesis
    proof (cases "s = ''''")
      case True
      with ok new other one Inr show ?thesis
        by (intro that [of 1 "[]" w1]) (simp_all add: bind_def ask_def attempt_def)
    next
      case False
      with ok new other one Inr bulk_outcome_failed show ?thesis
        by (intro that [of 0 "[\<lparr>bf_UserID = i, bf_Reason = s\<rparr>]" w1])
          (auto simp: bind_def ask_def attempt_def)
    qed
  qed
qed

lemma loop_outcome:
  assumes "\<not> ctxKeyTx cx" and "distinct (map ur_ID (users (w_db w)))"
  shows "\<exists>k fs w'. bulk_loop cx perform ids seen ok failures e w = (Inr (ok + k, failures @ fs), w') \<and>
    bulk_outcome (UserID cx) action goal (set ids - set seen) (w_db w) (w_db w') k fs"
  using assms(2)
proof (induction ids arbitrary: seen ok failures w)
  case Nil
  then show ?case using bulk_outcome_empty [of "UserID cx" action goal "w_db w"] by (auto simp: ret_def)
next
  case (Cons i ids)
  show ?case
  proof (cases "i \<in> set seen")
    case True
    then have "set (i # ids) - set seen = set ids - set seen" by auto
    with True Cons show ?thesis by simp
  next
    case new: False
    then have sets: "set (i # ids) - set seen = {i} \<union> (set ids - set (i # seen))" by auto
    obtain k1 fs1 w1 where run: "bulk_loop cx perform (i # ids) seen ok failures e w =
        bulk_loop cx perform ids (i # seen) (ok + k1) (failures @ fs1) e w1"
      and one: "bulk_outcome (UserID cx) action goal {i} (w_db w) (w_db w1) k1 fs1"
      using loop_step [OF assms(1) Cons.prems new] by blast
    from one Cons.prems have "distinct (map ur_ID (users (w_db w1)))" by (simp add: bulk_outcome_def)
    from Cons.IH [OF this, of "i # seen" "ok + k1" "failures @ fs1"] obtain k fs w'
      where IH: "bulk_loop cx perform ids (i # seen) (ok + k1) (failures @ fs1) e w1 =
          (Inr (ok + k1 + k, (failures @ fs1) @ fs), w')"
        "bulk_outcome (UserID cx) action goal (set ids - set (i # seen)) (w_db w1) (w_db w') k fs"
      by blast
    from bulk_outcome_Un [OF one IH(2) _ _ _ Cons.prems]
    have "bulk_outcome (UserID cx) action goal (set (i # ids) - set seen) (w_db w) (w_db w') (k1 + k) (fs1 @ fs)"
      unfolding sets by simp
    with run IH(1) show ?thesis by (intro exI [of _ "k1 + k"] exI [of _ "fs1 @ fs"]) (simp add: add.assoc)
  qed
qed

lemma batch_outcome:
  assumes "\<not> ctxKeyTx cx" and "distinct (map ur_ID (users (w_db w)))"
  shows "\<exists>k fs w'. bulkApply cx ids perform e w = (Inr (k, fs), w') \<and>
    bulk_outcome (UserID cx) action goal (set ids) (w_db w) (w_db w') k fs"
  using loop_outcome [OF assms, of ids "[]" 0 "[]" e] by (simp add: bulkApply_def)

end

section \<open>The three clients meet the contract\<close>

lemma Error_ErrUserDeleted [simp]: "Error f ErrUserDeleted \<noteq> ''''"
  by (simp add: ErrUserDeleted_def)

text \<open>The last two statements of each client: rewrite the rows of one id, append the audit row.\<close>

lemma client_done:
  assumes "w_db w1 = (w_db w)\<lparr>users := update_where P f (users (w_db w))\<rparr>"
    and "auditRepo_Write cx a e w1 = (Inr x, w')"
    and "\<And>r. P r \<Longrightarrow> ur_ID r = i" and "\<And>r. ur_ID (f r) = ur_ID r"
    and "\<And>r. ur_ID r = i \<Longrightarrow> if P r then goal (f r) else goal r"
    and "au_Action a = action"
  shows "touches_only i (w_db w) (w_db w') \<and>
    (\<exists>row. audit_log (w_db w') = audit_log (w_db w) @ [row] \<and> ar_Action row = action) \<and>
    (\<forall>r \<in> set (users (w_db w')). ur_ID r = i \<longrightarrow> goal r)"
proof -
  have aud: "audited e cx a (w_db w1) (w_db w')" using auditRepo_Write_effect [OF assms(2)] by blast
  note aud' = auditedD [OF aud]
  have users: "users (w_db w') = update_where P f (users (w_db w))" using aud'(1) assms(1) by simp
  have "touches_only i (w_db w) (w_db w')"
    using aud' assms(1,3,4)
    by (auto simp: touches_only_def other_tables_def users map_update_where set_update_where)
  moreover have "\<exists>row. audit_log (w_db w') = audit_log (w_db w) @ [row] \<and> ar_Action row = action"
    using aud assms(1,6) by (auto simp: audited_def)
  moreover have "goal r" if r: "r \<in> set (users (w_db w'))" "ur_ID r = i" for r
  proof -
    from r(1) obtain r0 where "r = (if P r0 then f r0 else r0)" by (auto simp: users set_update_where)
    with assms(4) [of r0] assms(5) [of r0] r(2) show ?thesis by (cases "P r0") auto
  qed
  ultimately show ?thesis by blast
qed

interpretation lock_client: bulk_client lock_one AuditUserLocked "\<lambda>r. ur_Status r = UserStatusLocked"
proof
  fix cx u e w w' and s :: string
  show "touches_only (usr_ID u) (w_db w) (w_db w') \<and>
      (\<exists>row. audit_log (w_db w') = audit_log (w_db w) @ [row] \<and> ar_Action row = AuditUserLocked) \<and>
      (\<forall>r \<in> set (users (w_db w')). ur_ID r = usr_ID u \<longrightarrow> ur_Status r = UserStatusLocked)"
    if "lock_one cx u e w = (Inr '''', w')"
    using that unfolding lock_one_def Lock_def
    by (clarsimp simp: ok_iff Let_def split: if_splits)
      (drule userRepo_Update_effect, clarify, erule (1) client_done;
        simp add: set_user_columns_def user_audit_def)
  show "w_db w' = w_db w" if "lock_one cx u e w = (Inr s, w')" and "s \<noteq> ''''"
    using that unfolding lock_one_def by (auto simp: ok_iff Let_def Lock_def split: if_splits)
qed

interpretation unlock_client: bulk_client unlock_one AuditUserUnlocked "\<lambda>r. ur_Status r = UserStatusActive"
proof
  fix cx u e w w' and s :: string
  show "touches_only (usr_ID u) (w_db w) (w_db w') \<and>
      (\<exists>row. audit_log (w_db w') = audit_log (w_db w) @ [row] \<and> ar_Action row = AuditUserUnlocked) \<and>
      (\<forall>r \<in> set (users (w_db w')). ur_ID r = usr_ID u \<longrightarrow> ur_Status r = UserStatusActive)"
    if "unlock_one cx u e w = (Inr '''', w')"
    using that unfolding unlock_one_def Unlock_def
    by (clarsimp simp: ok_iff Let_def split: if_splits)
      (drule userRepo_Update_effect, clarify, erule (1) client_done;
        simp add: set_user_columns_def user_audit_def)
  show "w_db w' = w_db w" if "unlock_one cx u e w = (Inr s, w')" and "s \<noteq> ''''"
    using that unfolding unlock_one_def by (auto simp: ok_iff Let_def Unlock_def split: if_splits)
qed

interpretation delete_client: bulk_client delete_one AuditUserDeleted "\<lambda>r. ur_DeletedAt r \<noteq> None"
proof
  fix cx u e w w' and s :: string
  show "touches_only (usr_ID u) (w_db w) (w_db w') \<and>
      (\<exists>row. audit_log (w_db w') = audit_log (w_db w) @ [row] \<and> ar_Action row = AuditUserDeleted) \<and>
      (\<forall>r \<in> set (users (w_db w')). ur_ID r = usr_ID u \<longrightarrow> ur_DeletedAt r \<noteq> None)"
    if "delete_one cx u e w = (Inr '''', w')"
    using that unfolding delete_one_def
    by (clarsimp simp: ok_iff Let_def split: if_splits)
      (drule userRepo_SoftDelete_effect, clarify, erule (1) client_done; simp add: user_audit_def)
  show "w_db w' = w_db w" if "delete_one cx u e w = (Inr s, w')" and "s \<noteq> ''''"
    using that unfolding delete_one_def by (auto simp: ok_iff Let_def split: if_splits)
qed

end
