(* ===== verification/Staff_Code.thy ===== *)
theory Staff_Code
  imports User_UC
begin

text \<open>
  \<open>NextStaffCode\<close> of \<open>internal/usecase/user.go\<close>: the next automatic staff code of a role, one more
  than the largest number found among the codes with the role's prefix.
\<close>

definition staff_prefix :: "string \<Rightarrow> string" where
  "staff_prefix role =
     (if role = RoleAdmin then ''ADMIN'' else if role = RoleManager then ''MGR'' else ''ST'')"

definition staff_number :: "unicode \<Rightarrow> string \<Rightarrow> string \<Rightarrow> int option" where
  "staff_number U pre c =
     (let num = TrimLeft (TrimPrefix (ToUpper U (TrimSpace c)) pre) ''0'';
          num = (if num = '''' then ''0'' else num) in
      case ParseInt num of (n, ok) \<Rightarrow> if ok then Some n else None)"

definition raise_max :: "unicode \<Rightarrow> string \<Rightarrow> string \<Rightarrow> int \<Rightarrow> int" where
  "raise_max U pre c maxN =
     (case staff_number U pre c of Some n \<Rightarrow> if maxN < n then n else maxN | None \<Rightarrow> maxN)"

definition max_staff_number :: "unicode \<Rightarrow> string \<Rightarrow> string list \<Rightarrow> int" where
  "max_staff_number U pre codes = fold (raise_max U pre) codes 0"

definition format_staff_code :: "string \<Rightarrow> int \<Rightarrow> string" where
  "format_staff_code role next =
     (if role = RoleAdmin \<and> next = 1 then ''ADMIN''
      else if role = RoleAdmin then ''ADMIN'' @ pad2 next
      else staff_prefix role @ pad2 next)"

definition userUC_NextStaffCode :: "string \<Rightarrow> string comp" where
  "userUC_NextStaffCode role =
     bind ask (\<lambda>e.
     bind (userRepo_StaffCodesWithPrefix (staff_prefix role)) (\<lambda>codes.
     let maxN = max_staff_number (unicode_tables e) (staff_prefix role) codes in
     ret (format_staff_code role (wrap64 (maxN + 1)))))"

section \<open>Freshness\<close>

lemma raise_max_ge: "m \<le> raise_max U pre c m" "staff_number U pre c = Some n \<Longrightarrow> n \<le> raise_max U pre c m"
  by (auto simp: raise_max_def split: option.split)

lemma max_staff_number_fold:
  "m \<le> fold (raise_max U pre) codes m \<and>
   (\<forall>c \<in> set codes. \<forall>n. staff_number U pre c = Some n \<longrightarrow> n \<le> fold (raise_max U pre) codes m)"
proof (induction codes arbitrary: m)
  case (Cons c codes)
  from Cons [of "raise_max U pre c m"] raise_max_ge [where c = c and m = m and U = U and pre = pre]
  show ?case by fastforce
qed simp

lemma max_staff_number_ge:
  "c \<in> set codes \<Longrightarrow> staff_number U pre c = Some n \<Longrightarrow> n \<le> max_staff_number U pre codes"
  using max_staff_number_fold [of 0 U pre codes] by (simp add: max_staff_number_def)

lemma max_staff_number_nonneg: "0 \<le> max_staff_number U pre codes"
  using max_staff_number_fold [of 0 U pre codes] by (simp add: max_staff_number_def)

lemma max_staff_number_attained:
  "max_staff_number U pre codes \<noteq> 0 \<Longrightarrow>
     \<exists>c \<in> set codes. staff_number U pre c = Some (max_staff_number U pre codes)"
proof -
  have "fold (raise_max U pre) codes m = m \<or>
      (\<exists>c \<in> set codes. staff_number U pre c = Some (fold (raise_max U pre) codes m))" for m
  proof (induction codes arbitrary: m)
    case (Cons c codes)
    have "raise_max U pre c m = m \<or> staff_number U pre c = Some (raise_max U pre c m)"
      by (auto simp: raise_max_def split: option.split)
    with Cons [of "raise_max U pre c m"] show ?case by auto
  qed simp
  from this [of 0] show "max_staff_number U pre codes \<noteq> 0 \<Longrightarrow> ?thesis"
    by (auto simp: max_staff_number_def)
qed

lemma pad2_number:
  assumes "0 < n" and "n \<le> max_int64"
  shows "ParseInt (TrimLeft (pad2 n) ''0'') = (n, True)"
proof -
  have hd: "hd (itoa n) \<noteq> CHR ''0''" using assms(1) nat_digits_hd [of "nat n"] by (simp add: itoa_def)
  have ne: "itoa n \<noteq> []" by (simp add: itoa_def)
  have "TrimLeft (itoa n) ''0'' = itoa n" and "TrimLeft (CHR ''0'' # itoa n) ''0'' = itoa n"
    using hd ne by (cases "itoa n"; simp add: TrimLeft_def)+
  then have "TrimLeft (pad2 n) ''0'' = itoa n" by (simp add: pad2_def)
  moreover have "in_int64 n" using assms by (simp add: in_int64_def min_int64_def)
  ultimately show ?thesis by (simp add: ParseInt_itoa)
qed

text \<open>A code of upper-case letters and digits is its own normal form.\<close>

lemma plain_code:
  assumes "\<forall>c \<in> set s. 65 \<le> byte c \<and> byte c \<le> 90 \<or> is_digit c"
  shows "ToUpper U (TrimSpace s) = s"
proof -
  have "TrimSpace s = s" by (rule TrimSpace_id) (use assms in \<open>auto simp: is_digit_def\<close>)
  moreover have "is_ascii s" using assms by (auto simp: is_ascii_def is_digit_def)
  moreover have "map ascii_upper s = s"
    using assms by (intro map_idI) (auto simp: ascii_upper_def is_digit_def)
  ultimately show ?thesis by (simp add: ToUpper_def)
qed

lemma pad2_digits: "0 \<le> n \<Longrightarrow> \<forall>c \<in> set (pad2 n). is_digit c"
  using nat_digits_digits [of "nat n"] by (auto simp: pad2_def itoa_def is_digit_def byte_def)

lemma staff_number_format:
  assumes "role \<noteq> RoleAdmin" and "0 < n" and "n \<le> max_int64"
  shows "staff_number U (staff_prefix role) (format_staff_code role n) = Some n"
proof -
  have pre: "\<forall>c \<in> set (staff_prefix role). 65 \<le> byte c \<and> byte c \<le> 90"
    by (simp add: staff_prefix_def byte_def)
  then have "ToUpper U (TrimSpace (staff_prefix role @ pad2 n)) = staff_prefix role @ pad2 n"
    using pad2_digits [of n] assms(2) by (intro plain_code) auto
  moreover have "TrimLeft (pad2 n) ''0'' \<noteq> ''''"
    using pad2_number [OF assms(2,3)] assms(2) by (auto simp: ParseInt_def)
  ultimately show ?thesis
    using assms(1) pad2_number [OF assms(2,3)]
    by (simp add: staff_number_def format_staff_code_def TrimPrefix_def Let_def)
qed

text \<open>What the query relies on of \<open>ILIKE\<close>: a text matches its own literal prefix followed by \<open>%\<close>.\<close>

definition ilike_ok :: "env \<Rightarrow> bool" where
  "ilike_ok e \<longleftrightarrow> (\<forall>p s. (\<forall>c \<in> set p. 65 \<le> byte c \<and> byte c \<le> 90) \<longrightarrow> pg_ilike e (p @ s) (p @ ''%''))"

lemma ilike_ok_sample_env [simp]: "ilike_ok sample_env"
proof -
  have "Contains (map ascii_lower (p @ s)) (filter (\<lambda>c. c \<noteq> CHR ''%'') (map ascii_lower (p @ ''%'')))"
    if p: "\<forall>c \<in> set p. 65 \<le> byte c \<and> byte c \<le> 90" for p s
  proof -
    have "ascii_lower c \<noteq> CHR ''%''" if "c \<in> set p" for c
    proof
      assume "ascii_lower c = CHR ''%''"
      with p that have "of_char (char_of (byte c + 32) :: char) = (37::nat)"
        by (auto simp: ascii_lower_def)
      then have "(byte c + 32) mod 256 = 37" by simp
      with p that show False by auto
    qed
    then have "filter (\<lambda>c. c \<noteq> CHR ''%'') (map ascii_lower (p @ ''%'')) = map ascii_lower p"
    proof -
      assume "\<And>c. c \<in> set p \<Longrightarrow> ascii_lower c \<noteq> CHR ''%''"
      then have "filter (\<lambda>c. c \<noteq> CHR ''%'') (map ascii_lower p) = map ascii_lower p" by (intro filter_True) auto
      moreover have "ascii_lower CHR ''%'' = CHR ''%''" by (simp add: ascii_lower_def byte_def)
      ultimately show ?thesis by simp
    qed
    then show ?thesis by (auto simp: Contains_iff intro: exI [of _ "[]"])
  qed
  then show ?thesis by (simp add: ilike_ok_def sample_env_def)
qed

section \<open>Properties\<close>

text \<open>
  C20: The automatic staff code of a non-administrator role is fresh. When \<open>NextStaffCode\<close>
  succeeds for a manager or staff role, no account carries the returned code, provided the
  numbers in use are below the largest \<open>int\<close>; codes differing in case or surrounding space are
  covered, since they are normalised before they are compared.
\<close>

theorem next_staff_code_fresh:
  assumes "userUC_NextStaffCode role e w = (Inr code, w')" and "role \<noteq> RoleAdmin" and "ilike_ok e"
    and "\<forall>r \<in> set (users (w_db w)). \<forall>c. ur_StaffCode r = Some c \<longrightarrow>
      (\<forall>n. staff_number (unicode_tables e) (staff_prefix role) c = Some n \<longrightarrow> n < max_int64)"
  shows "\<forall>r \<in> set (users (w_db w)). ur_StaffCode r \<noteq> Some code"
proof
  fix r assume r: "r \<in> set (users (w_db w))"
  let ?U = "unicode_tables e" and ?p = "staff_prefix role"
  let ?codes = "map (\<lambda>r. the (ur_StaffCode r))
    (filter (\<lambda>r. ilike_opt e (ur_StaffCode r) (?p @ ''%'')) (users (w_db w)))"
  let ?m = "max_staff_number ?U ?p ?codes"
  have nonneg: "0 \<le> ?m" by (rule max_staff_number_nonneg)
  have "?m < max_int64"
    using assms(4)
  proof (rule contrapos_pp)
    assume "\<not> ?m < max_int64"
    then have "?m \<noteq> 0" by (auto simp: max_int64_def)
    then obtain c where c: "c \<in> set ?codes" "staff_number ?U ?p c = Some ?m"
      using max_staff_number_attained by blast
    then obtain r where "r \<in> set (users (w_db w))" "ur_StaffCode r = Some c"
      by (auto simp: ilike_opt_def split: option.splits)
    with c(2) \<open>\<not> ?m < max_int64\<close> show "\<not> (\<forall>r \<in> set (users (w_db w)). \<forall>c. ur_StaffCode r = Some c \<longrightarrow>
      (\<forall>n. staff_number ?U ?p c = Some n \<longrightarrow> n < max_int64))" by blast
  qed
  with nonneg have "in_int64 (?m + 1)" by (simp add: in_int64_def min_int64_def max_int64_def)
  with assms(1) have code: "code = format_staff_code role (?m + 1)"
    by (auto simp: userUC_NextStaffCode_def userRepo_StaffCodesWithPrefix_def ok_iff Let_def)
  show "ur_StaffCode r \<noteq> Some code"
  proof
    assume has: "ur_StaffCode r = Some code"
    have "code = ?p @ pad2 (?m + 1)" using code assms(2) by (simp add: format_staff_code_def)
    moreover have "\<forall>c \<in> set ?p. 65 \<le> byte c \<and> byte c \<le> 90" by (simp add: staff_prefix_def byte_def)
    ultimately have "pg_ilike e code (?p @ ''%'')" using assms(3) by (simp add: ilike_ok_def)
    with r has have "code \<in> set ?codes" by (force simp: ilike_opt_def)
    moreover have "staff_number ?U ?p code = Some (?m + 1)"
      unfolding code using assms(2) nonneg \<open>?m < max_int64\<close> by (intro staff_number_format) auto
    ultimately have "?m + 1 \<le> ?m" by (rule max_staff_number_ge)
    then show False by simp
  qed
qed

definition staff_world :: "string \<Rightarrow> world" where
  "staff_world c = sample_world\<lparr>w_db := empty_db\<lparr>users :=
     [(sample_user 3 ''stan'' RoleStaff)\<lparr>ur_StaffCode := Some c\<rparr>]\<rparr>\<rparr>"

lemma staff_number_st07: "staff_number sample_unicode ''ST'' ''st07'' = Some 7"
  by code_simp

theorem next_staff_code_fresh_witness:
  "fst (userUC_NextStaffCode RoleStaff sample_env (staff_world ''st07'')) = Inr ''ST08'' \<and>
   Some ''ST08'' \<notin> ur_StaffCode ` set (users (w_db (staff_world ''st07'')))"
proof -
  have fst: "fst (userUC_NextStaffCode RoleStaff sample_env (staff_world ''st07'')) = Inr ''ST08''"
    by code_simp
  then obtain w' where
    run: "userUC_NextStaffCode RoleStaff sample_env (staff_world ''st07'') = (Inr ''ST08'', w')"
    by (metis prod.collapse)
  have "\<forall>r \<in> set (users (w_db (staff_world ''st07''))). \<forall>c. ur_StaffCode r = Some c \<longrightarrow>
      (\<forall>n. staff_number (unicode_tables sample_env) (staff_prefix RoleStaff) c = Some n \<longrightarrow> n < max_int64)"
    using staff_number_st07
    by (simp add: staff_world_def sample_defs sample_env_def staff_prefix_def max_int64_def)
  from next_staff_code_fresh [OF run _ ilike_ok_sample_env this] fst show ?thesis by force
qed

text \<open>
  For the administrator role the same operation is not fresh. With one account that already
  carries the code \<open>ADMIN\<close> (as the seeded administrator does), the number of \<open>ADMIN\<close> is 0, so the next
  number is 1 and the special case for it returns \<open>ADMIN\<close> again.
\<close>

lemma next_staff_code_admin_collides:
  "\<exists>r \<in> set (users (w_db (staff_world ''ADMIN''))). ur_StaffCode r = Some ''ADMIN'' \<and>
     fst (userUC_NextStaffCode RoleAdmin sample_env (staff_world ''ADMIN'')) = Inr ''ADMIN''"
proof -
  have "fst (userUC_NextStaffCode RoleAdmin sample_env (staff_world ''ADMIN'')) = Inr ''ADMIN''"
    by code_simp
  then show ?thesis by (simp add: staff_world_def sample_defs)
qed

end
