(* ===== verification/Perm_UC.thy ===== *)
theory Perm_UC
  imports Use_Case
begin

text \<open>
  \<open>internal/usecase/permission.go\<close>: the permission use case. Every mutation runs in one
  transaction and ends with an audit row.
\<close>

section \<open>Operations\<close>

definition permUC_Create :: "ctx \<Rightarrow> int \<Rightarrow> UserPermission comp" where
  "permUC_Create cx userID =
     (if userID \<le> 0 then throw (BadRequestErrorf ''userId la bat buoc'')
      else Run cx (\<lambda>cx.
        bind (userRepo_GetByID userID) (\<lambda>ousr.
        case ousr of
          None \<Rightarrow> throw (NotFoundErrorf (''khong tim thay nguoi dung '' @ itoa userID))
        | Some usr \<Rightarrow>
            bind (permRepo_GetByUserID userID) (\<lambda>existing.
            case existing of
              Some p \<Rightarrow> throw (ConflictErrorf
                         (''nguoi dung da co phan quyen (id='' @ itoa (up_ID p) @ '')''))
            | None \<Rightarrow>
                (let actor = UserID cx;
                     up = UserPermission0\<lparr>up_UserID := userID, up_Permissions := [],
                            up_PermissionCount := 0, up_CreatedBy := actor, up_UpdatedBy := actor\<rparr> in
                 bind (permRepo_Create up) (\<lambda>up.
                 bind (auditRepo_Write cx (AuditEntry0\<lparr>
                         au_Action := AuditUserPermissionCreated, au_EntityType := ''user_permission'',
                         au_EntityID := up_ID up, au_EntityName := usr_Username usr,
                         au_Summary := ''tao phan quyen cho nguoi dung '' @ usr_Username usr\<rparr>)) (\<lambda>_.
                 ret up)))))))"

definition permUC_GetByID :: "int \<Rightarrow> UserPermission comp" where
  "permUC_GetByID i =
     bind (permRepo_GetByID i) (\<lambda>oup.
     case oup of
       None \<Rightarrow> throw (NotFoundErrorf (''khong tim thay phan quyen '' @ itoa i))
     | Some up \<Rightarrow> ret up)"

definition permUC_GetByUserID :: "int \<Rightarrow> UserPermission comp" where
  "permUC_GetByUserID userID =
     bind (permRepo_GetByUserID userID) (\<lambda>oup.
     case oup of
       None \<Rightarrow> throw (NotFoundErrorf (''nguoi dung '' @ itoa userID @ '' chua co phan quyen''))
     | Some up \<Rightarrow> ret up)"

definition permUC_List :: "perm_list_filter \<Rightarrow> (UserPermission list \<times> int) comp" where
  "permUC_List f = permRepo_List f"

text \<open>
  In \<open>Update\<close> a failure to load the user, or a missing user, only means that no role default is
  denied explicitly.
\<close>

definition permUC_Update :: "ctx \<Rightarrow> int \<Rightarrow> pmap \<Rightarrow> UserPermission comp" where
  "permUC_Update cx i m =
     Run cx (\<lambda>cx.
       bind (permRepo_GetByID i) (\<lambda>oup.
       case oup of
         None \<Rightarrow> throw (NotFoundErrorf (''khong tim thay phan quyen '' @ itoa i))
       | Some up \<Rightarrow>
           (let cleaned = filterValidPermissions m in
            bind (attempt (userRepo_GetByID (up_UserID up))) (\<lambda>r.
            let cleaned = (case r of
                             Inr (Some usr) \<Rightarrow> deny_unset_defaults (usr_Role usr) cleaned
                           | _ \<Rightarrow> cleaned);
                up = up\<lparr>up_Permissions := cleaned, up_PermissionCount := Count cleaned,
                        up_UpdatedBy := UserID cx\<rparr> in
            bind (permRepo_Update up) (\<lambda>up.
            bind (auditRepo_Write cx (AuditEntry0\<lparr>
                    au_Action := AuditUserPermissionUpdated, au_EntityType := ''user_permission'',
                    au_EntityID := up_ID up,
                    au_Summary := ''cap nhat phan quyen user_id='' @ itoa (up_UserID up)\<rparr>)) (\<lambda>_.
            ret up))))))"

text \<open>The branch of \<open>UpdateByUserID\<close> that creates the row on the first write.\<close>

definition permUC_save_row :: "int \<Rightarrow> pmap \<Rightarrow> int \<Rightarrow> UserPermission option \<Rightarrow> UserPermission comp" where
  "permUC_save_row userID cleaned actor oup =
     (case oup of
        None \<Rightarrow>
          permRepo_Create (UserPermission0\<lparr>up_UserID := userID, up_Permissions := cleaned,
            up_PermissionCount := Count cleaned, up_CreatedBy := actor, up_UpdatedBy := actor\<rparr>)
      | Some up \<Rightarrow>
          permRepo_Update (up\<lparr>up_Permissions := cleaned, up_PermissionCount := Count cleaned,
            up_UpdatedBy := actor\<rparr>))"

definition permUC_UpdateByUserID :: "ctx \<Rightarrow> int \<Rightarrow> pmap \<Rightarrow> UserPermission comp" where
  "permUC_UpdateByUserID cx userID m =
     Run cx (\<lambda>cx.
       bind (userRepo_GetByID userID) (\<lambda>ousr.
       case ousr of
         None \<Rightarrow> throw (NotFoundErrorf (''khong tim thay nguoi dung '' @ itoa userID))
       | Some usr \<Rightarrow>
           bind (permRepo_GetByUserID userID) (\<lambda>oup.
           let actor = UserID cx;
               cleaned = deny_unset_defaults (usr_Role usr) (filterValidPermissions m) in
           bind (permUC_save_row userID cleaned actor oup) (\<lambda>up.
           bind (auditRepo_Write cx (AuditEntry0\<lparr>
                   au_Action := AuditUserPermissionUpdated, au_EntityType := ''user_permission'',
                   au_EntityID := up_ID up, au_EntityName := usr_Username usr,
                   au_Summary := ''cap nhat phan quyen cho '' @ usr_Username usr\<rparr>)) (\<lambda>_.
           ret up)))))"

definition permUC_Delete :: "ctx \<Rightarrow> int \<Rightarrow> unit comp" where
  "permUC_Delete cx i =
     Run cx (\<lambda>cx.
       bind (permRepo_GetByID i) (\<lambda>oup.
       case oup of
         None \<Rightarrow> throw (NotFoundErrorf (''khong tim thay phan quyen '' @ itoa i))
       | Some up \<Rightarrow>
           bind (permRepo_Delete i) (\<lambda>_.
           auditRepo_Write cx (AuditEntry0\<lparr>
             au_Action := AuditUserPermissionDeleted, au_EntityType := ''user_permission'',
             au_EntityID := i, au_Summary := ''xoa phan quyen user_id='' @ itoa (up_UserID up)\<rparr>))))"

definition permUC_EffectivePermissions :: "int \<Rightarrow> bool \<Rightarrow> pmap comp" where
  "permUC_EffectivePermissions userID isAdmin =
     (if isAdmin then ret [(''*'', [(''*'', True)])]
      else
        bind (userRepo_GetByID userID) (\<lambda>ouser.
        case ouser of
          None \<Rightarrow> ret []
        | Some user \<Rightarrow>
            (let defaults = RoleDefaultPermissions (usr_Role user) in
             bind (permRepo_GetByUserID userID) (\<lambda>oup.
             case oup of
               None \<Rightarrow> ret defaults
             | Some up \<Rightarrow> ret (MergeOver defaults (up_Permissions up))))))"

section \<open>The contract\<close>

lemma keeps_same_log_save_row [keeps_intros]: "keeps same_log (permUC_save_row i p actor oup)"
  unfolding permUC_save_row_def by (intro keeps_intros)

interpretation perm_create: audited_use_case "\<lambda>cx. permUC_Create cx i" AuditUserPermissionCreated
proof
  show "logs cx AuditUserPermissionCreated (permUC_Create cx i)" for cx
    unfolding permUC_Create_def by (intro logs_Run logs_rules keeps_intros; simp)
  show "w_db w' = w_db w" if "\<not> ctxKeyTx cx" and "permUC_Create cx i e w = (Inl err, w')" for cx e w err w'
    using that by (auto simp: permUC_Create_def throw_def dest: Run_error split: if_splits)
qed

interpretation perm_update: audited_use_case "\<lambda>cx. permUC_Update cx i m" AuditUserPermissionUpdated
proof
  show "logs cx AuditUserPermissionUpdated (permUC_Update cx i m)" for cx
    unfolding permUC_Update_def by (intro logs_Run logs_rules keeps_intros; simp)
  show "w_db w' = w_db w" if "\<not> ctxKeyTx cx" and "permUC_Update cx i m e w = (Inl err, w')" for cx e w err w'
    using that by (auto simp: permUC_Update_def dest: Run_error)
qed

interpretation perm_update_user:
  audited_use_case "\<lambda>cx. permUC_UpdateByUserID cx i m" AuditUserPermissionUpdated
proof
  show "logs cx AuditUserPermissionUpdated (permUC_UpdateByUserID cx i m)" for cx
    unfolding permUC_UpdateByUserID_def by (intro logs_Run logs_rules keeps_intros; simp)
  show "w_db w' = w_db w"
    if "\<not> ctxKeyTx cx" and "permUC_UpdateByUserID cx i m e w = (Inl err, w')" for cx e w err w'
    using that by (auto simp: permUC_UpdateByUserID_def dest: Run_error)
qed

interpretation perm_delete: audited_use_case "\<lambda>cx. permUC_Delete cx i" AuditUserPermissionDeleted
proof
  show "logs cx AuditUserPermissionDeleted (permUC_Delete cx i)" for cx
    unfolding permUC_Delete_def by (intro logs_Run logs_rules keeps_intros; simp)
  show "w_db w' = w_db w" if "\<not> ctxKeyTx cx" and "permUC_Delete cx i e w = (Inl err, w')" for cx e w err w'
    using that by (auto simp: permUC_Delete_def dest: Run_error)
qed

section \<open>What the editor saves\<close>

text \<open>
  A fault-free \<open>UpdateByUserID\<close> for an existing user succeeds, and the user's stored map is then
  \<open>saved_matrix\<close> of the submitted one, whether or not a row existed before.
\<close>

definition stored_map :: "env \<Rightarrow> int \<Rightarrow> db \<Rightarrow> pmap option" where
  "stored_map e userID d =
     map_option (\<lambda>r. up_Permissions (perm_toDomain e r))
       (first_row pr_ID (\<lambda>r. pr_UserID r = userID) (user_permissions d))"

lemma UpdateByUserID_run:
  assumes q: "quiet e" and tx: "\<not> ctxKeyTx cx"
    and u: "first_row ur_ID (\<lambda>r. ur_ID r = i) (users (w_db w)) = Some u"
  shows "\<exists>up w'. permUC_UpdateByUserID cx i m e w = (Inr up, w')"
  using q tx u
  by (cases "first_row pr_ID (\<lambda>r. pr_UserID r = i) (user_permissions (w_db w))")
    (simp_all add: permUC_UpdateByUserID_def userRepo_GetByID_def permRepo_GetByUserID_def
      permUC_save_row_def permRepo_Create_def permRepo_Update_def auditRepo_Write_def Let_def
      enrich_def AuditEntry0_def
      run_steps)

lemma first_row_update_where_id:
  assumes "first_row pk P rows = Some r" and "\<And>r. pk (f r) = pk r" and "\<And>r. P (f r) = P r"
  shows "first_row pk P (update_where (\<lambda>r'. pk r' = pk r) f rows) = Some (f r)"
  using assms by (subst first_row_update_where) auto

text \<open>Creating the row or rewriting it stores the same map.\<close>

lemma save_row_effect:
  assumes "permUC_save_row i p actor oup e w = (Inr up', w')"
    and oup: "oup = map_option (perm_toDomain e)
          (first_row pr_ID (\<lambda>r. pr_UserID r = i) (user_permissions (w_db w)))"
    and ok: "json_ok e" "wf_pmap p" "ascii_cells p"
  shows "users (w_db w') = users (w_db w) \<and>
    (\<exists>p'. stored_map e i (w_db w') = Some p' \<and> wf_pmap p' \<and> plookup p' = plookup p)"
proof (cases "first_row pr_ID (\<lambda>r. pr_UserID r = i) (user_permissions (w_db w))")
  case None
  with assms(1) oup have up': "up_UserID up' = i" "up_Permissions up' = p"
    and db: "w_db w' = (w_db w)\<lparr>user_permissions := user_permissions (w_db w) @ [perm_row e up' (up_ID up')]\<rparr>"
    by (auto simp: permUC_save_row_def dest!: permRepo_Create_effect)
  with None have "stored_map e i (w_db w') =
      Some (up_Permissions (perm_toDomain e (perm_row e up' (up_ID up'))))"
    by (simp add: stored_map_def first_row_append_new)
  with db ok up' show ?thesis by (auto simp: plookup_row_toDomain wf_toDomain)
next
  case (Some r)
  with assms(1) oup have up': "up_Permissions up' = p"
    and db: "w_db w' = (w_db w)\<lparr>user_permissions := update_where (\<lambda>r'. pr_ID r' = pr_ID r)
          (set_perm_columns e up') (user_permissions (w_db w))\<rparr>"
    by (auto simp: permUC_save_row_def dest!: permRepo_Update_effect)
  from Some have "stored_map e i (w_db w') =
      Some (up_Permissions (perm_toDomain e (set_perm_columns e up' r)))"
    by (simp add: stored_map_def db first_row_update_where_id)
  with db ok up' show ?thesis by (auto simp: plookup_row_toDomain wf_toDomain)
qed

lemma stored_map_audited: "audited e cx a d d' \<Longrightarrow> stored_map e' i d' = stored_map e' i d"
  by (simp add: audited_def stored_map_def)

lemma UpdateByUserID_effect:
  assumes "permUC_UpdateByUserID cx i m e w = (Inr up, w')" and "json_ok e" and "wf_pmap m"
  shows "\<exists>u p. first_row ur_ID (\<lambda>r. ur_ID r = i) (users (w_db w)) = Some u \<and>
    users (w_db w') = users (w_db w) \<and>
    stored_map e i (w_db w') = Some p \<and> wf_pmap p \<and> plookup p = plookup (saved_matrix (ur_Role u) m)"
  using assms(1) unfolding permUC_UpdateByUserID_def
proof (elim Run_okE ok_elims)
  fix cx' w0 w5 ousr w1 and usr :: user and oup w2 up' w3 x w4
  let ?p = "deny_unset_defaults (usr_Role usr) (filterValidPermissions m)"
  assume "same_db w w0" and "same_db w5 w'" and "w5 = w4"
    and user: "userRepo_GetByID i e w0 = (Inr ousr, w1)" "ousr = Some usr"
    and get: "permRepo_GetByUserID i e w1 = (Inr oup, w2)"
    and put: "permUC_save_row i ?p (UserID cx') oup e w2 = (Inr up', w3)"
    and aud: "auditRepo_Write cx' (AuditEntry0\<lparr>
                   au_Action := AuditUserPermissionUpdated, au_EntityType := ''user_permission'',
                   au_EntityID := up_ID up', au_EntityName := usr_Username usr,
                   au_Summary := ''cap nhat phan quyen cho '' @ usr_Username usr\<rparr>) e w3 = (Inr x, w4)"
  then have dbs: "w_db w0 = w_db w" "w_db w' = w_db w4" by (simp_all add: same_db_def)
  from userRepo_GetByID_effect [OF user(1)] user(2) obtain u where
    u: "first_row ur_ID (\<lambda>r. ur_ID r = i) (users (w_db w)) = Some u" "usr = user_toDomain u"
    and "w_db w1 = w_db w"
    by (auto simp: Some_eq_map_option same_db_def dbs)
  with permRepo_GetByUserID_effect [OF get] have
    "oup = map_option (perm_toDomain e)
       (first_row pr_ID (\<lambda>r. pr_UserID r = i) (user_permissions (w_db w2)))" and "w_db w2 = w_db w"
    by (simp_all add: same_db_def)
  with save_row_effect [OF put] assms(2,3) ascii_cells_saved_matrix [of m "ur_Role u"] u(2) obtain p where
    "users (w_db w3) = users (w_db w)" and "stored_map e i (w_db w3) = Some p" and "wf_pmap p"
    and "plookup p = plookup (saved_matrix (ur_Role u) m)"
    by (auto simp: saved_matrix_def)
  moreover have "users (w_db w4) = users (w_db w3)" and "stored_map e i (w_db w4) = stored_map e i (w_db w3)"
    using auditRepo_Write_effect [OF aud] stored_map_audited auditedD(1) by blast+
  ultimately show ?thesis using u by (auto simp: dbs)
qed

lemma EffectivePermissions_run:
  assumes "quiet e" and "first_row ur_ID (\<lambda>r. ur_ID r = i) (users (w_db w)) = Some u"
  shows "\<exists>w'. permUC_EffectivePermissions i False e w =
    (Inr (case stored_map e i (w_db w) of
            None \<Rightarrow> RoleDefaultPermissions (ur_Role u)
          | Some p \<Rightarrow> MergeOver (RoleDefaultPermissions (ur_Role u)) p), w')"
  using assms
  by (cases "first_row pr_ID (\<lambda>r. pr_UserID r = i) (user_permissions (w_db w))")
    (simp_all add: permUC_EffectivePermissions_def userRepo_GetByID_def permRepo_GetByUserID_def
      stored_map_def Let_def run_steps)

lemma HasAction_MergeOver_cong:
  assumes "wf_pmap p" and "wf_pmap p'" and "plookup p = plookup p'"
  shows "HasAction (MergeOver (RoleDefaultPermissions role) p) r a \<longleftrightarrow>
    HasAction (MergeOver (RoleDefaultPermissions role) p') r a"
  using assms by (simp add: HasAction_iff plookup_MergeOver)

section \<open>Properties\<close>

text \<open>
  C7: What an administrator saves in the permission editor is what the user effectively has. A
  fault-free \<open>UpdateByUserID\<close> for an existing user succeeds, with or without an earlier row, and
  afterwards \<open>EffectivePermissions\<close> of the (non-administrator) user grants a pair exactly if it is
  declared and the submitted matrix grants it: defaults left unchecked are revoked, undeclared
  pairs and wildcards are dropped.
\<close>

theorem saved_permissions_take_effect:
  assumes "quiet e" and "json_ok e" and "\<not> ctxKeyTx cx" and "wf_pmap m"
    and "first_row ur_ID (\<lambda>r. ur_ID r = i) (users (w_db w)) = Some u"
  shows "\<exists>up w1 p w2. permUC_UpdateByUserID cx i m e w = (Inr up, w1) \<and>
    permUC_EffectivePermissions i False e w1 = (Inr p, w2) \<and>
    (\<forall>r a. HasAction p r a \<longleftrightarrow> declared r a \<and> plookup m r a = Some True)"
proof -
  from UpdateByUserID_run [OF assms(1,3,5)] obtain up w1
    where up: "permUC_UpdateByUserID cx i m e w = (Inr up, w1)" by blast
  from UpdateByUserID_effect [OF up assms(2,4)] assms(5) obtain p where
    p: "stored_map e i (w_db w1) = Some p" "wf_pmap p" "plookup p = plookup (saved_matrix (ur_Role u) m)"
    and "first_row ur_ID (\<lambda>r. ur_ID r = i) (users (w_db w1)) = Some u"
    by auto
  with EffectivePermissions_run [OF assms(1), of i w1 u] obtain w2 where
    "permUC_EffectivePermissions i False e w1 =
       (Inr (MergeOver (RoleDefaultPermissions (ur_Role u)) p), w2)" by auto
  moreover have "HasAction (MergeOver (RoleDefaultPermissions (ur_Role u)) p) r a \<longleftrightarrow>
      declared r a \<and> plookup m r a = Some True" for r a
    using HasAction_MergeOver_cong [OF p(2) wf_saved_matrix p(3)] HasAction_effective [OF assms(4)]
    by blast
  ultimately show ?thesis using up by blast
qed

theorem saved_permissions_take_effect_witness:
  "\<exists>up w1 p w2. permUC_UpdateByUserID sample_ctx 3 [(''dashboard'', [(''read'', False)]), (''users'', [(''read'', True)])]
       sample_env sample_world = (Inr up, w1) \<and>
     permUC_EffectivePermissions 3 False sample_env w1 = (Inr p, w2) \<and>
     (\<forall>r a. HasAction p r a \<longleftrightarrow> declared r a \<and>
        plookup [(''dashboard'', [(''read'', False)]), (''users'', [(''read'', True)])] r a = Some True)"
  by (rule saved_permissions_take_effect [where u = "sample_user 3 ''stan'' RoleStaff"])
    (simp_all add: wf_pmap_def sample_defs first_row_def)

end
