(* ===== verification/Redis.thy ===== *)
theory Redis
  imports Tables
begin

text \<open>
  The Redis commands the service issues, on a keyspace of integer values with an expiry time:
  \<open>SET\<close> with a TTL, \<open>EXISTS\<close>, the \<open>INCR\<close>+\<open>EXPIRE\<close> transaction, \<open>DEL\<close> and \<open>SCAN\<close>. The locale
  \<open>ttl_store\<close> is what the token blacklist and the IP-ban guard rely on; it is interpreted on the
  keyspace the commands act on.
\<close>

section \<open>The keyspace\<close>

type_synonym keyspace = "(string \<times> int \<times> time) list"

definition kv_get :: "string \<Rightarrow> time \<Rightarrow> keyspace \<Rightarrow> int option" where
  "kv_get k t s = map_option (\<lambda>(k', v, x). v) (find (\<lambda>(k', v, x). k' = k \<and> t < x) s)"

definition kv_del :: "string \<Rightarrow> keyspace \<Rightarrow> keyspace" where
  "kv_del k s = filter (\<lambda>(k', v, x). k' \<noteq> k) s"

definition kv_put :: "string \<Rightarrow> int \<Rightarrow> time \<Rightarrow> keyspace \<Rightarrow> keyspace" where
  "kv_put k v x s = (k, v, x) # kv_del k s"

section \<open>The interface\<close>

locale ttl_store =
  fixes get :: "'k \<Rightarrow> time \<Rightarrow> 's \<Rightarrow> 'v option"
    and put :: "'k \<Rightarrow> 'v \<Rightarrow> time \<Rightarrow> 's \<Rightarrow> 's"
    and del :: "'k \<Rightarrow> 's \<Rightarrow> 's"
  assumes get_put: "get k t (put k' v x s) =
      (if k = k' then (if t < x then Some v else None) else get k t s)"
    and get_del: "get k t (del k' s) = (if k = k' then None else get k t s)"
    and get_late: "get k t s = None \<Longrightarrow> t \<le> t' \<Longrightarrow> get k t' s = None"
begin

text \<open>An entry lives exactly until its expiry.\<close>

lemma live_until: "get k t (put k v x s) \<noteq> None \<longleftrightarrow> t < x"
  by (simp add: get_put)

lemma early: "get k t' s = Some v \<Longrightarrow> t \<le> t' \<Longrightarrow> get k t s \<noteq> None"
  using get_late by fastforce

text \<open>Writing or deleting other keys leaves an entry alone.\<close>

lemma put_other: "k \<noteq> k' \<Longrightarrow> get k t (put k' v x s) = get k t s"
  by (simp add: get_put)

lemma fold_del: "get k t (fold del ks s) = (if k \<in> set ks then None else get k t s)"
  by (induction ks arbitrary: s) (auto simp: get_del)

end

lemma find_filter_other: "(\<And>x. P x \<Longrightarrow> Q x) \<Longrightarrow> find P (filter Q xs) = find P xs"
  by (induction xs) auto

lemma find_none_filter: "(\<And>x. P x \<Longrightarrow> \<not> Q x) \<Longrightarrow> find P (filter Q xs) = None"
  by (induction xs) auto

interpretation redis_kv: ttl_store kv_get kv_put kv_del
proof
  show del: "kv_get k t (kv_del k' s) = (if k = k' then None else kv_get k t s)" for k t k' s
    by (auto simp: kv_get_def kv_del_def intro!: find_none_filter arg_cong [where f = "map_option _"]
        find_filter_other)
  show "kv_get k t (kv_put k' v x s) = (if k = k' then (if t < x then Some v else None) else kv_get k t s)"
    for k t k' v x s
    using del [of k t k' s] by (auto simp: kv_put_def) (auto simp: kv_get_def kv_put_def)
  show "kv_get k t' s = None" if "kv_get k t s = None" and "t \<le> t'" for k t s t'
    using that by (fastforce simp: kv_get_def find_None_conv)
qed

section \<open>Commands\<close>

text \<open>One round trip to the server, which executes the command at its own time or fails.\<close>

definition redis_call :: "(time \<Rightarrow> keyspace \<Rightarrow> keyspace \<times> 'a) \<Rightarrow> 'a comp" where
  "redis_call f e w =
     (case net_fault e (w_tick w) of
        Some t \<Rightarrow> (Inl (Plain t), tick w)
      | None \<Rightarrow> (case f (clock e (w_tick w)) (w_redis w) of (s, x) \<Rightarrow> (Inr x, (tick w)\<lparr>w_redis := s\<rparr>)))"

definition redis_Set :: "string \<Rightarrow> int \<Rightarrow> int \<Rightarrow> unit comp" where
  "redis_Set key v ttl = redis_call (\<lambda>t s. (kv_put key v (t + ttl) s, ()))"

definition redis_Exists :: "string \<Rightarrow> bool comp" where
  "redis_Exists key = redis_call (\<lambda>t s. (s, kv_get key t s \<noteq> None))"

text \<open>\<open>INCR\<close> and \<open>EXPIRE\<close> in one \<open>TxPipeline\<close>.\<close>

definition redis_IncrExpire :: "string \<Rightarrow> int \<Rightarrow> int comp" where
  "redis_IncrExpire key ttl =
     redis_call (\<lambda>t s. let n = (case kv_get key t s of None \<Rightarrow> 1 | Some n \<Rightarrow> n + 1) in
       (kv_put key n (t + ttl) s, n))"

definition redis_Del :: "string list \<Rightarrow> unit comp" where
  "redis_Del keys = redis_call (\<lambda>t s. (fold kv_del keys s, ()))"

definition redis_Scan :: "string \<Rightarrow> string list comp" where
  "redis_Scan pre =
     redis_call (\<lambda>t s. (s, filter (\<lambda>k. prefix pre k) (map fst (filter (\<lambda>(k, v, x). t < x) s))))"

lemma redis_call_ok [ok_iff]:
  "redis_call f e w = (Inr y, w') \<longleftrightarrow>
     net_fault e (w_tick w) = None \<and>
     (\<exists>s. f (clock e (w_tick w)) (w_redis w) = (s, y) \<and> w' = (tick w)\<lparr>w_redis := s\<rparr>)"
  by (auto simp: redis_call_def split: option.splits prod.splits)

text \<open>Redis is outside the tables.\<close>

lemma redis_call_db: "redis_call f e w = (r, w') \<Longrightarrow> w_db w' = w_db w \<and> w_seq w' = w_seq w"
  by (auto simp: redis_call_def split: option.splits prod.splits)

end
