(* ===== verification/Calendar.thy ===== *)
theory Calendar
  imports Request_Context Go_Strings
begin

text \<open>
  What the code uses of package \<open>time\<close>: the Unix time of an instant, its civil date in UTC and the
  two layouts \<open>2006\<close> and \<open>01\<close>. Instants are nanoseconds since 0001-01-01, as everywhere.
\<close>

definition second :: int where "second = 1000000000"
definition hour :: int where "hour = 3600 * second"
definition day :: int where "day = 24 * hour"

definition unix_epoch :: int where "unix_epoch = 62135596800"

definition Unix :: "time \<Rightarrow> int" where
  "Unix t = t div second - unix_epoch"

definition time_Unix :: "int \<Rightarrow> time" where
  "time_Unix s = (s + unix_epoch) * second"

definition UnixMilli :: "time \<Rightarrow> int" where
  "UnixMilli t = t div 1000000 - unix_epoch * 1000"

lemma Unix_time_Unix [simp]: "Unix (time_Unix s) = s"
  by (simp add: Unix_def time_Unix_def second_def)

lemma Unix_mono: "s \<le> t \<Longrightarrow> Unix s \<le> Unix t"
  by (simp add: Unix_def second_def zdiv_mono1)

text \<open>
  The civil date of a day number, counted from 0001-01-01: years begin in March, so that the leap
  day is the last of its year, and repeat in eras of 400 years or 146097 days.
\<close>

definition year_of_era :: "int \<Rightarrow> int" where
  "year_of_era doe = (doe - doe div 1460 + doe div 36524 - doe div 146096) div 365"

definition civil :: "int \<Rightarrow> int \<times> int \<times> int" where
  "civil days =
     (let z = days + 306; era = z div 146097; doe = z mod 146097; yoe = year_of_era doe;
          doy = doe - (365 * yoe + yoe div 4 - yoe div 100); mp = (5 * doy + 2) div 153;
          d = doy - (153 * mp + 2) div 5 + 1; m = (if mp < 10 then mp + 3 else mp - 9) in
      (yoe + era * 400 + (if m \<le> 2 then 1 else 0), m, d))"

definition Year :: "time \<Rightarrow> int" where
  "Year t = (case civil (t div day) of (y, m, d) \<Rightarrow> y)"

definition Month :: "time \<Rightarrow> int" where
  "Month t = (case civil (t div day) of (y, m, d) \<Rightarrow> m)"

definition Day :: "time \<Rightarrow> int" where
  "Day t = (case civil (t div day) of (y, m, d) \<Rightarrow> d)"

text \<open>\<open>Format("2006")\<close> and \<open>Format("01")\<close>.\<close>

definition format_year :: "time \<Rightarrow> string" where
  "format_year t = (let y = itoa (Year t) in replicate (4 - length y) (CHR ''0'') @ y)"

definition format_month :: "time \<Rightarrow> string" where
  "format_month t = pad2 (Month t)"

lemma civil_samples:
  "civil 0 = (1, 1, 1)" "civil 719162 = (1970, 1, 1)" "civil (719162 + 19782) = (2024, 2, 29)"
  "civil (719162 + 19783) = (2024, 3, 1)" "civil (719162 - 1) = (1969, 12, 31)"
  by code_simp+

text \<open>\<open>Format(time.RFC3339)\<close> of an instant in UTC, and the same layout with a literal \<open>Z\<close>.\<close>

definition format_rfc3339 :: "time \<Rightarrow> string" where
  "format_rfc3339 t =
     (let s = t mod day div second in
      format_year t @ ''-'' @ format_month t @ ''-'' @ pad2 (Day t) @ ''T'' @
      pad2 (s div 3600) @ '':'' @ pad2 (s div 60 mod 60) @ '':'' @ pad2 (s mod 60) @ ''Z'')"

end
