(* ===== verification/Token.thy ===== *)
theory Token
  imports Redis Sample Calendar
begin

text \<open>
  \<open>pkg/xauth\<close>: issuing and verifying tokens (\<open>jwt.go\<close>) and the revocation list (\<open>blacklist.go\<close>).
  The JWT library is the pair \<open>jwt_encode\<close>, \<open>jwt_parse\<close> of the environment, for the configured
  secret and the method HS256.
\<close>

section \<open>The manager\<close>


record auth_config =
  ac_Secret :: string
  ac_TTL :: int
  ac_RefreshTTL :: int

record manager =
  mg_secret :: string
  mg_ttl :: int

definition NewManager :: "auth_config \<Rightarrow> gerr + manager" where
  "NewManager cfg =
     (if length (ac_Secret cfg) < 32 then Inl (Plain ''xauth: jwt_secret must be at least 32 bytes'')
      else
        (let ttl = (if ac_TTL cfg = 0 then 168 * hour else ac_TTL cfg) in
         Inr \<lparr>mg_secret = ac_Secret cfg, mg_ttl = ttl\<rparr>))"

definition rand_Read :: "nat \<Rightarrow> string comp" where
  "rand_Read n e w =
     (case rand_bytes e (w_tick w) n of
        None \<Rightarrow> (Inl (Plain ''crypto/rand: read error''), tick w)
      | Some b \<Rightarrow> (Inr b, tick w))"

definition newJTI :: "string comp" where
  "newJTI = bind (rand_Read 16) (\<lambda>b. ret (hex_EncodeToString b))"

text \<open>\<open>jwt.NewNumericDate\<close> truncates to whole seconds.\<close>

definition NewNumericDate :: "time \<Rightarrow> int" where
  "NewNumericDate t = t div second"

definition Sign :: "manager \<Rightarrow> int \<Rightarrow> string \<Rightarrow> string comp" where
  "Sign m userID role =
     bind newJTI (\<lambda>jti.
     bind now (\<lambda>t.
     bind ask (\<lambda>e.
     let c = \<lparr>cl_UserID = userID, cl_Role = role, cl_ID = jti, cl_IssuedAt = NewNumericDate t,
              cl_ExpiresAt = Some (NewNumericDate (t + mg_ttl m)), cl_Subject = ''backend''\<rparr> in
     case jwt_encode e c of
       None \<Rightarrow> throw (Plain ''jwt: signing error'')
     | Some s \<Rightarrow> ret s)))"

definition Verify :: "string \<Rightarrow> claims comp" where
  "Verify token =
     bind now (\<lambda>t.
     bind ask (\<lambda>e.
     case jwt_parse e t token of
       None \<Rightarrow> throw (Plain ''jwt: token is invalid'')
     | Some c \<Rightarrow>
         if cl_Subject c \<noteq> ''backend'' then throw (Plain ''xauth: invalid token subject'') else ret c))"

section \<open>The revocation list\<close>

definition revokedKeyPrefix :: string where
  "revokedKeyPrefix = ''app:jwt:revoked:''"

definition Revoke :: "string \<Rightarrow> time \<Rightarrow> unit comp" where
  "Revoke jti expiresAt =
     bind now (\<lambda>t.
     let ttl = expiresAt - t in
     if ttl \<le> 0 then ret () else redis_Set (revokedKeyPrefix @ jti) 1 ttl)"

definition IsRevoked :: "string \<Rightarrow> bool comp" where
  "IsRevoked jti =
     bind (attempt (redis_Exists (revokedKeyPrefix @ jti))) (\<lambda>r.
     case r of Inl err \<Rightarrow> throw (Wrapped ''blacklist check'' err) | Inr n \<Rightarrow> ret n)"

section \<open>Laws\<close>

text \<open>
  Documented of the library: a token it signed parses back to its claims until it expires, and
  not afterwards.
\<close>

definition jwt_ok :: "env \<Rightarrow> bool" where
  "jwt_ok e \<longleftrightarrow>
     (\<forall>c s t. jwt_encode e c = Some s \<longrightarrow>
        jwt_parse e t s =
          (if case cl_ExpiresAt c of None \<Rightarrow> True | Some x \<Rightarrow> t < x * second then Some c else None))"

lemma jwt_ok_sample_env [simp]: "jwt_ok sample_env"
  unfolding jwt_ok_def second_def using sample_jwt_round_trip by (simp add: sample_env_def)

text \<open>The clock does not run backwards.\<close>

definition clock_ok :: "env \<Rightarrow> bool" where
  "clock_ok e \<longleftrightarrow> (\<forall>m n. m \<le> n \<longrightarrow> clock e m \<le> clock e n)"

lemma clock_ok_sample_env [simp]: "clock_ok sample_env"
  by (simp add: clock_ok_def sample_env_def)

lemma NewNumericDate_bounds: "NewNumericDate t * second \<le> t" "t < NewNumericDate t * second + second"
  unfolding NewNumericDate_def second_def by presburger+

text \<open>What \<open>Sign\<close> issues.\<close>

definition issued_claims :: "env \<Rightarrow> manager \<Rightarrow> int \<Rightarrow> string \<Rightarrow> time \<Rightarrow> string \<Rightarrow> claims" where
  "issued_claims e m uid role t jti =
     \<lparr>cl_UserID = uid, cl_Role = role, cl_ID = jti, cl_IssuedAt = NewNumericDate t,
      cl_ExpiresAt = Some (NewNumericDate (t + mg_ttl m)), cl_Subject = ''backend''\<rparr>"

lemma Sign_okE:
  assumes "Sign m uid role e w = (Inr token, w')"
  obtains jti where "jwt_encode e (issued_claims e m uid role (clock e (Suc (w_tick w))) jti) = Some token"
    and "w' = tick (tick w)" and "rand_bytes e (w_tick w) 16 \<noteq> None"
  using assms
  by (auto simp: Sign_def newJTI_def rand_Read_def ok_iff bind_def Let_def issued_claims_def
      ask_def now_def ret_def throw_def split: option.splits)

lemma Sign_succeeds:
  assumes "rand_bytes e (w_tick w) 16 \<noteq> None" and "\<And>c. jwt_encode e c \<noteq> None"
  shows "\<exists>token w'. Sign m uid role e w = (Inr token, w')"
proof -
  from assms(1) obtain b where "rand_bytes e (w_tick w) 16 = Some b" by blast
  moreover obtain s where
    "jwt_encode e (issued_claims e m uid role (clock e (Suc (w_tick w))) (hex_EncodeToString b)) = Some s"
    using assms(2) by blast
  ultimately have "Sign m uid role e w = (Inr s, tick (tick w))"
    by (simp add: Sign_def newJTI_def rand_Read_def bind_def ask_def now_def ret_def Let_def issued_claims_def)
  then show ?thesis by blast
qed

lemma Verify_ok:
  "Verify token e w = (Inr c, w') \<longleftrightarrow>
     jwt_parse e (clock e (w_tick w)) token = Some c \<and> cl_Subject c = ''backend'' \<and> w' = tick w"
  by (auto simp: Verify_def bind_def now_def ask_def throw_def ret_def split: option.splits)

lemma Verify_signed:
  assumes "jwt_ok e" and "Sign m uid role e w = (Inr token, w')"
  shows "case fst (Verify token e w2) of
      Inr c \<Rightarrow> cl_UserID c = uid \<and> cl_Role c = role \<and>
        clock e (w_tick w2) < clock e (Suc (w_tick w)) + mg_ttl m
    | Inl _ \<Rightarrow> clock e (Suc (w_tick w)) + mg_ttl m - second < clock e (w_tick w2)"
proof -
  define t0 where "t0 = clock e (Suc (w_tick w))"
  define t where "t = clock e (w_tick w2)"
  obtain jti where enc: "jwt_encode e (issued_claims e m uid role t0 jti) = Some token"
    using Sign_okE [OF assms(2)] unfolding t0_def by blast
  let ?x = "NewNumericDate (t0 + mg_ttl m) * second"
  have parse: "jwt_parse e t token =
      (if t < ?x then Some (issued_claims e m uid role t0 jti) else None)"
    using assms(1) enc by (simp add: jwt_ok_def issued_claims_def)
  have "?x \<le> t0 + mg_ttl m" and "t0 + mg_ttl m < ?x + second"
    using NewNumericDate_bounds by blast+
  then show ?thesis
    using parse by (auto simp: Verify_def bind_def now_def ask_def throw_def ret_def issued_claims_def
        t_def [symmetric] t0_def [symmetric])
qed

section \<open>Properties\<close>

text \<open>
  C29: a token issued for an account verifies, with that account's id and role, until its lifetime
  is over (up to the truncation of the expiry to whole seconds), and is rejected from then on.
\<close>

theorem token_lifetime:
  assumes "jwt_ok e" and "Sign m uid role e w = (Inr token, w')"
  shows "let t0 = clock e (Suc (w_tick w)); t = clock e (w_tick w2) in
    (t \<le> t0 + mg_ttl m - second \<longrightarrow>
       (\<exists>c. fst (Verify token e w2) = Inr c \<and> cl_UserID c = uid \<and> cl_Role c = role)) \<and>
    (t0 + mg_ttl m \<le> t \<longrightarrow> (\<exists>err. fst (Verify token e w2) = Inl err))"
  using Verify_signed [OF assms, of w2] by (auto simp: Let_def split: sum.splits)

text \<open>The witness issues a token for user 1 and checks it at once.\<close>

definition sample_manager :: manager where
  "sample_manager = \<lparr>mg_secret = replicate 32 (CHR ''k''), mg_ttl = 168 * hour\<rparr>"

lemma sample_Sign: "\<exists>token w'. Sign sample_manager 1 RoleAdmin sample_env sample_world = (Inr token, w')"
  by (simp add: Sign_def newJTI_def rand_Read_def bind_def ask_def now_def ret_def sample_env_def
      sample_jwt_encode_def Let_def)

theorem token_lifetime_witness:
  "case Sign sample_manager 1 RoleAdmin sample_env sample_world of
     (Inr token, w') \<Rightarrow>
       (case fst (Verify token sample_env w') of Inr c \<Rightarrow> cl_UserID c = 1 | Inl _ \<Rightarrow> False)
   | (Inl _, _) \<Rightarrow> False"
proof -
  obtain token w' where run: "Sign sample_manager 1 RoleAdmin sample_env sample_world = (Inr token, w')"
    using sample_Sign by blast
  have "w' = tick (tick sample_world)" by (rule Sign_okE [OF run])
  then have "w_tick w' = 2" by (simp add: sample_world_def)
  then have "clock sample_env (w_tick w') \<le>
      clock sample_env (Suc (w_tick sample_world)) + mg_ttl sample_manager - second"
    by (simp add: sample_env_def sample_world_def sample_manager_def hour_def second_def)
  with token_lifetime [OF jwt_ok_sample_env run, of w']
  obtain c where "fst (Verify token sample_env w') = Inr c" "cl_UserID c = 1" by (auto simp only: Let_def)
  with run show ?thesis by simp
qed

end
