(* ===== verification/Auth_UC.thy ===== *)
theory Auth_UC
  imports Token User_UC Mail_Templates
begin

text \<open>
  \<open>internal/usecase/auth.go\<close>: login, the current account, logout, the password-reset link and the
  change of one's own password.
\<close>

section \<open>Operations\<close>

record auth_uc =
  ax_tokens :: manager
  ax_blacklist :: bool \<comment> \<open>\<open>blacklist != nil\<close>\<close>
  ax_mailer :: "sender option"
  ax_resetURL :: string

definition resetTokenTTL :: int where
  "resetTokenTTL = hour"

definition bad_credentials :: gerr where
  "bad_credentials = UnauthorizedErrorf ''tai khoan hoac mat khau khong dung''"

definition authUC_Login :: "auth_uc \<Rightarrow> string \<Rightarrow> string \<Rightarrow> ctx \<Rightarrow> (string \<times> user) comp" where
  "authUC_Login u username password cx =
     bind (userRepo_GetByUsername username) (\<lambda>ouser.
     bind ask (\<lambda>e.
     case (case ouser of None \<Rightarrow> None
           | Some user \<Rightarrow> if ComparePassword e password (usr_PasswordHash user) then Some user else None) of
       None \<Rightarrow>
         bind (ignore (auditRepo_Write cx (AuditEntry0\<lparr>au_Action := AuditAuthLoginFailed,
           au_EntityType := ''user'', au_Summary := ''dang nhap that bai: '' @ username\<rparr>))) (\<lambda>_.
         throw bad_credentials)
     | Some user \<Rightarrow>
         if IsLocked user then throw (ForbiddenErrorf ''tai khoan da bi khoa'')
         else
           bind (Sign (ax_tokens u) (usr_ID user) (usr_Role user)) (\<lambda>token.
           bind (ignore (auditRepo_Write cx (AuditEntry0\<lparr>au_Action := AuditAuthLoginSucceeded,
             au_EntityType := ''user'', au_EntityID := usr_ID user, au_EntityName := usr_Username user,
             au_ActorUserID := usr_ID user, au_ActorName := usr_FullName user,
             au_ActorRole := usr_Role user\<rparr>))) (\<lambda>_.
           ret (token, user)))))"

definition authUC_Me :: "ctx \<Rightarrow> user comp" where
  "authUC_Me cx =
     bind (userRepo_GetByID (UserID cx)) (\<lambda>ouser.
     case ouser of
       None \<Rightarrow> throw (UnauthorizedErrorf ''khong tim thay nguoi dung'')
     | Some user \<Rightarrow> ret user)"

definition authUC_Logout :: "auth_uc \<Rightarrow> ctx \<Rightarrow> unit comp" where
  "authUC_Logout u cx =
     (if \<not> ax_blacklist u then ret ()
      else
        (let jti = TokenID cx; expiry = TokenExpiry cx in
         if jti = '''' \<or> expiry = 0 then ret () else Revoke jti expiry))"

definition reset_link :: "string \<Rightarrow> string \<Rightarrow> string" where
  "reset_link resetURL plain =
     (if resetURL \<noteq> '''' then
        (let sep = (if Contains resetURL ''?'' then ''&'' else ''?'') in
         resetURL @ sep @ ''token='' @ plain)
      else plain)"

definition send_reset_mail :: "auth_uc \<Rightarrow> user \<Rightarrow> string \<Rightarrow> time \<Rightarrow> unit comp" where
  "send_reset_mail u user link expires =
     bind ask (\<lambda>e.
     case (ax_mailer u, usr_Email user) of
       (Some mailer, Some email) \<Rightarrow>
         if TrimSpace email \<noteq> ''''
         then ignore (Send mailer (buildResetEmail e email (usr_FullName user) link expires))
         else ret ()
     | _ \<Rightarrow> ret ())"

text \<open>From the random bytes on: the token is stored, the request logged, the link mailed.\<close>

definition issue_reset_token :: "auth_uc \<Rightarrow> user \<Rightarrow> ctx \<Rightarrow> string comp" where
  "issue_reset_token u user cx =
     bind (rand_Read 32) (\<lambda>raw.
     bind ask (\<lambda>e.
     let plain = hex_EncodeToString raw; hash = sha256_hex e plain in
     bind now (\<lambda>t.
     let expires = t + resetTokenTTL in
     bind (userRepo_SetResetToken (usr_ID user) hash (Some expires)) (\<lambda>_.
     bind (ignore (auditRepo_Write cx (AuditEntry0\<lparr>
       au_Action := ''auth.password_reset_requested'', au_EntityType := ''user'',
       au_EntityID := usr_ID user, au_EntityName := usr_Username user\<rparr>))) (\<lambda>_.
     bind (send_reset_mail u user (reset_link (ax_resetURL u) plain) expires) (\<lambda>_.
     ret plain))))))"

definition authUC_RequestPasswordReset :: "auth_uc \<Rightarrow> string \<Rightarrow> ctx \<Rightarrow> string comp" where
  "authUC_RequestPasswordReset u identifier cx =
     (let identifier = TrimSpace identifier in
      if identifier = '''' then ret ''''
      else
        bind (userRepo_GetByUsername identifier) (\<lambda>ouser.
        case ouser of
          None \<Rightarrow> ret ''''
        | Some user \<Rightarrow> if IsLocked user then ret '''' else issue_reset_token u user cx))"

definition authUC_ResetPassword :: "string \<Rightarrow> string \<Rightarrow> ctx \<Rightarrow> unit comp" where
  "authUC_ResetPassword token newPassword cx =
     (let token = TrimSpace token in
      if token = '''' then throw (BadRequestErrorf ''token khong duoc de trong'')
      else if length newPassword < minPasswordLen then throw password_too_short
      else
        bind ask (\<lambda>e.
        let hash = sha256_hex e token in
        Run cx (\<lambda>cx.
          bind (userRepo_FindByResetTokenHash hash) (\<lambda>ouser.
          case ouser of
            None \<Rightarrow> throw (BadRequestErrorf ''token khong hop le hoac da het han'')
          | Some user \<Rightarrow>
              bind (HashPassword newPassword) (\<lambda>newHash.
              let user = ClearForcePasswordChange (SetPasswordHash newHash user);
                  user = user\<lparr>usr_UpdatedBy := usr_ID user\<rparr> in
              bind (userRepo_Update user) (\<lambda>user.
              bind (userRepo_SetResetToken (usr_ID user) '''' None) (\<lambda>_.
              auditRepo_Write cx (user_audit ''auth.password_reset_completed'' user ''''))))))))"

definition authUC_ChangePassword :: "string \<Rightarrow> string \<Rightarrow> ctx \<Rightarrow> unit comp" where
  "authUC_ChangePassword currentPassword newPassword cx =
     (if length newPassword < minPasswordLen then throw password_too_short
      else if newPassword = currentPassword then
        throw (BadRequestErrorf ''mat khau moi khong duoc trung mat khau hien tai'')
      else
        Run cx (\<lambda>cx.
          let i = UserID cx in
          bind (userRepo_GetByID i) (\<lambda>ouser.
          case ouser of
            None \<Rightarrow> throw (UnauthorizedErrorf ''khong tim thay nguoi dung'')
          | Some user \<Rightarrow>
              bind ask (\<lambda>e.
              if \<not> ComparePassword e currentPassword (usr_PasswordHash user) then
                throw (UnauthorizedErrorf ''mat khau hien tai khong dung'')
              else
                bind (HashPassword newPassword) (\<lambda>hash.
                let user = (ClearForcePasswordChange (SetPasswordHash hash user))\<lparr>usr_UpdatedBy := i\<rparr> in
                bind (userRepo_Update user) (\<lambda>user.
                auditRepo_Write cx (user_audit ''user.password_changed'' user ''doi mat khau'')))))))"

section \<open>The contract\<close>

lemma logs_authUC:
  "logs cx ''auth.password_reset_completed'' (authUC_ResetPassword token p cx)"
  "logs cx ''user.password_changed'' (authUC_ChangePassword old p cx)"
  unfolding authUC_ResetPassword_def authUC_ChangePassword_def
  by (intro logs_Run logs_rules keeps_intros; simp add: user_audit_def)+

lemma reverts_authUC:
  "\<not> ctxKeyTx cx \<Longrightarrow> reverts (authUC_ResetPassword token p cx)"
  "\<not> ctxKeyTx cx \<Longrightarrow> reverts (authUC_ChangePassword old p cx)"
  unfolding authUC_ResetPassword_def authUC_ChangePassword_def
  by (intro reverts_intros reverts_bind keeps_ask frame_same_tables; assumption)+

interpretation auth_reset: audited_use_case "authUC_ResetPassword token p" "''auth.password_reset_completed''"
  by unfold_locales (rule logs_authUC, erule (1) revertsD [OF reverts_authUC(1)])

interpretation auth_change: audited_use_case "authUC_ChangePassword old p" "''user.password_changed''"
  by unfold_locales (rule logs_authUC, erule (1) revertsD [OF reverts_authUC(2)])

section \<open>The reset link\<close>

definition live_token :: "string \<Rightarrow> time \<Rightarrow> userTuple \<Rightarrow> bool" where
  "live_token h t r \<longleftrightarrow> password_reset_token_hash r = Some h \<and>
     (case password_reset_expires_at r of None \<Rightarrow> False | Some x \<Rightarrow> t < x) \<and> ur_DeletedAt r = None"

lemma FindByResetTokenHash_okE:
  assumes "userRepo_FindByResetTokenHash h e w = (Inr (Some user), w')"
  obtains r where "r \<in> set (users (w_db w))" and "live_token h (clock e (w_tick w)) r"
    and "user = user_toDomain r" and "same_db w w'" and "h \<noteq> ''''"
proof -
  from assms have h: "h \<noteq> ''''" and w': "same_db w w'"
    and some: "map_option user_toDomain (first_row ur_ID (live_token h (clock e (w_tick w))) (users (w_db w)))
      = Some user"
    unfolding live_token_def
    by (auto simp: userRepo_FindByResetTokenHash_def ok_iff simp del: map_option_eq_Some split: if_splits)
  from some obtain r where "first_row ur_ID (live_token h (clock e (w_tick w))) (users (w_db w)) = Some r"
    and "user = user_toDomain r" by (auto simp: map_option_eq_Some)
  with first_row_Some [OF this(1)] h w' show thesis by (intro that)
qed

lemma FindByResetTokenHash_none:
  assumes "\<forall>r \<in> set (users (w_db w)). password_reset_token_hash r \<noteq> Some h"
  shows "\<not> (\<exists>user w'. userRepo_FindByResetTokenHash h e w = (Inr (Some user), w'))"
  using assms by (auto elim!: FindByResetTokenHash_okE simp: live_token_def)

lemma userRepo_SetResetToken_effect [effects]:
  "userRepo_SetResetToken i h x e w = (Inr u, w') \<Longrightarrow>
     \<exists>t. w_db w' = (w_db w)\<lparr>users := update_where (\<lambda>r. ur_ID r = i)
       (\<lambda>r. if h = '''' then r\<lparr>ur_UpdatedAt := t, password_reset_token_hash := None,
                             password_reset_expires_at := None\<rparr>
             else r\<lparr>ur_UpdatedAt := t, password_reset_token_hash := Some h,
                    password_reset_expires_at := x\<rparr>) (users (w_db w))\<rparr> \<and>
     w_seq w' = w_seq w \<and> outside_db w w'"
  by (intro exI [of _ "clock e (w_tick w)"]) (auto simp: userRepo_SetResetToken_def ok_iff)

lemma token_set_user_columns [simp]:
  "password_reset_token_hash (set_user_columns u r) = password_reset_token_hash r"
  "ur_PasswordHash (set_user_columns u r) = usr_PasswordHash u"
  "ur_ForcePasswordChange (set_user_columns u r) = usr_ForcePasswordChange u"
  by (simp_all add: set_user_columns_def)

text \<open>What a successful \<open>ResetPassword\<close> did to the users table.\<close>

definition password_was_reset :: "env \<Rightarrow> string \<Rightarrow> userTuple \<Rightarrow> db \<Rightarrow> db \<Rightarrow> bool" where
  "password_was_reset e new r d d' \<longleftrightarrow>
     (\<forall>r' \<in> set (users d').
        if ur_ID r' = ur_ID r
        then (\<exists>n. bcrypt_hash e n new = Some (ur_PasswordHash r')) \<and> \<not> ur_ForcePasswordChange r' \<and>
          password_reset_token_hash r' = None
        else r' \<in> set (users d)) \<and>
     map ur_ID (users d') = map ur_ID (users d)"

lemma live_token_earlier: "live_token h t r \<Longrightarrow> t' \<le> t \<Longrightarrow> live_token h t' r"
  by (auto simp: live_token_def split: option.splits)

lemma reset_users:
  assumes "userRepo_Update u e w = (Inr u', w1)" and "userRepo_SetResetToken (usr_ID u') '''' None e w1 = (Inr x, w2)"
    and "auditRepo_Write cx a e w2 = (Inr y, w3)" and "bcrypt_hash e n new = Some (usr_PasswordHash u)"
    and "\<not> usr_ForcePasswordChange u" and "usr_ID u = ur_ID r"
  shows "password_was_reset e new r (w_db w) (w_db w3)"
proof -
  obtain t where u': "u' = u\<lparr>usr_UpdatedAt := t\<rparr>" and w1: "users (w_db w1) =
      update_where (\<lambda>r. ur_ID r = usr_ID u) (set_user_columns u') (users (w_db w))"
    using userRepo_Update_effect [OF assms(1)] by auto
  obtain t' where w2: "users (w_db w2) = update_where (\<lambda>r. ur_ID r = usr_ID u)
      (\<lambda>r. r\<lparr>ur_UpdatedAt := t', password_reset_token_hash := None, password_reset_expires_at := None\<rparr>)
      (users (w_db w1))"
    using userRepo_SetResetToken_effect [OF assms(2)] u' by auto
  have w3: "users (w_db w3) = users (w_db w2)"
    using auditedD [OF conjunct1 [OF auditRepo_Write_effect [OF assms(3)]]] by simp
  let ?g = "\<lambda>r0. (set_user_columns u' r0)\<lparr>ur_UpdatedAt := t', password_reset_token_hash := None,
    password_reset_expires_at := None\<rparr>"
  have "users (w_db w3) = map (\<lambda>r0. if ur_ID r0 = ur_ID r then ?g r0 else r0) (users (w_db w))"
    unfolding w3 w2 w1 by (simp add: update_where_def assms(6))
  then have "set (users (w_db w3)) = (\<lambda>r0. if ur_ID r0 = ur_ID r then ?g r0 else r0) ` set (users (w_db w))"
    and "map ur_ID (users (w_db w3)) = map ur_ID (users (w_db w))"
    by simp_all
  then show ?thesis using assms(4,5) by (auto simp: password_was_reset_def u' simp del: map_eq_conv)
qed

lemma authUC_ResetPassword_spec:
  assumes "authUC_ResetPassword token new cx e w = (Inr x, w')" and "clock_ok e"
  shows "minPasswordLen \<le> length new \<and>
    (\<exists>r \<in> set (users (w_db w)). live_token (sha256_hex e (TrimSpace token)) (clock e (w_tick w)) r \<and>
       password_was_reset e new r (w_db w) (w_db w'))"
  using assms(1) unfolding authUC_ResetPassword_def
proof (elim Run_later_okE ok_elims HashPassword_okE, goal_cases)
  case (1 e' w1 cx' w0 w2 ouser w3 user hash w4 u' w5 y w6 n)
  from 1(7) obtain r where r: "r \<in> set (users (w_db w0))"
      "live_token (sha256_hex e (TrimSpace token)) (clock e (w_tick w0)) r"
      "user = user_toDomain r" and db: "same_db w0 w3"
    unfolding 1(8) 1(12) by (rule FindByResetTokenHash_okE)
  have dbs: "w_db w0 = w_db w" "w_db w4 = w_db w" "w_db w2 = w_db w'"
    using 1(3,4,13,15) db by (simp_all add: same_db_def)
  have "live_token (sha256_hex e (TrimSpace token)) (clock e (w_tick w)) r"
    using live_token_earlier [OF r(2)] assms(2) 1(6,13) by (simp add: clock_ok_def)
  moreover have "password_was_reset e new r (w_db w4) (w_db w2)"
    using 1(14) r(3)
    by (intro reset_users [OF 1(9-11)]) (simp_all add: SetPasswordHash_def ClearForcePasswordChange_def)
  ultimately show ?case using r(1) 1(2) by (auto simp: dbs)
qed

text \<open>The states in which nothing but the outbox and the log differ from \<open>w\<close>.\<close>

lemma ignore_audit:
  "ignore (auditRepo_Write cx a) e w = (Inr u, w') \<Longrightarrow> users (w_db w') = users (w_db w)"
proof -
  assume "ignore (auditRepo_Write cx a) e w = (Inr u, w')"
  then obtain r where "auditRepo_Write cx a e w = (r, w')" by (auto simp: ignore_def split: prod.splits)
  then show ?thesis
    by (auto simp: auditRepo_Write_def bind_def ask_def now_def ret_def insert_row_def Let_def
        split: prod.splits sum.splits option.splits if_splits)
qed



lemma send_reset_mail_db: "send_reset_mail u user link x e w = (Inr y, w') \<Longrightarrow> w_db w' = w_db w"
  by (auto simp: send_reset_mail_def bind_ok ask_ok ignore_def ret_def dest: Send_result
      split: option.splits prod.splits if_splits)

definition reset_requested :: "string \<Rightarrow> time \<Rightarrow> int \<Rightarrow> db \<Rightarrow> db \<Rightarrow> bool" where
  "reset_requested h t i d d' \<longleftrightarrow>
     (\<exists>t'. users d' = update_where (\<lambda>r. ur_ID r = i)
       (\<lambda>r. r\<lparr>ur_UpdatedAt := t', password_reset_token_hash := Some h,
               password_reset_expires_at := Some (t + resetTokenTTL)\<rparr>) (users d))"

lemma issue_reset_token_spec:
  assumes "issue_reset_token u user cx e w = (Inr plain, w')" and "sha256_hex e plain \<noteq> ''''"
  shows "\<exists>n \<ge> w_tick w. reset_requested (sha256_hex e plain) (clock e n) (usr_ID user) (w_db w) (w_db w')"
  using assms(1) unfolding issue_reset_token_def
proof (elim ok_elims, goal_cases)
  case (1 raw w1 e' w2 t w3 x w4 y w5 z w6)
  have w1: "w1 = tick w" using 1(1) by (auto simp: rand_Read_def split: option.splits)
  have "users (w_db w') = users (w_db w4)"
    using ignore_audit [OF 1(4)] send_reset_mail_db [OF 1(5)] 1(7) by simp
  moreover obtain t' where "users (w_db w4) = update_where (\<lambda>r. ur_ID r = usr_ID user)
       (\<lambda>r. r\<lparr>ur_UpdatedAt := t', password_reset_token_hash := Some (sha256_hex e plain),
               password_reset_expires_at := Some (t + resetTokenTTL)\<rparr>) (users (w_db w3))"
    using userRepo_SetResetToken_effect [OF 1(3)] assms(2) 1(6,8) by auto
  moreover have "w_db w3 = w_db w" and "t = clock e (w_tick w1)" using 1(2,9) w1 by (auto simp: now_ok)
  ultimately show ?case
    by (intro exI [of _ "w_tick w1"]) (auto simp: reset_requested_def w1)
qed

lemma authUC_RequestPasswordReset_spec:
  assumes "authUC_RequestPasswordReset u ident cx e w = (Inr plain, w')" and "plain \<noteq> ''''"
    and "sha256_hex e plain \<noteq> ''''" and "clock_ok e"
  shows "\<exists>r t. first_row ur_ID (same_username e (TrimSpace ident)) (users (w_db w)) = Some r \<and>
    ur_Status r \<noteq> UserStatusLocked \<and> clock e (w_tick w) \<le> t \<and>
    reset_requested (sha256_hex e plain) t (ur_ID r) (w_db w) (w_db w')"
proof -
  from assms(1,2) obtain ou w1 user where get: "userRepo_GetByUsername (TrimSpace ident) e w = (Inr ou, w1)"
    and user: "ou = Some user" "\<not> IsLocked user" and issue: "issue_reset_token u user cx e w1 = (Inr plain, w')"
    by (auto simp: authUC_RequestPasswordReset_def Let_def bind_ok ret_ok split: if_splits option.splits)
  from userRepo_GetByUsername_effect [OF get] user obtain r
    where r: "first_row ur_ID (same_username e (TrimSpace ident)) (users (w_db w)) = Some r"
      "user = user_toDomain r" and db: "w_db w1 = w_db w"
    by (auto simp: Some_eq_map_option same_db_def)
  from issue_reset_token_spec [OF issue assms(3)] obtain n where "w_tick w1 \<le> n"
    and "reset_requested (sha256_hex e plain) (clock e n) (ur_ID r) (w_db w) (w_db w')"
    by (auto simp: r db)
  moreover have "w_tick w \<le> w_tick w1" using get by (auto simp: userRepo_GetByUsername_def ok_iff)
  ultimately show ?thesis using r user assms(4)
    by (intro exI [of _ r] exI [of _ "clock e n"]) (auto simp: IsLocked_def clock_ok_def)
qed

lemma ResetPassword_succeeds:
  assumes "quiet e" and "\<not> ctxKeyTx cx" and "r \<in> set (users (w_db w))"
    and "live_token (sha256_hex e (TrimSpace token)) (clock e (Suc (w_tick w))) r"
    and "TrimSpace token \<noteq> ''''" and "sha256_hex e (TrimSpace token) \<noteq> ''''"
    and "minPasswordLen \<le> length new" and "\<And>n. bcrypt_hash e n new \<noteq> None"
  shows "\<exists>w'. authUC_ResetPassword token new cx e w = (Inr (), w')"
proof -
  let ?h = "sha256_hex e (TrimSpace token)"
  obtain r' where "first_row ur_ID (live_token ?h (clock e (Suc (w_tick w)))) (users (w_db w)) = Some r'"
    using assms(3,4) first_row_None [of ur_ID] by (metis option.exhaust)
  then have "userRepo_FindByResetTokenHash ?h e (tick w) = (Inr (Some (user_toDomain r')), tick (tick w))"
    using assms(1,6)
    by (simp add: userRepo_FindByResetTokenHash_def run_steps live_token_def [abs_def] cong: option.case_cong)
  moreover obtain nh where "bcrypt_hash e (Suc (Suc (w_tick w))) new = Some nh" using assms(8) by auto
  moreover have "fault e n = None" for n using assms(1) by simp
  ultimately show ?thesis
    using assms(1,2,5,7)
    by (simp add: authUC_ResetPassword_def run_steps HashPassword_def userRepo_Update_def
        userRepo_SetResetToken_def auditRepo_Write_def Let_def numeral_eq_Suc)
qed

section \<open>Login\<close>

definition login_account :: "env \<Rightarrow> string \<Rightarrow> string \<Rightarrow> db \<Rightarrow> userTuple option" where
  "login_account e username password d =
     (case first_row ur_ID (same_username e username) (users d) of
        None \<Rightarrow> None
      | Some r \<Rightarrow> if bcrypt_cmp e (ur_PasswordHash r) password then Some r else None)"

lemma ignore_audit_outside: "ignore (auditRepo_Write cx a) e w = (Inr u, w') \<Longrightarrow> outside_db w w'"
proof -
  have "keeps outside_db (auditRepo_Write cx a)"
    unfolding auditRepo_Write_def Let_def by (intro keeps_intros frame_outside_db)
  then show "ignore (auditRepo_Write cx a) e w = (Inr u, w') \<Longrightarrow> outside_db w w'"
    using keepsD keeps_ignore by blast
qed

lemma authUC_Login_spec:
  assumes "authUC_Login u username password cx e w = (Inr (token, user), w')"
  shows "\<exists>r w1 w2. login_account e username password (w_db w) = Some r \<and> user = user_toDomain r \<and>
    ur_Status r \<noteq> UserStatusLocked \<and> w1 = tick w \<and>
    Sign (ax_tokens u) (ur_ID r) (ur_Role r) e w1 = (Inr token, w2) \<and>
    users (w_db w') = users (w_db w) \<and> outside_db w w'"
proof -
  from assms obtain ou w1 where get: "userRepo_GetByUsername username e w = (Inr ou, w1)"
    and ou: "(case ou of None \<Rightarrow> None | Some user \<Rightarrow>
        if ComparePassword e password (usr_PasswordHash user) then Some user else None) = Some user"
    and unlocked: "\<not> IsLocked user"
    and rest: "bind (Sign (ax_tokens u) (usr_ID user) (usr_Role user)) (\<lambda>token.
           bind (ignore (auditRepo_Write cx (AuditEntry0\<lparr>au_Action := AuditAuthLoginSucceeded,
             au_EntityType := ''user'', au_EntityID := usr_ID user, au_EntityName := usr_Username user,
             au_ActorUserID := usr_ID user, au_ActorName := usr_FullName user,
             au_ActorRole := usr_Role user\<rparr>))) (\<lambda>_. ret (token, user))) e w1 = (Inr (token, user), w')"
    by (auto simp: authUC_Login_def bind_ok ask_ok throw_ok ret_ok split: option.splits if_splits)
  from get have w1: "w1 = tick w" and ou': "ou = map_option user_toDomain
      (first_row ur_ID (same_username e username) (users (w_db w)))"
    by (auto simp: userRepo_GetByUsername_def ok_iff)
  from ou ou' obtain r where r: "login_account e username password (w_db w) = Some r" "user = user_toDomain r"
    by (auto simp: login_account_def ComparePassword_def split: option.splits if_splits)
  from rest obtain w2 where sign: "Sign (ax_tokens u) (ur_ID r) (ur_Role r) e w1 = (Inr token, w2)"
    and log: "ignore (auditRepo_Write cx (AuditEntry0\<lparr>au_Action := AuditAuthLoginSucceeded,
             au_EntityType := ''user'', au_EntityID := usr_ID user, au_EntityName := usr_Username user,
             au_ActorUserID := usr_ID user, au_ActorName := usr_FullName user,
             au_ActorRole := usr_Role user\<rparr>)) e w2 = (Inr (), w')"
    by (auto simp: bind_ok ret_ok r(2))
  have "w2 = tick (tick w1)" by (rule Sign_okE [OF sign])
  with ignore_audit [OF log] ignore_audit_outside [OF log] w1 sign r unlocked show ?thesis
    by (intro exI [of _ r] exI [of _ w1] exI [of _ w2]) (simp add: IsLocked_def)
qed

lemma Login_succeeds:
  assumes "quiet e" and "login_account e username password (w_db w) = Some r"
    and "ur_Status r \<noteq> UserStatusLocked"
    and "\<And>n. rand_bytes e n 16 \<noteq> None" and "\<And>c. jwt_encode e c \<noteq> None"
  shows "\<exists>token w'. authUC_Login u username password cx e w = (Inr (token, user_toDomain r), w')"
proof -
  have "userRepo_GetByUsername username e w = (Inr (map_option user_toDomain
      (first_row ur_ID (same_username e username) (users (w_db w)))), tick w)"
    using assms(1) by (simp add: userRepo_GetByUsername_def run_steps)
  moreover obtain token w2 where "Sign (ax_tokens u) (ur_ID r) (ur_Role r) e (tick w) = (Inr token, w2)"
    using Sign_succeeds [OF assms(4,5)] by blast
  ultimately show ?thesis
    using assms(2,3)
    by (auto simp: authUC_Login_def run_steps login_account_def ComparePassword_def IsLocked_def
        split: option.splits if_splits prod.splits)
qed

section \<open>Properties\<close>

text \<open>
  C6: a login succeeds only with the password of the named, unlocked account; the token it issues
  verifies, at any later check, as exactly that account and its role: the check fails only once the
  lifetime is over (up to the truncation of the expiry to whole seconds) and passes only before that.
  A login changes no account, no session and no mail. The token contract is \<open>jwt_ok\<close>.
\<close>

theorem login_sound:
  assumes "jwt_ok e" and "authUC_Login u username password cx e w = (Inr (token, user), w')"
  shows "\<exists>r. first_row ur_ID (same_username e username) (users (w_db w)) = Some r \<and>
    user = user_toDomain r \<and> bcrypt_cmp e (ur_PasswordHash r) password \<and>
    ur_Status r \<noteq> UserStatusLocked \<and>
    (case fst (Verify token e w2) of
       Inr c \<Rightarrow> cl_UserID c = ur_ID r \<and> cl_Role c = ur_Role r \<and>
         clock e (w_tick w2) < clock e (w_tick w + 2) + mg_ttl (ax_tokens u)
     | Inl _ \<Rightarrow> clock e (w_tick w + 2) + mg_ttl (ax_tokens u) - second < clock e (w_tick w2)) \<and>
    users (w_db w') = users (w_db w) \<and> outside_db w w'"
proof -
  from authUC_Login_spec [OF assms(2)] obtain r w3
    where r: "login_account e username password (w_db w) = Some r" "user = user_toDomain r"
      "ur_Status r \<noteq> UserStatusLocked" "users (w_db w') = users (w_db w)" "outside_db w w'"
      and sign: "Sign (ax_tokens u) (ur_ID r) (ur_Role r) e (tick w) = (Inr token, w3)" by blast
  have "Suc (w_tick (tick w)) = w_tick w + 2" by simp
  from Verify_signed [OF assms(1) sign, of w2, unfolded this] r show ?thesis
    by (intro exI [of _ r]) (auto simp only: login_account_def split: option.splits if_splits)
qed

text \<open>
  C14: a change of one's own password goes through only with the current password and a different
  new one of at least 8 bytes; it stores the new hash, lifts the forced change, and touches no
  other account or table but the log.
\<close>

theorem change_password_sound:
  assumes "authUC_ChangePassword old new cx e w = (Inr x, w')"
  shows "minPasswordLen \<le> length new \<and> new \<noteq> old \<and>
    edit_user (UserID cx) (\<lambda>u v. bcrypt_cmp e (usr_PasswordHash u) old \<and>
      (\<exists>h n. bcrypt_hash e n new = Some h \<and>
        v = u\<lparr>usr_PasswordHash := h, usr_ForcePasswordChange := False, usr_UpdatedBy := UserID cx\<rparr>))
      (w_db w) (w_db w')"
proof
  show "minPasswordLen \<le> length new"
    using assms by (simp add: authUC_ChangePassword_def throw_def split: if_splits)
  show "new \<noteq> old \<and> edit_user (UserID cx) (\<lambda>u v. bcrypt_cmp e (usr_PasswordHash u) old \<and>
      (\<exists>h n. bcrypt_hash e n new = Some h \<and>
        v = u\<lparr>usr_PasswordHash := h, usr_ForcePasswordChange := False, usr_UpdatedBy := UserID cx\<rparr>))
      (w_db w) (w_db w')"
  proof
    show "new \<noteq> old" using assms by (simp add: authUC_ChangePassword_def throw_def split: if_splits)
    show "edit_user (UserID cx) (\<lambda>u v. bcrypt_cmp e (usr_PasswordHash u) old \<and>
      (\<exists>h n. bcrypt_hash e n new = Some h \<and>
        v = u\<lparr>usr_PasswordHash := h, usr_ForcePasswordChange := False, usr_UpdatedBy := UserID cx\<rparr>))
      (w_db w) (w_db w')"
      using assms unfolding authUC_ChangePassword_def SetPasswordHash_def ClearForcePasswordChange_def
        ComparePassword_def
      by (elim Run_okE ok_elims HashPassword_okE) (rule edit_userI, (assumption | (simp; fail) | (simp, blast))+)
  qed
qed

text \<open>
  A failed login does not tell an unknown account from a wrong password: on a fault-free
  environment both give the same error.
\<close>

theorem login_failures_alike:
  assumes "quiet e" and "login_account e username password (w_db w) = None"
  shows "fst (authUC_Login u username password cx e w) = Inl bad_credentials"
proof -
  have "fst (ignore m e w') = Inr ()" for m :: "unit comp" and w'
    by (simp add: ignore_def split: prod.split)
  then show ?thesis
    using assms by (auto simp: authUC_Login_def userRepo_GetByUsername_def run_steps login_account_def
        ComparePassword_def split: option.splits if_splits prod.splits)
qed

text \<open>
  C12: a password-reset link works. Within an hour of the request, on a fault-free environment, the
  mailed token sets the new password of the account it was requested for: that account's row holds a
  hash of the new password, no forced change and no token afterwards, and every other account is as
  it was. No account is deleted in the state, and the hash of the fresh random token is not one that
  an account already holds.
\<close>

theorem reset_link_works:
  assumes "quiet e" and "clock_ok e" and "authUC_RequestPasswordReset u ident cx0 e w = (Inr plain, w1)"
    and "plain \<noteq> ''''" and "TrimSpace plain = plain" and "sha256_hex e plain \<noteq> ''''"
    and "\<forall>r \<in> set (users (w_db w)). ur_DeletedAt r = None"
    and "users (w_db w2) = users (w_db w1)" and "clock e (Suc (w_tick w2)) < clock e (w_tick w) + resetTokenTTL"
    and "\<not> ctxKeyTx cx" and "minPasswordLen \<le> length new" and "\<And>n. bcrypt_hash e n new \<noteq> None"
    and fresh: "\<forall>r \<in> set (users (w_db w)). password_reset_token_hash r \<noteq> Some (sha256_hex e plain)"
  shows "\<exists>r w'. first_row ur_ID (same_username e (TrimSpace ident)) (users (w_db w)) = Some r \<and>
    authUC_ResetPassword plain new cx e w2 = (Inr (), w') \<and>
    password_was_reset e new r (w_db w2) (w_db w')"
proof -
  from authUC_RequestPasswordReset_spec [OF assms(3,4,6,2)] obtain r t
    where r: "first_row ur_ID (same_username e (TrimSpace ident)) (users (w_db w)) = Some r"
      and t: "clock e (w_tick w) \<le> t"
      and req: "reset_requested (sha256_hex e plain) t (ur_ID r) (w_db w) (w_db w1)" by blast
  note account = r and r = first_row_Some(1) [OF r]
  from req obtain t' where upd: "users (w_db w1) = update_where (\<lambda>r'. ur_ID r' = ur_ID r)
       (\<lambda>r'. r'\<lparr>ur_UpdatedAt := t', password_reset_token_hash := Some (sha256_hex e plain),
               password_reset_expires_at := Some (t + resetTokenTTL)\<rparr>) (users (w_db w))"
    by (auto simp: reset_requested_def)
  then have holder: "ur_ID r' = ur_ID r"
    if "r' \<in> set (users (w_db w2))" "live_token (sha256_hex e plain) t'' r'" for r' t''
    using that fresh unfolding assms(8) by (auto simp: set_update_where live_token_def split: if_splits)
  from upd r have "r\<lparr>ur_UpdatedAt := t', password_reset_token_hash := Some (sha256_hex e plain),
      password_reset_expires_at := Some (t + resetTokenTTL)\<rparr> \<in> set (users (w_db w2))" (is "?r \<in> _")
    unfolding assms(8) by (force simp: set_update_where)
  moreover have "live_token (sha256_hex e (TrimSpace plain)) (clock e (Suc (w_tick w2))) ?r"
    using assms(5,7,9) r t by (simp add: live_token_def)
  ultimately obtain w' where run: "authUC_ResetPassword plain new cx e w2 = (Inr (), w')"
    using assms ResetPassword_succeeds [of e cx ?r w2 plain new] by auto
  from authUC_ResetPassword_spec [OF this assms(2)] holder have "password_was_reset e new r (w_db w2) (w_db w')"
    unfolding assms(5) by (auto simp: password_was_reset_def)
  with account run show ?thesis by blast
qed

text \<open>
  C13: a password-reset link works once. A successful reset needs a live token; it sets the password
  of the account that holds it, lifts the forced change and removes the token, so that the same link
  is refused from then on, whatever password is sent.
\<close>

theorem reset_link_single_use:
  assumes "clock_ok e" and "authUC_ResetPassword token new cx e w = (Inr x, w')"
    and "\<And>r r'. r \<in> set (users (w_db w)) \<Longrightarrow> r' \<in> set (users (w_db w)) \<Longrightarrow>
      password_reset_token_hash r = Some (sha256_hex e (TrimSpace token)) \<Longrightarrow>
      password_reset_token_hash r' = password_reset_token_hash r \<Longrightarrow> ur_ID r' = ur_ID r"
  shows "(\<exists>r \<in> set (users (w_db w)). live_token (sha256_hex e (TrimSpace token)) (clock e (w_tick w)) r \<and>
       password_was_reset e new r (w_db w) (w_db w')) \<and>
    (users (w_db w2) = users (w_db w') \<longrightarrow> isl (fst (authUC_ResetPassword token new2 cx2 e w2)))"
proof (intro conjI impI)
  let ?h = "sha256_hex e (TrimSpace token)"
  from authUC_ResetPassword_spec [OF assms(2,1)] obtain r where r: "r \<in> set (users (w_db w))"
    and live: "live_token ?h (clock e (w_tick w)) r" and reset: "password_was_reset e new r (w_db w) (w_db w')"
    by blast
  then show "\<exists>r \<in> set (users (w_db w)). live_token ?h (clock e (w_tick w)) r \<and>
      password_was_reset e new r (w_db w) (w_db w')" by blast
  assume same: "users (w_db w2) = users (w_db w')"
  have gone: "password_reset_token_hash r' \<noteq> Some ?h" if "r' \<in> set (users (w_db w2))" for r'
  proof
    assume has: "password_reset_token_hash r' = Some ?h"
    from that reset have cases: "if ur_ID r' = ur_ID r then password_reset_token_hash r' = None
        else r' \<in> set (users (w_db w))"
      unfolding same password_was_reset_def by (simp split: if_splits)
    with has have "ur_ID r' \<noteq> ur_ID r" by (simp split: if_splits)
    moreover from this cases have "r' \<in> set (users (w_db w))" by simp
    moreover have "password_reset_token_hash r = Some ?h" using live by (simp add: live_token_def)
    ultimately show False using assms(3) [OF r] has by simp
  qed
  show "isl (fst (authUC_ResetPassword token new2 cx2 e w2))"
  proof (cases "authUC_ResetPassword token new2 cx2 e w2")
    case (Pair res w3)
    show ?thesis
    proof (cases res)
      case (Inr y)
      with Pair authUC_ResetPassword_spec [OF _ assms(1), of token new2 cx2 w2 y w3] gone
      show ?thesis by (auto simp: live_token_def)
    qed (simp add: Pair)
  qed
qed

text \<open>The witnesses request a link for user \<open>stan\<close> and follow it.\<close>

definition sample_auth :: auth_uc where
  "sample_auth = \<lparr>ax_tokens = sample_manager, ax_blacklist = True, ax_mailer = None, ax_resetURL = ''''\<rparr>"

definition sample_reset_token :: string where
  "sample_reset_token = concat (replicate 32 ''62'')"

definition reset_requested_world :: world where
  "reset_requested_world =
     snd (authUC_RequestPasswordReset sample_auth ''stan'' sample_ctx sample_env sample_world)"

lemma sample_request:
  "authUC_RequestPasswordReset sample_auth ''stan'' sample_ctx sample_env sample_world =
     (Inr sample_reset_token, reset_requested_world)"
proof -
  have "fst (authUC_RequestPasswordReset sample_auth ''stan'' sample_ctx sample_env sample_world) =
      Inr sample_reset_token" by code_simp
  then show ?thesis unfolding reset_requested_world_def by (metis prod.collapse)
qed

lemma sample_reset_facts:
  "sample_reset_token \<noteq> ''''" "TrimSpace sample_reset_token = sample_reset_token"
  "w_tick reset_requested_world < 100"
  "map ur_DeletedAt (users (w_db sample_world)) = [None, None, None]"
  "map password_reset_token_hash (users (w_db reset_requested_world)) =
     [None, None, Some (sha256_hex sample_env sample_reset_token)]"
  "map password_reset_token_hash (users (w_db sample_world)) = [None, None, None]"
  "map_option ur_Username (first_row ur_ID (same_username sample_env (TrimSpace ''stan''))
     (users (w_db sample_world))) = Some ''stan''"
  by code_simp+

theorem reset_link_works_witness:
  "\<exists>r w'. ur_Username r = ''stan'' \<and>
     authUC_ResetPassword sample_reset_token ''new-password'' sample_ctx sample_env reset_requested_world =
     (Inr (), w') \<and> password_was_reset sample_env ''new-password'' r (w_db reset_requested_world) (w_db w')"
proof -
  have "\<exists>r w'. first_row ur_ID (same_username sample_env (TrimSpace ''stan'')) (users (w_db sample_world)) = Some r \<and>
    authUC_ResetPassword sample_reset_token ''new-password'' sample_ctx sample_env reset_requested_world =
      (Inr (), w') \<and>
    password_was_reset sample_env ''new-password'' r (w_db reset_requested_world) (w_db w')"
  proof (rule reset_link_works [OF quiet_sample_env clock_ok_sample_env sample_request])
    show "\<forall>r \<in> set (users (w_db sample_world)). ur_DeletedAt r = None" using sample_reset_facts(4) by auto
    show "\<forall>r \<in> set (users (w_db sample_world)).
        password_reset_token_hash r \<noteq> Some (sha256_hex sample_env sample_reset_token)"
      using sample_reset_facts(6) by auto
  qed (use sample_reset_facts in \<open>simp_all add: sample_env_fields resetTokenTTL_def hour_def second_def minPasswordLen_def\<close>)
  then show ?thesis using sample_reset_facts(7) by auto
qed

lemma sample_token_rows:
  "map (\<lambda>r. (ur_ID r, password_reset_token_hash r,
       map_option (\<lambda>x. 1000000001000 < x) (password_reset_expires_at r), ur_DeletedAt r))
     (users (w_db reset_requested_world)) =
   [(1, None, None, None), (2, None, None, None),
    (3, Some (sha256_hex sample_env sample_reset_token), Some True, None)]"
  by code_simp

lemma sample_token_holder:
  "r \<in> set (users (w_db reset_requested_world)) \<Longrightarrow> password_reset_token_hash r \<noteq> None \<Longrightarrow> ur_ID r = 3"
proof -
  assume r: "r \<in> set (users (w_db reset_requested_world))" and some: "password_reset_token_hash r \<noteq> None"
  from r have "(ur_ID r, password_reset_token_hash r,
       map_option (\<lambda>x. 1000000001000 < x) (password_reset_expires_at r), ur_DeletedAt r) \<in>
      set [(1, None, None, None), (2, None, None, None),
        (3, Some (sha256_hex sample_env sample_reset_token), Some True, None)]"
    unfolding sample_token_rows [symmetric] set_map by (rule imageI)
  with some show ?thesis by auto
qed

lemma sample_reset_runs:
  "\<exists>w'. authUC_ResetPassword sample_reset_token ''new-password'' sample_ctx sample_env reset_requested_world =
     (Inr (), w')"
proof -
  have "(3, Some (sha256_hex sample_env sample_reset_token), Some True, None) \<in>
      set (map (\<lambda>r. (ur_ID r, password_reset_token_hash r,
        map_option (\<lambda>x. 1000000001000 < x) (password_reset_expires_at r), ur_DeletedAt r))
        (users (w_db reset_requested_world)))"
    unfolding sample_token_rows by simp
  then obtain r x where "r \<in> set (users (w_db reset_requested_world))"
    and "password_reset_token_hash r = Some (sha256_hex sample_env sample_reset_token)"
    and "password_reset_expires_at r = Some x" "1000000001000 < x" "ur_DeletedAt r = None"
    by (auto simp: Some_eq_map_option)
  then have "live_token (sha256_hex sample_env (TrimSpace sample_reset_token))
      (clock sample_env (Suc (w_tick reset_requested_world))) r"
    using sample_reset_facts(2,3) by (simp add: live_token_def sample_env_fields)
  then show ?thesis
    using \<open>r \<in> _\<close> sample_reset_facts(1,2)
    by (intro ResetPassword_succeeds) (simp_all add: sample_env_fields minPasswordLen_def)
qed

theorem reset_link_single_use_witness:
  "isl (fst (authUC_ResetPassword sample_reset_token ''other-password'' sample_ctx sample_env
     (snd (authUC_ResetPassword sample_reset_token ''new-password'' sample_ctx sample_env reset_requested_world))))"
proof -
  obtain w' where run: "authUC_ResetPassword sample_reset_token ''new-password'' sample_ctx sample_env
      reset_requested_world = (Inr (), w')" using sample_reset_runs by blast
  have "ur_ID r' = ur_ID r" if "r \<in> set (users (w_db reset_requested_world))"
      "r' \<in> set (users (w_db reset_requested_world))" "password_reset_token_hash r = Some (sha256_hex sample_env (TrimSpace sample_reset_token))"
      "password_reset_token_hash r' = password_reset_token_hash r" for r r'
    using that sample_token_holder by simp
  from reset_link_single_use [OF clock_ok_sample_env run this]
  have "isl (fst (authUC_ResetPassword sample_reset_token ''other-password'' sample_ctx sample_env w'))"
    by blast
  then show ?thesis unfolding run snd_conv .
qed

lemma sample_login_account:
  "map_option ur_ID (login_account sample_env ''stan'' ''password'' sample_db) = Some 3"
  "map_option ur_Status (login_account sample_env ''stan'' ''password'' sample_db) = Some UserStatusActive"
  "map_option ur_ID (login_account sample_env ''stan'' ''wrong'' sample_db) = None"
  "map_option ur_ID (login_account sample_env ''nobody'' ''password'' sample_db) = None"
  by code_simp+

lemma w_db_sample_world [simp]: "w_db sample_world = sample_db"
  by (simp add: sample_world_def)

lemma sample_rand: "rand_bytes sample_env n 16 \<noteq> None" "jwt_encode sample_env c \<noteq> None"
  by (simp_all add: sample_env_def sample_jwt_encode_def)

lemma sample_login:
  "\<exists>token r w'. authUC_Login sample_auth ''stan'' ''password'' sample_ctx sample_env sample_world =
     (Inr (token, user_toDomain r), w') \<and> ur_ID (r :: userTuple) = 3"
proof -
  obtain r where r: "login_account sample_env ''stan'' ''password'' sample_db = Some r" "ur_ID r = 3"
    "ur_Status r = UserStatusActive"
    using sample_login_account(1,2) by (auto simp: map_option_eq_Some)
  show ?thesis
    using Login_succeeds [OF quiet_sample_env, of "''stan''" "''password''" sample_world r sample_auth sample_ctx]
      r sample_rand by auto
qed

theorem login_sound_witness:
  "case authUC_Login sample_auth ''stan'' ''password'' sample_ctx sample_env sample_world of
     (Inr (token, user), w') \<Rightarrow> usr_Status user \<noteq> UserStatusLocked \<and> users (w_db w') = users sample_db \<and>
       (case fst (Verify token sample_env sample_world) of
          Inr c \<Rightarrow> cl_UserID c = usr_ID user \<and> cl_Role c = usr_Role user
        | Inl _ \<Rightarrow> False)
   | (Inl _, _) \<Rightarrow> False"
proof -
  obtain token user w' where run: "authUC_Login sample_auth ''stan'' ''password'' sample_ctx sample_env
      sample_world = (Inr (token, user), w')" using sample_login by blast
  have "clock sample_env (w_tick sample_world) \<le>
      clock sample_env (w_tick sample_world + 2) + mg_ttl (ax_tokens sample_auth) - second"
    by (simp add: sample_env_def sample_auth_def sample_manager_def hour_def second_def)
  with login_sound [OF jwt_ok_sample_env run, of sample_world] run show ?thesis
    by (auto split: sum.splits)
qed

theorem login_failures_alike_witness:
  "fst (authUC_Login sample_auth ''stan'' ''wrong'' sample_ctx sample_env sample_world) = Inl bad_credentials \<and>
   fst (authUC_Login sample_auth ''nobody'' ''password'' sample_ctx sample_env sample_world) = Inl bad_credentials"
  using sample_login_account(3,4) by (auto intro!: login_failures_alike simp: map_option_is_None)

text \<open>
  Deleting an account does not close it. After the soft delete of user \<open>stan\<close>, a login with his
  password still succeeds and returns the deleted account: neither the lookup by name nor \<open>Login\<close>
  looks at \<open>deleted_at\<close>.
\<close>

lemma deleted_account_logs_in:
  "\<exists>token user w'. authUC_Login sample_auth ''stan'' ''password'' sample_ctx sample_env
       (snd (userRepo_SoftDelete 3 1 sample_env sample_world)) = (Inr (token, user), w') \<and> IsDeleted user"
proof -
  let ?w = "snd (userRepo_SoftDelete 3 1 sample_env sample_world)"
  have *: "map_option ur_Status (login_account sample_env ''stan'' ''password'' (w_db ?w)) = Some UserStatusActive"
    "map_option (\<lambda>r. ur_DeletedAt r \<noteq> None) (login_account sample_env ''stan'' ''password'' (w_db ?w)) = Some True"
    by code_simp+
  then obtain r where r: "login_account sample_env ''stan'' ''password'' (w_db ?w) = Some r"
    "ur_Status r = UserStatusActive" "ur_DeletedAt r \<noteq> None"
    by (auto simp: map_option_eq_Some)
  then show ?thesis
    using Login_succeeds [OF quiet_sample_env r(1) _ sample_rand, of sample_auth sample_ctx]
    by (auto simp: IsDeleted_def)
qed

lemma sample_change_runs:
  "fst (authUC_ChangePassword ''password'' ''new-password'' sample_ctx sample_env sample_world) = Inr ()"
  by code_simp

theorem change_password_sound_witness:
  "edit_user 1 (\<lambda>u v. bcrypt_cmp sample_env (usr_PasswordHash u) ''password'' \<and>
      (\<exists>h n. bcrypt_hash sample_env n ''new-password'' = Some h \<and>
        v = u\<lparr>usr_PasswordHash := h, usr_ForcePasswordChange := False, usr_UpdatedBy := 1\<rparr>))
      sample_db (w_db (snd (authUC_ChangePassword ''password'' ''new-password'' sample_ctx sample_env sample_world)))"
proof -
  obtain w' where run: "authUC_ChangePassword ''password'' ''new-password'' sample_ctx sample_env sample_world =
      (Inr (), w')" using sample_change_runs by (metis prod.collapse)
  show ?thesis
    using change_password_sound [OF run] unfolding run snd_conv by (simp only: sample_ctx_simps w_db_sample_world)
qed

end
