(* ===== verification/Middleware.thy ===== *)
theory Middleware
  imports Auth_UC Perm_UC
begin

text \<open>
  \<open>internal/server/http/middleware/middleware.go\<close>: authentication of a request, the
  forced-password-change gate, the permission and role gates and the internal API key. A middleware
  takes the rest of the chain, a computation that depends on the request context; an error it
  returns is the one \<open>AppErrorResponse\<close> renders.
\<close>

section \<open>Requests\<close>

text \<open>What the middlewares read of an echo request.\<close>

record request =
  rq_Path :: string
  rq_Cookies :: "(string \<times> string) list"
  rq_Authorization :: string
  rq_InternalKey :: string

record auth_mw =
  am_cookieName :: string
  am_blacklist :: bool \<comment> \<open>\<open>blacklist != nil\<close>\<close>
  am_perms :: bool \<comment> \<open>\<open>perms != nil\<close>\<close>
  am_users :: bool \<comment> \<open>\<open>users != nil\<close>\<close>

definition extract_token :: "auth_mw \<Rightarrow> request \<Rightarrow> string" where
  "extract_token a rq =
     (case (if am_cookieName a \<noteq> '''' then map_of (rq_Cookies rq) (am_cookieName a) else None) of
        Some v \<Rightarrow>
          if v \<noteq> '''' then v
          else if HasPrefix (rq_Authorization rq) ''Bearer '' then TrimSpace (drop 7 (rq_Authorization rq))
          else ''''
      | None \<Rightarrow>
          if HasPrefix (rq_Authorization rq) ''Bearer '' then TrimSpace (drop 7 (rq_Authorization rq))
          else '''')"

definition forcePwExemptSuffix :: "string list" where
  "forcePwExemptSuffix = [''/auth/me'', ''/auth/logout'', ''/auth/change-password'']"

definition isForcePwExempt :: "string \<Rightarrow> bool" where
  "isForcePwExempt path = list_ex (HasSuffix path) forcePwExemptSuffix"

section \<open>Authentication\<close>

text \<open>The token, its claims and the revocation check; then the context of the request.\<close>

definition authenticate :: "auth_mw \<Rightarrow> request \<Rightarrow> claims comp" where
  "authenticate a rq =
     (let tok = extract_token a rq in
      if tok = '''' then throw (UnauthorizedErrorf ''khong co token'')
      else
        bind (attempt (Verify tok)) (\<lambda>r.
        case r of
          Inl err \<Rightarrow> throw (UnauthorizedErrorf ''token khong hop le'')
        | Inr claims \<Rightarrow>
            if am_blacklist a \<and> cl_ID claims \<noteq> '''' then
              bind (attempt (IsRevoked (cl_ID claims))) (\<lambda>r.
              case r of
                Inl bErr \<Rightarrow> throw (InternalErrorf ''loi xac thuc'')
              | Inr revoked \<Rightarrow>
                  if revoked then throw (UnauthorizedErrorf ''token da bi thu hoi'') else ret claims)
            else ret claims))"

definition claims_ctx :: "claims \<Rightarrow> ctx \<Rightarrow> ctx" where
  "claims_ctx c cx =
     (let cx = WithTokenID (WithRole (WithUserID cx (cl_UserID c)) (cl_Role c)) (cl_ID c) in
      case cl_ExpiresAt c of None \<Rightarrow> cx | Some x \<Rightarrow> WithTokenExpiry cx (x * second))"

definition auth_Middleware :: "auth_mw \<Rightarrow> request \<Rightarrow> (ctx \<Rightarrow> 'a comp) \<Rightarrow> ctx \<Rightarrow> 'a comp" where
  "auth_Middleware a rq next cx =
     bind (authenticate a rq) (\<lambda>claims.
     let cx = claims_ctx claims cx in
     if am_users a \<and> \<not> isForcePwExempt (rq_Path rq) then
       bind (attempt (userRepo_MustForcePasswordChange (cl_UserID claims))) (\<lambda>r.
       case r of
         Inl mErr \<Rightarrow> throw (InternalErrorf ''loi kiem tra trang thai mat khau'')
       | Inr must \<Rightarrow>
           if must then throw (ForcePasswordChangeErrorf ''vui long doi mat khau truoc khi tiep tuc'')
           else next cx)
     else next cx)"

section \<open>Authorisation\<close>

definition RequirePermission :: "auth_mw \<Rightarrow> string \<Rightarrow> string \<Rightarrow> (ctx \<Rightarrow> 'a comp) \<Rightarrow> ctx \<Rightarrow> 'a comp" where
  "RequirePermission a res act next cx =
     (let role = Role cx in
      if role = RoleAdmin then next cx
      else
        (let userID = UserID cx; effective = RoleDefaultPermissions role in
         bind (if am_perms a then
                 bind (attempt (permRepo_GetByUserID userID)) (\<lambda>r.
                 case r of
                   Inl err \<Rightarrow> throw (InternalErrorf ''loi kiem tra quyen'')
                 | Inr oup \<Rightarrow>
                     ret (case oup of None \<Rightarrow> effective | Some up \<Rightarrow> MergeOver effective (up_Permissions up)))
               else ret effective) (\<lambda>effective.
         if \<not> HasAction effective res act then throw (ForbiddenErrorf ''khong du quyen'')
         else next cx)))"

definition RequireRole :: "string list \<Rightarrow> (ctx \<Rightarrow> 'a comp) \<Rightarrow> ctx \<Rightarrow> 'a comp" where
  "RequireRole roles next cx =
     (if list_ex (\<lambda>r. Role cx = r) roles then next cx
      else throw (ForbiddenErrorf ''khong du quyen''))"

definition internal_Middleware :: "string \<Rightarrow> request \<Rightarrow> (ctx \<Rightarrow> 'a comp) \<Rightarrow> ctx \<Rightarrow> 'a comp" where
  "internal_Middleware apiKey rq next cx =
     (if apiKey = '''' \<or> rq_InternalKey rq \<noteq> apiKey then
        throw (UnauthorizedErrorf ''missing or invalid internal api key'')
      else next cx)"

section \<open>Laws\<close>

lemma IsRevoked_ok:
  "IsRevoked jti e w = (Inr b, w') \<longleftrightarrow>
     net_fault e (w_tick w) = None \<and> w' = tick w \<and>
     b = (kv_get (revokedKeyPrefix @ jti) (clock e (w_tick w)) (w_redis w) \<noteq> None)"
  by (auto simp: IsRevoked_def redis_Exists_def bind_def attempt_def redis_call_def throw_def ret_def
      tick_def split: option.splits)

lemma authenticate_ok:
  "authenticate a rq e w = (Inr c, w') \<longleftrightarrow>
     extract_token a rq \<noteq> '''' \<and> Verify (extract_token a rq) e w = (Inr c, tick w) \<and>
     (if am_blacklist a \<and> cl_ID c \<noteq> '''' then IsRevoked (cl_ID c) e (tick w) = (Inr False, w') else w' = tick w)"
proof (cases "Verify (extract_token a rq) e w")
  case (Pair r w1)
  then have w1: "w1 = tick w"
    by (auto simp: Verify_def bind_def now_def ask_def throw_def ret_def split: option.splits if_splits)
  show ?thesis
  proof (cases r)
    case (Inl err)
    with Pair show ?thesis by (auto simp: authenticate_def Let_def bind_def attempt_def throw_def)
  next
    case (Inr c')
    show ?thesis
    proof (cases "IsRevoked (cl_ID c') e (tick w)")
      case inner: (Pair r2 w2)
      with Pair Inr w1 show ?thesis
        by (cases r2) (auto simp: authenticate_def Let_def bind_def attempt_def throw_def ret_def)
    qed
  qed
qed

lemma auth_Middleware_okE:
  assumes "auth_Middleware a rq next cx e w = (Inr y, w')"
  obtains c w1 w2 where "authenticate a rq e w = (Inr c, w1)"
    and "if am_users a \<and> \<not> isForcePwExempt (rq_Path rq)
         then userRepo_MustForcePasswordChange (cl_UserID c) e w1 = (Inr False, w2) else w2 = w1"
    and "next (claims_ctx c cx) e w2 = (Inr y, w')"
proof -
  from assms obtain c w1 where auth: "authenticate a rq e w = (Inr c, w1)"
    and rest: "(if am_users a \<and> \<not> isForcePwExempt (rq_Path rq) then
       bind (attempt (userRepo_MustForcePasswordChange (cl_UserID c))) (\<lambda>r.
       case r of
         Inl mErr \<Rightarrow> throw (InternalErrorf ''loi kiem tra trang thai mat khau'')
       | Inr must \<Rightarrow>
           if must then throw (ForcePasswordChangeErrorf ''vui long doi mat khau truoc khi tiep tuc'')
           else next (claims_ctx c cx))
     else next (claims_ctx c cx)) e w1 = (Inr y, w')"
    by (auto simp: auth_Middleware_def Let_def bind_ok)
  show thesis
  proof (cases "am_users a \<and> \<not> isForcePwExempt (rq_Path rq)")
    case True
    with rest obtain r w2 where must: "userRepo_MustForcePasswordChange (cl_UserID c) e w1 = (r, w2)"
      and cont: "(case r of
         Inl mErr \<Rightarrow> throw (InternalErrorf ''loi kiem tra trang thai mat khau'')
       | Inr must \<Rightarrow>
           if must then throw (ForcePasswordChangeErrorf ''vui long doi mat khau truoc khi tiep tuc'')
           else next (claims_ctx c cx)) e w2 = (Inr y, w')"
      unfolding if_P [OF True] by (auto simp only: bind_ok attempt_ok)
    from cont have "r = Inr False" and "next (claims_ctx c cx) e w2 = (Inr y, w')"
      by (cases r; simp add: throw_ok split: if_splits)+
    with must True show thesis by (intro that [OF auth]) simp_all
  next
    case False
    with rest show thesis by (intro that [OF auth]) (simp_all only: if_False simp_thms)
  qed
qed

text \<open>Conversely, a good token lets the request reach its handler.\<close>

lemma auth_Middleware_passes:
  assumes "quiet e" and "\<And>n. net_fault e n = None" and "extract_token a rq \<noteq> ''''"
    and "jwt_parse e (clock e (w_tick w)) (extract_token a rq) = Some c" and "cl_Subject c = ''backend''"
    and "kv_get (revokedKeyPrefix @ cl_ID c) (clock e (Suc (w_tick w))) (w_redis w) = None"
    and "\<forall>r \<in> set (users (w_db w)). ur_ID r = cl_UserID c \<longrightarrow> ur_DeletedAt r = None \<longrightarrow>
      \<not> ur_ForcePasswordChange r"
  shows "\<exists>w2. auth_Middleware a rq next cx e w = next (claims_ctx c cx) e w2 \<and> w_db w2 = w_db w"
proof -
  have ver: "Verify (extract_token a rq) e w = (Inr c, tick w)" using assms(4,5) by (simp add: Verify_ok)
  have rev: "IsRevoked (cl_ID c) e (tick w) = (Inr False, tick (tick w))"
    using assms(2,6) by (simp add: IsRevoked_ok)
  then obtain w1 where auth: "authenticate a rq e w = (Inr c, w1)" and db: "w_db w1 = w_db w"
    using assms(3) ver by (cases "am_blacklist a \<and> cl_ID c \<noteq> ''''") (auto simp: authenticate_ok)
  have "\<not> (case filter (\<lambda>r. ur_ID r = cl_UserID c \<and> ur_DeletedAt r = None) (users (w_db w1)) of
      [] \<Rightarrow> False | r # _ \<Rightarrow> ur_ForcePasswordChange r)"
    using assms(7) db by (auto simp: filter_eq_Cons_iff split: list.split)
  then have "userRepo_MustForcePasswordChange (cl_UserID c) e w1 = (Inr False, tick w1)"
    using assms(1) by (simp add: userRepo_MustForcePasswordChange_def run_query)
  then have "auth_Middleware a rq next cx e w = next (claims_ctx c cx) e (tick w1) \<or>
      auth_Middleware a rq next cx e w = next (claims_ctx c cx) e w1"
    by (simp add: auth_Middleware_def bind_def auth Let_def attempt_def)
  with db show ?thesis by (metis tick_simps(1))
qed

section \<open>Properties\<close>

text \<open>
  C1: a protected handler runs only for a request whose token verifies and is not revoked, in the
  context of that token's account and role, and, unless the route is exempt, only when no live
  account of that id has to change its password.
\<close>

theorem protected_handler_authenticated:
  assumes "auth_Middleware a rq next cx e w = (Inr y, w')"
  shows "\<exists>c w2. jwt_parse e (clock e (w_tick w)) (extract_token a rq) = Some c \<and> cl_Subject c = ''backend'' \<and>
    (am_blacklist a \<and> cl_ID c \<noteq> '''' \<longrightarrow>
       kv_get (revokedKeyPrefix @ cl_ID c) (clock e (Suc (w_tick w))) (w_redis w) = None) \<and>
    (am_users a \<and> \<not> isForcePwExempt (rq_Path rq) \<longrightarrow>
       userRepo_MustForcePasswordChange (cl_UserID c) e w2 = (Inr False, tick w2) \<and> w_db w2 = w_db w) \<and>
    (\<exists>w3. next (claims_ctx c cx) e w3 = (Inr y, w') \<and> w_db w3 = w_db w) \<and>
    UserID (claims_ctx c cx) = cl_UserID c \<and> Role (claims_ctx c cx) = cl_Role c"
proof -
  from assms obtain c w1 w2 where auth: "authenticate a rq e w = (Inr c, w1)"
    and gate: "if am_users a \<and> \<not> isForcePwExempt (rq_Path rq)
         then userRepo_MustForcePasswordChange (cl_UserID c) e w1 = (Inr False, w2) else w2 = w1"
    and nxt: "next (claims_ctx c cx) e w2 = (Inr y, w')" by (rule auth_Middleware_okE)
  from auth have db: "w_db w1 = w_db w"
    by (auto simp: authenticate_ok IsRevoked_ok split: if_splits)
  from gate have "w_db w2 = w_db w1"
    by (auto simp: userRepo_MustForcePasswordChange_def query_ok split: if_splits)
  moreover from gate have "am_users a \<and> \<not> isForcePwExempt (rq_Path rq) \<longrightarrow> w2 = tick w1"
    by (auto simp: userRepo_MustForcePasswordChange_def query_ok)
  moreover have "UserID (claims_ctx c cx) = cl_UserID c" and "Role (claims_ctx c cx) = cl_Role c"
    by (auto simp: claims_ctx_def ctx_defs Let_def split: option.split)
  ultimately show ?thesis
    using auth gate nxt db
    by (intro exI [of _ c] exI [of _ w1]) (auto simp: authenticate_ok Verify_ok IsRevoked_ok split: if_splits)
qed

lemma claims_ctx_token [simp]:
  "TokenID (claims_ctx c cx) = cl_ID c"
  "cl_ExpiresAt c = Some x \<Longrightarrow> TokenExpiry (claims_ctx c cx) = x * second"
  by (auto simp: claims_ctx_def ctx_defs Let_def split: option.split)

text \<open>What a logout leaves in Redis: the token's key lives at least as long as the token.\<close>

lemma logout_revokes:
  assumes "clock_ok e" and "Revoke jti x e w = (Inr u, w1)" and "w_tick w1 \<le> n" and "clock e n < x"
  shows "kv_get (revokedKeyPrefix @ jti) (clock e n) (w_redis w1) \<noteq> None"
proof -
  let ?t0 = "clock e (w_tick w)" and ?t1 = "clock e (Suc (w_tick w))"
  have mono: "?t0 \<le> ?t1" using assms(1) by (simp add: clock_ok_def)
  have "w_tick w \<le> w_tick w1"
    using assms(2) by (auto simp: Revoke_def redis_Set_def ok_iff Let_def split: if_splits)
  then have "?t0 \<le> clock e n" using assms(1,3) by (simp add: clock_ok_def)
  then have "\<not> x - ?t0 \<le> 0" using assms(4) by simp
  with assms(2) have "w_redis w1 = kv_put (revokedKeyPrefix @ jti) 1 (?t1 + (x - ?t0)) (w_redis w)"
    by (auto simp: Revoke_def redis_Set_def ok_iff Let_def)
  then show ?thesis using mono assms(4) by (simp add: redis_kv.get_put)
qed

lemma authenticate_inl:
  "(\<And>c w'. authenticate a rq e w \<noteq> (Inr c, w')) \<Longrightarrow> isl (fst (auth_Middleware a rq next cx e w))"
  by (cases "authenticate a rq e w"; cases "fst (authenticate a rq e w)")
    (auto simp: auth_Middleware_def bind_def)

text \<open>
  C10: a token is dead after its owner logs out. Once a logout with the token's context has
  succeeded, every later request that presents that token is rejected: until its expiry because
  the revocation entry is still there (or cannot be read), and afterwards because it has expired.
  The last hypothesis excludes the one race the code leaves open: the token and its revocation
  entry expiring together between the two checks of the same request.
\<close>

theorem logged_out_token_rejected:
  assumes "jwt_ok e" and "clock_ok e" and "jwt_encode e c = Some (extract_token a rq)"
    and "cl_ID c \<noteq> ''''" and "cl_ExpiresAt c = Some x" and "x \<noteq> 0"
    and "ax_blacklist u" and "am_blacklist a"
    and "authUC_Logout u (claims_ctx c cx) e w = (Inr y, w1)"
    and "w_tick w1 \<le> w_tick w2" and "w_redis w2 = w_redis w1"
    and "clock e (w_tick w2) < x * second \<Longrightarrow> clock e (Suc (w_tick w2)) < x * second"
  shows "isl (fst (auth_Middleware a rq next cx2 e w2))"
proof (rule authenticate_inl, rule notI)
  fix c' w' assume auth: "authenticate a rq e w2 = (Inr c', w')"
  then have "jwt_parse e (clock e (w_tick w2)) (extract_token a rq) = Some c'"
    by (auto simp: authenticate_ok Verify_ok)
  with assms(1,3,5) have c': "c' = c" and early: "clock e (w_tick w2) < x * second"
    by (auto simp: jwt_ok_def split: if_splits)
  from auth c' assms(4,8) have none:
    "kv_get (revokedKeyPrefix @ cl_ID c) (clock e (Suc (w_tick w2))) (w_redis w2) = None"
    by (auto simp: authenticate_ok IsRevoked_ok)
  have "x * second \<noteq> 0" using assms(6) by (simp add: second_def)
  with assms(4,5,7,9) have rev: "Revoke (cl_ID c) (x * second) e w = (Inr y, w1)"
    by (simp add: authUC_Logout_def)
  show False
    using logout_revokes [OF assms(2) rev, of "Suc (w_tick w2)"] none assms(10,11) assms(12) [OF early] by simp
qed

text \<open>
  C11: the permission gate and the permission screen agree. For an account whose token carries its
  current role, the gate lets a request through exactly when the effective permission map that
  \<open>EffectivePermissions\<close> returns grants the action, wild card included.
\<close>

theorem permission_gate_effective:
  assumes "quiet e" and "am_perms a"
    and "first_row ur_ID (\<lambda>r. ur_ID r = UserID cx) (users (w_db w)) = Some r" and "ur_Role r = Role cx"
  shows "\<exists>p. fst (permUC_EffectivePermissions (UserID cx) (Role cx = RoleAdmin) e w) = Inr p \<and>
    fst (RequirePermission a res act (\<lambda>cx. ret ()) cx e w) =
      (if HasAction p res act then Inr () else Inl (ForbiddenErrorf ''khong du quyen''))"
proof (cases "Role cx = RoleAdmin")
  case True
  then show ?thesis
    by (simp add: permUC_EffectivePermissions_def RequirePermission_def ret_def HasAction_def)
next
  case False
  let ?o = "\<lambda>d. map_option (perm_toDomain e) (first_row pr_ID (\<lambda>r. pr_UserID r = UserID cx) (user_permissions d))"
  have get: "permRepo_GetByUserID (UserID cx) e w' = (Inr (?o (w_db w')), tick w')" for w'
    using assms(1) by (simp add: permRepo_GetByUserID_def run_steps)
  have usr: "userRepo_GetByID (UserID cx) e w = (Inr (Some (user_toDomain r)), tick w)"
    using assms(1,3) by (simp add: userRepo_GetByID_def run_steps)
  from False assms(2,4) show ?thesis
    by (auto simp: permUC_EffectivePermissions_def RequirePermission_def Let_def run_steps get usr
        split: option.split)
qed

text \<open>
  The role gate lets a request through exactly when its role is one of the listed ones, and the
  internal gate exactly when the configured key is not empty and the header equals it.
\<close>

lemma role_and_internal_gates:
  "fst (RequireRole roles (\<lambda>cx. ret ()) cx e w) =
     (if Role cx \<in> set roles then Inr () else Inl (ForbiddenErrorf ''khong du quyen'')) \<and>
   (fst (internal_Middleware key rq (\<lambda>cx. ret ()) cx e w) = Inr ()) = (key \<noteq> '''' \<and> rq_InternalKey rq = key)"
  by (auto simp: RequireRole_def internal_Middleware_def list_ex_iff ret_def throw_def)

text \<open>
  C9: a login opens the protected routes. On a fault-free environment the token a login returned,
  presented before it expires and not revoked, lets a request through in the context of the account
  that logged in, with its role, provided that account need not change its password.
\<close>

theorem login_opens_protected_routes:
  assumes "quiet e" and "\<And>n. net_fault e n = None" and "jwt_ok e"
    and "authUC_Login u username password cx0 e w = (Inr (token, user), w1)"
    and "extract_token a rq = token" and "token \<noteq> ''''"
    and "users (w_db w2) = users (w_db w1)" and "\<And>jti t. kv_get (revokedKeyPrefix @ jti) t (w_redis w2) = None"
    and "clock e (w_tick w2) \<le> clock e (Suc (Suc (w_tick w))) + mg_ttl (ax_tokens u) - second"
    and "\<forall>r \<in> set (users (w_db w)). ur_ID r = usr_ID user \<longrightarrow> \<not> ur_ForcePasswordChange r"
  shows "\<exists>cx' w3. auth_Middleware a rq next cx e w2 = next cx' e w3 \<and> w_db w3 = w_db w2 \<and>
    UserID cx' = usr_ID user \<and> Role cx' = usr_Role user"
proof -
  from authUC_Login_spec [OF assms(4)] obtain r w4 w5 where user: "user = user_toDomain (r :: userTuple)"
    and w4: "w4 = tick w" and sign: "Sign (ax_tokens u) (ur_ID r) (ur_Role r) e w4 = (Inr token, w5)"
    and same: "users (w_db w1) = users (w_db w)" by (elim exE conjE)
  from Sign_okE [OF sign] obtain jti where enc: "jwt_encode e
      (issued_claims e (ax_tokens u) (ur_ID r) (ur_Role r) (clock e (Suc (w_tick w4))) jti) = Some token" by blast
  let ?c = "issued_claims e (ax_tokens u) (ur_ID r) (ur_Role r) (clock e (Suc (w_tick w4))) jti"
  have "clock e (w_tick w2) < NewNumericDate (clock e (Suc (w_tick w4)) + mg_ttl (ax_tokens u)) * second"
    using assms(9) NewNumericDate_bounds(2) [of "clock e (Suc (w_tick w4)) + mg_ttl (ax_tokens u)"] w4 by simp
  with assms(3) enc have parse: "jwt_parse e (clock e (w_tick w2)) (extract_token a rq) = Some ?c"
    by (simp add: jwt_ok_def issued_claims_def assms(5))
  have "\<exists>w3. auth_Middleware a rq next cx e w2 = next (claims_ctx ?c cx) e w3 \<and> w_db w3 = w_db w2"
    using assms(6,7,8,10) user same
    by (intro auth_Middleware_passes [OF assms(1,2) _ parse]) (auto simp: assms(5) issued_claims_def)
  moreover have "UserID (claims_ctx ?c cx) = usr_ID user" and "Role (claims_ctx ?c cx) = usr_Role user"
    by (simp_all add: user claims_ctx_def issued_claims_def ctx_defs Let_def)
  ultimately show ?thesis by blast
qed

section \<open>Witnesses\<close>

definition sample_mw :: auth_mw where
  "sample_mw = \<lparr>am_cookieName = ''session'', am_blacklist = True, am_perms = True, am_users = True\<rparr>"

definition sample_claims :: claims where
  "sample_claims = \<lparr>cl_UserID = 3, cl_Role = RoleStaff, cl_ID = ''jti'', cl_IssuedAt = 0,
     cl_ExpiresAt = Some 2000, cl_Subject = ''backend''\<rparr>"

definition token_request :: "string \<Rightarrow> request" where
  "token_request token = \<lparr>rq_Path = ''/api/v1/users'', rq_Cookies = [(''session'', token)],
     rq_Authorization = '''', rq_InternalKey = ''''\<rparr>"

definition sample_request_token :: string where
  "sample_request_token = the (sample_jwt_encode sample_claims)"

lemma sample_request_encode: "jwt_encode sample_env sample_claims = Some sample_request_token"
  by (simp add: sample_env_fields sample_request_token_def sample_jwt_encode_def)

lemma extract_token_request [simp]: "token \<noteq> '''' \<Longrightarrow> extract_token sample_mw (token_request token) = token"
  by (simp add: extract_token_def sample_mw_def token_request_def)

lemma sample_request_token_nonempty: "sample_request_token \<noteq> ''''"
  by (simp add: sample_request_token_def sample_jwt_encode_def enc_int_def)

lemma sample_parse:
  "clock sample_env n < 2000 * second \<Longrightarrow>
   jwt_parse sample_env (clock sample_env n) sample_request_token = Some sample_claims"
  using jwt_ok_sample_env sample_request_encode
  by (auto simp: jwt_ok_def sample_claims_def sample_env_fields(3))

lemma sample_db_users:
  "\<forall>r \<in> set (users sample_db). ur_DeletedAt r = None \<and> \<not> ur_ForcePasswordChange r"
  by (simp add: sample_db_def empty_db_def sample_user_def)

lemma sample_mw_passes:
  "\<exists>w'. auth_Middleware sample_mw (token_request sample_request_token) (\<lambda>cx. ret cx) background sample_env sample_world =
     (Inr (claims_ctx sample_claims background), w')"
proof -
  have parse: "jwt_parse sample_env (clock sample_env (w_tick sample_world))
      (extract_token sample_mw (token_request sample_request_token)) = Some sample_claims"
    using sample_parse [of 0] sample_request_token_nonempty
    by (simp add: sample_world_def sample_env_fields(3) second_def)
  have "\<exists>w2. auth_Middleware sample_mw (token_request sample_request_token) (\<lambda>cx. ret cx) background
      sample_env sample_world = ret (claims_ctx sample_claims background) sample_env w2 \<and> w_db w2 = w_db sample_world"
    using sample_request_token_nonempty sample_db_users
    by (intro auth_Middleware_passes [OF quiet_sample_env _ _ parse])
      (auto simp: sample_env_fields(2) sample_world_def sample_claims_def kv_get_def)
  then show ?thesis by (auto simp: ret_def)
qed

theorem protected_handler_authenticated_witness:
  "\<exists>c. jwt_parse sample_env (clock sample_env 0) sample_request_token = Some c \<and> cl_Subject c = ''backend''"
proof -
  obtain w' where run: "auth_Middleware sample_mw (token_request sample_request_token) (\<lambda>cx. ret cx) background
      sample_env sample_world = (Inr (claims_ctx sample_claims background), w')" using sample_mw_passes by blast
  from protected_handler_authenticated [OF run] show ?thesis
    using sample_request_token_nonempty by (auto simp: sample_world_def)
qed

lemma sample_logout_runs:
  "\<exists>w1. authUC_Logout sample_auth (claims_ctx sample_claims background) sample_env sample_world = (Inr (), w1) \<and>
     w_tick w1 = 2"
  by (simp add: authUC_Logout_def Revoke_def redis_Set_def redis_call_def run_steps sample_auth_def Let_def
      sample_claims_def claims_ctx_def ctx_defs background_def second_def sample_env_fields sample_world_def)

theorem logged_out_token_rejected_witness:
  "isl (fst (auth_Middleware sample_mw (token_request sample_request_token) (\<lambda>cx. ret cx) background sample_env
     (snd (authUC_Logout sample_auth (claims_ctx sample_claims background) sample_env sample_world))))"
proof -
  obtain w1 where run: "authUC_Logout sample_auth (claims_ctx sample_claims background) sample_env sample_world =
      (Inr (), w1)" and t: "w_tick w1 = 2" using sample_logout_runs by blast
  have "isl (fst (auth_Middleware sample_mw (token_request sample_request_token) (\<lambda>cx. ret cx) background sample_env w1))"
    using sample_request_token_nonempty sample_request_encode
    by (intro logged_out_token_rejected [OF jwt_ok_sample_env clock_ok_sample_env _ _ _ _ _ _ run, where x = 2000])
      (simp_all add: sample_claims_def sample_auth_def sample_mw_def extract_token_request [unfolded sample_mw_def]
        sample_env_fields t second_def)
  then show ?thesis by (simp add: run)
qed

definition staff_ctx :: ctx where
  "staff_ctx = WithRole (WithUserID background 3) RoleStaff"

lemma staff_ctx_simps [simp]: "UserID staff_ctx = 3" "Role staff_ctx = RoleStaff"
  by (simp_all add: staff_ctx_def ctx_defs)

lemma sample_stan:
  "\<exists>r. first_row ur_ID (\<lambda>r. ur_ID r = 3) (users (w_db sample_world)) = Some r \<and> ur_Role r = RoleStaff"
proof -
  have "map_option ur_Role (first_row ur_ID (\<lambda>r. ur_ID r = 3) (users sample_db)) = Some RoleStaff" by code_simp
  then show ?thesis by (auto simp: map_option_eq_Some)
qed

theorem permission_gate_effective_witness:
  "\<exists>p. fst (permUC_EffectivePermissions 3 False sample_env sample_world) = Inr p \<and>
     fst (RequirePermission sample_mw ''announcements'' ''read'' (\<lambda>cx. ret ()) staff_ctx sample_env sample_world) =
       (if HasAction p ''announcements'' ''read'' then Inr () else Inl (ForbiddenErrorf ''khong du quyen''))"
proof -
  from sample_stan obtain r where "first_row ur_ID (\<lambda>r. ur_ID r = UserID staff_ctx) (users (w_db sample_world)) = Some r"
    and "ur_Role r = Role staff_ctx" by auto
  from permission_gate_effective [OF quiet_sample_env _ this, of sample_mw "''announcements''" "''read''"]
  show ?thesis by (simp add: sample_mw_def)
qed

lemma sample_redis: "outside_db sample_world w \<Longrightarrow> w_redis w = []"
  by (simp add: outside_db_def sample_world_def)

theorem login_opens_protected_routes_witness:
  "\<exists>token user w1 w2 w3. authUC_Login sample_auth ''stan'' ''password'' sample_ctx sample_env sample_world =
       (Inr (token, user), w1) \<and>
     auth_Middleware sample_mw (token_request token) (\<lambda>cx. ret (UserID cx)) background sample_env w2 =
       (Inr (usr_ID user), w3)"
proof -
  obtain token r w1 where run: "authUC_Login sample_auth ''stan'' ''password'' sample_ctx sample_env
      sample_world = (Inr (token, user_toDomain (r :: userTuple)), w1)" using sample_login by blast
  from authUC_Login_spec [OF run] obtain r' w4 w5 where
    sign: "Sign (ax_tokens sample_auth) (ur_ID (r' :: userTuple)) (ur_Role r') sample_env w4 = (Inr token, w5)"
    and same: "users (w_db w1) = users sample_db" and out: "outside_db sample_world w1"
    by auto
  obtain c where "jwt_encode sample_env c = Some token" by (rule Sign_okE [OF sign])
  then have ne: "token \<noteq> ''''" by (auto simp: sample_env_fields sample_jwt_encode_def enc_int_def)
  define w2 where "w2 = w1\<lparr>w_tick := 3\<rparr>"
  have "\<exists>cx' w3. auth_Middleware sample_mw (token_request token) (\<lambda>cx. ret (UserID cx)) background sample_env w2 =
      ret (UserID cx') sample_env w3 \<and> w_db w3 = w_db w2 \<and>
      UserID cx' = usr_ID (user_toDomain r) \<and> Role cx' = usr_Role (user_toDomain r)"
    using sample_db_users same sample_redis [OF out] ne
    by (intro login_opens_protected_routes [OF quiet_sample_env _ jwt_ok_sample_env run])
      (simp_all add: w2_def sample_env_fields(2,3) sample_world_def sample_auth_def sample_manager_def hour_def
        second_def kv_get_def)
  then obtain cx' w3 where "auth_Middleware sample_mw (token_request token) (\<lambda>cx. ret (UserID cx)) background
      sample_env w2 = ret (UserID cx') sample_env w3" and "UserID cx' = usr_ID (user_toDomain r)"
    by (elim exE conjE)
  then have "auth_Middleware sample_mw (token_request token) (\<lambda>cx. ret (UserID cx)) background
      sample_env w2 = (Inr (usr_ID (user_toDomain r)), w3)" by (simp only: ret_def)
  with run show ?thesis by (intro exI conjI)
qed

definition old_manager_ctx :: ctx where
  "old_manager_ctx = WithRole (WithUserID background 3) RoleManager"

text \<open>
  The gate trusts the token's role. A staff account whose token was issued while it was a manager
  still passes the gate for deleting users, although its effective permissions, which read the role
  of the account, do not grant that.
\<close>

lemma token_role_outlives_demotion:
  "fst (RequirePermission sample_mw ''users'' ''delete'' (\<lambda>cx. ret ()) old_manager_ctx sample_env sample_world) = Inr () \<and>
   (case fst (permUC_EffectivePermissions (UserID old_manager_ctx) False sample_env sample_world) of
      Inr p \<Rightarrow> \<not> HasAction p ''users'' ''delete'' | Inl _ \<Rightarrow> False)"
  by code_simp

end
