(* ===== verification/Go_Regexp.thy ===== *)
theory Go_Regexp
  imports Go_Runes "HOL-Library.Sublist"
begin

text \<open>
  What the code uses of package \<open>regexp\<close>: \<open>MustCompile\<close> of a pattern text and \<open>MatchString\<close>. The
  operators are those of \<open>regexp/syntax\<close> that the patterns of the program have; a pattern with any
  other metacharacter does not compile here. An inductive relation says what an expression matches,
  and the executable matcher is proved to find exactly that.
\<close>

section \<open>Expressions\<close>

datatype regex =
    EmptyMatch
  | Literal nat
  | AnyCharNotNL
  | EndText
  | Concat regex regex
  | Alternate regex regex
  | Star regex

text \<open>
  With the flag \<open>i\<close> a literal stands for its whole case orbit. The literals here are ASCII; outside
  of it only the long s (U+017F) and the Kelvin sign (U+212A) fold to a letter of ASCII.
\<close>

definition fold_rune :: "nat \<Rightarrow> nat" where
  "fold_rune x =
     (if 65 \<le> x \<and> x \<le> 90 then x + 32 else if x = 383 then 115 else if x = 8490 then 107 else x)"

definition same_rune :: "bool \<Rightarrow> nat \<Rightarrow> nat \<Rightarrow> bool" where
  "same_rune fold_flag c x \<longleftrightarrow> x = c \<or> (fold_flag \<and> fold_rune x = fold_rune c)"

text \<open>\<open>re_match i r s t\<close>: \<open>r\<close> matches the runes at the front of \<open>s\<close> that leave \<open>t\<close>.\<close>

inductive re_match :: "bool \<Rightarrow> regex \<Rightarrow> nat list \<Rightarrow> nat list \<Rightarrow> bool" for i :: bool where
  empty_match: "re_match i EmptyMatch s s"
| literal: "same_rune i c x \<Longrightarrow> re_match i (Literal c) (x # s) s"
| any_not_nl: "x \<noteq> 10 \<Longrightarrow> re_match i AnyCharNotNL (x # s) s"
| end_text: "re_match i EndText [] []"
| concat: "re_match i a s u \<Longrightarrow> re_match i b u t \<Longrightarrow> re_match i (Concat a b) s t"
| left: "re_match i a s t \<Longrightarrow> re_match i (Alternate a b) s t"
| right: "re_match i b s t \<Longrightarrow> re_match i (Alternate a b) s t"
| star_none: "re_match i (Star a) s s"
| star_more: "re_match i a s u \<Longrightarrow> re_match i (Star a) u t \<Longrightarrow> re_match i (Star a) s t"

inductive_simps re_match_simps [simp]:
  "re_match i EmptyMatch s t" "re_match i (Literal c) s t" "re_match i AnyCharNotNL s t"
  "re_match i EndText s t" "re_match i (Concat a b) s t" "re_match i (Alternate a b) s t"

lemma re_match_suffix: "re_match i r s t \<Longrightarrow> suffix t s"
  by (induction rule: re_match.induct) (auto simp: suffix_def)

section \<open>Matching\<close>

text \<open>All that a match at the front may leave; a repetition goes on only after some progress.\<close>

function rests :: "bool \<Rightarrow> regex \<Rightarrow> nat list \<Rightarrow> nat list list" where
  "rests i EmptyMatch s = [s]"
| "rests i (Literal c) s = (case s of [] \<Rightarrow> [] | x # t \<Rightarrow> if same_rune i c x then [t] else [])"
| "rests i AnyCharNotNL s = (case s of [] \<Rightarrow> [] | x # t \<Rightarrow> if x \<noteq> 10 then [t] else [])"
| "rests i EndText s = (if s = [] then [s] else [])"
| "rests i (Concat a b) s = concat (map (rests i b) (rests i a s))"
| "rests i (Alternate a b) s = rests i a s @ rests i b s"
| "rests i (Star a) s =
     s # concat (map (rests i (Star a)) (filter (\<lambda>t. length t < length s) (rests i a s)))"
  by pat_completeness auto
termination by (relation "measures [\<lambda>(i, r, s). size r, \<lambda>(i, r, s). length s]") auto

declare rests.simps(7) [simp del]

lemma rests_Star:
  "t \<in> set (rests i (Star a) s) \<longleftrightarrow>
     t = s \<or> (\<exists>u \<in> set (rests i a s). length u < length s \<and> t \<in> set (rests i (Star a) u))"
  by (subst rests.simps(7)) auto

lemma rests_sound: "t \<in> set (rests i r s) \<Longrightarrow> re_match i r s t"
proof (induction i r s arbitrary: t rule: rests.induct)
  case (7 i a s)
  then show ?case unfolding rests_Star [of t i a s] by (auto intro: re_match.star_none re_match.star_more)
qed (auto split: list.splits if_splits)

text \<open>A repetition that matches can be taken to make progress each time.\<close>

lemma star_progress:
  "re_match i r s t \<Longrightarrow> r = Star a \<Longrightarrow>
   t = s \<or> (\<exists>u. re_match i a s u \<and> length u < length s \<and> re_match i (Star a) u t)"
proof (induction rule: re_match.induct)
  case (star_more a' s u t)
  have "suffix u s" using star_more.hyps(1) by (rule re_match_suffix)
  then obtain v where "s = v @ u" by (auto simp: suffix_def)
  then consider "u = s" | "length u < length s" by (cases v) auto
  then show ?case
  proof cases
    case 1
    with star_more.IH(2) star_more.prems show ?thesis by simp
  next
    case 2
    with star_more show ?thesis by blast
  qed
qed simp_all

lemma rests_complete: "re_match i r s t \<Longrightarrow> t \<in> set (rests i r s)"
proof (induction i r s arbitrary: t rule: rests.induct)
  case (7 i a s)
  from star_progress [OF 7(3) refl] show ?case
  proof
    assume "\<exists>u. re_match i a s u \<and> length u < length s \<and> re_match i (Star a) u t"
    then obtain u where u: "u \<in> set (filter (\<lambda>t. length t < length s) (rests i a s))" "re_match i (Star a) u t"
      using 7(1) by auto
    then have "t \<in> set (rests i (Star a) u)" by (rule 7(2))
    with u(1) show ?thesis by (auto simp: rests_Star [of t i a s])
  qed (simp add: rests_Star [of s i a s])
next
  case (5 i a b s)
  then show ?case by fastforce
qed (auto split: list.splits)

lemma set_rests: "t \<in> set (rests i r s) \<longleftrightarrow> re_match i r s t"
  using rests_sound rests_complete by blast

text \<open>\<open>MatchString\<close>: the expression matches somewhere in the text.\<close>

definition MatchString :: "bool \<times> regex \<Rightarrow> string \<Rightarrow> bool" where
  "MatchString re s = list_ex (\<lambda>u. rests (fst re) (snd re) u \<noteq> []) (suffixes (runes s))"

lemma MatchString_iff:
  "MatchString re s \<longleftrightarrow> (\<exists>a u t. runes s = a @ u \<and> re_match (fst re) (snd re) u t)"
proof -
  have ne: "rests i r u \<noteq> [] \<longleftrightarrow> (\<exists>t. re_match i r u t)" for i r u
    unfolding set_rests [symmetric] by (cases "rests i r u") auto
  have "MatchString re s \<longleftrightarrow> (\<exists>u. suffix u (runes s) \<and> (\<exists>t. re_match (fst re) (snd re) u t))"
    unfolding MatchString_def list_ex_iff in_set_suffixes ne by (auto simp: in_set_suffixes)
  then show ?thesis unfolding suffix_def by blast
qed

section \<open>Parsing\<close>

text \<open>A sequence and a choice; the empty choice does not occur.\<close>

fun seq_of :: "regex list \<Rightarrow> regex" where
  "seq_of [] = EmptyMatch"
| "seq_of (r # rs) = Concat r (seq_of rs)"

fun alt_of :: "regex list \<Rightarrow> regex" where
  "alt_of [] = EmptyMatch"
| "alt_of [r] = r"
| "alt_of (r # rs) = Alternate r (alt_of rs)"

text \<open>
  The parser keeps a stack with, for each open group, the alternatives that are complete and the
  items of the current one, both in reverse. A repetition takes the last item; a backslash makes the
  punctuation after it a literal.
\<close>

type_synonym frame = "regex list \<times> regex list"

definition close_frame :: "frame \<Rightarrow> regex" where
  "close_frame f = alt_of (rev (seq_of (rev (snd f)) # fst f))"

definition push_item :: "regex \<Rightarrow> frame list \<Rightarrow> frame list" where
  "push_item r st = (case st of [] \<Rightarrow> [] | (alts, items) # st \<Rightarrow> (alts, r # items) # st)"

definition punctuation :: string where
  "punctuation = ''!#$%&()*+,-./:;<=>?@[]^_{|}~'' @ [CHR 0x22, CHR 0x27, CHR 0x5C, CHR 0x60]"

fun parse_regex :: "string \<Rightarrow> frame list \<Rightarrow> regex option" where
  "parse_regex [] st = (case st of [f] \<Rightarrow> Some (close_frame f) | _ \<Rightarrow> None)"
| "parse_regex (c # cs) st =
     (if c = CHR ''('' then parse_regex cs (([], []) # st)
      else if c = CHR '')'' then
        (case st of f # g # st \<Rightarrow> parse_regex cs (push_item (close_frame f) (g # st)) | _ \<Rightarrow> None)
      else if c = CHR ''|'' then
        (case st of (alts, items) # st \<Rightarrow> parse_regex cs ((seq_of (rev items) # alts, []) # st) | _ \<Rightarrow> None)
      else if c = CHR ''*'' then
        (case st of (alts, r # items) # st \<Rightarrow> parse_regex cs ((alts, Star r # items) # st) | _ \<Rightarrow> None)
      else if c = CHR ''$'' then parse_regex cs (push_item EndText st)
      else if c = CHR ''.'' then parse_regex cs (push_item AnyCharNotNL st)
      else if c = CHR 0x5C then
        (case cs of
           d # ds \<Rightarrow> if d \<in> set punctuation then parse_regex ds (push_item (Literal (byte d)) st) else None
         | [] \<Rightarrow> None)
      else if c \<in> set ''+?[]{}^'' \<or> 128 \<le> byte c then None
      else parse_regex cs (push_item (Literal (byte c)) st))"

text \<open>\<open>Compile\<close>: the flags in front, and the rest. \<open>MustCompile\<close> panics where this is None.\<close>

definition Compile :: "string \<Rightarrow> (bool \<times> regex) option" where
  "Compile pat =
     (if prefix ''(?i)'' pat then map_option (Pair True) (parse_regex (drop 4 pat) [([], [])])
      else map_option (Pair False) (parse_regex pat [([], [])]))"

section \<open>Words\<close>

text \<open>The literals of a word, and the runes that spell it, in either case.\<close>

definition word :: "string \<Rightarrow> regex" where
  "word w = seq_of (map (\<lambda>c. Literal (byte c)) w)"

definition spells :: "nat list \<Rightarrow> string \<Rightarrow> bool" where
  "spells u w \<longleftrightarrow> list_all2 (\<lambda>x c. x = byte c \<or>
     (97 \<le> byte c \<and> byte c \<le> 122 \<and> x + 32 = byte c) \<or> (c = CHR ''s'' \<and> x = 383) \<or> (c = CHR ''k'' \<and> x = 8490)) u w"

lemma re_match_seq_append:
  "re_match i (seq_of (rs @ qs)) s t \<longleftrightarrow> (\<exists>u. re_match i (seq_of rs) s u \<and> re_match i (seq_of qs) u t)"
  by (induction rs arbitrary: s) auto

lemma re_match_alt: "rs \<noteq> [] \<Longrightarrow> re_match i (alt_of rs) s t \<longleftrightarrow> list_ex (\<lambda>r. re_match i r s t) rs"
  by (induction rs rule: alt_of.induct) auto

definition folded_word :: "string \<Rightarrow> bool" where
  "folded_word w \<longleftrightarrow> list_all (\<lambda>c. byte c < 128 \<and> \<not> (65 \<le> byte c \<and> byte c \<le> 90)) w"

lemma same_rune_spelling:
  assumes "byte c < 128" and "\<not> (65 \<le> byte c \<and> byte c \<le> 90)"
  shows "same_rune True (byte c) x \<longleftrightarrow> x = byte c \<or>
     (97 \<le> byte c \<and> byte c \<le> 122 \<and> x + 32 = byte c) \<or> (c = CHR ''s'' \<and> x = 383) \<or> (c = CHR ''k'' \<and> x = 8490)"
proof -
  have "byte c = byte d \<longleftrightarrow> c = d" for d by (simp add: byte_def)
  then have "c = CHR ''s'' \<longleftrightarrow> byte c = byte (CHR ''s'')" "c = CHR ''k'' \<longleftrightarrow> byte c = byte (CHR ''k'')"
    by blast+
  then have "c = CHR ''s'' \<longleftrightarrow> byte c = 115" "c = CHR ''k'' \<longleftrightarrow> byte c = 107"
    by (simp_all add: byte_def)
  moreover have "fold_rune (byte c) = byte c" using assms by (auto simp: fold_rune_def)
  ultimately show ?thesis using assms by (auto simp: same_rune_def fold_rune_def)
qed

lemma re_match_word:
  "folded_word w \<Longrightarrow> re_match True (word w) s t \<longleftrightarrow> (\<exists>u. s = u @ t \<and> spells u w)"
proof (induction w arbitrary: s)
  case Nil
  then show ?case by (auto simp: word_def spells_def)
next
  case (Cons c w)
  then have IH: "re_match True (word w) s' t \<longleftrightarrow> (\<exists>u. s' = u @ t \<and> spells u w)" for s'
    by (simp add: folded_word_def)
  have "re_match True (word (c # w)) s t \<longleftrightarrow>
      (\<exists>x s'. s = x # s' \<and> same_rune True (byte c) x \<and> re_match True (word w) s' t)"
    by (auto simp: word_def)
  also have "\<dots> \<longleftrightarrow> (\<exists>u. s = u @ t \<and> spells u (c # w))"
    using Cons.prems unfolding IH
    by (auto simp: folded_word_def spells_def same_rune_spelling list_all2_Cons2)
  finally show ?case .
qed

lemma re_match_word_seq:
  "folded_word w \<Longrightarrow> re_match True (seq_of (map (\<lambda>c. Literal (byte c)) w @ rs)) s t \<longleftrightarrow>
     (\<exists>u v. s = u @ v \<and> spells u w \<and> re_match True (seq_of rs) v t)"
  unfolding re_match_seq_append word_def [symmetric] by (auto simp: re_match_word)

text \<open>\<open>.*\<close> takes anything up to a line feed.\<close>

lemma star_any: "re_match i (Star AnyCharNotNL) s t \<longleftrightarrow> (\<exists>m. s = m @ t \<and> 10 \<notin> set m)"
proof
  assume "re_match i (Star AnyCharNotNL) s t"
  then show "\<exists>m. s = m @ t \<and> 10 \<notin> set m"
  proof (induction "Star AnyCharNotNL" s t rule: re_match.induct)
    case (star_more s u t)
    then obtain x m where "s = x # u" "x \<noteq> 10" "u = m @ t" "10 \<notin> set m" by auto
    then show ?case by (intro exI [of _ "x # m"]) simp
  qed simp
next
  have any: "10 \<notin> set m \<Longrightarrow> re_match i (Star AnyCharNotNL) (m @ t) t" for m
  proof (induction m)
    case (Cons x m)
    then show ?case using re_match.star_more [of i AnyCharNotNL "x # m @ t" "m @ t" t] by simp
  qed (simp add: re_match.star_none)
  assume "\<exists>m. s = m @ t \<and> 10 \<notin> set m"
  then obtain m where "s = m @ t" "10 \<notin> set m" by blast
  with any show "re_match i (Star AnyCharNotNL) s t" by simp
qed

end
