(* ===== verification/IP_Ban.thy ===== *)
theory IP_Ban
  imports Redis Sample Go_Regexp
begin

text \<open>
  \<open>pkg/xratelimit/ipban.go\<close>: the scanner guard. The pattern of scanner paths is compiled and matched
  by the model of \<open>regexp\<close>; counters and bans live in Redis.
\<close>

section \<open>Scanner paths\<close>

text \<open>The pattern as it stands in the source; \<open>bs\<close> is the backslash.\<close>

definition bs :: string where "bs = [CHR 0x5C]"

definition scanPathPattern :: string where
  "scanPathPattern =
    ''(?i)('' @ bs @ ''.php($|'' @
    bs @ ''?|/)|/wp-admin|/wp-login|/wp-content|/wp-includes|/xmlrpc'' @
    ''|/vendor/phpunit|/eval-stdin|/'' @ bs @ ''.env|/'' @ bs @ ''.git|/phpmyadmin|/'' @
    bs @ ''.aws|/cpanel|/whm|/webmail|/plesk|/___proxy_subdomain|/cgi-bin'' @
    ''|/boaform|/manager/html|/solr/|/actuator|/console/|/struts|/hudson'' @ ''|/jenkins|/'' @
    bs @ ''.well-known/.*'' @ bs @ ''.php|/containers/json)''"

text \<open>The match runs on the raw path; a pattern that does not compile would panic at the start.\<close>

definition scanPathRe :: "string \<Rightarrow> bool" where
  "scanPathRe path = (case Compile scanPathPattern of None \<Rightarrow> False | Some re \<Rightarrow> MatchString re path)"

text \<open>What the pattern compiles to.\<close>

definition php_scan :: regex where
  "php_scan =
     seq_of (map (\<lambda>c. Literal (byte c)) ''.php'' @ [alt_of [seq_of [EndText], word ''?'', word ''/'']])"

definition well_known_scan :: regex where
  "well_known_scan =
     seq_of (map (\<lambda>c. Literal (byte c)) ''/.well-known/'' @ Star AnyCharNotNL # map (\<lambda>c. Literal (byte c)) ''.php'')"

definition scan_alternatives :: "regex list" where
  "scan_alternatives =
     php_scan #
     map word
     [''/wp-admin'', ''/wp-login'', ''/wp-content'', ''/wp-includes'', ''/xmlrpc'', ''/vendor/phpunit'',
      ''/eval-stdin'', ''/.env'', ''/.git'', ''/phpmyadmin'', ''/.aws'', ''/cpanel'', ''/whm'', ''/webmail'',
      ''/plesk'', ''/___proxy_subdomain'', ''/cgi-bin'', ''/boaform'', ''/manager/html'', ''/solr/'',
      ''/actuator'', ''/console/'', ''/struts'', ''/hudson'', ''/jenkins''] @
     [well_known_scan, word ''/containers/json'']"

lemma scan_pattern_compiles:
  "Compile scanPathPattern = Some (True, Concat (alt_of scan_alternatives) EmptyMatch)"
  by code_simp

section \<open>The guard\<close>

record ban_config =
  bc_Threshold :: int
  bc_WindowTTL :: int
  bc_BanDuration :: int

definition nanos :: "int \<Rightarrow> int" where
  "nanos s = s * 1000000000"

definition DefaultConfig :: ban_config where
  "DefaultConfig = \<lparr>bc_Threshold = 5, bc_WindowTTL = nanos 600, bc_BanDuration = nanos 86400\<rparr>"

definition NewIPBanGuard :: "ban_config \<Rightarrow> ban_config" where
  "NewIPBanGuard cfg =
     \<lparr>bc_Threshold = (if bc_Threshold cfg \<le> 0 then bc_Threshold DefaultConfig else bc_Threshold cfg),
      bc_WindowTTL = (if bc_WindowTTL cfg \<le> 0 then bc_WindowTTL DefaultConfig else bc_WindowTTL cfg),
      bc_BanDuration = (if bc_BanDuration cfg \<le> 0 then bc_BanDuration DefaultConfig else bc_BanDuration cfg)\<rparr>"

definition banKeyPrefix :: string where "banKeyPrefix = ''app:ipban:ban:''"
definition scanKeyPrefix :: string where "scanKeyPrefix = ''app:ipban:scan:''"

definition isBanned :: "string \<Rightarrow> bool comp" where
  "isBanned ip =
     bind (attempt (redis_Exists (banKeyPrefix @ ip))) (\<lambda>r.
     ret (case r of Inl err \<Rightarrow> False | Inr n \<Rightarrow> n))"

definition score :: "ban_config \<Rightarrow> string \<Rightarrow> unit comp" where
  "score cfg ip =
     (let key = scanKeyPrefix @ ip in
      bind (attempt (redis_IncrExpire key (bc_WindowTTL cfg))) (\<lambda>r.
      case r of
        Inl err \<Rightarrow> ret ()
      | Inr count \<Rightarrow>
          if count < bc_Threshold cfg then ret ()
          else
            bind (attempt (redis_Set (banKeyPrefix @ ip) 1 (bc_BanDuration cfg))) (\<lambda>r.
            case r of
              Inl err \<Rightarrow> ret ()
            | Inr _ \<Rightarrow> ignore (redis_Del [key]))))"

record probe =
  pb_IP :: string
  pb_Path :: string
  pb_Authorization :: string

text \<open>The error of the handler is returned after scoring.\<close>

definition ban_Middleware :: "ban_config \<Rightarrow> probe \<Rightarrow> 'a comp \<Rightarrow> 'a comp" where
  "ban_Middleware cfg p next =
     bind (isBanned (pb_IP p)) (\<lambda>b.
     if b then throw (ForbiddenErrorf ''truy cap bi chan'')
     else
       bind (attempt next) (\<lambda>r.
       if pb_Authorization p \<noteq> '''' then lift r
       else
         bind (if scanPathRe (pb_Path p) then score cfg (pb_IP p) else ret ()) (\<lambda>_.
         lift r)))"

definition IsBanned :: "string \<Rightarrow> bool comp" where
  "IsBanned ip = redis_Exists (banKeyPrefix @ ip)"

definition Unban :: "string \<Rightarrow> unit comp" where
  "Unban ip = redis_Del [banKeyPrefix @ ip, scanKeyPrefix @ ip]"

definition ListBanned :: "string list comp" where
  "ListBanned = bind (redis_Scan banKeyPrefix) (\<lambda>ks. ret (map (drop (length banKeyPrefix)) ks))"

section \<open>Laws\<close>

lemma ban_scan_keys [simp]: "banKeyPrefix @ ip \<noteq> scanKeyPrefix @ ip'" "scanKeyPrefix @ ip' \<noteq> banKeyPrefix @ ip"
  "banKeyPrefix \<noteq> scanKeyPrefix"
  by (simp_all add: banKeyPrefix_def scanKeyPrefix_def)

definition scan_count :: "string \<Rightarrow> time \<Rightarrow> world \<Rightarrow> int" where
  "scan_count ip t w = (case kv_get (scanKeyPrefix @ ip) t (w_redis w) of None \<Rightarrow> 0 | Some n \<Rightarrow> n)"

definition banned :: "string \<Rightarrow> time \<Rightarrow> world \<Rightarrow> bool" where
  "banned ip t w \<longleftrightarrow> kv_get (banKeyPrefix @ ip) t (w_redis w) \<noteq> None"

text \<open>One hit below the threshold, and the hit that reaches it.\<close>

lemma score_below:
  assumes "\<And>n. net_fault e n = None" and "scan_count ip (clock e (w_tick w)) w + 1 < bc_Threshold cfg"
  shows "\<exists>w'. score cfg ip e w = (Inr (), w') \<and> w_tick w' = Suc (w_tick w) \<and>
    (\<forall>t < clock e (w_tick w) + bc_WindowTTL cfg.
       scan_count ip t w' = scan_count ip (clock e (w_tick w)) w + 1) \<and>
    (\<forall>ip' t. banned ip' t w' = banned ip' t w)"
  using assms
  by (auto simp: score_def redis_IncrExpire_def redis_call_def bind_def attempt_def ret_def Let_def
      scan_count_def banned_def redis_kv.get_put split: option.splits)

lemma score_reaches:
  assumes "\<And>n. net_fault e n = None" and "bc_Threshold cfg \<le> scan_count ip (clock e (w_tick w)) w + 1"
  shows "\<exists>w'. score cfg ip e w = (Inr (), w') \<and>
    (\<forall>t. banned ip t w' \<longleftrightarrow> t < clock e (Suc (w_tick w)) + bc_BanDuration cfg) \<and>
    (\<forall>t. scan_count ip t w' = 0)"
  using assms
  by (auto simp: score_def redis_IncrExpire_def redis_Set_def redis_Del_def redis_call_def bind_def attempt_def
      ignore_def ret_def Let_def scan_count_def banned_def redis_kv.get_put redis_kv.get_del
      split: option.splits)

text \<open>\<open>n\<close> suspicious hits in a row.\<close>

fun score_n :: "ban_config \<Rightarrow> string \<Rightarrow> nat \<Rightarrow> unit comp" where
  "score_n cfg ip 0 = ret ()"
| "score_n cfg ip (Suc n) = bind (score_n cfg ip n) (\<lambda>_. score cfg ip)"

lemma score_n_below:
  assumes "\<And>n. net_fault e n = None" and "\<And>n. clock e (Suc n) < clock e n + bc_WindowTTL cfg"
    and "scan_count ip (clock e (w_tick w)) w + int k < bc_Threshold cfg"
  shows "\<exists>w'. score_n cfg ip k e w = (Inr (), w') \<and>
    scan_count ip (clock e (w_tick w')) w' = scan_count ip (clock e (w_tick w)) w + int k \<and>
    w_tick w' = w_tick w + k \<and> (\<forall>ip' t. banned ip' t w' = banned ip' t w)"
  using assms(3)
proof (induction k)
  case 0
  then show ?case by (auto simp: ret_def)
next
  case (Suc k)
  then obtain w1 where run: "score_n cfg ip k e w = (Inr (), w1)"
    and cnt: "scan_count ip (clock e (w_tick w1)) w1 = scan_count ip (clock e (w_tick w)) w + int k"
    and t1: "w_tick w1 = w_tick w + k" and ban: "\<forall>ip' t. banned ip' t w1 = banned ip' t w" by auto
  from cnt Suc.prems have below: "scan_count ip (clock e (w_tick w1)) w1 + 1 < bc_Threshold cfg" by simp
  from score_below [OF assms(1) this] obtain w2 where step: "score cfg ip e w1 = (Inr (), w2)"
    and tick: "w_tick w2 = Suc (w_tick w1)"
    and cnt2: "\<forall>t < clock e (w_tick w1) + bc_WindowTTL cfg.
       scan_count ip t w2 = scan_count ip (clock e (w_tick w1)) w1 + 1"
    and ban2: "\<forall>ip' t. banned ip' t w2 = banned ip' t w1" by blast
  have "scan_count ip (clock e (w_tick w2)) w2 = scan_count ip (clock e (w_tick w)) w + int (Suc k)"
    using cnt2 assms(2) [of "w_tick w1"] cnt tick by simp
  with run step ban ban2 tick t1 show ?case by (auto simp: bind_def)
qed

section \<open>Properties\<close>

text \<open>
  C21: an address is banned by exactly its \<open>Threshold\<close>-th consecutive scanner hit. While fewer hits
  have been counted, each within \<open>WindowTTL\<close> of the one before, nobody's ban changes; with the last
  one the address is banned for \<open>BanDuration\<close>, no longer, and its counter starts from zero.
\<close>

theorem ban_at_threshold:
  assumes "\<And>n. net_fault e n = None" and "\<And>n. clock e (Suc n) < clock e n + bc_WindowTTL cfg"
    and "scan_count ip (clock e (w_tick w)) w = 0" and "0 < bc_Threshold cfg"
  shows "(k < nat (bc_Threshold cfg) \<longrightarrow>
      (\<exists>w'. score_n cfg ip k e w = (Inr (), w') \<and> (\<forall>ip' t. banned ip' t w' = banned ip' t w))) \<and>
    (\<exists>w'. score_n cfg ip (nat (bc_Threshold cfg)) e w = (Inr (), w') \<and>
      (\<forall>t. banned ip t w' \<longleftrightarrow>
         t < clock e (w_tick w + nat (bc_Threshold cfg)) + bc_BanDuration cfg) \<and>
      (\<forall>t. scan_count ip t w' = 0))"
proof
  show "k < nat (bc_Threshold cfg) \<longrightarrow>
      (\<exists>w'. score_n cfg ip k e w = (Inr (), w') \<and> (\<forall>ip' t. banned ip' t w' = banned ip' t w))"
  proof
    assume "k < nat (bc_Threshold cfg)"
    then show "\<exists>w'. score_n cfg ip k e w = (Inr (), w') \<and> (\<forall>ip' t. banned ip' t w' = banned ip' t w)"
      using score_n_below [OF assms(1,2), of ip w k] assms(3) by (simp add: zless_nat_eq_int_zless) blast
  qed
  obtain m where m: "nat (bc_Threshold cfg) = Suc m" using assms(4) by (cases "nat (bc_Threshold cfg)") auto
  then have T: "int m + 1 = bc_Threshold cfg" by simp
  then obtain w1 where run: "score_n cfg ip m e w = (Inr (), w1)"
    and cnt: "scan_count ip (clock e (w_tick w1)) w1 = int m"
    and tick: "w_tick w1 = w_tick w + m"
    using score_n_below [OF assms(1,2), of ip w m] assms(3) by auto
  have "bc_Threshold cfg \<le> scan_count ip (clock e (w_tick w1)) w1 + 1" using cnt T by simp
  from score_reaches [OF assms(1) this] obtain w2 where "score cfg ip e w1 = (Inr (), w2)"
    and "\<forall>t. banned ip t w2 \<longleftrightarrow> t < clock e (Suc (w_tick w1)) + bc_BanDuration cfg"
    and "\<forall>t. scan_count ip t w2 = 0" by blast
  with run tick show "\<exists>w'. score_n cfg ip (nat (bc_Threshold cfg)) e w = (Inr (), w') \<and>
      (\<forall>t. banned ip t w' \<longleftrightarrow>
         t < clock e (w_tick w + nat (bc_Threshold cfg)) + bc_BanDuration cfg) \<and>
      (\<forall>t. scan_count ip t w' = 0)"
    unfolding m by (simp add: bind_def)
qed

theorem ban_at_threshold_witness:
  "\<exists>w'. score_n DefaultConfig ''1.2.3.4'' 5 sample_env sample_world = (Inr (), w') \<and>
     (\<forall>t. banned ''1.2.3.4'' t w' \<longleftrightarrow> t < clock sample_env 5 + nanos 86400)"
  using ban_at_threshold [of sample_env DefaultConfig "''1.2.3.4''" sample_world 0]
  by (auto simp: sample_env_fields DefaultConfig_def nanos_def scan_count_def sample_world_def kv_get_def)

text \<open>
  The guard decides by the address alone: a banned address gets the error and its handler does
  not run; for any other address the handler's result is returned unchanged, whatever the guard
  does afterwards, and Redis failing means that the request passes.
\<close>

lemma ban_guard_decision:
  "if net_fault e (w_tick w) = None \<and> banned (pb_IP p) (clock e (w_tick w)) w
   then ban_Middleware cfg p next e w = (Inl (ForbiddenErrorf ''truy cap bi chan''), tick w)
   else fst (ban_Middleware cfg p next e w) = fst (next e (tick w))"
proof -
  have b: "isBanned (pb_IP p) e w =
      (Inr (net_fault e (w_tick w) = None \<and> banned (pb_IP p) (clock e (w_tick w)) w), tick w)"
    by (auto simp: isBanned_def redis_Exists_def redis_call_def bind_def attempt_def ret_def banned_def
        tick_def split: option.splits)
  have s: "\<exists>w'. (if c then score cfg ip else ret ()) e w1 = (Inr (), w')" for c ip w1
    by (auto simp: score_def Let_def bind_def attempt_def ignore_def ret_def split: prod.splits sum.splits)
  show ?thesis
  proof (cases "next e (tick w)")
    case (Pair r w1)
    obtain w2 where "(if scanPathRe (pb_Path p) then score cfg (pb_IP p) else ret ()) e w1 = (Inr (), w2)"
      using s by blast
    with Pair b show ?thesis
      by (auto simp: ban_Middleware_def bind_def attempt_def throw_def lift_def)
  qed
qed

section \<open>The scanner paths\<close>

text \<open>The paths that a list of words catches, wherever one of them stands.\<close>

definition has_word :: "nat list \<Rightarrow> string \<Rightarrow> bool" where
  "has_word rs w \<longleftrightarrow> (\<exists>a m b. rs = a @ m @ b \<and> spells m w)"

lemma words_folded: "list_all folded_word
   [''.php'', ''?'', ''/'', ''/.well-known/'', ''/wp-admin'', ''/wp-login'', ''/wp-content'', ''/wp-includes'',
    ''/xmlrpc'', ''/vendor/phpunit'', ''/eval-stdin'', ''/.env'', ''/.git'', ''/phpmyadmin'', ''/.aws'',
    ''/cpanel'', ''/whm'', ''/webmail'', ''/plesk'', ''/___proxy_subdomain'', ''/cgi-bin'', ''/boaform'',
    ''/manager/html'', ''/solr/'', ''/actuator'', ''/console/'', ''/struts'', ''/hudson'', ''/jenkins'',
    ''/containers/json'']"
  by code_simp

lemma found_word: "folded_word w \<Longrightarrow> (\<exists>a u t. rs = a @ u \<and> re_match True (word w) u t) \<longleftrightarrow> has_word rs w"
  by (auto simp: re_match_word has_word_def)

lemma found_alt:
  "qs \<noteq> [] \<Longrightarrow> (\<exists>a u t. rs = a @ u \<and> re_match True (Concat (alt_of qs) EmptyMatch) u t) \<longleftrightarrow>
     list_ex (\<lambda>q. \<exists>a u t. rs = a @ u \<and> re_match True q u t) qs"
  by (auto simp: re_match_alt list_ex_iff)

lemma php_tail:
  "re_match True (seq_of [alt_of [seq_of [EndText], word ''?'', word ''/'']]) s t \<longleftrightarrow>
     s = [] \<and> t = [] \<or> s = 63 # t \<or> s = 47 # t"
proof -
  have "spells u [c] \<longleftrightarrow> u = [byte c]" if "c = CHR ''?'' \<or> c = CHR ''/''" for u c
    using that by (auto simp: spells_def list_all2_Cons2 byte_def)
  moreover have "folded_word ''?''" "folded_word ''/''" using words_folded by simp_all
  ultimately show ?thesis by (auto simp: re_match_word byte_def)
qed

lemma found_php:
  "(\<exists>a u t. rs = a @ u \<and> re_match True php_scan u t) \<longleftrightarrow>
   (\<exists>a m b. rs = a @ m @ b \<and> spells m ''.php'' \<and> (b = [] \<or> hd b = 63 \<or> hd b = 47))"
proof -
  have w: "folded_word ''.php''" using words_folded by simp
  have php: "re_match True php_scan u t \<longleftrightarrow>
      (\<exists>m v. u = m @ v \<and> spells m ''.php'' \<and> (v = [] \<and> t = [] \<or> v = 63 # t \<or> v = 47 # t))" for u t
    unfolding php_scan_def re_match_word_seq [OF w] php_tail by (rule refl)
  have "(\<exists>t. b = [] \<and> t = [] \<or> b = 63 # t \<or> b = 47 # t) \<longleftrightarrow> b = [] \<or> hd b = 63 \<or> hd b = 47" for b :: "nat list"
    by (cases b) auto
  moreover have "(\<exists>a u t. rs = a @ u \<and> (\<exists>m v. u = m @ v \<and> S m \<and> Q v t)) \<longleftrightarrow>
      (\<exists>a m b. rs = a @ m @ b \<and> S m \<and> (\<exists>t. Q b t))"
    for S :: "nat list \<Rightarrow> bool" and Q :: "nat list \<Rightarrow> nat list \<Rightarrow> bool" by blast
  ultimately show ?thesis unfolding php by (simp only:)
qed

lemma found_well_known:
  "(\<exists>a u t. rs = a @ u \<and> re_match True well_known_scan u t) \<longleftrightarrow>
   (\<exists>a l m p b. rs = a @ l @ m @ p @ b \<and> spells l ''/.well-known/'' \<and> 10 \<notin> set m \<and> spells p ''.php'')"
proof -
  have w: "folded_word ''/.well-known/''" "folded_word ''.php''" using words_folded by simp_all
  have "re_match True (seq_of (Star AnyCharNotNL # map (\<lambda>c. Literal (byte c)) ''.php'')) v t \<longleftrightarrow>
      (\<exists>m p. v = m @ p @ t \<and> 10 \<notin> set m \<and> spells p ''.php'')" for v t
    unfolding seq_of.simps re_match_simps word_def [symmetric] re_match_word [OF w(2)] star_any by blast
  then show ?thesis unfolding well_known_scan_def re_match_word_seq [OF w(1)] by simp blast
qed

text \<open>
  C30: the pattern of scanner paths catches what it is meant to, and nothing else. A path is a scan
  exactly if, in upper or lower case, \<open>.php\<close> stands in it at the end or before a question mark or a
  slash, or one of the listed probes stands anywhere in it, or \<open>.php\<close> stands after
  \<open>/.well-known/\<close> on the same line.
\<close>

theorem scan_path_language:
  "scanPathRe path \<longleftrightarrow>
     (\<exists>a m b. runes path = a @ m @ b \<and> spells m ''.php'' \<and> (b = [] \<or> hd b = 63 \<or> hd b = 47)) \<or>
     list_ex (has_word (runes path))
       [''/wp-admin'', ''/wp-login'', ''/wp-content'', ''/wp-includes'', ''/xmlrpc'', ''/vendor/phpunit'',
        ''/eval-stdin'', ''/.env'', ''/.git'', ''/phpmyadmin'', ''/.aws'', ''/cpanel'', ''/whm'', ''/webmail'',
        ''/plesk'', ''/___proxy_subdomain'', ''/cgi-bin'', ''/boaform'', ''/manager/html'', ''/solr/'',
        ''/actuator'', ''/console/'', ''/struts'', ''/hudson'', ''/jenkins'', ''/containers/json''] \<or>
     (\<exists>a l m p b. runes path = a @ l @ m @ p @ b \<and> spells l ''/.well-known/'' \<and> 10 \<notin> set m \<and> spells p ''.php'')"
proof -
  have "scanPathRe path \<longleftrightarrow>
      list_ex (\<lambda>q. \<exists>a u t. runes path = a @ u \<and> re_match True q u t) scan_alternatives"
    using found_alt [of scan_alternatives "runes path"]
    unfolding scanPathRe_def scan_pattern_compiles option.case MatchString_iff fst_conv snd_conv
    by (simp only: scan_alternatives_def list.simps simp_thms)
  then show ?thesis
    using words_folded
    by (simp only: scan_alternatives_def found_word found_php found_well_known list_ex_Nil_iff list_ex_Cons_iff list.pred_inject list.map
        append.simps simp_thms) blast
qed

end
