(* ===== verification/Validation.thy ===== *)
theory Validation
  imports Go_Runes App_Error
begin

text \<open>
  Request validation: \<open>pkg/xhttp/validate.go\<close> and the request types of \<open>internal/server/http/dto\<close>
  with their \<open>default\<close> and \<open>validate\<close> tags. What \<open>c.Bind\<close> decodes and what the validator answers
  are the libraries'; the validator is a parameter that is given the fields of the struct in order,
  each with its name, its value and its tags, and \<open>validator_doc\<close> is what its documentation says of
  the tags the code uses.
\<close>

section \<open>Fields and tags\<close>

datatype field_value =
    FStr string
  | FOptStr "string option" \<comment> \<open>\<open>*string\<close>\<close>
  | FInt int
  | FOptInt "int option"
  | FInts "int list option" \<comment> \<open>\<open>[]int64\<close>, None: nil\<close>
  | FMap bool \<comment> \<open>a map, and whether it is not nil\<close>

datatype tag =
    Required
  | Omitempty
  | Min int
  | Max int
  | Email
  | Url
  | OneOf "string list"
  | Dive

record struct_field =
  sf_Name :: string
  sf_Value :: field_value
  sf_Tags :: "tag list"

definition field :: "string \<Rightarrow> field_value \<Rightarrow> tag list \<Rightarrow> struct_field" where
  "field name v tags = \<lparr>sf_Name = name, sf_Value = v, sf_Tags = tags\<rparr>"

text \<open>\<open>FieldError.Field()\<close>, \<open>Tag()\<close> and \<open>Param()\<close>.\<close>

record field_error =
  fe_Field :: string
  fe_Tag :: tag

fun tag_name :: "tag \<Rightarrow> string" where
  "tag_name Required = ''required''"
| "tag_name Omitempty = ''omitempty''"
| "tag_name (Min n) = ''min''"
| "tag_name (Max n) = ''max''"
| "tag_name Email = ''email''"
| "tag_name Url = ''url''"
| "tag_name (OneOf xs) = ''oneof''"
| "tag_name Dive = ''dive''"

fun tag_param :: "tag \<Rightarrow> string" where
  "tag_param (Min n) = itoa n"
| "tag_param (Max n) = itoa n"
| "tag_param (OneOf xs) = Join xs '' ''"
| "tag_param _ = ''''"

section \<open>Errors shown to the client\<close>

record ValidationError =
  ve_Field :: string
  ve_Tag :: string
  ve_Message :: string

definition fieldNameVN :: "string \<Rightarrow> string" where
  "fieldNameVN f =
     (case map_of
        [(''Username'', ''Ten dang nhap''), (''Password'', ''Mat khau''), (''FullName'', ''Ho ten''),
         (''Email'', ''Email''), (''Phone'', ''So dien thoai''), (''Role'', ''Vai tro''),
         (''StaffCode'', ''Ma nhan vien''), (''Code'', ''Ma''), (''Name'', ''Ten''),
         (''Title'', ''Tieu de'')] f of
        Some n \<Rightarrow> n | None \<Rightarrow> f)"

definition humanize :: "field_error \<Rightarrow> string" where
  "humanize fe =
     (let field = fieldNameVN (fe_Field fe); t = fe_Tag fe in
      case t of
        Required \<Rightarrow> field @ '' la bat buoc''
      | Min n \<Rightarrow> field @ '' phai co it nhat '' @ tag_param t @ '' ky tu''
      | Max n \<Rightarrow> field @ '' khong duoc vuot qua '' @ tag_param t @ '' ky tu''
      | Email \<Rightarrow> field @ '' khong phai email hop le''
      | OneOf xs \<Rightarrow> field @ '' phai la mot trong: '' @ tag_param t
      | _ \<Rightarrow> field @ '' khong hop le ('' @ tag_name t @ '')'')"

section \<open>Reading a request\<close>

text \<open>
  \<open>bound\<close> is the struct \<open>c.Bind\<close> decoded, or None; \<open>set_defaults\<close> and \<open>tagged\<close> are the tags of the
  struct. Setting the defaults does not fail on these structs, and the validator's error is a list
  of field errors.
\<close>

definition bind_error :: ValidationError where
  "bind_error = \<lparr>ve_Field = ''_body'', ve_Tag = ''bind'', ve_Message = ''payload khong hop le''\<rparr>"

definition ReadAndValidateRequest ::
  "(struct_field list \<Rightarrow> field_error list) \<Rightarrow> ('r \<Rightarrow> 'r) \<Rightarrow> ('r \<Rightarrow> struct_field list) \<Rightarrow> 'r option \<Rightarrow>
   ValidationError list + 'r" where
  "ReadAndValidateRequest validate set_defaults tagged bound =
     (case bound of
        None \<Rightarrow> Inl [bind_error]
      | Some req \<Rightarrow>
          (let req = set_defaults req; errs = validate (tagged req) in
           if errs = [] then Inr req
           else Inl (map (\<lambda>fe. \<lparr>ve_Field = fe_Field fe, ve_Tag = tag_name (fe_Tag fe),
                               ve_Message = humanize fe\<rparr>) errs)))"

section \<open>The validator's documentation\<close>

text \<open>
  A string is measured in runes, a slice by its length. \<open>required\<close> refuses the zero value, and for
  slices and maps nil; \<open>omitempty\<close> ends the checks of a field that is not set, which for a pointer
  is nil only. \<open>emails\<close> and \<open>urls\<close> are the strings the formats accept.
\<close>

fun is_set :: "field_value \<Rightarrow> bool" where
  "is_set (FStr s) \<longleftrightarrow> s \<noteq> ''''"
| "is_set (FOptStr v) \<longleftrightarrow> v \<noteq> None"
| "is_set (FInt n) \<longleftrightarrow> n \<noteq> 0"
| "is_set (FOptInt v) \<longleftrightarrow> v \<noteq> None"
| "is_set (FInts v) \<longleftrightarrow> v \<noteq> None"
| "is_set (FMap b) \<longleftrightarrow> b"

fun measure_of :: "field_value \<Rightarrow> int" where
  "measure_of (FStr s) = int (length (runes s))"
| "measure_of (FOptStr (Some s)) = int (length (runes s))"
| "measure_of (FInt n) = n"
| "measure_of (FOptInt (Some n)) = n"
| "measure_of (FInts (Some xs)) = int (length xs)"
| "measure_of _ = 0"

fun text_of :: "field_value \<Rightarrow> string" where
  "text_of (FStr s) = s"
| "text_of (FOptStr (Some s)) = s"
| "text_of _ = ''''"

fun tag_holds :: "(string \<Rightarrow> bool) \<Rightarrow> (string \<Rightarrow> bool) \<Rightarrow> tag \<Rightarrow> field_value \<Rightarrow> bool" where
  "tag_holds emails urls Required v \<longleftrightarrow> is_set v"
| "tag_holds emails urls (Min n) v \<longleftrightarrow> n \<le> measure_of v"
| "tag_holds emails urls (Max n) v \<longleftrightarrow> measure_of v \<le> n"
| "tag_holds emails urls Email v \<longleftrightarrow> emails (text_of v)"
| "tag_holds emails urls Url v \<longleftrightarrow> urls (text_of v)"
| "tag_holds emails urls (OneOf xs) v \<longleftrightarrow> text_of v \<in> set xs"
| "tag_holds emails urls _ v \<longleftrightarrow> True"

text \<open>The first tag of a field that fails; after \<open>dive\<close> the tags are those of the elements.\<close>

fun field_errors ::
  "(string \<Rightarrow> bool) \<Rightarrow> (string \<Rightarrow> bool) \<Rightarrow> string \<Rightarrow> field_value \<Rightarrow> tag list \<Rightarrow> field_error list" where
  "field_errors emails urls name v [] = []"
| "field_errors emails urls name v (Omitempty # ts) =
     (if is_set v then field_errors emails urls name v ts else [])"
| "field_errors emails urls name v (Dive # ts) =
     (case v of
        FInts (Some xs) \<Rightarrow>
          concat (map (\<lambda>(i, x). field_errors emails urls (name @ ''['' @ itoa (int i) @ '']'') (FInt x) ts)
            (enumerate 0 xs))
      | _ \<Rightarrow> [])"
| "field_errors emails urls name v (t # ts) =
     (if tag_holds emails urls t v then field_errors emails urls name v ts
      else [\<lparr>fe_Field = name, fe_Tag = t\<rparr>])"

definition validator_doc ::
  "(string \<Rightarrow> bool) \<Rightarrow> (string \<Rightarrow> bool) \<Rightarrow> (struct_field list \<Rightarrow> field_error list) \<Rightarrow> bool" where
  "validator_doc emails urls validate \<longleftrightarrow>
     (\<forall>fs. validate fs =
        concat (map (\<lambda>f. field_errors emails urls (sf_Name f) (sf_Value f) (sf_Tags f)) fs))"

end
