(* ===== verification/Request_DTO.thy ===== *)
theory Request_DTO
  imports Validation Permission_Map Domain_Model
begin

text \<open>
  The request types of \<open>internal/server/http/dto\<close>: their fields, the \<open>default\<close> tags as a function
  that fills in zero values, and the \<open>validate\<close> tags as the list of fields given to the validator.
\<close>

section \<open>The types\<close>

record LoginRequest =
  rlg_Username :: string
  rlg_Password :: string

definition tagged_LoginRequest :: "LoginRequest \<Rightarrow> struct_field list" where
  "tagged_LoginRequest r =
     [field ''Username'' (FStr (rlg_Username r)) [Required, Min 1, Max 100],
      field ''Password'' (FStr (rlg_Password r)) [Required, Min 1, Max 128]]"

record ChangePasswordRequest =
  rcp_CurrentPassword :: string
  rcp_NewPassword :: string

definition tagged_ChangePasswordRequest :: "ChangePasswordRequest \<Rightarrow> struct_field list" where
  "tagged_ChangePasswordRequest r =
     [field ''CurrentPassword'' (FStr (rcp_CurrentPassword r)) [Required, Min 1, Max 128],
      field ''NewPassword'' (FStr (rcp_NewPassword r)) [Required, Min 8, Max 128]]"

record ForgotPasswordRequest =
  rfp_Username :: string

definition tagged_ForgotPasswordRequest :: "ForgotPasswordRequest \<Rightarrow> struct_field list" where
  "tagged_ForgotPasswordRequest r =
     [field ''Username'' (FStr (rfp_Username r)) [Required, Min 1, Max 100]]"

record ResetPasswordByTokenRequest =
  rrt_Token :: string
  rrt_NewPassword :: string

definition tagged_ResetPasswordByTokenRequest :: "ResetPasswordByTokenRequest \<Rightarrow> struct_field list" where
  "tagged_ResetPasswordByTokenRequest r =
     [field ''Token'' (FStr (rrt_Token r)) [Required, Min 8, Max 128],
      field ''NewPassword'' (FStr (rrt_NewPassword r)) [Required, Min 8, Max 128]]"

record CreateUserRequest =
  rcu_Username :: string
  rcu_Password :: string
  rcu_FullName :: string
  rcu_Email :: "string option"
  rcu_Phone :: "string option"
  rcu_StaffCode :: "string option"
  rcu_Role :: string
  rcu_EmploymentType :: string
  rcu_ForcePasswordChange :: bool

definition tagged_CreateUserRequest :: "CreateUserRequest \<Rightarrow> struct_field list" where
  "tagged_CreateUserRequest r =
     [field ''Username'' (FStr (rcu_Username r)) [Required, Min 3, Max 100],
      field ''Password'' (FStr (rcu_Password r)) [Required, Min 8, Max 128],
      field ''FullName'' (FStr (rcu_FullName r)) [Required, Min 1, Max 255],
      field ''Email'' (FOptStr (rcu_Email r)) [Omitempty, Email, Max 255],
      field ''Phone'' (FOptStr (rcu_Phone r)) [Omitempty, Max 32],
      field ''StaffCode'' (FOptStr (rcu_StaffCode r)) [Omitempty, Max 32],
      field ''Role'' (FStr (rcu_Role r)) [Required, OneOf [''admin'', ''manager'', ''staff'']],
      field ''EmploymentType'' (FStr (rcu_EmploymentType r)) [Omitempty, OneOf [''fulltime'', ''parttime'']]]"

record UpdateUserRequest =
  ruu_FullName :: "string option"
  ruu_Email :: "string option"
  ruu_Phone :: "string option"
  ruu_Role :: "string option"
  ruu_StaffCode :: "string option"
  ruu_EmploymentType :: "string option"

definition tagged_UpdateUserRequest :: "UpdateUserRequest \<Rightarrow> struct_field list" where
  "tagged_UpdateUserRequest r =
     [field ''FullName'' (FOptStr (ruu_FullName r)) [Omitempty, Min 1, Max 255],
      field ''Email'' (FOptStr (ruu_Email r)) [Omitempty, Email, Max 255],
      field ''Phone'' (FOptStr (ruu_Phone r)) [Omitempty, Max 32],
      field ''Role'' (FOptStr (ruu_Role r)) [Omitempty, OneOf [''admin'', ''manager'', ''staff'']],
      field ''StaffCode'' (FOptStr (ruu_StaffCode r)) [Omitempty, Max 32],
      field ''EmploymentType'' (FOptStr (ruu_EmploymentType r)) [Omitempty, OneOf [''fulltime'', ''parttime'']]]"

record UpdateProfileRequest =
  rup_FullName :: "string option"
  rup_Email :: "string option"
  rup_Phone :: "string option"
  rup_AvatarURL :: "string option"
  rup_Password :: "string option"
  rup_CurrentPassword :: "string option"

definition tagged_UpdateProfileRequest :: "UpdateProfileRequest \<Rightarrow> struct_field list" where
  "tagged_UpdateProfileRequest r =
     [field ''FullName'' (FOptStr (rup_FullName r)) [Omitempty, Min 1, Max 255],
      field ''Email'' (FOptStr (rup_Email r)) [Omitempty, Email, Max 255],
      field ''Phone'' (FOptStr (rup_Phone r)) [Omitempty, Max 32],
      field ''AvatarURL'' (FOptStr (rup_AvatarURL r)) [Omitempty, Url, Max 2048],
      field ''Password'' (FOptStr (rup_Password r)) [Omitempty, Min 8, Max 128],
      field ''CurrentPassword'' (FOptStr (rup_CurrentPassword r)) [Omitempty, Min 1, Max 128]]"

record ListUsersQuery =
  rlu_Page :: int
  rlu_Limit :: int
  rlu_Search :: string
  rlu_Role :: string
  rlu_Status :: string
  rlu_Roles :: string
  rlu_Statuses :: string

definition defaults_ListUsersQuery :: "ListUsersQuery \<Rightarrow> ListUsersQuery" where
  "defaults_ListUsersQuery q =
     q\<lparr>rlu_Page := (if rlu_Page q = 0 then 1 else rlu_Page q),
      rlu_Limit := (if rlu_Limit q = 0 then 20 else rlu_Limit q)\<rparr>"

definition tagged_ListUsersQuery :: "ListUsersQuery \<Rightarrow> struct_field list" where
  "tagged_ListUsersQuery r =
     [field ''Page'' (FInt (rlu_Page r)) [Omitempty, Min 1],
      field ''Limit'' (FInt (rlu_Limit r)) [Omitempty, Min 1, Max 100],
      field ''Role'' (FStr (rlu_Role r)) [Omitempty, OneOf [''admin'', ''manager'', ''staff'']],
      field ''Status'' (FStr (rlu_Status r)) [Omitempty, OneOf [''active'', ''locked'']],
      field ''Roles'' (FStr (rlu_Roles r)) [Omitempty, Max 128],
      field ''Statuses'' (FStr (rlu_Statuses r)) [Omitempty, Max 64]]"

record NextCodeQuery =
  rnc_Role :: string

definition defaults_NextCodeQuery :: "NextCodeQuery \<Rightarrow> NextCodeQuery" where
  "defaults_NextCodeQuery q =
     q\<lparr>rnc_Role := (if rnc_Role q = '''' then ''staff'' else rnc_Role q)\<rparr>"

definition tagged_NextCodeQuery :: "NextCodeQuery \<Rightarrow> struct_field list" where
  "tagged_NextCodeQuery r =
     [field ''Role'' (FStr (rnc_Role r)) [Omitempty, OneOf [''admin'', ''manager'', ''staff'']]]"

record InviteUserRequest =
  riu_Email :: string
  riu_FullName :: string
  riu_Role :: string
  riu_StaffCode :: "string option"
  riu_Phone :: "string option"

definition tagged_InviteUserRequest :: "InviteUserRequest \<Rightarrow> struct_field list" where
  "tagged_InviteUserRequest r =
     [field ''Email'' (FStr (riu_Email r)) [Required, Email, Max 200],
      field ''FullName'' (FStr (riu_FullName r)) [Required, Min 1, Max 255],
      field ''Role'' (FStr (riu_Role r)) [Required, OneOf [''manager'', ''staff'']],
      field ''StaffCode'' (FOptStr (riu_StaffCode r)) [Omitempty, Max 32],
      field ''Phone'' (FOptStr (riu_Phone r)) [Omitempty, Max 32]]"

record BulkUserIDsRequest =
  rbu_UserIDs :: "int list option"

definition tagged_BulkUserIDsRequest :: "BulkUserIDsRequest \<Rightarrow> struct_field list" where
  "tagged_BulkUserIDsRequest r =
     [field ''UserIDs'' (FInts (rbu_UserIDs r)) [Required, Min 1, Max 200, Dive, Min 1]]"

record IDParam =
  rip_ID :: int

definition tagged_IDParam :: "IDParam \<Rightarrow> struct_field list" where
  "tagged_IDParam r =
     [field ''ID'' (FInt (rip_ID r)) [Required, Min 1]]"

record CreateUserPermissionRequest =
  rcw_UserID :: int

definition tagged_CreateUserPermissionRequest :: "CreateUserPermissionRequest \<Rightarrow> struct_field list" where
  "tagged_CreateUserPermissionRequest r =
     [field ''UserID'' (FInt (rcw_UserID r)) [Required, Min 1]]"

record UpdateUserPermissionRequest =
  ruw_Permissions :: "(string \<times> (string \<times> bool) list option) list option" \<comment> \<open>a nested map may be null\<close>

definition tagged_UpdateUserPermissionRequest :: "UpdateUserPermissionRequest \<Rightarrow> struct_field list" where
  "tagged_UpdateUserPermissionRequest r =
     [field ''Permissions'' (FMap (ruw_Permissions r \<noteq> None)) [Required]]"

record ListUserPermissionsQuery =
  rlw_Page :: int
  rlw_Limit :: int
  rlw_Search :: string
  rlw_UserID :: "int option"

definition defaults_ListUserPermissionsQuery :: "ListUserPermissionsQuery \<Rightarrow> ListUserPermissionsQuery" where
  "defaults_ListUserPermissionsQuery q =
     q\<lparr>rlw_Page := (if rlw_Page q = 0 then 1 else rlw_Page q),
      rlw_Limit := (if rlw_Limit q = 0 then 20 else rlw_Limit q)\<rparr>"

definition tagged_ListUserPermissionsQuery :: "ListUserPermissionsQuery \<Rightarrow> struct_field list" where
  "tagged_ListUserPermissionsQuery r =
     [field ''Page'' (FInt (rlw_Page r)) [Omitempty, Min 1],
      field ''Limit'' (FInt (rlw_Limit r)) [Omitempty, Min 1, Max 200],
      field ''Search'' (FStr (rlw_Search r)) [Omitempty, Max 100],
      field ''UserID'' (FOptInt (rlw_UserID r)) [Omitempty, Min 1]]"

record AnnouncementRequest =
  rar_Title :: string
  rar_Body :: string
  rar_Priority :: string
  rar_PublishedAt :: "string option"
  rar_ExpiresAt :: "string option"

definition tagged_AnnouncementRequest :: "AnnouncementRequest \<Rightarrow> struct_field list" where
  "tagged_AnnouncementRequest r =
     [field ''Title'' (FStr (rar_Title r)) [Required],
      field ''Body'' (FStr (rar_Body r)) [Required],
      field ''Priority'' (FStr (rar_Priority r)) [Required, OneOf [''low'', ''normal'', ''high'']]]"

text \<open>The types without tags.\<close>

type_synonym UpdateUserPermissionsByUserRequest = UpdateUserPermissionRequest

record ResetPasswordRequest =
  rrp_NewPassword :: string

record SetSettingRequest =
  rss_Value :: string

section \<open>What a request that passes looks like\<close>

lemma validator_docD:
  "validator_doc emails urls validate \<Longrightarrow>
   validate fs = concat (map (\<lambda>f. field_errors emails urls (sf_Name f) (sf_Value f) (sf_Tags f)) fs)"
  by (simp add: validator_doc_def)

lemma ReadAndValidate_ok:
  "ReadAndValidateRequest validate set_defaults tagged bound = Inr r \<longleftrightarrow>
     (\<exists>q. bound = Some q \<and> r = set_defaults q \<and> validate (tagged r) = [])"
  by (auto simp: ReadAndValidateRequest_def Let_def split: option.splits if_splits)

lemma runes_empty: "int (length (runes s)) < 1 \<longleftrightarrow> s = ''''"
  by (cases s) (simp_all add: runes_def runes_of.simps)

definition chars :: "string \<Rightarrow> nat" where
  "chars s = length (runes s)"

lemma field_error_list:
  "field_errors emails urls name (FStr s) [Required, Min (int m), Max (int n)] = [] \<longleftrightarrow>
     s \<noteq> '''' \<and> m \<le> chars s \<and> chars s \<le> n"
  "field_errors emails urls name (FOptStr v) [Omitempty, Max (int n)] = [] \<longleftrightarrow>
     (case v of None \<Rightarrow> True | Some s \<Rightarrow> chars s \<le> n)"
  "field_errors emails urls name (FOptStr v) [Omitempty, Email, Max (int n)] = [] \<longleftrightarrow>
     (case v of None \<Rightarrow> True | Some s \<Rightarrow> emails s \<and> chars s \<le> n)"
  "field_errors emails urls name (FStr s) [Required, OneOf xs] = [] \<longleftrightarrow> s \<noteq> '''' \<and> s \<in> set xs"
  "field_errors emails urls name (FStr s) [Omitempty, OneOf xs] = [] \<longleftrightarrow> s = '''' \<or> s \<in> set xs"
  by (auto simp: chars_def split: option.split)

text \<open>Every field is reported at most once, unless it is a slice whose elements are checked.\<close>

lemma field_errors_once:
  "Dive \<notin> set ts \<Longrightarrow> field_errors emails urls name v ts = [] \<or>
     (\<exists>t. field_errors emails urls name v ts = [\<lparr>fe_Field = name, fe_Tag = t\<rparr>])"
  by (induction emails urls name v ts rule: field_errors.induct) auto

lemma distinct_concat_once:
  assumes "\<And>x. x \<in> set xs \<Longrightarrow> map fe_Field (f x) = [] \<or> map fe_Field (f x) = [k x]" and "distinct (map k xs)"
  shows "distinct (map fe_Field (concat (map f xs)))"
proof -
  have "subseq (map fe_Field (concat (map f xs))) (map k xs)" using assms(1)
  proof (induction xs)
    case (Cons x xs)
    then have "subseq (map fe_Field (concat (map f xs))) (map k xs)" by simp
    with Cons.prems [of x] show ?case by auto
  qed simp
  with assms(2) show ?thesis by (auto simp: subseq_conv_nths intro: distinct_nthsI)
qed

definition good_user_request :: "(string \<Rightarrow> bool) \<Rightarrow> CreateUserRequest \<Rightarrow> bool" where
  "good_user_request emails r \<longleftrightarrow>
     3 \<le> chars (rcu_Username r) \<and> chars (rcu_Username r) \<le> 100 \<and>
     8 \<le> chars (rcu_Password r) \<and> chars (rcu_Password r) \<le> 128 \<and>
     rcu_FullName r \<noteq> '''' \<and> chars (rcu_FullName r) \<le> 255 \<and>
     (case rcu_Email r of None \<Rightarrow> True | Some s \<Rightarrow> emails s \<and> chars s \<le> 255) \<and>
     (case rcu_Phone r of None \<Rightarrow> True | Some s \<Rightarrow> chars s \<le> 32) \<and>
     (case rcu_StaffCode r of None \<Rightarrow> True | Some s \<Rightarrow> chars s \<le> 32) \<and>
     Role_Valid (rcu_Role r) \<and> (rcu_EmploymentType r = '''' \<or> EmploymentType_Valid (rcu_EmploymentType r))"

lemma user_request_errors:
  "map fe_Field (concat (map (\<lambda>f. field_errors emails urls (sf_Name f) (sf_Value f) (sf_Tags f))
     (tagged_CreateUserRequest r))) = [] \<longleftrightarrow> good_user_request emails r"
proof -
  have nz: "chars s = 0 \<longleftrightarrow> s = ''''" for s
    using runes_empty [of s] by (auto simp: chars_def)
  show ?thesis
    using field_error_list(1) [of emails urls _ _ 3 100] field_error_list(1) [of emails urls _ _ 8 128]
      field_error_list(1) [of emails urls _ _ 1 255] field_error_list(2) [of emails urls _ _ 32]
      field_error_list(3) [of emails urls _ _ 255] nz [of "rcu_Username r"] nz [of "rcu_Password r"] nz [of "rcu_FullName r"]
    by (auto simp: tagged_CreateUserRequest_def field_def field_error_list(4,5) good_user_request_def
        Role_Valid_def EmploymentType_Valid_def Suc_le_eq simp del: field_errors.simps)
qed

text \<open>
  C40: the request of \<open>POST /users\<close> is accepted exactly when the user name has 3 to 100 characters,
  the password 8 to 128, the full name 1 to 255, the optional fields are absent or within their
  bounds, the e-mail address is one, the role is one of the three and the employment type one of the
  two or absent; it is then passed on as it came. Otherwise the answer names each offending field once.
\<close>

theorem create_user_validated:
  assumes "validator_doc emails urls validate"
  shows "(case ReadAndValidateRequest validate id tagged_CreateUserRequest (Some r) of
      Inr r' \<Rightarrow> r' = r \<and> good_user_request emails r
    | Inl errs \<Rightarrow> \<not> good_user_request emails r \<and> errs \<noteq> [] \<and> distinct (map ve_Field errs))"
proof -
  let ?errs = "concat (map (\<lambda>f. field_errors emails urls (sf_Name f) (sf_Value f) (sf_Tags f))
     (tagged_CreateUserRequest r))"
  have v: "validate (tagged_CreateUserRequest r) = ?errs" by (rule validator_docD [OF assms])
  have "distinct (map fe_Field ?errs)"
  proof (rule distinct_concat_once [where k = sf_Name])
    fix f assume "f \<in> set (tagged_CreateUserRequest r)"
    then have "Dive \<notin> set (sf_Tags f)" by (auto simp: tagged_CreateUserRequest_def field_def)
    from field_errors_once [OF this, of emails urls "sf_Name f" "sf_Value f"]
    show "map fe_Field (field_errors emails urls (sf_Name f) (sf_Value f) (sf_Tags f)) = [] \<or>
        map fe_Field (field_errors emails urls (sf_Name f) (sf_Value f) (sf_Tags f)) = [sf_Name f]" by auto
  qed (simp add: tagged_CreateUserRequest_def field_def)
  moreover have "?errs = [] \<longleftrightarrow> good_user_request emails r"
    using user_request_errors [of emails urls r] by simp
  ultimately show ?thesis using v
    by (cases "?errs = []") (simp_all add: ReadAndValidateRequest_def Let_def comp_def)
qed

text \<open>The validator the documentation describes, with a simple notion of an address.\<close>

definition plain_email :: "string \<Rightarrow> bool" where
  "plain_email s \<longleftrightarrow> CHR ''@'' \<in> set s"

definition plain_validate :: "struct_field list \<Rightarrow> field_error list" where
  "plain_validate fs =
     concat (map (\<lambda>f. field_errors plain_email (\<lambda>_. True) (sf_Name f) (sf_Value f) (sf_Tags f)) fs)"

lemma plain_validate_doc: "validator_doc plain_email (\<lambda>_. True) plain_validate"
  by (simp add: validator_doc_def plain_validate_def)

definition sample_user_request :: CreateUserRequest where
  "sample_user_request =
     \<lparr>rcu_Username = ''ann'', rcu_Password = ''secret-12'', rcu_FullName = ''Ann'', rcu_Email = Some ''a@x'',
      rcu_Phone = None, rcu_StaffCode = None, rcu_Role = ''staff'', rcu_EmploymentType = '''',
      rcu_ForcePasswordChange = True\<rparr>"

theorem create_user_validated_witness:
  "case ReadAndValidateRequest plain_validate id tagged_CreateUserRequest (Some sample_user_request) of
     Inr r \<Rightarrow> r = sample_user_request \<and> good_user_request plain_email sample_user_request | Inl _ \<Rightarrow> False"
proof -
  have "good_user_request plain_email sample_user_request" by code_simp
  with create_user_validated [OF plain_validate_doc, of sample_user_request]
  show ?thesis by (auto split: sum.splits)
qed

end
