(* ===== verification/Notif_Repo.thy ===== *)
theory Notif_Repo
  imports User_Repo
begin

text \<open>
  \<open>internal/repository/notification.go\<close> and \<open>notification_publishing.go\<close>: announcements, the
  notification inbox, and the decorator that publishes every created notification to the hub
  (\<open>Publish\<close> of \<open>pkg/xnotify/hub.go\<close>).
\<close>

section \<open>Announcements\<close>

definition announcement_toDomain :: "announcementRow \<Rightarrow> announcement" where
  "announcement_toDomain r =
     \<lparr>an_ID = nr_ID r, an_Title = nr_Title r, an_Body = nr_Body r, an_Priority = nr_Priority r,
      an_PublishedAt = nr_PublishedAt r, an_ExpiresAt = nr_ExpiresAt r, an_CreatedAt = nr_CreatedAt r,
      an_UpdatedAt = nr_UpdatedAt r, an_CreatedBy = nr_CreatedBy r, an_UpdatedBy = nr_UpdatedBy r,
      an_DeletedAt = nr_DeletedAt r\<rparr>"

definition announcement_row :: "announcement \<Rightarrow> int \<Rightarrow> announcementRow" where
  "announcement_row a i =
     \<lparr>nr_ID = i, nr_Title = an_Title a, nr_Body = an_Body a, nr_Priority = an_Priority a,
      nr_PublishedAt = an_PublishedAt a, nr_ExpiresAt = an_ExpiresAt a, nr_DeletedAt = an_DeletedAt a,
      nr_CreatedAt = an_CreatedAt a, nr_UpdatedAt = an_UpdatedAt a, nr_CreatedBy = an_CreatedBy a,
      nr_UpdatedBy = an_UpdatedBy a\<rparr>"

text \<open>The caller sets both times, so GORM fills none in; \<open>Create\<close> never writes \<open>deleted_at\<close>.\<close>

definition annRepo_Create :: "announcement \<Rightarrow> announcement comp" where
  "annRepo_Create a =
     bind (insert_row ''announcements'' (\<lambda>i. announcements_update
             (\<lambda>rs. rs @ [(announcement_row a i)\<lparr>nr_DeletedAt := None\<rparr>]))) (\<lambda>i.
     ret (a\<lparr>an_ID := i\<rparr>))"

text \<open>
  GORM's \<open>Save\<close> writes every column under the primary key, with its own \<open>updated_at\<close>, and inserts
  the row when no row has that key.
\<close>

definition save_row :: "announcementRow \<Rightarrow> announcementRow list \<Rightarrow> announcementRow list" where
  "save_row row rs =
     (if list_ex (\<lambda>r. nr_ID r = nr_ID row) rs
      then update_where (\<lambda>r. nr_ID r = nr_ID row) (\<lambda>_. row) rs
      else rs @ [row])"

definition annRepo_Update :: "announcement \<Rightarrow> unit comp" where
  "annRepo_Update a =
     bind now (\<lambda>t.
     exec (announcements_update (save_row ((announcement_row a (an_ID a))\<lparr>nr_UpdatedAt := t\<rparr>))))"

definition annRepo_GetByID :: "int \<Rightarrow> announcement option comp" where
  "annRepo_GetByID i =
     query (\<lambda>d. map_option announcement_toDomain
       (first_row nr_ID (\<lambda>r. nr_ID r = i \<and> nr_DeletedAt r = None) (announcements d)))"

text \<open>The two forms of the \<open>WHERE\<close> clause, at the database's time.\<close>

definition announcement_where :: "bool \<Rightarrow> time \<Rightarrow> announcementRow \<Rightarrow> bool" where
  "announcement_where includeUnpublished t r \<longleftrightarrow>
     nr_DeletedAt r = None \<and>
     (includeUnpublished \<or>
       ((case nr_PublishedAt r of None \<Rightarrow> False | Some p \<Rightarrow> p \<le> t) \<and>
        (case nr_ExpiresAt r of None \<Rightarrow> True | Some x \<Rightarrow> t < x)))"

text \<open>\<open>ORDER BY published_at DESC NULLS LAST, created_at DESC\<close>.\<close>

definition announcement_order :: "announcementRow list \<Rightarrow> announcementRow list" where
  "announcement_order rs =
     (let rs = sort_key (\<lambda>r. - nr_CreatedAt r) rs in
      sort_key (\<lambda>r. - the (nr_PublishedAt r)) (filter (\<lambda>r. nr_PublishedAt r \<noteq> None) rs) @
      filter (\<lambda>r. nr_PublishedAt r = None) rs)"

definition annRepo_List :: "bool \<Rightarrow> page \<Rightarrow> (announcement list \<times> int) comp" where
  "annRepo_List includeUnpublished p =
     bind (query_now (\<lambda>t d. count_where (announcement_where includeUnpublished t) (announcements d))) (\<lambda>tot.
     bind (query_now (\<lambda>t d. limit_offset (Size p) (Offset p)
             (announcement_order (filter (announcement_where includeUnpublished t) (announcements d))))) (\<lambda>rows.
     ret (map announcement_toDomain rows, tot)))"

definition annRepo_SoftDelete :: "int \<Rightarrow> int \<Rightarrow> unit comp" where
  "annRepo_SoftDelete i byUserID =
     bind now (\<lambda>t.
     exec (announcements_update (update_where (\<lambda>r. nr_ID r = i \<and> nr_DeletedAt r = None)
       (\<lambda>r. r\<lparr>nr_DeletedAt := Some t, nr_UpdatedBy := byUserID, nr_UpdatedAt := t\<rparr>))))"

section \<open>Notifications\<close>

definition notification_toDomain :: "notificationRow \<Rightarrow> notification" where
  "notification_toDomain r =
     \<lparr>nt_ID = tr_ID r, nt_UserID = tr_UserID r, nt_Type = tr_Type r, nt_Category = tr_Category r,
      nt_Title = tr_Title r, nt_Body = tr_Body r, nt_Link = tr_Link r, nt_RefType = tr_RefType r,
      nt_RefID = tr_RefID r, nt_IsRead = tr_IsRead r, nt_IsImportant = tr_IsImportant r,
      nt_ReadAt = tr_ReadAt r, nt_CreatedAt = tr_CreatedAt r\<rparr>"

definition defaultCategory :: "string \<Rightarrow> string" where
  "defaultCategory c = (if c = '''' then NotificationCategoryTask else c)"

text \<open>GORM fills in \<open>created_at\<close> on insertion; \<open>read_at\<close> is not among the written fields.\<close>

definition notification_row :: "notification \<Rightarrow> bool \<Rightarrow> time \<Rightarrow> int \<Rightarrow> notificationRow" where
  "notification_row n isRead t i =
     \<lparr>tr_ID = i, tr_UserID = nt_UserID n, tr_Type = nt_Type n, tr_Category = defaultCategory (nt_Category n),
      tr_Title = nt_Title n, tr_Body = nt_Body n, tr_Link = nt_Link n, tr_RefType = nt_RefType n,
      tr_RefID = nt_RefID n, tr_IsRead = isRead, tr_IsImportant = nt_IsImportant n, tr_ReadAt = None,
      tr_CreatedAt = t\<rparr>"

definition notifRepo_Create :: "notification \<Rightarrow> notification comp" where
  "notifRepo_Create n =
     bind now (\<lambda>t.
     bind (insert_row ''notifications'' (\<lambda>i. notifications_update
             (\<lambda>rs. rs @ [notification_row n (nt_IsRead n) t i]))) (\<lambda>i.
     ret (n\<lparr>nt_ID := i, nt_CreatedAt := t, nt_Category := defaultCategory (nt_Category n)\<rparr>)))"

text \<open>One multi-row \<open>INSERT\<close>: it draws the ids in order, and fails or succeeds as a whole.\<close>

definition insert_rows :: "string \<Rightarrow> nat \<Rightarrow> (int \<Rightarrow> db \<Rightarrow> db) \<Rightarrow> int comp" where
  "insert_rows tbl k f e w =
     (case fault e (w_tick w) of
        Some d \<Rightarrow> (Inl (DbError d), tick w)
      | None \<Rightarrow>
          (let i = w_seq w tbl + 1 in
           (Inr i, (tick w)\<lparr>w_db := f i (w_db w), w_seq := (w_seq w)(tbl := w_seq w tbl + int k)\<rparr>)))"

fun number_rows :: "(notification \<Rightarrow> int \<Rightarrow> 'r) \<Rightarrow> int \<Rightarrow> notification list \<Rightarrow> 'r list" where
  "number_rows mk i [] = []"
| "number_rows mk i (n # ns) = mk n i # number_rows mk (i + 1) ns"

definition notifRepo_BulkCreate :: "notification list \<Rightarrow> notification list comp" where
  "notifRepo_BulkCreate ns =
     (if ns = [] then ret []
      else
        bind now (\<lambda>t.
        bind (insert_rows ''notifications'' (length ns) (\<lambda>i. notifications_update
                (\<lambda>rs. rs @ number_rows (\<lambda>n j. notification_row n False t j) i ns))) (\<lambda>i.
        ret (number_rows (\<lambda>n j. n\<lparr>nt_ID := j, nt_CreatedAt := t,
               nt_Category := defaultCategory (nt_Category n)\<rparr>) i ns))))"

definition notification_where :: "int \<Rightarrow> notification_filter \<Rightarrow> notificationRow \<Rightarrow> bool" where
  "notification_where userID f r \<longleftrightarrow>
     tr_UserID r = userID \<and>
     (nf_UnreadOnly f \<longrightarrow> \<not> tr_IsRead r) \<and>
     (nf_ImportantOnly f \<longrightarrow> tr_IsImportant r) \<and>
     (nf_Category f = '''' \<or> tr_Category r = nf_Category f) \<and>
     (case nf_DateFrom f of None \<Rightarrow> True | Some t \<Rightarrow> t \<le> tr_CreatedAt r) \<and>
     (case nf_DateTo f of None \<Rightarrow> True | Some t \<Rightarrow> tr_CreatedAt r \<le> t)"

definition notifRepo_ListForUserFiltered ::
  "int \<Rightarrow> notification_filter \<Rightarrow> page \<Rightarrow> (notification list \<times> int) comp" where
  "notifRepo_ListForUserFiltered userID f p =
     bind (query (\<lambda>d. count_where (notification_where userID f) (notifications d))) (\<lambda>tot.
     bind (query (\<lambda>d. limit_offset (Size p) (Offset p)
             (sort_key (\<lambda>r. - tr_CreatedAt r) (filter (notification_where userID f) (notifications d))))) (\<lambda>rows.
     ret (map notification_toDomain rows, tot)))"

definition notification_filter0 :: notification_filter where
  "notification_filter0 = \<lparr>nf_UnreadOnly = False, nf_ImportantOnly = False, nf_Category = '''',
     nf_DateFrom = None, nf_DateTo = None\<rparr>"

definition notifRepo_ListForUser :: "int \<Rightarrow> bool \<Rightarrow> page \<Rightarrow> (notification list \<times> int) comp" where
  "notifRepo_ListForUser userID unreadOnly p =
     notifRepo_ListForUserFiltered userID (notification_filter0\<lparr>nf_UnreadOnly := unreadOnly\<rparr>) p"

definition notifRepo_GetByID :: "int \<Rightarrow> int \<Rightarrow> notification option comp" where
  "notifRepo_GetByID i userID =
     query (\<lambda>d. map_option notification_toDomain
       (first_row tr_ID (\<lambda>r. tr_ID r = i \<and> tr_UserID r = userID) (notifications d)))"

definition notifRepo_MarkRead :: "int \<Rightarrow> int \<Rightarrow> unit comp" where
  "notifRepo_MarkRead i userID =
     bind now (\<lambda>t.
     exec (notifications_update (update_where (\<lambda>r. tr_ID r = i \<and> tr_UserID r = userID \<and> \<not> tr_IsRead r)
       (\<lambda>r. r\<lparr>tr_IsRead := True, tr_ReadAt := Some t\<rparr>))))"

definition notifRepo_MarkUnread :: "int \<Rightarrow> int \<Rightarrow> unit comp" where
  "notifRepo_MarkUnread i userID =
     exec (notifications_update (update_where (\<lambda>r. tr_ID r = i \<and> tr_UserID r = userID)
       (\<lambda>r. r\<lparr>tr_IsRead := False, tr_ReadAt := None\<rparr>)))"

definition notifRepo_SetImportant :: "int \<Rightarrow> int \<Rightarrow> bool \<Rightarrow> unit comp" where
  "notifRepo_SetImportant i userID important =
     exec (notifications_update (update_where (\<lambda>r. tr_ID r = i \<and> tr_UserID r = userID)
       (\<lambda>r. r\<lparr>tr_IsImportant := important\<rparr>)))"

definition notifRepo_MarkAllRead :: "int \<Rightarrow> unit comp" where
  "notifRepo_MarkAllRead userID =
     bind now (\<lambda>t.
     exec (notifications_update (update_where (\<lambda>r. tr_UserID r = userID \<and> \<not> tr_IsRead r)
       (\<lambda>r. r\<lparr>tr_IsRead := True, tr_ReadAt := Some t\<rparr>))))"

definition notifRepo_UnreadCount :: "int \<Rightarrow> int comp" where
  "notifRepo_UnreadCount userID =
     query (\<lambda>d. count_where (\<lambda>r. tr_UserID r = userID \<and> \<not> tr_IsRead r) (notifications d))"

section \<open>Publishing\<close>

text \<open>\<open>RedisHub.Publish\<close>: a published event reaches the channel of its user, or the call fails.\<close>

definition hub_Publish :: "int \<Rightarrow> event \<Rightarrow> unit comp" where
  "hub_Publish userID ev e w =
     (case net_fault e (w_tick w) of
        Some t \<Rightarrow> (Inl (Wrapped ''xnotify: redis publish'' (Plain t)), tick w)
      | None \<Rightarrow> (Inr (), (tick w)\<lparr>w_published := (userID, ev) # w_published w\<rparr>))"

definition EventNew :: string where "EventNew = ''new''"

definition publishNew :: "notification \<Rightarrow> unit comp" where
  "publishNew n =
     bind ask (\<lambda>e.
     ignore (hub_Publish (nt_UserID n) \<lparr>ev_Type = EventNew, ev_Data = notification_marshal e n\<rparr>))"

definition pubRepo_Create :: "notification \<Rightarrow> notification comp" where
  "pubRepo_Create n =
     bind (notifRepo_Create n) (\<lambda>n.
     bind (publishNew n) (\<lambda>_.
     ret n))"

fun publish_all :: "notification list \<Rightarrow> unit comp" where
  "publish_all [] = ret ()"
| "publish_all (n # ns) = bind (publishNew n) (\<lambda>_. publish_all ns)"

definition pubRepo_BulkCreate :: "notification list \<Rightarrow> notification list comp" where
  "pubRepo_BulkCreate ns =
     bind (notifRepo_BulkCreate ns) (\<lambda>ns.
     bind (publish_all ns) (\<lambda>_.
     ret ns))"

end
