(* ===== verification/Notif_UC.thy ===== *)
theory Notif_UC
  imports Notif_Repo Use_Case
begin

text \<open>
  \<open>internal/usecase/notification.go\<close>: announcements, the inbox of a user and the emission of
  notifications, over the publishing repository as \<open>internal/di/wire.go\<close> composes them.
\<close>

section \<open>Inputs\<close>

record AnnouncementInput =
  ai_Title :: string
  ai_Body :: string
  ai_Priority :: string
  ai_PublishedAt :: "string option"
  ai_ExpiresAt :: "string option"

record NotificationInput =
  ni_UserID :: int
  ni_Type :: string
  ni_Category :: string
  ni_Title :: string
  ni_Body :: string
  ni_Link :: "string option"
  ni_RefType :: "string option"
  ni_RefID :: "int option"
  ni_IsImportant :: bool

record NotificationListFilter =
  nl_UnreadOnly :: bool
  nl_ImportantOnly :: bool
  nl_Category :: string
  nl_DateFrom :: "string option"
  nl_DateTo :: "string option"

text \<open>\<open>if err != nil { return xhttp.InternalErrorf(...) }\<close>, with the error logged only.\<close>

definition internal :: "string \<Rightarrow> 'a comp \<Rightarrow> 'a comp" where
  "internal msg m =
     bind (attempt m) (\<lambda>r. case r of Inl err \<Rightarrow> throw (InternalErrorf msg) | Inr x \<Rightarrow> ret x)"

text \<open>An optional time in RFC 3339, or the error that names the field.\<close>

definition parse_opt :: "string \<Rightarrow> string option \<Rightarrow> time option comp" where
  "parse_opt field s =
     (case s of
        None \<Rightarrow> ret None
      | Some s \<Rightarrow>
          bind ask (\<lambda>e.
          case parse_rfc3339 e s of
            None \<Rightarrow> throw (BadRequestErrorf (field @ '' phai co dang RFC3339''))
          | Some t \<Rightarrow> ret (Some t)))"

definition announcement_audit :: "ctx \<Rightarrow> string \<Rightarrow> int \<Rightarrow> unit comp" where
  "announcement_audit cx action i =
     ignore (auditRepo_Write cx (AuditEntry0\<lparr>au_ActorUserID := UserID cx, au_Action := action,
       au_EntityType := ''announcements'', au_EntityID := i\<rparr>))"

section \<open>Announcements\<close>

definition notifUC_CreateAnnouncement :: "AnnouncementInput \<Rightarrow> ctx \<Rightarrow> announcement comp" where
  "notifUC_CreateAnnouncement inp cx =
     (let callerID = UserID cx in
      bind now (\<lambda>t.
      bind (parse_opt ''publishedAt'' (ai_PublishedAt inp)) (\<lambda>published.
      bind (parse_opt ''expiresAt'' (ai_ExpiresAt inp)) (\<lambda>expires.
      let a = \<lparr>an_ID = 0, an_Title = ai_Title inp, an_Body = ai_Body inp, an_Priority = ai_Priority inp,
               an_PublishedAt = published, an_ExpiresAt = expires, an_CreatedAt = t, an_UpdatedAt = t,
               an_CreatedBy = callerID, an_UpdatedBy = callerID, an_DeletedAt = None\<rparr> in
      bind (internal ''loi tao thong bao'' (annRepo_Create a)) (\<lambda>a.
      bind (announcement_audit cx AuditAnnouncementCreated (an_ID a)) (\<lambda>_.
      ret a))))))"

definition notifUC_UpdateAnnouncement :: "int \<Rightarrow> AnnouncementInput \<Rightarrow> ctx \<Rightarrow> announcement comp" where
  "notifUC_UpdateAnnouncement i inp cx =
     (let callerID = UserID cx in
      bind now (\<lambda>t.
      bind (internal ''loi lay thong bao'' (annRepo_GetByID i)) (\<lambda>oa.
      case oa of
        None \<Rightarrow> throw (NotFoundErrorf ''thong bao khong ton tai'')
      | Some a \<Rightarrow>
          bind (parse_opt ''publishedAt'' (ai_PublishedAt inp)) (\<lambda>published.
          bind (parse_opt ''expiresAt'' (ai_ExpiresAt inp)) (\<lambda>expires.
          let a = a\<lparr>an_Title := ai_Title inp, an_Body := ai_Body inp, an_Priority := ai_Priority inp,
                    an_PublishedAt := published, an_ExpiresAt := expires,
                    an_UpdatedAt := t, an_UpdatedBy := callerID\<rparr> in
          bind (internal ''loi cap nhat thong bao'' (annRepo_Update a)) (\<lambda>_.
          bind (announcement_audit cx AuditAnnouncementUpdated (an_ID a)) (\<lambda>_.
          ret a)))))))"

definition notifUC_DeleteAnnouncement :: "int \<Rightarrow> ctx \<Rightarrow> unit comp" where
  "notifUC_DeleteAnnouncement i cx =
     bind (internal ''loi xoa thong bao'' (annRepo_SoftDelete i (UserID cx))) (\<lambda>_.
     announcement_audit cx AuditAnnouncementDeleted i)"

definition notifUC_GetAnnouncement :: "int \<Rightarrow> announcement comp" where
  "notifUC_GetAnnouncement i =
     bind (internal ''loi lay thong bao'' (annRepo_GetByID i)) (\<lambda>oa.
     case oa of
       None \<Rightarrow> throw (NotFoundErrorf ''thong bao khong ton tai'')
     | Some a \<Rightarrow> ret a)"

definition notifUC_ListAnnouncements :: "bool \<Rightarrow> page \<Rightarrow> (announcement list \<times> int) comp" where
  "notifUC_ListAnnouncements includeUnpublished p =
     internal ''loi lay danh sach thong bao'' (annRepo_List includeUnpublished p)"

section \<open>The inbox\<close>

definition notifUC_ListForUser :: "int \<Rightarrow> bool \<Rightarrow> page \<Rightarrow> (notification list \<times> int) comp" where
  "notifUC_ListForUser userID unreadOnly p =
     internal ''loi lay thong bao nguoi dung'' (notifRepo_ListForUser userID unreadOnly p)"

definition notifUC_ListForUserFiltered ::
  "int \<Rightarrow> NotificationListFilter \<Rightarrow> page \<Rightarrow> (notification list \<times> int) comp" where
  "notifUC_ListForUserFiltered userID inp p =
     bind (parse_opt ''dateFrom'' (nl_DateFrom inp)) (\<lambda>from.
     bind (parse_opt ''dateTo'' (nl_DateTo inp)) (\<lambda>to.
     internal ''loi lay thong bao nguoi dung''
       (notifRepo_ListForUserFiltered userID
          \<lparr>nf_UnreadOnly = nl_UnreadOnly inp, nf_ImportantOnly = nl_ImportantOnly inp,
           nf_Category = nl_Category inp, nf_DateFrom = from, nf_DateTo = to\<rparr> p)))"

definition notifUC_GetForUser :: "int \<Rightarrow> int \<Rightarrow> notification comp" where
  "notifUC_GetForUser i userID =
     bind (internal ''loi lay thong bao'' (notifRepo_GetByID i userID)) (\<lambda>on.
     case on of
       None \<Rightarrow> throw (NotFoundErrorf ''thong bao khong ton tai'')
     | Some n \<Rightarrow> ret n)"

definition notifUC_MarkRead :: "int \<Rightarrow> int \<Rightarrow> unit comp" where
  "notifUC_MarkRead i userID = internal ''loi danh dau da doc'' (notifRepo_MarkRead i userID)"

definition notifUC_MarkUnread :: "int \<Rightarrow> int \<Rightarrow> unit comp" where
  "notifUC_MarkUnread i userID = internal ''loi danh dau chua doc'' (notifRepo_MarkUnread i userID)"

definition notifUC_SetImportant :: "int \<Rightarrow> int \<Rightarrow> bool \<Rightarrow> unit comp" where
  "notifUC_SetImportant i userID important =
     internal ''loi cap nhat thong bao quan trong'' (notifRepo_SetImportant i userID important)"

definition notifUC_MarkAllRead :: "int \<Rightarrow> unit comp" where
  "notifUC_MarkAllRead userID = internal ''loi danh dau tat ca da doc'' (notifRepo_MarkAllRead userID)"

definition notifUC_UnreadCount :: "int \<Rightarrow> int comp" where
  "notifUC_UnreadCount userID = internal ''loi dem thong bao chua doc'' (notifRepo_UnreadCount userID)"

section \<open>Emission\<close>

definition input_notification :: "int \<Rightarrow> NotificationInput \<Rightarrow> notification" where
  "input_notification userID inp =
     \<lparr>nt_ID = 0, nt_UserID = userID, nt_Type = ni_Type inp, nt_Category = ni_Category inp,
      nt_Title = ni_Title inp, nt_Body = ni_Body inp, nt_Link = ni_Link inp, nt_RefType = ni_RefType inp,
      nt_RefID = ni_RefID inp, nt_IsRead = False, nt_IsImportant = ni_IsImportant inp,
      nt_ReadAt = None, nt_CreatedAt = 0\<rparr>"

definition notifUC_Emit :: "NotificationInput \<Rightarrow> unit comp" where
  "notifUC_Emit inp =
     (if ni_UserID inp \<le> 0 then ret ()
      else bind (pubRepo_Create (input_notification (ni_UserID inp) inp)) (\<lambda>_. ret ()))"

definition notifUC_EmitToUsers :: "int list \<Rightarrow> NotificationInput \<Rightarrow> unit comp" where
  "notifUC_EmitToUsers userIDs inp =
     (if userIDs = [] then ret ()
      else
        (let ns = map (\<lambda>uid. input_notification uid inp) (filter (\<lambda>uid. \<not> uid \<le> 0) userIDs) in
         bind (pubRepo_BulkCreate ns) (\<lambda>_. ret ())))"

definition active_users_filter :: user_list_filter where
  "active_users_filter = \<lparr>uf_Search = '''', uf_Role = '''', uf_Status = ''active'', uf_Roles = [],
     uf_Statuses = [], uf_Page = NewPage 1 10000\<rparr>"

definition notifUC_PublishToAll :: "string \<Rightarrow> string \<Rightarrow> string \<Rightarrow> int \<Rightarrow> unit comp" where
  "notifUC_PublishToAll title body refType refID =
     bind (internal ''loi gui thong bao'' (userRepo_List active_users_filter)) (\<lambda>(usrs, _).
     let ns = map (\<lambda>usr.
           \<lparr>nt_ID = 0, nt_UserID = usr_ID usr, nt_Type = ''announcement'',
            nt_Category = NotificationCategoryAnnouncement, nt_Title = title, nt_Body = body,
            nt_Link = None, nt_RefType = Some refType, nt_RefID = Some refID, nt_IsRead = False,
            nt_IsImportant = False, nt_ReadAt = None, nt_CreatedAt = 0\<rparr>) usrs in
     bind (internal ''loi gui thong bao'' (pubRepo_BulkCreate ns)) (\<lambda>_. ret ()))"

section \<open>Laws\<close>

interpretation announcement_table: id_table announcements announcements_update nr_ID "''announcements''"
  by unfold_locales simp

interpretation notification_table: id_table notifications notifications_update tr_ID "''notifications''"
  by unfold_locales simp

lemma internal_ok [ok_iff]: "internal msg m e w = (Inr x, w') \<longleftrightarrow> m e w = (Inr x, w')"
  by (auto simp: internal_def bind_def attempt_def throw_def ret_def split: prod.splits sum.splits)

lemma internal_world: "snd (internal msg m e w) = snd (m e w)"
  by (simp add: internal_def bind_def attempt_def throw_def ret_def split: prod.split sum.split)

text \<open>
  An operation on one user's inbox: whatever it returns, it rewrites rows of that user in place and
  nothing else; \<open>read_ok\<close> is the agreement of the flag with the time.
\<close>

definition read_ok :: "notificationRow \<Rightarrow> bool" where
  "read_ok n \<longleftrightarrow> (tr_IsRead n \<longleftrightarrow> tr_ReadAt n \<noteq> None)"

definition rewrites_inbox :: "int \<Rightarrow> (notificationRow \<Rightarrow> notificationRow) \<Rightarrow> world \<Rightarrow> world \<Rightarrow> bool" where
  "rewrites_inbox u f w w' \<longleftrightarrow>
     w_db w' = (w_db w)\<lparr>notifications := update_where (\<lambda>n. tr_UserID n = u) f (notifications (w_db w))\<rparr> \<and>
     w_seq w' = w_seq w \<and> outside_db w w'"

locale inbox_op =
  fixes owner :: int
    and op :: "'a comp"
  assumes in_place: "\<exists>f. (\<forall>n. tr_ID (f n) = tr_ID n \<and> tr_UserID (f n) = tr_UserID n \<and>
      (read_ok n \<longrightarrow> read_ok (f n))) \<and> rewrites_inbox owner f w (snd (op e w))"
begin

lemma others_untouched:
  "filter (\<lambda>n. tr_UserID n \<noteq> owner) (notifications (w_db (snd (op e w)))) =
     filter (\<lambda>n. tr_UserID n \<noteq> owner) (notifications (w_db w))"
proof -
  obtain f where f: "\<forall>n. tr_UserID (f n) = tr_UserID n" and "rewrites_inbox owner f w (snd (op e w))"
    using in_place by metis
  then have "notifications (w_db (snd (op e w))) =
      update_where (\<lambda>n. tr_UserID n = owner) f (notifications (w_db w))" by (simp add: rewrites_inbox_def)
  moreover have "filter (\<lambda>n. tr_UserID n \<noteq> owner) (update_where (\<lambda>n. tr_UserID n = owner) f ns) =
      filter (\<lambda>n. tr_UserID n \<noteq> owner) ns" for ns
    using f by (induction ns) (auto simp: update_where_def)
  ultimately show ?thesis by simp
qed

lemma others_unread:
  "u \<noteq> owner \<Longrightarrow>
   count_where (\<lambda>n. tr_UserID n = u \<and> \<not> tr_IsRead n) (notifications (w_db (snd (op e w)))) =
     count_where (\<lambda>n. tr_UserID n = u \<and> \<not> tr_IsRead n) (notifications (w_db w))"
proof -
  assume "u \<noteq> owner"
  then have sub: "filter (\<lambda>n. tr_UserID n = u \<and> \<not> tr_IsRead n) ns =
      filter (\<lambda>n. tr_UserID n = u \<and> \<not> tr_IsRead n) (filter (\<lambda>n. tr_UserID n \<noteq> owner) ns)" for ns
    unfolding filter_filter by (intro filter_cong) auto
  show ?thesis unfolding count_where_def by (subst (1 2) sub) (simp only: others_untouched)
qed

lemma ids_kept: "map tr_ID (notifications (w_db (snd (op e w)))) = map tr_ID (notifications (w_db w))"
  using in_place [of w e] by (auto simp: rewrites_inbox_def map_update_where)

lemma read_ok_kept:
  "\<forall>n \<in> set (notifications (w_db w)). read_ok n \<Longrightarrow>
   \<forall>n \<in> set (notifications (w_db (snd (op e w)))). read_ok n"
  using in_place [of w e] by (auto simp: rewrites_inbox_def set_update_where)

lemma same_elsewhere:
  "users (w_db (snd (op e w))) = users (w_db w) \<and> audit_log (w_db (snd (op e w))) = audit_log (w_db w) \<and>
   announcements (w_db (snd (op e w))) = announcements (w_db w) \<and> outside_db w (snd (op e w))"
  using in_place [of w e] by (auto simp: rewrites_inbox_def)

end

lemma rewrites_none: "same_db w w' \<Longrightarrow> rewrites_inbox u (\<lambda>n. n) w w'"
  by (simp add: rewrites_inbox_def same_db_def update_where_def)

lemma update_where_sub:
  "update_where (\<lambda>n. Q n \<and> tr_UserID n = u) f ns = update_where (\<lambda>n. tr_UserID n = u) (\<lambda>n. if Q n then f n else n) ns"
  by (auto simp: update_where_def)

lemma exec_rewrites:
  assumes "\<And>n. tr_ID (f n) = tr_ID n \<and> tr_UserID (f n) = tr_UserID n \<and> (read_ok n \<longrightarrow> read_ok (f n))"
    and "\<And>ns. g ns = update_where (\<lambda>n. tr_UserID n = u) f ns" and "same_db w w1"
  shows "\<exists>f. (\<forall>n. tr_ID (f n) = tr_ID n \<and> tr_UserID (f n) = tr_UserID n \<and> (read_ok n \<longrightarrow> read_ok (f n))) \<and>
    rewrites_inbox u f w (snd (exec (notifications_update g) e w1))"
proof (cases "fault e (w_tick w1)")
  case None
  with assms show ?thesis
    by (intro exI [of _ f]) (auto simp: exec_def stmt_def rewrites_inbox_def same_db_def)
next
  case (Some d)
  with assms(3) have "same_db w (snd (exec (notifications_update g) e w1))"
    by (simp add: exec_def stmt_def same_db_def)
  then show ?thesis by (intro exI [of _ "\<lambda>n. n"]) (simp add: rewrites_none)
qed

interpretation mark_read: inbox_op u "notifUC_MarkRead i u"
  by unfold_locales
    (unfold notifUC_MarkRead_def internal_world notifRepo_MarkRead_def, simp add: bind_def now_def,
      rule exec_rewrites [where f = "\<lambda>n. if tr_ID n = i \<and> \<not> tr_IsRead n
        then n\<lparr>tr_IsRead := True, tr_ReadAt := Some (clock _ _)\<rparr> else n"];
      auto simp: read_ok_def update_where_def)

interpretation mark_unread: inbox_op u "notifUC_MarkUnread i u"
  by unfold_locales
    (unfold notifUC_MarkUnread_def internal_world notifRepo_MarkUnread_def,
      rule exec_rewrites [where f = "\<lambda>n. if tr_ID n = i then n\<lparr>tr_IsRead := False, tr_ReadAt := None\<rparr> else n"];
      auto simp: read_ok_def update_where_def)

interpretation set_important: inbox_op u "notifUC_SetImportant i u b"
  by unfold_locales
    (unfold notifUC_SetImportant_def internal_world notifRepo_SetImportant_def,
      rule exec_rewrites [where f = "\<lambda>n. if tr_ID n = i then n\<lparr>tr_IsImportant := b\<rparr> else n"];
      auto simp: read_ok_def update_where_def)

interpretation mark_all_read: inbox_op u "notifUC_MarkAllRead u"
  by unfold_locales
    (unfold notifUC_MarkAllRead_def internal_world notifRepo_MarkAllRead_def, simp add: bind_def now_def,
      rule exec_rewrites [where f = "\<lambda>n. if \<not> tr_IsRead n
        then n\<lparr>tr_IsRead := True, tr_ReadAt := Some (clock _ _)\<rparr> else n"];
      auto simp: read_ok_def update_where_def)

section \<open>Emission in detail\<close>

lemma number_rows_map: "map g (number_rows mk i ns) = number_rows (\<lambda>n j. g (mk n j)) i ns"
  by (induction ns arbitrary: i) simp_all

lemma length_number_rows [simp]: "length (number_rows mk i ns) = length ns"
  by (induction ns arbitrary: i) simp_all

lemma number_rows_const: "number_rows (\<lambda>n j. g n) i ns = map g ns"
  by (induction ns arbitrary: i) simp_all

lemma number_rows_all:
  "list_all P ns \<Longrightarrow> (\<And>n j. P n \<longrightarrow> Q (mk n j)) \<Longrightarrow> list_all Q (number_rows mk i ns)"
  by (induction ns arbitrary: i) simp_all

lemma number_rows_ids: "number_rows (\<lambda>n j. j) i ns = map (\<lambda>k. i + int k) [0..<length ns]"
proof (induction ns arbitrary: i)
  case (Cons n ns)
  have "map (\<lambda>k. i + int k) [0..<Suc (length ns)] = i # map (\<lambda>k. i + 1 + int k) [0..<length ns]"
    by (simp only: upt_conv_Cons zero_less_Suc list.map map_Suc_upt [symmetric]) (simp add: comp_def algebra_simps)
  with Cons show ?case by simp
qed simp

lemma publishNew_run:
  assumes "\<And>n. net_fault e n = None"
  shows "\<exists>w'. publishNew n e w = (Inr (), w') \<and> w_db w' = w_db w \<and> w_seq w' = w_seq w \<and>
    w_published w' = (nt_UserID n, \<lparr>ev_Type = EventNew, ev_Data = notification_marshal e n\<rparr>) # w_published w"
  using assms by (simp add: publishNew_def hub_Publish_def bind_def ask_def ignore_def)

lemma publish_all_run:
  assumes "\<And>n. net_fault e n = None"
  shows "\<exists>w'. publish_all ns e w = (Inr (), w') \<and> w_db w' = w_db w \<and> w_seq w' = w_seq w \<and>
    w_published w' = rev (map (\<lambda>n. (nt_UserID n, \<lparr>ev_Type = EventNew, ev_Data = notification_marshal e n\<rparr>)) ns) @
      w_published w"
proof (induction ns arbitrary: w)
  case Nil
  then show ?case by (simp add: ret_def)
next
  case (Cons n ns)
  from publishNew_run [OF assms] obtain w1 where 1: "publishNew n e w = (Inr (), w1)" "w_db w1 = w_db w"
    "w_seq w1 = w_seq w"
    "w_published w1 = (nt_UserID n, \<lparr>ev_Type = EventNew, ev_Data = notification_marshal e n\<rparr>) # w_published w"
    by blast
  from Cons.IH [of w1] obtain w2 where "publish_all ns e w1 = (Inr (), w2)" "w_db w2 = w_db w1"
    "w_seq w2 = w_seq w1" "w_published w2 =
      rev (map (\<lambda>n. (nt_UserID n, \<lparr>ev_Type = EventNew, ev_Data = notification_marshal e n\<rparr>)) ns) @ w_published w1"
    by blast
  with 1 show ?case by (simp add: bind_def)
qed

lemma publish_all_db: "publish_all ns e w = (r, w') \<Longrightarrow> w_db w' = w_db w \<and> (\<exists>u. r = Inr u)"
proof (induction ns arbitrary: w)
  case Nil
  then show ?case by (simp add: ret_def)
next
  case (Cons n ns)
  obtain w1 where 1: "publishNew n e w = (Inr (), w1)" "w_db w1 = w_db w"
    by (cases "net_fault e (w_tick w)") (auto simp: publishNew_def hub_Publish_def bind_def ask_def ignore_def)
  with Cons show ?case by (simp add: bind_def)
qed

lemma BulkCreate_run:
  assumes "notifRepo_BulkCreate ns e w = (Inr out, w')"
  shows "\<exists>t. notifications (w_db w') = notifications (w_db w) @
      number_rows (\<lambda>n j. notification_row n False t j) (w_seq w ''notifications'' + 1) ns \<and>
    out = number_rows (\<lambda>n j. n\<lparr>nt_ID := j, nt_CreatedAt := t,
      nt_Category := defaultCategory (nt_Category n)\<rparr>) (w_seq w ''notifications'' + 1) ns \<and>
    w_published w' = w_published w"
  using assms
  by (cases "ns = []")
    (auto simp: notifRepo_BulkCreate_def bind_ok ret_ok now_ok insert_rows_def Let_def split: option.splits)

lemma BulkCreate_succeeds: "quiet e \<Longrightarrow> \<exists>out w'. notifRepo_BulkCreate ns e w = (Inr out, w')"
  by (cases "ns = []") (simp_all add: notifRepo_BulkCreate_def run_steps insert_rows_def Let_def)

lemma BulkCreate_error: "notifRepo_BulkCreate ns e w = (Inl err, w') \<Longrightarrow> w_db w' = w_db w"
  by (cases "ns = []")
    (auto simp: notifRepo_BulkCreate_def bind_def ret_def now_def insert_rows_def Let_def split: option.splits)

section \<open>Properties\<close>

datatype inbox_action = Mark_Read int | Mark_Unread int | Set_Important int bool | Mark_All

fun run_inbox :: "int \<Rightarrow> inbox_action \<Rightarrow> unit comp" where
  "run_inbox u (Mark_Read i) = notifUC_MarkRead i u"
| "run_inbox u (Mark_Unread i) = notifUC_MarkUnread i u"
| "run_inbox u (Set_Important i b) = notifUC_SetImportant i u b"
| "run_inbox u Mark_All = notifUC_MarkAllRead u"

text \<open>
  C23: a user's inbox is private. Whatever ids are sent, the four operations on the inbox of user
  \<open>u\<close>, successful or not, leave every notification of every other user as it was, add and remove
  none, and keep the read flag and the read time of all notifications in agreement.
\<close>

theorem inbox_private:
  "filter (\<lambda>n. tr_UserID n \<noteq> u) (notifications (w_db (snd (run_inbox u a e w)))) =
     filter (\<lambda>n. tr_UserID n \<noteq> u) (notifications (w_db w)) \<and>
   map tr_ID (notifications (w_db (snd (run_inbox u a e w)))) = map tr_ID (notifications (w_db w)) \<and>
   users (w_db (snd (run_inbox u a e w))) = users (w_db w) \<and>
   (list_all read_ok (notifications (w_db w)) \<longrightarrow>
      list_all read_ok (notifications (w_db (snd (run_inbox u a e w)))))"
proof (cases a)
  case (Mark_Read i)
  then show ?thesis
    using mark_read.others_untouched [of u i e w] mark_read.ids_kept [of i u e w] mark_read.same_elsewhere [of i u e w]
      mark_read.read_ok_kept [of w i u e] by (simp add: list_all_iff)
next
  case (Mark_Unread i)
  then show ?thesis
    using mark_unread.others_untouched [of u i e w] mark_unread.ids_kept [of i u e w]
      mark_unread.same_elsewhere [of i u e w] mark_unread.read_ok_kept [of w i u e] by (simp add: list_all_iff)
next
  case (Set_Important i b)
  then show ?thesis
    using set_important.others_untouched [of u i b e w] set_important.ids_kept [of i u b e w]
      set_important.same_elsewhere [of i u b e w] set_important.read_ok_kept [of w i u b e] by (simp add: list_all_iff)
next
  case Mark_All
  then show ?thesis
    using mark_all_read.others_untouched [of u e w] mark_all_read.ids_kept [of u e w]
      mark_all_read.same_elsewhere [of u e w] mark_all_read.read_ok_kept [of w u e] by (simp add: list_all_iff)
qed

definition inbox_world :: world where
  "inbox_world = sample_world\<lparr>w_db := sample_db\<lparr>notifications :=
     [\<lparr>tr_ID = 1, tr_UserID = 2, tr_Type = ''t'', tr_Category = ''task'', tr_Title = ''a'', tr_Body = ''b'',
       tr_Link = None, tr_RefType = None, tr_RefID = None, tr_IsRead = False, tr_IsImportant = False,
       tr_ReadAt = None, tr_CreatedAt = 5\<rparr>,
      \<lparr>tr_ID = 2, tr_UserID = 3, tr_Type = ''t'', tr_Category = ''task'', tr_Title = ''a'', tr_Body = ''b'',
       tr_Link = None, tr_RefType = None, tr_RefID = None, tr_IsRead = False, tr_IsImportant = False,
       tr_ReadAt = None, tr_CreatedAt = 6\<rparr>]\<rparr>\<rparr>"

theorem inbox_private_witness:
  "list_all read_ok (notifications (w_db (snd (run_inbox 2 Mark_All sample_env inbox_world))))"
proof -
  have "list_all read_ok (notifications (w_db inbox_world))" by (simp add: inbox_world_def read_ok_def)
  with inbox_private [of 2 Mark_All sample_env inbox_world] show ?thesis by blast
qed

text \<open>
  Marking all as read empties the unread badge of that user and of nobody else.
\<close>

theorem mark_all_read_clears:
  assumes "notifUC_MarkAllRead u e w = (Inr x, w1)" and "quiet e" and "w_db w2 = w_db w1"
  shows "fst (notifUC_UnreadCount u e w2) = Inr 0 \<and>
    (v \<noteq> u \<longrightarrow> fst (notifUC_UnreadCount v e w2) = fst (notifUC_UnreadCount v e w))"
proof -
  have cnt: "fst (notifUC_UnreadCount v e w') =
      Inr (count_where (\<lambda>n. tr_UserID n = v \<and> \<not> tr_IsRead n) (notifications (w_db w')))" for v w'
    using assms(2) by (simp add: notifUC_UnreadCount_def internal_def notifRepo_UnreadCount_def run_steps)
  have "notifRepo_MarkAllRead u e w = (Inr x, w1)"
    using assms(1) by (simp only: notifUC_MarkAllRead_def internal_ok)
  then obtain t where "notifications (w_db w1) = update_where (\<lambda>r. tr_UserID r = u \<and> \<not> tr_IsRead r)
       (\<lambda>r. r\<lparr>tr_IsRead := True, tr_ReadAt := Some t\<rparr>) (notifications (w_db w))"
    by (auto simp: notifRepo_MarkAllRead_def bind_ok now_ok exec_def stmt_def split: option.splits)
  then have "\<forall>n \<in> set (notifications (w_db w2)). \<not> (tr_UserID n = u \<and> \<not> tr_IsRead n)"
    unfolding assms(3) by (simp only: update_where_def set_map ball_simps) simp
  then have "count_where (\<lambda>n. tr_UserID n = u \<and> \<not> tr_IsRead n) (notifications (w_db w2)) = 0"
    by (simp add: count_where_def filter_empty_conv)
  moreover have "count_where (\<lambda>n. tr_UserID n = v \<and> \<not> tr_IsRead n) (notifications (w_db w2)) =
      count_where (\<lambda>n. tr_UserID n = v \<and> \<not> tr_IsRead n) (notifications (w_db w))" if "v \<noteq> u"
    using mark_all_read.others_unread [OF that, of e w] unfolding assms(1,3) snd_conv .
  ultimately show ?thesis unfolding cnt by simp
qed

theorem mark_all_read_clears_witness:
  "fst (notifUC_UnreadCount 2 sample_env (snd (notifUC_MarkAllRead 2 sample_env inbox_world))) = Inr 0"
proof -
  have "fst (notifUC_MarkAllRead 2 sample_env inbox_world) = Inr ()" by code_simp
  then obtain w1 where run: "notifUC_MarkAllRead 2 sample_env inbox_world = (Inr (), w1)" by (metis prod.collapse)
  from mark_all_read_clears [OF run quiet_sample_env refl] show ?thesis by (simp add: run)
qed

text \<open>The rows an emission adds.\<close>

definition emission :: "int list \<Rightarrow> NotificationInput \<Rightarrow> notification list" where
  "emission ids inp = map (\<lambda>uid. input_notification uid inp) (filter (\<lambda>uid. \<not> uid \<le> 0) ids)"

lemma emission_users: "map nt_UserID (emission ids inp) = filter (\<lambda>i. 0 < i) ids"
  by (simp add: emission_def comp_def input_notification_def not_le)

lemma emitted_rows:
  fixes k t :: int and ids :: "int list" and inp :: NotificationInput
  defines "new \<equiv> number_rows (\<lambda>n j. notification_row n False t j) k (emission ids inp)"
  shows "map tr_UserID new = filter (\<lambda>i. 0 < i) ids" and "map tr_ID new = map (\<lambda>j. k + int j) [0..<length new]"
    and "list_all (\<lambda>n. \<not> tr_IsRead n \<and> tr_Title n = ni_Title inp \<and> tr_Body n = ni_Body inp \<and>
      tr_Category n = defaultCategory (ni_Category inp)) new"
proof -
  show "map tr_UserID new = filter (\<lambda>i. 0 < i) ids"
    unfolding emission_users [of ids inp, symmetric] new_def
    by (simp add: number_rows_map notification_row_def number_rows_const)
  show "map tr_ID new = map (\<lambda>j. k + int j) [0..<length new]"
    unfolding new_def by (simp add: number_rows_map notification_row_def number_rows_ids)
  have "list_all (\<lambda>n. nt_Title n = ni_Title inp \<and> nt_Body n = ni_Body inp \<and>
      nt_Category n = ni_Category inp) (emission ids inp)"
    by (simp add: emission_def list_all_iff input_notification_def)
  then show "list_all (\<lambda>n. \<not> tr_IsRead n \<and> tr_Title n = ni_Title inp \<and> tr_Body n = ni_Body inp \<and>
      tr_Category n = defaultCategory (ni_Category inp)) new"
    unfolding new_def by (rule number_rows_all) (simp add: notification_row_def)
qed

text \<open>
  C22: an emission to a list of users is all or nothing. If it reports an error the tables are as
  before; otherwise every positive id of the list, in its order, has got exactly one new unread
  notification with the input's content and the default category, under consecutive fresh ids, and,
  when the hub is up, one event for each was published in the same order.
\<close>

theorem emit_all_or_nothing:
  "case notifUC_EmitToUsers ids inp e w of
     (Inl err, w') \<Rightarrow> w_db w' = w_db w
   | (Inr _, w') \<Rightarrow>
       (\<exists>new. notifications (w_db w') = notifications (w_db w) @ new \<and>
          map tr_UserID new = filter (\<lambda>i. 0 < i) ids \<and>
          map tr_ID new = map (\<lambda>k. w_seq w ''notifications'' + 1 + int k) [0..<length new] \<and>
          list_all (\<lambda>n. \<not> tr_IsRead n \<and> tr_Title n = ni_Title inp \<and> tr_Body n = ni_Body inp \<and>
            tr_Category n = defaultCategory (ni_Category inp)) new \<and>
          (net_fault e = (\<lambda>_. None) \<longrightarrow>
            map fst (w_published w') = rev (filter (\<lambda>i. 0 < i) ids) @ map fst (w_published w)))"
proof (cases "ids = []")
  case True
  then show ?thesis by (simp add: notifUC_EmitToUsers_def ret_def)
next
  case False
  let ?ns = "emission ids inp" and ?i = "w_seq w ''notifications'' + 1"
  have emit: "notifUC_EmitToUsers ids inp = bind (pubRepo_BulkCreate ?ns) (\<lambda>_. ret ())"
    using False by (simp add: notifUC_EmitToUsers_def emission_def Let_def)
  show ?thesis
  proof (cases "\<exists>err w1. notifRepo_BulkCreate ?ns e w = (Inl err, w1)")
    case True
    then obtain err w1 where run: "notifRepo_BulkCreate ?ns e w = (Inl err, w1)" by blast
    with BulkCreate_error [OF run] show ?thesis by (simp add: emit pubRepo_BulkCreate_def bind_def)
  next
    case False
    then obtain out w1 where create: "notifRepo_BulkCreate ?ns e w = (Inr out, w1)"
      by (metis old.sum.exhaust surj_pair)
    from BulkCreate_run [OF create] obtain t where
      rows: "notifications (w_db w1) = notifications (w_db w) @ number_rows (\<lambda>n j. notification_row n False t j) ?i ?ns"
      and out: "out = number_rows (\<lambda>n j. n\<lparr>nt_ID := j, nt_CreatedAt := t,
          nt_Category := defaultCategory (nt_Category n)\<rparr>) ?i ?ns"
      and pub: "w_published w1 = w_published w" by auto
    obtain w2 where send: "publish_all out e w1 = (Inr (), w2)" and db: "w_db w2 = w_db w1"
      using publish_all_db [of out e w1] by (metis old.unit.exhaust surj_pair)
    have run: "notifUC_EmitToUsers ids inp e w = (Inr (), w2)"
      using create send by (simp add: emit pubRepo_BulkCreate_def bind_def ret_def)
    have "map fst (w_published w2) = rev (filter (\<lambda>i. 0 < i) ids) @ map fst (w_published w)"
      if "net_fault e = (\<lambda>_. None)"
    proof -
      from publish_all_run [of e out w1] that send have "w_published w2 = rev (map (\<lambda>n. (nt_UserID n,
          \<lparr>ev_Type = EventNew, ev_Data = notification_marshal e n\<rparr>)) out) @ w_published w1" by auto
      moreover have "map nt_UserID out = map nt_UserID ?ns" by (simp add: out number_rows_map number_rows_const)
      ultimately show ?thesis by (simp add: pub rev_map [symmetric] comp_def emission_users [symmetric, of ids inp])
    qed
    then show ?thesis
      unfolding run prod.case sum.case db rows
      by (intro exI [of _ "number_rows (\<lambda>n j. notification_row n False t j) ?i ?ns"] conjI impI refl emitted_rows)
        blast
  qed
qed

definition sample_input :: NotificationInput where
  "sample_input = \<lparr>ni_UserID = 0, ni_Type = ''task.assigned'', ni_Category = '''', ni_Title = ''t'', ni_Body = ''b'',
     ni_Link = None, ni_RefType = None, ni_RefID = None, ni_IsImportant = False\<rparr>"

theorem emit_all_or_nothing_witness:
  "case notifUC_EmitToUsers [2, -1, 3] sample_input sample_env inbox_world of
     (Inl err, w') \<Rightarrow> False
   | (Inr _, w') \<Rightarrow> map tr_UserID (drop 2 (notifications (w_db w'))) = [2, 3] \<and>
       map fst (w_published w') = [3, 2]"
proof -
  have net: "net_fault sample_env = (\<lambda>_. None)" by (simp add: fun_eq_iff sample_env_fields)
  have "fst (notifUC_EmitToUsers [2, -1, 3] sample_input sample_env inbox_world) = Inr ()"
    by (simp add: notifUC_EmitToUsers_def pubRepo_BulkCreate_def notifRepo_BulkCreate_def bind_def ret_def
        input_notification_def now_def insert_rows_def exec_def stmt_def sample_env_fields Let_def
        publishNew_def hub_Publish_def ask_def ignore_def)
  then obtain w' where run: "notifUC_EmitToUsers [2, -1, 3] sample_input sample_env inbox_world = (Inr (), w')"
    by (metis prod.collapse)
  have "length (notifications (w_db inbox_world)) = 2" "w_published inbox_world = []"
    by (simp_all add: inbox_world_def sample_world_def)
  with emit_all_or_nothing [where ids = "[2, -1, 3]" and inp = sample_input and e = sample_env and w = inbox_world] net show ?thesis
    by (auto simp: run)
qed

text \<open>
  C25: broadcasting an announcement reaches at most the thousand oldest active accounts: the page of
  ten thousand that the code asks for is clamped by \<open>NewPage\<close>, and there is no second page.
\<close>

theorem publish_to_all_truncated:
  assumes "quiet e"
  shows "case notifUC_PublishToAll title body rt ri e w of
      (Inl _, _) \<Rightarrow> False
    | (Inr _, w') \<Rightarrow>
        map tr_UserID (drop (length (notifications (w_db w))) (notifications (w_db w'))) =
          map ur_ID (take 1000 (sort_key ur_CreatedAt
            (filter (\<lambda>r. ur_DeletedAt r = None \<and> ur_Status r = ''active'') (users (w_db w)))))"
proof -
  have where_eq: "user_list_where e active_users_filter = (\<lambda>r. ur_DeletedAt r = None \<and> ur_Status r = ''active'')"
    by (simp add: user_list_where_def active_users_filter_def fun_eq_iff)
  have page: "limit_offset (Size (uf_Page active_users_filter)) (Offset (uf_Page active_users_filter)) rs =
      take 1000 rs" for rs :: "userTuple list"
    by (simp add: limit_offset_def active_users_filter_def NewPage_def Offset_def wrap64_def)
  define rows where "rows = take 1000 (sort_key ur_CreatedAt
      (filter (\<lambda>r. ur_DeletedAt r = None \<and> ur_Status r = ''active'') (users (w_db w))))"
  obtain n w1 where list: "userRepo_List active_users_filter e w = (Inr (map user_toDomain rows, n), w1)"
    and db1: "w_db w1 = w_db w"
    using assms by (simp add: userRepo_List_def run_steps where_eq page rows_def)
  define ns where "ns = map (\<lambda>usr.
      \<lparr>nt_ID = 0, nt_UserID = usr_ID usr, nt_Type = ''announcement'', nt_Category = NotificationCategoryAnnouncement,
       nt_Title = title, nt_Body = body, nt_Link = None, nt_RefType = Some rt, nt_RefID = Some ri, nt_IsRead = False,
       nt_IsImportant = False, nt_ReadAt = None, nt_CreatedAt = 0\<rparr>) (map user_toDomain rows)"
  obtain out w2 where bulk: "notifRepo_BulkCreate ns e w1 = (Inr out, w2)"
    using BulkCreate_succeeds [OF assms] by blast
  from BulkCreate_run [OF bulk] obtain t where "notifications (w_db w2) = notifications (w_db w) @
      number_rows (\<lambda>n j. notification_row n False t j) (w_seq w1 ''notifications'' + 1) ns" by (auto simp: db1)
  then have "map tr_UserID (drop (length (notifications (w_db w))) (notifications (w_db w2))) = map nt_UserID ns"
    by (simp add: number_rows_map notification_row_def number_rows_const)
  also have "\<dots> = map ur_ID rows" by (simp add: ns_def user_toDomain_def comp_def)
  finally have rows2: "map tr_UserID (drop (length (notifications (w_db w))) (notifications (w_db w2))) = map ur_ID rows" .
  obtain w3 where send: "publish_all out e w2 = (Inr (), w3)" and db: "w_db w3 = w_db w2"
    using publish_all_db [of out e w2] by (metis old.unit.exhaust surj_pair)
  have "notifUC_PublishToAll title body rt ri e w = (Inr (), w3)"
    using list bulk send
    by (simp add: notifUC_PublishToAll_def internal_def run_steps pubRepo_BulkCreate_def Let_def ns_def [symmetric]
        del: list.map_comp map_map List.map.compositionality)
  then show ?thesis using rows2 by (simp add: db rows_def)
qed

theorem publish_to_all_truncated_witness:
  "case notifUC_PublishToAll ''t'' ''b'' ''announcements'' 1 sample_env inbox_world of
      (Inl _, _) \<Rightarrow> False
    | (Inr _, w') \<Rightarrow>
        map tr_UserID (drop (length (notifications (w_db inbox_world))) (notifications (w_db w'))) =
          map ur_ID (take 1000 (sort_key ur_CreatedAt
            (filter (\<lambda>r. ur_DeletedAt r = None \<and> ur_Status r = ''active'') (users (w_db inbox_world)))))"
  by (rule publish_to_all_truncated [OF quiet_sample_env])

text \<open>
  C24: what readers without the right to drafts are listed is exactly what the domain calls published,
  in the order and on the page asked for, except that an announcement disappears from the list at
  the instant of its expiry although \<open>IsPublished\<close> still holds then.
\<close>

theorem public_list_is_published:
  assumes "quiet e"
  shows "\<exists>tot. fst (notifUC_ListAnnouncements False p e w) =
    Inr (map announcement_toDomain (limit_offset (Size p) (Offset p) (announcement_order
      (filter (\<lambda>r. IsPublished (clock e (w_tick w + 1)) (announcement_toDomain r) \<and>
                   nr_ExpiresAt r \<noteq> Some (clock e (w_tick w + 1)))
        (announcements (w_db w))))), tot)"
proof -
  have "announcement_where False t r \<longleftrightarrow>
      IsPublished t (announcement_toDomain r) \<and> nr_ExpiresAt r \<noteq> Some t" for t r
    by (auto simp: announcement_where_def IsPublished_def announcement_toDomain_def split: option.split)
  then have "announcement_where False t =
      (\<lambda>r. IsPublished t (announcement_toDomain r) \<and> nr_ExpiresAt r \<noteq> Some t)" for t
    by (simp add: fun_eq_iff)
  then show ?thesis
    using assms by (simp add: notifUC_ListAnnouncements_def internal_def annRepo_List_def run_steps)
qed

definition notice_world :: world where
  "notice_world = sample_world\<lparr>w_db := sample_db\<lparr>announcements :=
     [\<lparr>nr_ID = 1, nr_Title = ''a'', nr_Body = ''b'', nr_Priority = ''normal'', nr_PublishedAt = Some 5, nr_ExpiresAt = None,
       nr_DeletedAt = None, nr_CreatedAt = 4, nr_UpdatedAt = 4, nr_CreatedBy = 1, nr_UpdatedBy = 1\<rparr>,
      \<lparr>nr_ID = 2, nr_Title = ''draft'', nr_Body = ''b'', nr_Priority = ''normal'', nr_PublishedAt = None, nr_ExpiresAt = None,
       nr_DeletedAt = None, nr_CreatedAt = 4, nr_UpdatedAt = 4, nr_CreatedBy = 1, nr_UpdatedBy = 1\<rparr>]\<rparr>\<rparr>"

theorem public_list_is_published_witness:
  "map_sum (\<lambda>_. ()) (\<lambda>(items, _). map an_ID items)
     (fst (notifUC_ListAnnouncements False (NewPage 1 20) sample_env notice_world)) = Inr [1]"
proof -
  have rows: "announcements (w_db notice_world) =
     [\<lparr>nr_ID = 1, nr_Title = ''a'', nr_Body = ''b'', nr_Priority = ''normal'', nr_PublishedAt = Some 5, nr_ExpiresAt = None,
       nr_DeletedAt = None, nr_CreatedAt = 4, nr_UpdatedAt = 4, nr_CreatedBy = 1, nr_UpdatedBy = 1\<rparr>,
      \<lparr>nr_ID = 2, nr_Title = ''draft'', nr_Body = ''b'', nr_Priority = ''normal'', nr_PublishedAt = None, nr_ExpiresAt = None,
       nr_DeletedAt = None, nr_CreatedAt = 4, nr_UpdatedAt = 4, nr_CreatedBy = 1, nr_UpdatedBy = 1\<rparr>]"
    by (simp add: notice_world_def)
  have t: "clock sample_env k = 1000000000000 + int k" for k by (simp add: sample_env_fields)
  obtain tot where "fst (notifUC_ListAnnouncements False (NewPage 1 20) sample_env notice_world) =
    Inr (map announcement_toDomain (limit_offset 20 0 (announcement_order
      (filter (\<lambda>r. IsPublished (clock sample_env (w_tick notice_world + 1)) (announcement_toDomain r) \<and>
                   nr_ExpiresAt r \<noteq> Some (clock sample_env (w_tick notice_world + 1)))
        (announcements (w_db notice_world))))), tot)"
    using public_list_is_published [OF quiet_sample_env, of "NewPage 1 20" notice_world]
    by (auto simp: NewPage_def Offset_def wrap64_def)
  then show ?thesis
    by (simp add: rows t IsPublished_def announcement_toDomain_def announcement_order_def limit_offset_def)
qed

end
