(* ===== verification/Setting_UC.thy ===== *)
theory Setting_UC
  imports Notif_UC
begin

text \<open>
  System settings: \<open>internal/repository/setting.go\<close> and \<open>internal/usecase/setting.go\<close>. The table's
  unique key is what \<open>ON CONFLICT (key)\<close> relies on; it is an invariant here (\<open>keys_ok\<close>). The
  wrapping of errors is the one of the notification use case.
\<close>

section \<open>Repository\<close>

definition toSetting :: "settingRow \<Rightarrow> setting" where
  "toSetting r = \<lparr>st_Key = sr_Key r, st_Value = sr_Value r, st_Description = sr_Description r,
     st_UpdatedAt = sr_UpdatedAt r, st_UpdatedBy = sr_UpdatedBy r\<rparr>"

definition settingRepo_GetAll :: "setting list comp" where
  "settingRepo_GetAll =
     bind ask (\<lambda>e.
     bind (query (\<lambda>d. sort_key (\<lambda>r. pg_rank e (sr_Key r)) (settings d))) (\<lambda>rows.
     ret (map toSetting rows)))"

text \<open>The zero row that an empty result leaves has the empty key, and so has nothing else.\<close>

definition settingRepo_Get :: "string \<Rightarrow> setting option comp" where
  "settingRepo_Get key =
     bind (query (\<lambda>d. find (\<lambda>r. sr_Key r = key) (settings d))) (\<lambda>row.
     ret (case row of
            None \<Rightarrow> None
          | Some r \<Rightarrow> if sr_Key r = '''' then None else Some (toSetting r)))"

definition upsert :: "string \<Rightarrow> string \<Rightarrow> time \<Rightarrow> int \<Rightarrow> settingRow list \<Rightarrow> settingRow list" where
  "upsert key v t by rs =
     (if list_ex (\<lambda>r. sr_Key r = key) rs
      then update_where (\<lambda>r. sr_Key r = key) (\<lambda>r. r\<lparr>sr_Value := v, sr_UpdatedAt := t, sr_UpdatedBy := Some by\<rparr>) rs
      else rs @ [\<lparr>sr_Key = key, sr_Value = v, sr_Description = '''', sr_UpdatedAt = t, sr_UpdatedBy = Some by\<rparr>])"

text \<open>\<open>NOW()\<close> is the server's clock at the statement.\<close>

definition exec_now :: "(time \<Rightarrow> db \<Rightarrow> db) \<Rightarrow> unit comp" where
  "exec_now f e w = exec (f (clock e (w_tick w))) e w"

definition settingRepo_Set :: "string \<Rightarrow> string \<Rightarrow> int \<Rightarrow> unit comp" where
  "settingRepo_Set key v updatedBy = exec_now (\<lambda>t. settings_update (upsert key v t updatedBy))"

section \<open>Use case\<close>

definition settingUC_GetAll :: "setting list comp" where
  "settingUC_GetAll = internal ''loi lay danh sach cai dat'' settingRepo_GetAll"

definition settingUC_Get :: "string \<Rightarrow> setting comp" where
  "settingUC_Get key =
     bind (internal ''loi lay cai dat'' (settingRepo_Get key)) (\<lambda>s.
     case s of
       None \<Rightarrow> throw (NotFoundErrorf (''cai dat '' @ key @ '' khong ton tai''))
     | Some s \<Rightarrow> ret s)"

definition settingUC_Set :: "string \<Rightarrow> string \<Rightarrow> ctx \<Rightarrow> unit comp" where
  "settingUC_Set key v cx = internal ''loi luu cai dat'' (settingRepo_Set key v (UserID cx))"

section \<open>Laws\<close>

definition keys_ok :: "settingRow list \<Rightarrow> bool" where
  "keys_ok rs \<longleftrightarrow> distinct (map sr_Key rs)"

definition lookup :: "string \<Rightarrow> settingRow list \<Rightarrow> settingRow option" where
  "lookup key rs = find (\<lambda>r. sr_Key r = key) rs"

lemma find_update_where:
  "(\<And>r. P (f r) = P r) \<Longrightarrow> find P (update_where Q f rs) = map_option (\<lambda>r. if Q r then f r else r) (find P rs)"
  by (induction rs) (auto simp: update_where_def)

lemma find_snoc: "find P (xs @ [x]) = (case find P xs of None \<Rightarrow> (if P x then Some x else None) | Some y \<Rightarrow> Some y)"
  by (induction xs) auto

lemma lookup_upsert:
  "lookup k (upsert key v t by rs) =
     (if k = key
      then Some \<lparr>sr_Key = key, sr_Value = v,
             sr_Description = (case lookup key rs of None \<Rightarrow> '''' | Some r \<Rightarrow> sr_Description r),
             sr_UpdatedAt = t, sr_UpdatedBy = Some by\<rparr>
      else lookup k rs)"
proof (cases "list_ex (\<lambda>r. sr_Key r = key) rs")
  case True
  then obtain r where r: "find (\<lambda>r. sr_Key r = key) rs = Some r" "sr_Key r = key"
    by (metis (mono_tags, lifting) find_None_conv list_ex_iff not_None_eq find_Some_in_set)
  have same: "map_option (\<lambda>r. if sr_Key r = key then f r else r) (find (\<lambda>r. sr_Key r = k) rs) =
      find (\<lambda>r. sr_Key r = k) rs" if "k \<noteq> key" for f
    using that by (cases "find (\<lambda>r. sr_Key r = k) rs") (auto dest: find_Some_in_set)
  show ?thesis using True r same by (cases r) (auto simp: upsert_def lookup_def find_update_where)
next
  case False
  then have "find (\<lambda>r. sr_Key r = key) rs = None" by (simp add: find_None_conv list_ex_iff)
  with False show ?thesis by (auto simp: upsert_def lookup_def find_snoc split: option.split)
qed

lemma keys_ok_upsert: "keys_ok rs \<Longrightarrow> keys_ok (upsert key v t by rs)"
  by (auto simp: keys_ok_def upsert_def map_update_where list_ex_iff)

lemma settingUC_Set_okE:
  assumes "settingUC_Set key v cx e w = (Inr x, w')"
  obtains t where "w_db w' = settings_update (upsert key v t (UserID cx)) (w_db w)" and "w_seq w' = w_seq w"
  using assms
  by (auto simp: settingUC_Set_def internal_ok settingRepo_Set_def exec_now_def exec_ok)

lemma settingUC_Get_run:
  "quiet e \<Longrightarrow> key \<noteq> '''' \<Longrightarrow> fst (settingUC_Get key e w) =
     (case lookup key (settings (w_db w)) of
        None \<Rightarrow> Inl (NotFoundErrorf (''cai dat '' @ key @ '' khong ton tai''))
      | Some r \<Rightarrow> Inr (toSetting r))"
  by (auto simp: settingUC_Get_def internal_def settingRepo_Get_def lookup_def run_steps find_None_conv
      split: option.split dest: find_Some_in_set)

text \<open>
  A stored setting is read back. After a successful write of a non-empty key, reading it gives
  the written value, attributed to the writer, with the description it had; every other setting
  reads as before, and no key gets a second row.
\<close>

theorem setting_round_trip:
  assumes "settingUC_Set key v cx e w = (Inr x, w')" and "quiet e" and "key \<noteq> ''''" and "k \<noteq> ''''"
    and "w_db w2 = w_db w'"
  shows "(case fst (settingUC_Get key e w2) of
       Inl _ \<Rightarrow> False
     | Inr s \<Rightarrow> st_Key s = key \<and> st_Value s = v \<and> st_UpdatedBy s = Some (UserID cx) \<and>
         st_Description s = (case fst (settingUC_Get key e w) of Inl _ \<Rightarrow> '''' | Inr s0 \<Rightarrow> st_Description s0)) \<and>
    (k \<noteq> key \<longrightarrow> fst (settingUC_Get k e w2) = fst (settingUC_Get k e w)) \<and>
    (keys_ok (settings (w_db w)) \<longrightarrow> keys_ok (settings (w_db w2)))"
proof -
  from assms(1) obtain t where db: "settings (w_db w2) = upsert key v t (UserID cx) (settings (w_db w))"
    by (rule settingUC_Set_okE) (simp add: assms(5))
  show ?thesis
    using assms(3,4) keys_ok_upsert
    by (simp add: settingUC_Get_run [OF assms(2)] db lookup_upsert toSetting_def split: option.split)
qed

theorem setting_round_trip_witness:
  "case fst (settingUC_Get ''k'' sample_env (snd (settingUC_Set ''k'' ''v'' background sample_env sample_world))) of
     Inl _ \<Rightarrow> False | Inr s \<Rightarrow> st_Value s = ''v''"
proof -
  have "fst (settingUC_Set ''k'' ''v'' background sample_env sample_world) = Inr ()"
    by (simp add: settingUC_Set_def internal_def settingRepo_Set_def exec_now_def run_steps)
  then obtain w' where run: "settingUC_Set ''k'' ''v'' background sample_env sample_world = (Inr (), w')"
    by (metis prod.collapse)
  from setting_round_trip [OF run quiet_sample_env _ _ refl, of "''k''"] show ?thesis
    by (auto simp: run split: sum.splits)
qed

end
