(* ===== verification/Object_Store.thy ===== *)
theory Object_Store
  imports Tables
begin

text \<open>
  \<open>pkg/xstorage\<close>: the object store as its users see it, a map from keys to objects that a network
  fault makes unavailable. The S3 client is third-party; what the provider adds to it (key
  normalisation, the public address, the wrapped errors) is modelled.
\<close>

section \<open>The interface\<close>

locale blob_store =
  fixes get :: "'k \<Rightarrow> 's \<Rightarrow> 'v option"
    and put :: "'k \<Rightarrow> 'v \<Rightarrow> 's \<Rightarrow> 's"
    and del :: "'k \<Rightarrow> 's \<Rightarrow> 's"
  assumes get_put: "get k (put k' v s) = (if k = k' then Some v else get k s)"
    and get_del: "get k (del k' s) = (if k = k' then None else get k s)"
begin

lemma last_put_wins: "get k (put k v (put k v' s)) = Some v"
  by (simp add: get_put)

lemma put_frame: "k \<noteq> k' \<Longrightarrow> get k (put k' v s) = get k s"
  by (simp add: get_put)

lemma put_changes_only: "get k (put k' v s) \<noteq> get k s \<Longrightarrow> k = k'"
  by (auto simp: get_put split: if_splits)

end

type_synonym objects = "(string \<times> string \<times> string) list"

definition object_get :: "string \<Rightarrow> objects \<Rightarrow> (string \<times> string) option" where
  "object_get k s = map_of s k"

definition object_del :: "string \<Rightarrow> objects \<Rightarrow> objects" where
  "object_del k s = filter (\<lambda>(k', v). k' \<noteq> k) s"

definition object_put :: "string \<Rightarrow> string \<times> string \<Rightarrow> objects \<Rightarrow> objects" where
  "object_put k v s = (k, v) # object_del k s"

lemma map_of_object_del: "map_of (object_del k' s) k = (if k = k' then None else map_of s k)"
  by (induction s) (auto simp: object_del_def)

interpretation objects: blob_store object_get object_put object_del
  by unfold_locales (auto simp: object_get_def object_put_def map_of_object_del)

section \<open>The provider (\<open>minio.go\<close>)\<close>

record upload_input =
  up_Key :: string
  up_Body :: "string option" \<comment> \<open>what the reader yields; None: reading it fails\<close>
  up_Size :: int
  up_ContentType :: string

record object_result =
  ob_Body :: string
  ob_ContentType :: string
  ob_Size :: int

definition store_call :: "string \<Rightarrow> string \<Rightarrow> (objects \<Rightarrow> (string + objects \<times> 'a)) \<Rightarrow> 'a comp" where
  "store_call what key f e w =
     (case net_fault e (w_tick w) of
        Some t \<Rightarrow> (Inl (Wrapped (what @ key) (Plain t)), tick w)
      | None \<Rightarrow>
          (case f (w_objects w) of
             Inl t \<Rightarrow> (Inl (Wrapped (what @ key) (Plain t)), tick w)
           | Inr (s, x) \<Rightarrow> (Inr x, (tick w)\<lparr>w_objects := s\<rparr>)))"

text \<open>
  \<open>PutObject\<close> of the S3 client is given the size of the object: a negative one stands for an unknown
  length, and then it stores all the reader yields; otherwise the object has exactly that many bytes,
  and a reader that yields fewer makes it fail.
\<close>

definition sized_body :: "int \<Rightarrow> string \<Rightarrow> string option" where
  "sized_body n b = (if n < 0 then Some b else if int (length b) < n then None else Some (take (nat n) b))"

definition store_Upload :: "string \<Rightarrow> upload_input \<Rightarrow> string comp" where
  "store_Upload publicURL inp =
     (let key = TrimLeft (up_Key inp) ''/'' in
      store_call ''xstorage: upload '' key (\<lambda>s.
        case up_Body inp of
          None \<Rightarrow> Inl ''read error''
        | Some b \<Rightarrow>
            (case sized_body (up_Size inp) b of
               None \<Rightarrow> Inl ''unexpected EOF''
             | Some b \<Rightarrow>
                 Inr (object_put key (up_ContentType inp, b) s,
                      if publicURL \<noteq> '''' then publicURL @ ''/'' @ key else key))))"

definition store_GetObject :: "string \<Rightarrow> object_result comp" where
  "store_GetObject key =
     (let key = TrimLeft key ''/'' in
      store_call ''xstorage: stat '' key (\<lambda>s.
        case object_get key s of
          None \<Rightarrow> Inl ''The specified key does not exist.''
        | Some (ct, b) \<Rightarrow> Inr (s, \<lparr>ob_Body = b, ob_ContentType = ct, ob_Size = int (length b)\<rparr>)))"

definition store_Delete :: "string \<Rightarrow> unit comp" where
  "store_Delete key =
     (let key = TrimLeft key ''/'' in
      store_call ''xstorage: delete '' key (\<lambda>s. Inr (object_del key s, ())))"

text \<open>\<open>New\<close> knows one provider under four names.\<close>

definition provider_known :: "string \<Rightarrow> bool" where
  "provider_known p \<longleftrightarrow> p \<in> set [''minio'', ''r2'', ''s3'', '''']"

section \<open>Laws\<close>

lemma store_call_ok [ok_iff]:
  "store_call what key f e w = (Inr x, w') \<longleftrightarrow>
     net_fault e (w_tick w) = None \<and> (\<exists>s. f (w_objects w) = Inr (s, x) \<and> w' = (tick w)\<lparr>w_objects := s\<rparr>)"
  by (auto simp: store_call_def split: option.splits sum.splits)

lemma store_call_db [simp]: "w_db (snd (store_call what key f e w)) = w_db w"
  by (simp add: store_call_def split: option.split sum.split)

lemma sized_body_all [simp]: "sized_body (int (length b)) b = Some b" "sized_body (- 1) b = Some b"
  by (simp_all add: sized_body_def)

lemma store_Upload_ok:
  "store_Upload pub inp e w = (Inr url, w') \<longleftrightarrow>
     (\<exists>b. Option.bind (up_Body inp) (sized_body (up_Size inp)) = Some b \<and> net_fault e (w_tick w) = None \<and>
       url = (let key = TrimLeft (up_Key inp) ''/'' in if pub \<noteq> '''' then pub @ ''/'' @ key else key) \<and>
       w' = (tick w)\<lparr>w_objects := object_put (TrimLeft (up_Key inp) ''/'') (up_ContentType inp, b) (w_objects w)\<rparr>)"
  by (auto simp: store_Upload_def Let_def store_call_ok split: option.splits)

lemma store_Upload_other_keys:
  "k \<noteq> TrimLeft (up_Key inp) ''/'' \<Longrightarrow>
     object_get k (w_objects (snd (store_Upload pub inp e w))) = object_get k (w_objects w)"
  by (auto simp: store_Upload_def store_call_def Let_def objects.put_frame split: option.split sum.split)

lemma store_GetObject_ok:
  "store_GetObject key e w = (Inr r, w') \<longleftrightarrow>
     net_fault e (w_tick w) = None \<and> w' = tick w \<and>
     object_get (TrimLeft key ''/'') (w_objects w) = Some (ob_ContentType r, ob_Body r) \<and>
     ob_Size r = int (length (ob_Body r))"
  by (cases r) (auto simp: store_GetObject_def Let_def store_call_ok tick_def split: option.splits)

end
