(* ===== verification/Storage_Handler.thy ===== *)
theory Storage_Handler
  imports Object_Store Token
begin

text \<open>
  \<open>internal/server/http/handler/storage.go\<close>: uploads in two steps under a signed capability, and
  the public read of an object. HMAC-SHA256 under the handler's secret, in hexadecimal, is the
  parameter \<open>sh_mac\<close>; a handler's result is its success value or the error it renders.
\<close>

section \<open>Package \<open>path\<close>\<close>

definition path_Ext :: "string \<Rightarrow> string" where
  "path_Ext p =
     (let r = takeWhile (\<lambda>c. c \<noteq> CHR ''/'') (rev p) in
      if CHR ''.'' \<in> set r then CHR ''.'' # rev (takeWhile (\<lambda>c. c \<noteq> CHR ''.'') r) else '''')"

text \<open>\<open>path.Clean\<close> of a rooted path: the stack of its components, the last one on top.\<close>

fun clean_stack :: "string list \<Rightarrow> string list \<Rightarrow> string list" where
  "clean_stack st [] = st"
| "clean_stack st (p # ps) =
     (if p = '''' \<or> p = ''.'' then clean_stack st ps
      else if p = ''..'' then clean_stack (tl st) ps
      else clean_stack (p # st) ps)"

definition path_Clean_rooted :: "string \<Rightarrow> string" where
  "path_Clean_rooted p = CHR ''/'' # Join (rev (clean_stack [] (Split p (CHR ''/'')))) ''/''"

section \<open>The handler\<close>

record storage_handler =
  sh_maxUploadBytes :: int
  sh_mac :: "string \<Rightarrow> string" \<comment> \<open>\<open>hex(hmac_sha256(hmacSecret, _))\<close>\<close>
  sh_publicBaseURL :: string

definition NewStorageHandler :: "int \<Rightarrow> (string \<Rightarrow> string) \<Rightarrow> string \<Rightarrow> storage_handler" where
  "NewStorageHandler maxBytes mac publicBaseURL =
     \<lparr>sh_maxUploadBytes = (if maxBytes \<le> 0 then 10 * 1024 * 1024 else maxBytes), sh_mac = mac,
      sh_publicBaseURL = TrimRight publicBaseURL ''/''\<rparr>"

record requestUploadReq =
  uq_Name :: string
  uq_Size :: int
  uq_ContentType :: string

record requestUploadResp =
  us_UploadURL :: string
  us_ObjectPath :: string
  us_ExpiresIn :: int

definition allowedImageTypes :: "(string \<times> string) list" where
  "allowedImageTypes =
     [(''image/jpeg'', ''.jpg''), (''image/jpg'', ''.jpg''), (''image/png'', ''.png''),
      (''image/webp'', ''.webp''), (''image/gif'', ''.gif'')]"

definition token_message :: "string \<Rightarrow> string \<Rightarrow> int \<Rightarrow> string" where
  "token_message key contentType expUnix = key @ ''|'' @ contentType @ ''|'' @ itoa expUnix"

definition signUploadToken :: "storage_handler \<Rightarrow> string \<Rightarrow> string \<Rightarrow> time \<Rightarrow> string" where
  "signUploadToken h key contentType exp =
     (let expUnix = Unix exp in
      itoa expUnix @ ''.'' @ sh_mac h (token_message key contentType expUnix))"

definition verifyUploadToken :: "storage_handler \<Rightarrow> string \<Rightarrow> string \<Rightarrow> string \<Rightarrow> unit comp" where
  "verifyUploadToken h key contentType token =
     (case SplitN2 token (CHR ''.'') of
        [a, b] \<Rightarrow>
          (case ParseInt a of
             (expUnix, ok) \<Rightarrow>
               if \<not> ok then throw (Plain ''malformed token exp'')
               else bind now (\<lambda>t.
                 if expUnix < Unix t then throw (Plain ''token expired'')
                 else if signUploadToken h key contentType (time_Unix expUnix) \<noteq> token
                   then throw (Plain ''token mismatch'')
                 else ret ()))
      | _ \<Rightarrow> throw (Plain ''malformed token''))"

definition upload_ext :: "unicode \<Rightarrow> string \<Rightarrow> string \<Rightarrow> string" where
  "upload_ext U name ext =
     (let cleanExt = ToLower U (path_Ext name) in
      if cleanExt \<in> {''.jpg'', ''.jpeg'', ''.png'', ''.webp'', ''.gif''}
      then (if cleanExt = ''.jpeg'' then ''.jpg'' else cleanExt) else ext)"

definition upload_ttl :: int where
  "upload_ttl = 15 * 60 * second"

text \<open>The body is absent when binding it fails.\<close>

definition RequestUploadURL :: "storage_handler \<Rightarrow> requestUploadReq option \<Rightarrow> requestUploadResp comp" where
  "RequestUploadURL h body =
     (case body of
        None \<Rightarrow> throw (BadRequestErrorf ''body khong hop le'')
      | Some req \<Rightarrow>
          if uq_Size req \<le> 0 then throw (BadRequestErrorf ''size phai lon hon 0'')
          else if sh_maxUploadBytes h < uq_Size req
            then throw (BadRequestErrorf (''file vuot gioi han '' @ itoa (sh_maxUploadBytes h) @ '' bytes''))
          else bind ask (\<lambda>e.
            let ct = ToLower (unicode_tables e) (TrimSpace (uq_ContentType req)) in
            case map_of allowedImageTypes ct of
              None \<Rightarrow> throw (BadRequestErrorf (''content type khong ho tro: '' @ ct))
            | Some ext \<Rightarrow>
                let ext = upload_ext (unicode_tables e) (uq_Name req) ext in
                bind now (\<lambda>t.
                bind (attempt (rand_Read 12)) (\<lambda>r.
                case r of
                  Inl err \<Rightarrow> throw (Wrap (InternalErrorf ''khong tao duoc khoa upload'') err)
                | Inr random \<Rightarrow>
                    let key = Join [''uploads'', format_year t, format_month t,
                                hex_EncodeToString random @ ext] ''/'';
                        token = signUploadToken h key ct (t + upload_ttl);
                        uploadURL = ''/api/v1/storage/uploads/direct?key='' @ key @ ''&ct='' @ ct @
                          ''&token='' @ token;
                        uploadURL = (if sh_publicBaseURL h \<noteq> '''' then sh_publicBaseURL h @ uploadURL
                                     else uploadURL) in
                    ret \<lparr>us_UploadURL = uploadURL, us_ObjectPath = ''/'' @ key,
                         us_ExpiresIn = upload_ttl div second\<rparr>))))"

text \<open>
  A \<open>PUT\<close>: its query parameters, its headers and its body. \<open>ContentLength\<close> is -1 for a chunked
  body; \<open>MaxBytesReader\<close> fails once more than its limit has been read.
\<close>

record direct_req =
  dq_key :: string
  dq_ct :: string
  dq_token :: string
  dq_ContentType :: string
  dq_Chunked :: bool
  dq_Body :: string

definition ContentLength :: "direct_req \<Rightarrow> int" where
  "ContentLength rq = (if dq_Chunked rq then -1 else int (length (dq_Body rq)))"

definition MaxBytesReader :: "string \<Rightarrow> int \<Rightarrow> string option" where
  "MaxBytesReader body n = (if int (length body) \<le> n then Some body else None)"

definition DirectUpload :: "storage_handler \<Rightarrow> string \<Rightarrow> direct_req \<Rightarrow> unit comp" where
  "DirectUpload h storageURL rq =
     (let key = dq_key rq; ct = dq_ct rq; token = dq_token rq in
      if key = '''' \<or> ct = '''' \<or> token = '''' then throw (BadRequestErrorf ''thieu key/ct/token'')
      else bind (attempt (verifyUploadToken h key ct token)) (\<lambda>v.
        case v of
          Inl err \<Rightarrow> bind ask (\<lambda>e. throw (BadRequestErrorf (''token khong hop le: '' @ Error (db_text e) err)))
        | Inr _ \<Rightarrow> bind ask (\<lambda>e.
            let gotCT = ToLower (unicode_tables e) (TrimSpace (dq_ContentType rq)) in
            if \<not> HasPrefix gotCT ct
            then throw (BadRequestErrorf (''content-type khong khop token: '' @ gotCT @ '' <> '' @ ct))
            else if sh_maxUploadBytes h < ContentLength rq
            then throw (BadRequestErrorf (''file vuot gioi han '' @ itoa (sh_maxUploadBytes h) @ '' bytes''))
            else bind (attempt (store_Upload storageURL
                   \<lparr>up_Key = key, up_Body = MaxBytesReader (dq_Body rq) (sh_maxUploadBytes h + 1024),
                    up_Size = ContentLength rq, up_ContentType = ct\<rparr>)) (\<lambda>u.
              case u of
                Inl err \<Rightarrow> throw (Wrap (InternalErrorf ''upload that bai'') err)
              | Inr _ \<Rightarrow> ret ()))))"

text \<open>\<open>None\<close> is the bare 404; an object is streamed with its headers.\<close>

definition Serve :: "string \<Rightarrow> object_result option comp" where
  "Serve raw =
     (if raw = '''' then throw (BadRequestErrorf ''thieu object path'')
      else
        (let clean = path_Clean_rooted raw in
         if Contains clean ''/../'' \<or> HasPrefix clean ''/..''
         then throw (BadRequestErrorf ''object path khong hop le'')
         else
           (let key = TrimPrefix clean ''/'' in
            if key = '''' then throw (BadRequestErrorf ''thieu object path'')
            else bind (attempt (store_GetObject key)) (\<lambda>r.
              case r of Inl err \<Rightarrow> ret None | Inr obj \<Rightarrow> ret (Some obj)))))"

section \<open>Object keys\<close>

text \<open>What a key and a content type issued by the handler are made of.\<close>

definition plain_part :: "string \<Rightarrow> bool" where
  "plain_part p \<longleftrightarrow> p \<noteq> '''' \<and> p \<noteq> ''.'' \<and> p \<noteq> ''..'' \<and> CHR ''/'' \<notin> set p"

definition separators :: "char set" where
  "separators = {CHR ''/'', CHR ''|'', CHR ''&'', CHR ''.''}"

lemma digit_not_separator: "is_digit c \<or> c = CHR ''-'' \<Longrightarrow> c \<notin> separators"
  by (auto simp: separators_def is_digit_def byte_def)

lemma hex_not_separator: "is_hex c \<Longrightarrow> c \<notin> separators"
  by (auto simp: separators_def is_hex_def is_digit_def byte_def)

lemma itoa_no_separator: "c \<in> separators \<Longrightarrow> c \<notin> set (itoa i)"
  using set_itoa digit_not_separator by blast

lemma format_no_separator: "c \<in> separators \<Longrightarrow> c \<notin> set (format_year t) \<union> set (format_month t)"
  using itoa_no_separator [of c] by (auto simp: format_year_def format_month_def pad2_def Let_def separators_def)

lemma no_dot_plain: "p \<noteq> '''' \<Longrightarrow> \<forall>c \<in> separators. c \<notin> set p \<Longrightarrow> plain_part p"
  by (auto simp: plain_part_def separators_def)

lemma upload_ext_range:
  "ext \<in> {''.jpg'', ''.png'', ''.webp'', ''.gif''} \<Longrightarrow>
   upload_ext U name ext \<in> {''.jpg'', ''.png'', ''.webp'', ''.gif''}"
  by (auto simp: upload_ext_def Let_def)

definition upload_key :: "time \<Rightarrow> string \<Rightarrow> string \<Rightarrow> string list" where
  "upload_key t random ext = [''uploads'', format_year t, format_month t, hex_EncodeToString random @ ext]"

lemma format_nonempty: "format_year t \<noteq> ''''" "format_month t \<noteq> ''''"
  by (simp_all add: format_year_def format_month_def pad2_def Let_def)

lemma hex_no_separator: "c \<in> separators \<Longrightarrow> c \<notin> set (hex_EncodeToString s)"
  using set_hex hex_not_separator by blast

lemma upload_key_parts:
  assumes "ext \<in> {''.jpg'', ''.png'', ''.webp'', ''.gif''}"
  shows "\<forall>p \<in> set (upload_key t random ext). plain_part p"
    and "CHR ''|'' \<notin> set (Join (upload_key t random ext) ''/'')"
    and "CHR ''&'' \<notin> set (Join (upload_key t random ext) ''/'')"
proof -
  have sep: "CHR ''/'' \<in> separators" "CHR ''|'' \<in> separators" "CHR ''&'' \<in> separators"
    by (simp_all add: separators_def)
  have name: "plain_part (hex_EncodeToString random @ ext)"
    using assms hex_no_separator [OF sep(1), of random]
    by (auto simp: plain_part_def append_eq_Cons_conv)
  show "\<forall>p \<in> set (upload_key t random ext). plain_part p"
    using name no_dot_plain [OF format_nonempty(1)] no_dot_plain [OF format_nonempty(2)] format_no_separator
    by (simp add: upload_key_def) (simp add: plain_part_def)
  show "CHR ''|'' \<notin> set (Join (upload_key t random ext) ''/'')"
    using assms format_no_separator [OF sep(2)] hex_no_separator [OF sep(2), of random]
    by (auto simp: upload_key_def)
  show "CHR ''&'' \<notin> set (Join (upload_key t random ext) ''/'')"
    using assms format_no_separator [OF sep(3)] hex_no_separator [OF sep(3), of random]
    by (auto simp: upload_key_def)
qed

lemma allowed_types:
  "map_of allowedImageTypes ct = Some ext \<Longrightarrow>
   ext \<in> {''.jpg'', ''.png'', ''.webp'', ''.gif''} \<and> CHR ''|'' \<notin> set ct \<and> CHR ''&'' \<notin> set ct \<and> ct \<noteq> ''''"
  by (auto simp: allowedImageTypes_def split: if_splits)

text \<open>What a successful request returns.\<close>

lemma RequestUploadURL_okE:
  assumes "RequestUploadURL h body e w = (Inr resp, w')"
  obtains req ct random ext where "body = Some req" "0 < uq_Size req" "uq_Size req \<le> sh_maxUploadBytes h"
    "ct = ToLower (unicode_tables e) (TrimSpace (uq_ContentType req))" "ct \<in> fst ` set allowedImageTypes"
    "CHR ''|'' \<notin> set ct" "CHR ''&'' \<notin> set ct" "ct \<noteq> ''''"
    "ext \<in> {''.jpg'', ''.png'', ''.webp'', ''.gif''}"
    "us_ObjectPath resp = CHR ''/'' # Join (upload_key (clock e (w_tick w)) random ext) ''/''"
    "us_UploadURL resp = sh_publicBaseURL h @ ''/api/v1/storage/uploads/direct?key='' @
       Join (upload_key (clock e (w_tick w)) random ext) ''/'' @ ''&ct='' @ ct @ ''&token='' @
       signUploadToken h (Join (upload_key (clock e (w_tick w)) random ext) ''/'') ct
         (clock e (w_tick w) + upload_ttl)"
    "w_db w' = w_db w" "w_objects w' = w_objects w"
proof -
  from assms obtain req where req: "body = Some req" by (auto simp: RequestUploadURL_def throw_def split: option.splits)
  let ?ct = "ToLower (unicode_tables e) (TrimSpace (uq_ContentType req))"
  from assms req have size: "0 < uq_Size req" "uq_Size req \<le> sh_maxUploadBytes h"
    by (auto simp: RequestUploadURL_def throw_def split: if_splits)
  from assms req size obtain ext0 where ext0: "map_of allowedImageTypes ?ct = Some ext0"
    by (auto simp: RequestUploadURL_def throw_def bind_def ask_def Let_def split: option.splits)
  from assms req size ext0 obtain random where "rand_Read 12 e (tick w) = (Inr random, w')" and
    resp: "ret \<lparr>us_UploadURL = (if sh_publicBaseURL h \<noteq> '''' then sh_publicBaseURL h @
       (''/api/v1/storage/uploads/direct?key='' @ Join (upload_key (clock e (w_tick w)) random
          (upload_ext (unicode_tables e) (uq_Name req) ext0)) ''/'' @ ''&ct='' @ ?ct @ ''&token='' @
        signUploadToken h (Join (upload_key (clock e (w_tick w)) random
          (upload_ext (unicode_tables e) (uq_Name req) ext0)) ''/'') ?ct (clock e (w_tick w) + upload_ttl))
       else ''/api/v1/storage/uploads/direct?key='' @ Join (upload_key (clock e (w_tick w)) random
          (upload_ext (unicode_tables e) (uq_Name req) ext0)) ''/'' @ ''&ct='' @ ?ct @ ''&token='' @
        signUploadToken h (Join (upload_key (clock e (w_tick w)) random
          (upload_ext (unicode_tables e) (uq_Name req) ext0)) ''/'') ?ct (clock e (w_tick w) + upload_ttl)),
     us_ObjectPath = ''/'' @ Join (upload_key (clock e (w_tick w)) random
          (upload_ext (unicode_tables e) (uq_Name req) ext0)) ''/'',
     us_ExpiresIn = upload_ttl div second\<rparr> e w' = (Inr resp, w')"
    by (auto simp: RequestUploadURL_def bind_def ask_def Let_def now_def attempt_def throw_def ret_def upload_key_def
        split: prod.splits sum.splits)
  moreover from this(1) have "w_db w' = w_db w" "w_objects w' = w_objects w"
    by (auto simp: rand_Read_def split: option.splits)
  moreover from ext0 have "?ct \<in> fst ` set allowedImageTypes" by (metis map_of_eq_None_iff option.distinct(1))
  ultimately show thesis
    using that [of req ?ct "upload_ext (unicode_tables e) (uq_Name req) ext0" random] req size allowed_types [OF ext0]
      upload_ext_range by (auto simp: ret_def)
qed

text \<open>What a token is accepted for.\<close>

lemma verifyUploadToken_ok:
  assumes "verifyUploadToken h key ct token e w = (Inr x, w')"
  obtains n where "token = signUploadToken h key ct (time_Unix n)" "Unix (clock e (w_tick w)) \<le> n" "w' = tick w"
  using assms
  by (auto simp: verifyUploadToken_def throw_def ret_def bind_def now_def split: list.splits prod.splits if_splits)

lemma verify_signed:
  assumes "in_int64 (Unix exp)" and "Unix (clock e (w_tick w)) \<le> Unix exp"
  shows "verifyUploadToken h key ct (signUploadToken h key ct exp) e w = (Inr (), tick w)"
proof -
  have "CHR ''.'' \<notin> set (itoa (Unix exp))" by (rule itoa_no_separator) (simp add: separators_def)
  from SplitN2_first [OF this] show ?thesis
    using assms by (simp add: verifyUploadToken_def signUploadToken_def Let_def ParseInt_itoa run_steps)
qed

lemma same_message:
  assumes "token_message key ct n = token_message key0 ct0 n" and "CHR ''|'' \<notin> set key0" "CHR ''|'' \<notin> set ct0"
  shows "key = key0 \<and> ct = ct0"
proof -
  from assms(1) have eq: "key @ CHR ''|'' # ct = key0 @ CHR ''|'' # ct0" by (simp add: token_message_def)
  then have "count_list (key @ CHR ''|'' # ct) (CHR ''|'') = count_list (key0 @ CHR ''|'' # ct0) (CHR ''|'')"
    by simp
  with assms(2,3) have "CHR ''|'' \<notin> set key" by (simp add: count_list_0_iff)
  from cut_at_first [OF eq this assms(2)] show ?thesis by simp
qed

text \<open>Two equal tokens carry one expiry, and the MACs of their messages agree.\<close>

lemma signed_same:
  assumes "signUploadToken h key ct (time_Unix n) = signUploadToken h key0 ct0 exp"
  shows "n = Unix exp \<and> sh_mac h (token_message key ct n) = sh_mac h (token_message key0 ct0 n)"
proof -
  have dot: "CHR ''.'' \<notin> set (itoa i)" for i by (rule itoa_no_separator) (simp add: separators_def)
  from assms have "itoa n @ CHR ''.'' # sh_mac h (token_message key ct n) =
      itoa (Unix exp) @ CHR ''.'' # sh_mac h (token_message key0 ct0 (Unix exp))"
    by (simp add: signUploadToken_def Let_def)
  from cut_at_first [OF this dot dot] show ?thesis using itoa_inject by auto
qed

lemma DirectUpload_okE:
  assumes "DirectUpload h url rq e w = (Inr x, w')"
  obtains n where "dq_token rq = signUploadToken h (dq_key rq) (dq_ct rq) (time_Unix n)"
    "Unix (clock e (w_tick w)) \<le> n" "ContentLength rq \<le> sh_maxUploadBytes h"
    "MaxBytesReader (dq_Body rq) (sh_maxUploadBytes h + 1024) = Some (dq_Body rq)"
    "w_objects w' = object_put (TrimLeft (dq_key rq) ''/'') (dq_ct rq, dq_Body rq) (w_objects w)"
    "w_db w' = w_db w"
proof -
  have sized: "sized_body (ContentLength rq) (dq_Body rq) = Some (dq_Body rq)" by (simp add: ContentLength_def)
  from assms obtain y w1 where v: "verifyUploadToken h (dq_key rq) (dq_ct rq) (dq_token rq) e w = (Inr y, w1)"
    by (auto simp: DirectUpload_def Let_def throw_def bind_def attempt_def ask_def split: if_splits prod.splits sum.splits)
  then obtain n where n: "dq_token rq = signUploadToken h (dq_key rq) (dq_ct rq) (time_Unix n)"
    "Unix (clock e (w_tick w)) \<le> n" "w1 = tick w" by (rule verifyUploadToken_ok)
  from assms v obtain s w2 where up: "store_Upload url \<lparr>up_Key = dq_key rq,
      up_Body = MaxBytesReader (dq_Body rq) (sh_maxUploadBytes h + 1024), up_Size = ContentLength rq,
      up_ContentType = dq_ct rq\<rparr> e w1 = (Inr s, w2)" and "w' = w2" "ContentLength rq \<le> sh_maxUploadBytes h"
    by (auto simp: DirectUpload_def Let_def throw_def ret_def bind_def attempt_def ask_def
        split: if_splits prod.splits sum.splits)
  with n up show thesis
    using that by (auto simp: store_Upload_ok MaxBytesReader_def Let_def sized split: if_splits)
qed

section \<open>Properties\<close>

text \<open>
  C15: an upload capability is good for exactly one object. The token in the address that the server
  issued is accepted only until fifteen minutes after the issue, and only together with the key and
  the content type of that address, which is the announced object path: a client that gets it accepted
  for another key or type has found a second message with the very MAC of the one that was signed.
  The upload touches no object but the one of the key it was accepted for.
\<close>

theorem upload_capability_scoped:
  assumes "RequestUploadURL h body e w = (Inr resp, w1)"
    and "us_UploadURL resp = sh_publicBaseURL h @ ''/api/v1/storage/uploads/direct?key='' @ key @ ''&ct='' @ ct @
      ''&token='' @ token" and "CHR ''&'' \<notin> set key" and "CHR ''&'' \<notin> set ct"
    and "DirectUpload h url rq e2 w2 = (Inr x, w3)" and "dq_token rq = token"
  shows "us_ObjectPath resp = CHR ''/'' # key \<and>
    (clock e2 (w_tick w2)) div second \<le> (clock e (w_tick w) + upload_ttl) div second \<and>
    (k \<noteq> TrimLeft (dq_key rq) ''/'' \<longrightarrow> object_get k (w_objects w3) = object_get k (w_objects w2)) \<and>
    (let signed = token_message key ct (Unix (clock e (w_tick w) + upload_ttl));
         accepted = token_message (dq_key rq) (dq_ct rq) (Unix (clock e (w_tick w) + upload_ttl)) in
     (dq_key rq = key \<and> dq_ct rq = ct) \<or> (accepted \<noteq> signed \<and> sh_mac h accepted = sh_mac h signed))"
proof -
  from assms(1) obtain ct0 random ext where ct0: "CHR ''|'' \<notin> set ct0" "CHR ''&'' \<notin> set ct0"
    and ext: "ext \<in> {''.jpg'', ''.png'', ''.webp'', ''.gif''}"
    and path: "us_ObjectPath resp = CHR ''/'' # Join (upload_key (clock e (w_tick w)) random ext) ''/''"
    and addr: "us_UploadURL resp = sh_publicBaseURL h @ ''/api/v1/storage/uploads/direct?key='' @
       Join (upload_key (clock e (w_tick w)) random ext) ''/'' @ ''&ct='' @ ct0 @ ''&token='' @
       signUploadToken h (Join (upload_key (clock e (w_tick w)) random ext) ''/'') ct0
         (clock e (w_tick w) + upload_ttl)"
    by (rule RequestUploadURL_okE)
  let ?key = "Join (upload_key (clock e (w_tick w)) random ext) ''/''"
  let ?exp = "clock e (w_tick w) + upload_ttl"
  note parts = upload_key_parts [OF ext, of "clock e (w_tick w)" random]
  from assms(2) addr have "key @ CHR ''&'' # ''ct='' @ ct @ ''&token='' @ token =
      ?key @ CHR ''&'' # ''ct='' @ ct0 @ ''&token='' @ signUploadToken h ?key ct0 ?exp" by simp
  from cut_at_first [OF this assms(3) parts(3)] have key: "key = ?key"
    and "ct @ CHR ''&'' # ''token='' @ token = ct0 @ CHR ''&'' # ''token='' @ signUploadToken h ?key ct0 ?exp" by simp_all
  from cut_at_first [OF this(2) assms(4) ct0(2)] have ct: "ct = ct0"
    and token: "token = signUploadToken h ?key ct0 ?exp" by simp_all
  from assms(5) obtain n where n: "dq_token rq = signUploadToken h (dq_key rq) (dq_ct rq) (time_Unix n)"
    "Unix (clock e2 (w_tick w2)) \<le> n" and len: "ContentLength rq \<le> sh_maxUploadBytes h"
    and objs: "w_objects w3 = object_put (TrimLeft (dq_key rq) ''/'') (dq_ct rq, dq_Body rq) (w_objects w2)"
    by (rule DirectUpload_okE)
  from n(1) assms(6) token have "signUploadToken h (dq_key rq) (dq_ct rq) (time_Unix n) = signUploadToken h ?key ct0 ?exp"
    by simp
  from signed_same [OF this] have same: "n = Unix ?exp"
    "sh_mac h (token_message (dq_key rq) (dq_ct rq) (Unix ?exp)) = sh_mac h (token_message key ct (Unix ?exp))"
    unfolding key ct by blast+
  have "dq_key rq = key \<and> dq_ct rq = ct" if "token_message (dq_key rq) (dq_ct rq) (Unix ?exp) = token_message key ct (Unix ?exp)"
    using same_message [OF that [unfolded key ct] parts(2) ct0(1)] by (simp add: key ct)
  with same(2) have "(dq_key rq = key \<and> dq_ct rq = ct) \<or>
      (token_message (dq_key rq) (dq_ct rq) (Unix ?exp) \<noteq> token_message key ct (Unix ?exp) \<and>
       sh_mac h (token_message (dq_key rq) (dq_ct rq) (Unix ?exp)) = sh_mac h (token_message key ct (Unix ?exp)))"
    by blast
  moreover from n(2) same(1) have "(clock e2 (w_tick w2)) div second \<le> ?exp div second" by (simp add: Unix_def)
  ultimately show ?thesis using key path objs objects.put_frame unfolding Let_def by simp
qed

section \<open>Reading\<close>

lemma clean_stack_plain: "\<forall>p \<in> set ps. plain_part p \<Longrightarrow> clean_stack st ps = rev ps @ st"
  by (induction ps arbitrary: st) (auto simp: plain_part_def)

lemma clean_stack_all_plain:
  "\<forall>p \<in> set st. plain_part p \<Longrightarrow> \<forall>p \<in> set ps. CHR ''/'' \<notin> set p \<Longrightarrow>
   \<forall>p \<in> set (clean_stack st ps). plain_part p"
proof (induction ps arbitrary: st)
  case (Cons p ps)
  have tl: "\<forall>p \<in> set (tl st). plain_part p" using Cons.prems(1) by (cases st) auto
  have "plain_part p" if "p \<noteq> ''''" "p \<noteq> ''.''" "p \<noteq> ''..''"
    using that Cons.prems(2) by (simp add: plain_part_def)
  then have top: "\<forall>q \<in> set (p # st). plain_part q" if "p \<noteq> ''''" "p \<noteq> ''.''" "p \<noteq> ''..''"
    using that Cons.prems(1) by (metis set_ConsD)
  have rest: "\<forall>p \<in> set ps. CHR ''/'' \<notin> set p" using Cons.prems(2) by (metis list.set_intros(2))
  note ih = Cons.IH [OF Cons.prems(1) rest] Cons.IH [OF tl rest] Cons.IH [OF top rest]
  consider "p = '''' \<or> p = ''.''" | "\<not> (p = '''' \<or> p = ''.'')" "p = ''..''"
    | "\<not> (p = '''' \<or> p = ''.'')" "p \<noteq> ''..''" by blast
  then show ?case
  proof cases
    case 1
    then show ?thesis unfolding clean_stack.simps(2) by (subst if_P) (assumption, rule ih(1))
  next
    case 2
    then show ?thesis unfolding clean_stack.simps(2) if_not_P [OF 2(1)] if_P [OF 2(2)] by (intro ih(2))
  next
    case 3
    then have ne: "p \<noteq> ''''" "p \<noteq> ''.''" by blast+
    show ?thesis unfolding clean_stack.simps(2) if_not_P [OF 3(1)] if_not_P [OF 3(2)] by (rule ih(3) [OF ne 3(2)])
  qed
qed simp

definition clean_parts :: "string \<Rightarrow> string list" where
  "clean_parts raw = rev (clean_stack [] (Split raw (CHR ''/'')))"

lemma clean_parts_plain: "\<forall>p \<in> set (clean_parts raw). plain_part p"
  unfolding clean_parts_def set_rev by (rule clean_stack_all_plain) (auto dest: Split_parts)

lemma no_slash: "\<forall>p \<in> set ps. plain_part p \<Longrightarrow> \<forall>p \<in> set ps. CHR ''/'' \<notin> set p"
  by (simp add: plain_part_def)

lemma clean_parts_Join:
  "ps \<noteq> [] \<Longrightarrow> \<forall>p \<in> set ps. plain_part p \<Longrightarrow> clean_parts (Join ps ''/'') = ps"
  using Split_Join [OF _ no_slash] by (simp add: clean_parts_def clean_stack_plain)

lemma plain_part_hd: "plain_part p \<Longrightarrow> p \<noteq> [] \<and> hd (p @ q) \<noteq> CHR ''/''"
  by (cases p) (auto simp: plain_part_def)

lemma Join_plain_hd: "ps \<noteq> [] \<Longrightarrow> \<forall>p \<in> set ps. plain_part p \<Longrightarrow> Join ps s \<noteq> '''' \<and> hd (Join ps s) \<noteq> CHR ''/''"
  using plain_part_hd [of "hd ps" "[]"] plain_part_hd [of "hd ps" "s @ Join (tl ps) s"]
  by (cases "(ps, s)" rule: Join.cases) simp_all

lemma TrimLeft_Join: "\<forall>p \<in> set ps. plain_part p \<Longrightarrow> TrimLeft (Join ps ''/'') ''/'' = Join ps ''/''"
  using Join_plain_hd [of ps "''/''"]
  by (cases ps; cases "Join ps ''/''") (auto simp: TrimLeft_def)

text \<open>The explicit test for a parent component never fires inside a cleaned path.\<close>

lemma no_parent_inside:
  assumes "\<forall>p \<in> set ps. plain_part p"
  shows "\<not> Contains (CHR ''/'' # Join ps ''/'') ''/../''"
proof
  assume "Contains (CHR ''/'' # Join ps ''/'') ''/../''"
  then obtain a b where "CHR ''/'' # Join ps ''/'' = a @ CHR ''/'' # ''..'' @ CHR ''/'' # b"
    by (auto simp: Contains_iff)
  then have "Split (CHR ''/'' # Join ps ''/'') (CHR ''/'') =
      Split a (CHR ''/'') @ [''..''] @ Split b (CHR ''/'')"
    by (simp only: Split_append) (simp add: Split_none)
  moreover have "set (Split (CHR ''/'' # Join ps ''/'') (CHR ''/'')) \<subseteq> {''''} \<union> set ps"
    by (cases "ps = []") (use assms in \<open>auto simp: Split_Join no_slash\<close>)
  ultimately show False using assms by (auto simp: plain_part_def)
qed

lemma Serve_plain:
  assumes "clean_parts raw = ps" and "ps \<noteq> []" and "raw \<noteq> ''''" and "\<not> prefix ''..'' (hd ps)"
  shows "Serve raw e w = (case store_GetObject (Join ps ''/'') e w of
    (Inl _, w') \<Rightarrow> (Inr None, w') | (Inr obj, w') \<Rightarrow> (Inr (Some obj), w'))"
proof -
  have plain: "\<forall>p \<in> set ps. plain_part p" using clean_parts_plain [of raw] assms(1) by simp
  have clean: "path_Clean_rooted raw = CHR ''/'' # Join ps ''/''"
    using assms(1) by (simp add: path_Clean_rooted_def clean_parts_def)
  have "\<not> HasPrefix (CHR ''/'' # Join ps ''/'') ''/..''"
  proof
    assume "HasPrefix (CHR ''/'' # Join ps ''/'') ''/..''"
    then have "prefix ''..'' (Join ps ''/'')" by (simp add: HasPrefix_def)
    moreover obtain p qs where "ps = p # qs" using assms(2) by (cases ps) auto
    ultimately show False using assms(4) plain
      by (cases qs) (auto simp: plain_part_def prefix_def append_eq_append_conv2 Cons_eq_append_conv
          append_eq_Cons_conv split: if_splits)
  qed
  with no_parent_inside [OF plain] Join_plain_hd [OF assms(2) plain, of "''/''"] assms(3) show ?thesis
    by (simp add: Serve_def clean Let_def TrimPrefix_def bind_def attempt_def ret_def split: prod.split sum.split)
qed

text \<open>
  C17: the public read never leaves the bucket's name space. Whatever path is asked for, an object it
  returns is the one stored under the cleaned path, whose components are non-empty, contain no slash
  and are neither \<open>.\<close> nor \<open>..\<close>.
\<close>

theorem serve_stays_inside:
  assumes "Serve raw e w = (Inr (Some obj), w')"
  shows "list_all plain_part (clean_parts raw) \<and> clean_parts raw \<noteq> [] \<and>
    object_get (Join (clean_parts raw) ''/'') (w_objects w) = Some (ob_ContentType obj, ob_Body obj) \<and>
    w_objects w' = w_objects w \<and> w_db w' = w_db w"
proof -
  have clean: "path_Clean_rooted raw = CHR ''/'' # Join (clean_parts raw) ''/''"
    by (simp add: path_Clean_rooted_def clean_parts_def)
  from assms have ne: "Join (clean_parts raw) ''/'' \<noteq> ''''" and
    get: "store_GetObject (Join (clean_parts raw) ''/'') e w = (Inr obj, w')"
    by (auto simp: Serve_def clean Let_def TrimPrefix_def bind_def attempt_def ret_def throw_def
        split: if_splits prod.splits sum.splits)
  then have "clean_parts raw \<noteq> []" by auto
  moreover from get have "object_get (Join (clean_parts raw) ''/'') (w_objects w) = Some (ob_ContentType obj, ob_Body obj)"
    "w' = tick w"
    by (simp_all add: store_GetObject_ok TrimLeft_Join clean_parts_plain)
  ultimately show ?thesis using clean_parts_plain by (simp add: list_all_iff)
qed

section \<open>The whole flow\<close>

lemma DirectUpload_succeeds:
  assumes "\<And>n. net_fault e n = None" and "key \<noteq> ''''" and "ct \<noteq> ''''"
    and "in_int64 (Unix exp)" and "Unix (clock e (w_tick w)) \<le> Unix exp"
    and "HasPrefix (ToLower (unicode_tables e) (TrimSpace hdr)) ct"
    and "int (length b) \<le> sh_maxUploadBytes h"
  shows "\<exists>w'. DirectUpload h url \<lparr>dq_key = key, dq_ct = ct, dq_token = signUploadToken h key ct exp,
      dq_ContentType = hdr, dq_Chunked = False, dq_Body = b\<rparr> e w = (Inr (), w') \<and>
    w_objects w' = object_put (TrimLeft key ''/'') (ct, b) (w_objects w)"
proof -
  have "signUploadToken h key ct exp \<noteq> ''''" by (simp add: signUploadToken_def Let_def)
  then show ?thesis
    using assms verify_signed [OF assms(4,5), of h key ct]
    by (simp add: DirectUpload_def Let_def ContentLength_def MaxBytesReader_def store_Upload_def store_call_def
        bind_def attempt_def ask_def ret_def)
qed

text \<open>
  C16: request, upload and read fit together. When the network is up, the address that the server
  issued accepts, until it expires, a file within the limit and of the announced type, and from then
  on the announced object path serves exactly those bytes under that type, until somebody writes to
  that path again.
\<close>

theorem upload_round_trip:
  assumes "RequestUploadURL h body e w = (Inr resp, w1)"
    and "us_UploadURL resp = sh_publicBaseURL h @ ''/api/v1/storage/uploads/direct?key='' @ key @ ''&ct='' @ ct @
      ''&token='' @ token" and "CHR ''&'' \<notin> set key" and "CHR ''&'' \<notin> set ct"
    and "\<And>n. net_fault e n = None" and "in_int64 (Unix (clock e (w_tick w) + upload_ttl))"
    and "Unix (clock e (w_tick w2)) \<le> Unix (clock e (w_tick w) + upload_ttl)"
    and "HasPrefix (ToLower (unicode_tables e) (TrimSpace hdr)) ct"
    and "int (length b) \<le> sh_maxUploadBytes h"
  shows "\<exists>w3. DirectUpload h url \<lparr>dq_key = key, dq_ct = ct, dq_token = token, dq_ContentType = hdr,
        dq_Chunked = False, dq_Body = b\<rparr> e w2 = (Inr (), w3) \<and>
      (\<forall>w4. w_objects w4 = w_objects w3 \<longrightarrow>
        fst (Serve (tl (us_ObjectPath resp)) e w4) =
          Inr (Some \<lparr>ob_Body = b, ob_ContentType = ct, ob_Size = int (length b)\<rparr>))"
proof -
  from assms(1) obtain ct0 random ext where ct0: "CHR ''&'' \<notin> set ct0" "ct0 \<noteq> ''''"
    and ext: "ext \<in> {''.jpg'', ''.png'', ''.webp'', ''.gif''}"
    and path: "us_ObjectPath resp = CHR ''/'' # Join (upload_key (clock e (w_tick w)) random ext) ''/''"
    and addr: "us_UploadURL resp = sh_publicBaseURL h @ ''/api/v1/storage/uploads/direct?key='' @
       Join (upload_key (clock e (w_tick w)) random ext) ''/'' @ ''&ct='' @ ct0 @ ''&token='' @
       signUploadToken h (Join (upload_key (clock e (w_tick w)) random ext) ''/'') ct0
         (clock e (w_tick w) + upload_ttl)"
    by (rule RequestUploadURL_okE)
  let ?parts = "upload_key (clock e (w_tick w)) random ext"
  let ?key = "Join ?parts ''/''"
  note parts = upload_key_parts [OF ext, of "clock e (w_tick w)" random]
  have ne: "?parts \<noteq> []" and up: "\<not> prefix ''..'' (hd ?parts)" by (simp_all add: upload_key_def)
  from assms(2) addr have "key @ CHR ''&'' # ''ct='' @ ct @ ''&token='' @ token =
      ?key @ CHR ''&'' # ''ct='' @ ct0 @ ''&token='' @ signUploadToken h ?key ct0 (clock e (w_tick w) + upload_ttl)"
    by simp
  from cut_at_first [OF this assms(3) parts(3)] have key: "key = ?key" and
    "ct @ CHR ''&'' # ''token='' @ token =
      ct0 @ CHR ''&'' # ''token='' @ signUploadToken h ?key ct0 (clock e (w_tick w) + upload_ttl)" by simp_all
  from cut_at_first [OF this(2) assms(4) ct0(1)] have ct: "ct = ct0"
    and token: "token = signUploadToken h ?key ct0 (clock e (w_tick w) + upload_ttl)" by simp_all
  have raw: "?key \<noteq> ''''" using Join_plain_hd [OF ne parts(1)] by simp
  from DirectUpload_succeeds [OF assms(5) raw ct0(2) assms(6,7), of hdr b h url] assms(8,9) ct
  obtain w3 where run: "DirectUpload h url \<lparr>dq_key = ?key, dq_ct = ct0, dq_token = token, dq_ContentType = hdr,
      dq_Chunked = False, dq_Body = b\<rparr> e w2 = (Inr (), w3)"
    and objs: "w_objects w3 = object_put (TrimLeft ?key ''/'') (ct0, b) (w_objects w2)" by (auto simp: token)
  have "fst (Serve ?key e w4) = Inr (Some \<lparr>ob_Body = b, ob_ContentType = ct0, ob_Size = int (length b)\<rparr>)"
    if "w_objects w4 = w_objects w3" for w4
    using Serve_plain [OF clean_parts_Join [OF ne parts(1)] ne raw up, of e w4] assms(5) objects.get_put
    by (simp add: store_GetObject_def store_call_def TrimLeft_Join parts(1) that objs Let_def)
  with run path key ct show ?thesis by (intro exI [of _ w3]) simp
qed

text \<open>
  C19: an upload stores exactly the bytes sent under the announced type. A body of known length is
  within the limit; the reader lets a chunked one, whose length is not announced, exceed it by 1024
  bytes.
\<close>

theorem upload_size_bound:
  assumes "DirectUpload h url rq e w = (Inr x, w')"
  shows "object_get (TrimLeft (dq_key rq) ''/'') (w_objects w') = Some (dq_ct rq, dq_Body rq) \<and>
    int (length (dq_Body rq)) \<le> sh_maxUploadBytes h + (if dq_Chunked rq then 1024 else 0)"
  using assms by (rule DirectUpload_okE) (auto simp: objects.get_put ContentLength_def MaxBytesReader_def split: if_splits)

text \<open>A MAC of fixed length, like the real one: a byte sum in hexadecimal.\<close>

definition sample_mac :: "string \<Rightarrow> string" where
  "sample_mac m = hex_EncodeToString [char_of (\<Sum>c\<leftarrow>m. byte c)]"

definition sample_storage :: storage_handler where
  "sample_storage = NewStorageHandler 2 sample_mac ''''"

lemma sample_upload:
  "\<exists>resp w1 key ct token. RequestUploadURL sample_storage
      (Some \<lparr>uq_Name = ''a.png'', uq_Size = 2, uq_ContentType = ''image/png''\<rparr>) sample_env sample_world = (Inr resp, w1) \<and>
    us_UploadURL resp = sh_publicBaseURL sample_storage @ ''/api/v1/storage/uploads/direct?key='' @ key @
      ''&ct='' @ ct @ ''&token='' @ token \<and>
    CHR ''&'' \<notin> set key \<and> CHR ''&'' \<notin> set ct \<and> ct = ''image/png'' \<and> key \<noteq> '''' \<and>
    token = signUploadToken sample_storage key ct (clock sample_env (w_tick sample_world) + upload_ttl) \<and>
    TrimLeft key ''/'' = key"
proof -
  have ct: "ToLower (unicode_tables sample_env) (TrimSpace ''image/png'') = ''image/png''" by code_simp
  obtain s where rb: "rand_bytes sample_env (Suc (w_tick sample_world)) 12 = Some s" by (simp add: sample_env_def)
  have "\<exists>resp w1. RequestUploadURL sample_storage
      (Some \<lparr>uq_Name = ''a.png'', uq_Size = 2, uq_ContentType = ''image/png''\<rparr>) sample_env sample_world = (Inr resp, w1)"
    by (simp add: RequestUploadURL_def sample_storage_def NewStorageHandler_def bind_def ask_def ct rb
        allowedImageTypes_def Let_def now_def attempt_def rand_Read_def ret_def)
  then obtain resp w1 where run: "RequestUploadURL sample_storage
      (Some \<lparr>uq_Name = ''a.png'', uq_Size = 2, uq_ContentType = ''image/png''\<rparr>) sample_env sample_world = (Inr resp, w1)"
    by blast
  then show ?thesis
  proof (rule RequestUploadURL_okE, goal_cases)
    case (1 req ct' random ext)
    let ?parts = "upload_key (clock sample_env (w_tick sample_world)) random ext"
    note parts = upload_key_parts [OF 1(9), of "clock sample_env (w_tick sample_world)" random]
    have "ct' = ''image/png''" using 1(1,4) ct by auto
    with 1 run parts TrimLeft_Join [OF parts(1)] Join_plain_hd [of ?parts "''/''"] show ?case
      by (intro exI [of _ resp] exI [of _ w1] exI [of _ "Join ?parts ''/''"] exI [of _ ct']
          exI [of _ "signUploadToken sample_storage (Join ?parts ''/'') ct' (clock sample_env (w_tick sample_world) + upload_ttl)"])
        (simp add: upload_key_def)
  qed
qed

lemma sample_upload_facts:
  "ToLower (unicode_tables sample_env) (TrimSpace ''image/png'') = ''image/png''"
  "sh_maxUploadBytes sample_storage = 2"
  "in_int64 (Unix (clock sample_env (w_tick sample_world) + upload_ttl))"
  "w_tick sample_world = 0"
  by (code_simp, simp_all add: sample_storage_def NewStorageHandler_def Unix_def unix_epoch_def upload_ttl_def
    second_def sample_env_fields sample_world_def in_int64_def max_int64_def min_int64_def)

theorem upload_round_trip_witness:
  "\<exists>resp w1 w3 key token. RequestUploadURL sample_storage
      (Some \<lparr>uq_Name = ''a.png'', uq_Size = 2, uq_ContentType = ''image/png''\<rparr>) sample_env sample_world = (Inr resp, w1) \<and>
    DirectUpload sample_storage '''' \<lparr>dq_key = key, dq_ct = ''image/png'', dq_token = token,
      dq_ContentType = ''image/png'', dq_Chunked = False, dq_Body = ''xy''\<rparr> sample_env w1 = (Inr (), w3) \<and>
    fst (Serve (tl (us_ObjectPath resp)) sample_env w3) =
      Inr (Some \<lparr>ob_Body = ''xy'', ob_ContentType = ''image/png'', ob_Size = 2\<rparr>)"
proof -
  obtain resp w1 key ct token where up: "RequestUploadURL sample_storage
      (Some \<lparr>uq_Name = ''a.png'', uq_Size = 2, uq_ContentType = ''image/png''\<rparr>) sample_env sample_world = (Inr resp, w1)"
    "us_UploadURL resp = sh_publicBaseURL sample_storage @ ''/api/v1/storage/uploads/direct?key='' @ key @
      ''&ct='' @ ct @ ''&token='' @ token" "CHR ''&'' \<notin> set key" "CHR ''&'' \<notin> set ct" "ct = ''image/png''"
    using sample_upload by blast
  have "w_tick w1 \<le> 2"
    using up(1) sample_upload_facts(4)
    by (auto simp: RequestUploadURL_def bind_def ask_def Let_def now_def attempt_def rand_Read_def throw_def ret_def
        split: option.splits if_splits prod.splits)
  then have "Unix (clock sample_env (w_tick w1)) \<le> Unix (clock sample_env (w_tick sample_world) + upload_ttl)"
    by (intro Unix_mono) (simp add: sample_env_fields upload_ttl_def second_def)
  from upload_round_trip [OF up(1-4) sample_env_fields(2) sample_upload_facts(3) this, of "''image/png''" "''xy''" "''''"]
  show ?thesis using up(1,5) sample_upload_facts by (fastforce simp: HasPrefix_def)
qed

theorem upload_size_bound_witness:
  "\<exists>rq w'. DirectUpload sample_storage '''' rq sample_env sample_world = (Inr (), w') \<and>
    int (length (dq_Body rq)) \<le> 2"
proof -
  have "Unix (clock sample_env (w_tick sample_world)) \<le> Unix (clock sample_env (w_tick sample_world) + upload_ttl)"
    by (intro Unix_mono) (simp add: upload_ttl_def second_def)
  from DirectUpload_succeeds [OF sample_env_fields(2) _ _ sample_upload_facts(3) this, of "''k''" "''image/png''" "''image/png''"
    "''xy''" sample_storage "''''"]
  obtain w' where "DirectUpload sample_storage '''' \<lparr>dq_key = ''k'', dq_ct = ''image/png'',
      dq_token = signUploadToken sample_storage ''k'' ''image/png'' (clock sample_env (w_tick sample_world) + upload_ttl),
      dq_ContentType = ''image/png'', dq_Chunked = False, dq_Body = ''xy''\<rparr> sample_env sample_world = (Inr (), w')"
    using sample_upload_facts by (auto simp: HasPrefix_def)
  with upload_size_bound [OF this] show ?thesis using sample_upload_facts(2) by (intro exI conjI) auto
qed

theorem upload_capability_scoped_witness:
  "\<exists>resp w1 rq w3. RequestUploadURL sample_storage
      (Some \<lparr>uq_Name = ''a.png'', uq_Size = 2, uq_ContentType = ''image/png''\<rparr>) sample_env sample_world = (Inr resp, w1) \<and>
    DirectUpload sample_storage '''' rq sample_env sample_world = (Inr (), w3) \<and>
    us_ObjectPath resp = CHR ''/'' # dq_key rq"
proof -
  obtain resp w1 key ct token where up: "RequestUploadURL sample_storage
      (Some \<lparr>uq_Name = ''a.png'', uq_Size = 2, uq_ContentType = ''image/png''\<rparr>) sample_env sample_world = (Inr resp, w1)"
    "us_UploadURL resp = sh_publicBaseURL sample_storage @ ''/api/v1/storage/uploads/direct?key='' @ key @
      ''&ct='' @ ct @ ''&token='' @ token" "CHR ''&'' \<notin> set key" "CHR ''&'' \<notin> set ct" "ct = ''image/png''"
    "key \<noteq> ''''" "token = signUploadToken sample_storage key ct (clock sample_env (w_tick sample_world) + upload_ttl)"
    using sample_upload by blast
  have "Unix (clock sample_env (w_tick sample_world)) \<le> Unix (clock sample_env (w_tick sample_world) + upload_ttl)"
    by (intro Unix_mono) (simp add: upload_ttl_def second_def)
  from DirectUpload_succeeds [OF sample_env_fields(2) up(6) _ sample_upload_facts(3) this, of ct "''image/png''"
    "''xy''" sample_storage "''''"]
  obtain w' where run: "DirectUpload sample_storage '''' \<lparr>dq_key = key, dq_ct = ct,
      dq_token = token, dq_ContentType = ''image/png'', dq_Chunked = False, dq_Body = ''xy''\<rparr>
      sample_env sample_world = (Inr (), w')"
    using sample_upload_facts up(5,7) by (auto simp: HasPrefix_def)
  from upload_capability_scoped [OF up(1-4) run] up(1) run show ?thesis by auto
qed

theorem serve_stays_inside_witness:
  "case Serve ''x/../uploads//./a.png'' sample_env
       (sample_world\<lparr>w_objects := [(''uploads/a.png'', ''image/png'', ''xy'')]\<rparr>) of
     (Inr (Some obj), w') \<Rightarrow> ob_Body obj = ''xy'' \<and> clean_parts ''x/../uploads//./a.png'' = [''uploads'', ''a.png'']
   | _ \<Rightarrow> False"
proof -
  let ?w = "sample_world\<lparr>w_objects := [(''uploads/a.png'', ''image/png'', ''xy'')]\<rparr>"
  have parts: "clean_parts ''x/../uploads//./a.png'' = [''uploads'', ''a.png'']" by code_simp
  from Serve_plain [OF parts] obtain obj w' where
    run: "Serve ''x/../uploads//./a.png'' sample_env ?w = (Inr (Some obj), w')"
    by (simp add: store_GetObject_def store_call_def sample_env_fields TrimLeft_def object_get_def prefix_def Let_def)
  from serve_stays_inside [OF run] have "ob_Body obj = ''xy''" by (simp add: parts object_get_def)
  with parts show ?thesis unfolding run by simp
qed

end
