(* ===== verification/Avatar.thy ===== *)
theory Avatar
  imports User_UC Object_Store Calendar
begin

text \<open>
  \<open>UploadAvatar\<close> of \<open>internal/usecase/user.go\<close> with \<open>avatar.go\<close>: the checks, the object, then the
  account. Of \<open>http.DetectContentType\<close> only the three accepted types are told apart; every other
  result is rejected alike and is represented by one of them.
\<close>

definition maxAvatarBytes :: int where
  "maxAvatarBytes = 5 * 1024 * 1024"

text \<open>The signatures of \<open>net/http\<close>'s sniffer for the accepted types.\<close>

definition png_signature :: string where
  "png_signature = [CHR 0x89, CHR ''P'', CHR ''N'', CHR ''G'', CHR 0x0D, CHR 0x0A, CHR 0x1A, CHR 0x0A]"

definition jpeg_signature :: string where
  "jpeg_signature = [CHR 0xFF, CHR 0xD8, CHR 0xFF]"

definition DetectContentType :: "string \<Rightarrow> string" where
  "DetectContentType s =
     (if prefix ''RIFF'' s \<and> prefix ''WEBPVP'' (drop 8 s) then ''image/webp''
      else if prefix png_signature s then ''image/png''
      else if prefix jpeg_signature s then ''image/jpeg''
      else ''application/octet-stream'')"

definition avatarExtFromContentType :: "string \<Rightarrow> gerr + string" where
  "avatarExtFromContentType ct =
     (if ct = ''image/jpeg'' then Inr ''.jpg''
      else if ct = ''image/png'' then Inr ''.png''
      else if ct = ''image/webp'' then Inr ''.webp''
      else Inl (Plain (''unsupported content type: '' @ ct)))"

definition avatar_key :: "int \<Rightarrow> time \<Rightarrow> string \<Rightarrow> string" where
  "avatar_key userID t ext = ''users/'' @ itoa userID @ ''/avatar_'' @ itoa (UnixMilli t) @ ext"

text \<open>
  The store is absent when it is not configured; otherwise its public address is given. \<open>body\<close> is
  what the reader yields; an empty one makes \<open>io.ReadFull\<close> fail with \<open>io.EOF\<close>.
\<close>

definition userUC_UploadAvatar :: "string option \<Rightarrow> int \<Rightarrow> int \<Rightarrow> string \<Rightarrow> ctx \<Rightarrow> user comp" where
  "userUC_UploadAvatar storage userID fsize body cx =
     (case storage of
        None \<Rightarrow> throw (ServiceUnavailableErrorf ''tinh nang upload anh chua duoc cau hinh'')
      | Some publicURL \<Rightarrow>
          if maxAvatarBytes < fsize then throw (BadRequestErrorf ''kich thuoc anh khong duoc vuot qua 5MB'')
          else
            let callerID = UserID cx; role = Role cx in
            if role \<noteq> RoleAdmin \<and> callerID \<noteq> userID
            then throw (ForbiddenErrorf ''khong co quyen upload avatar cho nguoi dung nay'')
            else if body = '''' then throw (BadRequestErrorf ''khong the doc file'')
            else
              let ct = DetectContentType (take 512 body) in
              case avatarExtFromContentType ct of
                Inl _ \<Rightarrow> throw (BadRequestErrorf ''dinh dang anh khong hop le, chi chap nhan JPEG, PNG hoac WebP'')
              | Inr ext \<Rightarrow>
                  bind (userRepo_GetByID userID) (\<lambda>ouser.
                  case ouser of
                    None \<Rightarrow> throw (not_found_user userID)
                  | Some user \<Rightarrow>
                      bind now (\<lambda>t.
                      bind (wrap_internal ''upload anh that bai''
                        (store_Upload publicURL \<lparr>up_Key = avatar_key userID t ext, up_Body = Some body,
                           up_Size = fsize, up_ContentType = ct\<rparr>)) (\<lambda>url.
                      let user = user\<lparr>usr_AvatarURL := Some url, usr_UpdatedBy := callerID\<rparr> in
                      bind (userRepo_Update user) (\<lambda>user.
                      bind (ignore (auditRepo_Write cx
                        ((user_audit AuditUserUpdated user (''upload avatar nguoi dung '' @ usr_Username user))
                          \<lparr>au_ActorUserID := callerID, au_ActorRole := role\<rparr>))) (\<lambda>_.
                      ret user))))))"

section \<open>What an upload does\<close>

lemma avatar_types:
  "avatarExtFromContentType (DetectContentType s) = Inr ext \<Longrightarrow>
   DetectContentType s \<in> {''image/jpeg'', ''image/png'', ''image/webp''}"
  by (simp add: avatarExtFromContentType_def split: if_splits)

lemma ignored_audit_frame:
  "users (w_db (snd (auditRepo_Write cx a e w))) = users (w_db w) \<and>
   user_permissions (w_db (snd (auditRepo_Write cx a e w))) = user_permissions (w_db w) \<and>
   settings (w_db (snd (auditRepo_Write cx a e w))) = settings (w_db w) \<and>
   announcements (w_db (snd (auditRepo_Write cx a e w))) = announcements (w_db w) \<and>
   notifications (w_db (snd (auditRepo_Write cx a e w))) = notifications (w_db w) \<and>
   w_objects (snd (auditRepo_Write cx a e w)) = w_objects w"
  by (auto simp: auditRepo_Write_def Let_def bind_def ask_def now_def ret_def insert_row_def split: option.splits)

lemma ignore_run: "ignore m e w = (Inr (), snd (m e w))"
  by (simp add: ignore_def split: prod.split)

lemma TrimLeft_avatar_key: "TrimLeft (avatar_key i t ext) ''/'' = avatar_key i t ext"
  by (simp add: TrimLeft_def avatar_key_def)

text \<open>
  C18: an avatar is uploaded by its owner or by an administrator. A successful upload is of an image
  that announces at most 5 MB and whose first bytes have the signature of an accepted type; it stores
  under that type exactly the announced number of bytes of the file, which has at least that many (all
  of it when no size is announced, that is, a negative one), and changes of the accounts only the
  avatar address of that one, to the address of the stored object.
\<close>

theorem avatar_upload_effect:
  assumes "userUC_UploadAvatar (Some pub) uid fsize body cx e w = (Inr u, w')"
  shows "(Role cx = RoleAdmin \<or> UserID cx = uid) \<and> fsize \<le> maxAvatarBytes \<and>
    DetectContentType (take 512 body) \<in> {''image/jpeg'', ''image/png'', ''image/webp''} \<and>
    (\<exists>t ext. let key = avatar_key uid t ext in
       (\<exists>stored. object_get key (w_objects w') = Some (DetectContentType (take 512 body), stored) \<and>
         stored = (if fsize < 0 then body else take (nat fsize) body) \<and>
         (0 \<le> fsize \<longrightarrow> int (length stored) = fsize)) \<and>
       edit_user uid (\<lambda>v v'. v' = v\<lparr>usr_AvatarURL := Some (if pub \<noteq> '''' then pub @ ''/'' @ key else key),
         usr_UpdatedBy := UserID cx\<rparr>) (w_db w) (w_db w'))"
proof -
  let ?ct = "DetectContentType (take 512 body)"
  from assms have auth: "Role cx = RoleAdmin \<or> UserID cx = uid" and fsz: "fsize \<le> maxAvatarBytes"
    by (auto simp: userUC_UploadAvatar_def throw_def Let_def split: if_splits)
  from assms obtain ext where ext: "avatarExtFromContentType ?ct = Inr ext"
    by (auto simp: userUC_UploadAvatar_def throw_def Let_def split: if_splits sum.splits)
  from assms ext obtain user w1 where get: "userRepo_GetByID uid e w = (Inr (Some user), w1)"
    by (auto simp: userUC_UploadAvatar_def throw_def Let_def bind_ok split: if_splits sum.splits option.splits)
  let ?key = "avatar_key uid (clock e (w_tick w1)) ext"
  let ?url = "if pub \<noteq> '''' then pub @ ''/'' @ ?key else ?key"
  from assms ext get obtain url w3 w4 where
    up: "store_Upload pub \<lparr>up_Key = ?key, up_Body = Some body, up_Size = fsize, up_ContentType = ?ct\<rparr> e (tick w1) = (Inr url, w3)"
    and upd: "userRepo_Update (user\<lparr>usr_AvatarURL := Some url, usr_UpdatedBy := UserID cx\<rparr>) e w3 = (Inr u, w4)"
    and w': "w' = snd (auditRepo_Write cx ((user_audit AuditUserUpdated u (''upload avatar nguoi dung '' @ usr_Username u))
       \<lparr>au_ActorUserID := UserID cx, au_ActorRole := Role cx\<rparr>) e w4)"
    by (auto simp: userUC_UploadAvatar_def throw_def Let_def bind_ok ret_ok now_ok wrap_internal_ok ignore_ok
        split: if_splits sum.splits option.splits)
  let ?b = "if fsize < 0 then body else take (nat fsize) body"
  from up have url: "url = ?url" and w3: "w_db w3 = w_db w1"
    "w_objects w3 = object_put ?key (?ct, ?b) (w_objects w1)" and len: "0 \<le> fsize \<longrightarrow> int (length ?b) = fsize"
    by (auto simp: store_Upload_ok TrimLeft_avatar_key Let_def sized_body_def split: if_splits)
  from userRepo_GetByID_effect [OF get] obtain r where r: "first_row ur_ID (\<lambda>r. ur_ID r = uid) (users (w_db w)) = Some r"
    "user = user_toDomain r" and w1: "w_db w1 = w_db w" by (auto simp: Some_eq_map_option same_db_def)
  then have "usr_ID user = uid" using first_row_Some(2) [OF r(1)] by simp
  with userRepo_Update_effect [OF upd] w1 w3(1) obtain t where
    w4: "w_db w4 = (w_db w)\<lparr>users := update_where (\<lambda>r. ur_ID r = uid)
       (set_user_columns (user\<lparr>usr_AvatarURL := Some url, usr_UpdatedBy := UserID cx, usr_UpdatedAt := t\<rparr>)) (users (w_db w))\<rparr>"
    and objs: "w_objects w4 = w_objects w3" by (auto simp: outside_db_def)
  have "object_get ?key (w_objects w') = Some (?ct, ?b)"
    by (simp only: w' ignored_audit_frame objs w3(2) objects.get_put simp_thms if_True)
  moreover have "edit_user uid (\<lambda>v v'. v' = v\<lparr>usr_AvatarURL := Some ?url, usr_UpdatedBy := UserID cx\<rparr>) (w_db w) (w_db w')"
  proof -
    show ?thesis
      unfolding edit_user_def w' ignored_audit_frame w4
      by (intro conjI exI [of _ r] exI [of _ "user\<lparr>usr_AvatarURL := Some ?url, usr_UpdatedBy := UserID cx\<rparr>"]
          exI [of _ t]) (simp_all add: r ignored_audit_frame w4 url)
  qed
  ultimately show ?thesis
    using auth fsz len avatar_types [OF ext] unfolding Let_def by (intro conjI exI) (assumption | rule refl)+
qed

theorem avatar_upload_effect_witness:
  "\<exists>u w'. userUC_UploadAvatar (Some '''') 3 3 jpeg_signature (WithUserID background 3) sample_env sample_world = (Inr u, w') \<and>
     (\<exists>t ext. object_get (avatar_key 3 t ext) (w_objects w') = Some (''image/jpeg'', jpeg_signature))"
proof -
  have ct: "DetectContentType (take 512 jpeg_signature) = ''image/jpeg''"
    by (simp add: DetectContentType_def jpeg_signature_def png_signature_def)
  have me: "UserID (WithUserID background 3) = 3" by (simp add: WithUserID_def UserID_def)
  obtain r where "first_row ur_ID (\<lambda>r. ur_ID r = 3) (users (w_db sample_world)) = Some r"
    by (simp add: sample_world_def sample_db_def sample_user_def first_row_def)
  moreover have "jpeg_signature \<noteq> ''''" "sized_body 3 jpeg_signature = Some jpeg_signature"
    by (simp_all add: jpeg_signature_def sized_body_def)
  ultimately have "\<exists>u w'. userUC_UploadAvatar (Some '''') 3 3 jpeg_signature (WithUserID background 3) sample_env sample_world = (Inr u, w')"
    by (simp add: userUC_UploadAvatar_def maxAvatarBytes_def me ct avatarExtFromContentType_def userRepo_GetByID_def
        run_simps now_def attempt_def ignore_run wrap_internal_def store_Upload_def store_call_def Let_def userRepo_Update_def sample_env_fields)
  then obtain u w' where run: "userUC_UploadAvatar (Some '''') 3 3 jpeg_signature (WithUserID background 3) sample_env sample_world = (Inr u, w')"
    by blast
  have "take 3 jpeg_signature = jpeg_signature" by (simp add: jpeg_signature_def)
  with avatar_upload_effect [OF run] show ?thesis by (auto simp: run ct Let_def)
qed

end
