(* ===== verification/Hub.thy ===== *)
theory Hub
  imports World
begin

text \<open>
  \<open>pkg/xnotify/hub.go\<close>: the fan-out of notification events to the streams of a user, as a
  transition system. The steps are the sections that run under the mutex, one turn of the select
  loop of a subscription's goroutine, a read by its consumer, and what Redis may do to a
  subscription: deliver in order, or lose. Two history fields of a connection record what was
  published to its user since it subscribed and what its consumer has read.
\<close>

section \<open>State\<close>

definition maxConnsPerUser :: nat where "maxConnsPerUser = 5"
definition chanBufSize :: nat where "chanBufSize = 16"

definition channelName :: "int \<Rightarrow> string" where
  "channelName userID = ''app:notif:'' @ itoa userID"

text \<open>The names keep the users apart.\<close>

lemma channelName_inject [simp]: "channelName u = channelName v \<longleftrightarrow> u = v"
  by (simp add: channelName_def)

record conn =
  cn_user :: int
  cn_pending :: "event option list" \<comment> \<open>messages of the Redis subscription; None: undecodable payload\<close>
  cn_ch :: "event list" \<comment> \<open>the buffered channel\<close>
  cn_ctx_done :: bool \<comment> \<open>\<open>subCtx\<close> is cancelled\<close>
  cn_running :: bool \<comment> \<open>the goroutine runs and the channel is open\<close>
  cn_sent :: "event list" \<comment> \<open>history: published to the user since the subscription\<close>
  cn_read :: "event list" \<comment> \<open>history: read by the consumer\<close>

record hub =
  hb_conns :: "conn list"
  hb_reg :: "(int \<times> nat) list" \<comment> \<open>the map \<open>conns\<close>: user and connection\<close>
  hb_done :: bool

definition NewRedisHub :: hub where
  "NewRedisHub = \<lparr>hb_conns = [], hb_reg = [], hb_done = False\<rparr>"

definition registered :: "int \<Rightarrow> hub \<Rightarrow> nat" where
  "registered u h = length (filter (\<lambda>(v, i). v = u) (hb_reg h))"

section \<open>Operations\<close>

text \<open>The second component is the connection, or None for the error.\<close>

definition hub_Subscribe :: "int \<Rightarrow> hub \<Rightarrow> hub \<times> nat option" where
  "hub_Subscribe u h =
     (if maxConnsPerUser \<le> registered u h then (h, None)
      else
        (let i = length (hb_conns h);
             c = \<lparr>cn_user = u, cn_pending = [], cn_ch = [], cn_ctx_done = False, cn_running = True,
                  cn_sent = [], cn_read = []\<rparr> in
         (h\<lparr>hb_conns := hb_conns h @ [c], hb_reg := hb_reg h @ [(u, i)]\<rparr>, Some i)))"

definition upd_conn :: "nat \<Rightarrow> (conn \<Rightarrow> conn) \<Rightarrow> hub \<Rightarrow> hub" where
  "upd_conn i f h = h\<lparr>hb_conns := (hb_conns h)[i := f (hb_conns h ! i)]\<rparr>"

text \<open>
  \<open>PUBLISH\<close> on a user's channel, by \<open>RedisHub.Publish\<close>, or by somebody else with any payload: Redis
  hands the message to the subscriptions of the channel of that name.
\<close>

definition enqueue :: "int \<Rightarrow> event option \<Rightarrow> conn \<Rightarrow> conn" where
  "enqueue u m c =
     (if channelName (cn_user c) = channelName u \<and> cn_running c
      then c\<lparr>cn_pending := cn_pending c @ [m],
             cn_sent := cn_sent c @ (case m of None \<Rightarrow> [] | Some ev \<Rightarrow> [ev])\<rparr>
      else c)"

definition redis_publish :: "int \<Rightarrow> event option \<Rightarrow> hub \<Rightarrow> hub" where
  "redis_publish u m h = h\<lparr>hb_conns := map (enqueue u m) (hb_conns h)\<rparr>"

text \<open>
  \<open>Publish\<close>: \<open>encodes\<close> says whether the event's data is valid JSON, \<open>up\<close> whether Redis answers. The
  second component is the prefix of the error.
\<close>

definition RedisHub_Publish :: "(event \<Rightarrow> bool) \<Rightarrow> bool \<Rightarrow> int \<Rightarrow> event \<Rightarrow> hub \<Rightarrow> hub \<times> string option" where
  "RedisHub_Publish encodes up userID ev h =
     (if \<not> encodes ev then (h, Some ''xnotify: marshal event'')
      else if \<not> up then (h, Some ''xnotify: redis publish'')
      else (redis_publish userID (Some ev) h, None))"

text \<open>The branch \<open>case msg, ok := <-ch\<close> of the goroutine: decode, then a send that never blocks.\<close>

definition on_message :: "conn \<Rightarrow> conn" where
  "on_message c =
     (case cn_pending c of
        [] \<Rightarrow> c
      | None # q \<Rightarrow> c\<lparr>cn_pending := q\<rparr>
      | Some ev # q \<Rightarrow>
          if length (cn_ch c) < chanBufSize
          then c\<lparr>cn_pending := q, cn_ch := cn_ch c @ [ev]\<rparr>
          else c\<lparr>cn_pending := q\<rparr>)"

definition lose :: "conn \<Rightarrow> conn" where
  "lose c = c\<lparr>cn_pending := tl (cn_pending c)\<rparr>"

definition consume :: "conn \<Rightarrow> conn" where
  "consume c = (case cn_ch c of [] \<Rightarrow> c | ev # q \<Rightarrow> c\<lparr>cn_ch := q, cn_read := cn_read c @ [ev]\<rparr>)"

definition cancel :: "conn \<Rightarrow> conn" where
  "cancel c = c\<lparr>cn_ctx_done := True\<rparr>"

text \<open>The deferred function of the goroutine.\<close>

definition goroutine_exit :: "nat \<Rightarrow> hub \<Rightarrow> hub" where
  "goroutine_exit i h =
     (upd_conn i (\<lambda>c. c\<lparr>cn_running := False\<rparr>) h)\<lparr>hb_reg := filter (\<lambda>(u, j). j \<noteq> i) (hb_reg h)\<rparr>"

text \<open>The branches that leave the loop because a context is done.\<close>

definition exit_enabled :: "nat \<Rightarrow> hub \<Rightarrow> bool" where
  "exit_enabled i h \<longleftrightarrow> i < length (hb_conns h) \<and> cn_running (hb_conns h ! i) \<and>
     (cn_ctx_done (hb_conns h ! i) \<or> hb_done h)"

text \<open>Closing the channel \<open>done\<close> a second time panics.\<close>

definition hub_Close :: "hub \<Rightarrow> hub option" where
  "hub_Close h =
     (if hb_done h then None
      else Some \<lparr>hb_conns = map (\<lambda>(i, c). if i \<in> snd ` set (hb_reg h) then cancel c else c)
                               (enumerate 0 (hb_conns h)),
                 hb_reg = [], hb_done = True\<rparr>)"

section \<open>Steps\<close>

inductive hub_step :: "hub \<Rightarrow> hub \<Rightarrow> bool" where
  subscribe: "hub_step h (fst (hub_Subscribe u h))"
| publish: "hub_step h (redis_publish u m h)"
| lost: "i < length (hb_conns h) \<Longrightarrow> hub_step h (upd_conn i lose h)"
| message: "i < length (hb_conns h) \<Longrightarrow> cn_running (hb_conns h ! i) \<Longrightarrow> hub_step h (upd_conn i on_message h)"
| read: "i < length (hb_conns h) \<Longrightarrow> hub_step h (upd_conn i consume h)"
| cancelled: "i < length (hb_conns h) \<Longrightarrow> hub_step h (upd_conn i cancel h)"
| exit: "exit_enabled i h \<Longrightarrow> hub_step h (goroutine_exit i h)"
| redis_closed: "i < length (hb_conns h) \<Longrightarrow> cn_running (hb_conns h ! i) \<Longrightarrow> hub_step h (goroutine_exit i h)"
| closed: "hub_Close h = Some h' \<Longrightarrow> hub_step h h'"



inductive hub_reachable :: "hub \<Rightarrow> bool" where
  start: "hub_reachable NewRedisHub"
| step: "hub_reachable h \<Longrightarrow> hub_step h h' \<Longrightarrow> hub_reachable h'"

inductive_cases hub_stepE: "hub_step h h'"

lemma RedisHub_Publish_step: "hub_step\<^sup>=\<^sup>= h (fst (RedisHub_Publish encodes up u ev h))"
  by (auto simp: RedisHub_Publish_def intro: hub_step.publish)

section \<open>A lossy channel\<close>

text \<open>The abstract specification of one subscription: a queue whose head is passed on or lost.\<close>

record 'e lossy =
  inflight :: "'e list"
  passed :: "'e list"

inductive lossy_step :: "'e lossy \<Rightarrow> 'e lossy \<Rightarrow> bool" where
  put: "lossy_step s (s\<lparr>inflight := inflight s @ [x]\<rparr>)"
| pass: "inflight s = x # q \<Longrightarrow> lossy_step s (s\<lparr>inflight := q, passed := passed s @ [x]\<rparr>)"
| drop: "inflight s = x # q \<Longrightarrow> lossy_step s (s\<lparr>inflight := q\<rparr>)"

definition somes :: "'a option list \<Rightarrow> 'a list" where
  "somes xs = map the (filter (\<lambda>x. x \<noteq> None) xs)"

definition abs_conn :: "conn \<Rightarrow> event lossy" where
  "abs_conn c = \<lparr>inflight = somes (cn_pending c), passed = cn_read c @ cn_ch c\<rparr>"

lemma somes_simps [simp]:
  "somes [] = []" "somes (None # xs) = somes xs" "somes (Some x # xs) = x # somes xs"
  "somes (xs @ ys) = somes xs @ somes ys"
  by (simp_all add: somes_def)

text \<open>What happens to one connection is a step of the lossy channel or no step of it at all.\<close>

definition stutter :: "conn \<Rightarrow> conn \<Rightarrow> bool" where
  "stutter c c' \<longleftrightarrow> abs_conn c' = abs_conn c \<or> lossy_step (abs_conn c) (abs_conn c')"

lemma stutter_refl [simp]: "stutter c c"
  by (simp add: stutter_def)

lemma stutter_enqueue: "stutter c (enqueue u m c)"
  using lossy_step.put [of "abs_conn c"]
  by (cases m) (auto simp: stutter_def enqueue_def abs_conn_def)

lemma stutter_lose: "stutter c (lose c)"
proof (cases "cn_pending c")
  case (Cons m q)
  then show ?thesis
    using lossy_step.drop [of "abs_conn c"] by (cases m) (auto simp: stutter_def lose_def abs_conn_def)
qed (simp add: stutter_def lose_def abs_conn_def)

lemma stutter_message: "stutter c (on_message c)"
proof (cases "cn_pending c")
  case (Cons m q)
  then show ?thesis
    using lossy_step.drop [of "abs_conn c"] lossy_step.pass [of "abs_conn c"]
    by (cases m) (auto simp: stutter_def on_message_def abs_conn_def)
qed (simp add: on_message_def)

lemma stutter_same: "cn_pending c' = cn_pending c \<Longrightarrow> cn_read c' @ cn_ch c' = cn_read c @ cn_ch c \<Longrightarrow> stutter c c'"
  by (simp add: stutter_def abs_conn_def)

lemma stutter_consume: "stutter c (consume c)"
  by (rule stutter_same) (auto simp: consume_def split: list.split)

section \<open>Effect of a step on one connection\<close>

lemma length_upd_conn [simp]: "length (hb_conns (upd_conn i f h)) = length (hb_conns h)"
  by (simp add: upd_conn_def)

lemma nth_upd_conn: "i < length (hb_conns h) \<Longrightarrow>
   hb_conns (upd_conn i f h) ! j = (if j = i then f (hb_conns h ! i) else hb_conns h ! j)"
  by (auto simp: upd_conn_def nth_list_update)

lemma upd_conn_fields [simp]: "hb_reg (upd_conn i f h) = hb_reg h" "hb_done (upd_conn i f h) = hb_done h"
  by (simp_all add: upd_conn_def)

lemma hub_Close_Some:
  "hub_Close h = Some h' \<longleftrightarrow> \<not> hb_done h \<and> hb_done h' \<and> hb_reg h' = [] \<and>
     length (hb_conns h') = length (hb_conns h) \<and>
     (\<forall>i < length (hb_conns h). hb_conns h' ! i =
        (if i \<in> snd ` set (hb_reg h) then cancel (hb_conns h ! i) else hb_conns h ! i))"
proof
  assume "hub_Close h = Some h'"
  then show "\<not> hb_done h \<and> hb_done h' \<and> hb_reg h' = [] \<and> length (hb_conns h') = length (hb_conns h) \<and>
     (\<forall>i < length (hb_conns h). hb_conns h' ! i =
        (if i \<in> snd ` set (hb_reg h) then cancel (hb_conns h ! i) else hb_conns h ! i))"
    unfolding hub_Close_def by (split if_split_asm) (simp, drule sym, simp add: nth_enumerate_eq)
next
  assume r: "\<not> hb_done h \<and> hb_done h' \<and> hb_reg h' = [] \<and> length (hb_conns h') = length (hb_conns h) \<and>
     (\<forall>i < length (hb_conns h). hb_conns h' ! i =
        (if i \<in> snd ` set (hb_reg h) then cancel (hb_conns h ! i) else hb_conns h ! i))"
  then have "hb_conns h' = map (\<lambda>(i, c). if i \<in> snd ` set (hb_reg h) then cancel c else c)
      (enumerate 0 (hb_conns h))"
    by (intro nth_equalityI) (simp_all add: nth_enumerate_eq)
  with r show "hub_Close h = Some h'" by (cases h') (simp add: hub_Close_def)
qed

text \<open>The possible changes of a connection, each in one rule.\<close>

inductive conn_step :: "conn \<Rightarrow> conn \<Rightarrow> bool" where
  same: "conn_step c c"
| enqueued: "conn_step c (enqueue u m c)"
| lost: "conn_step c (lose c)"
| message: "cn_running c \<Longrightarrow> conn_step c (on_message c)"
| consumed: "conn_step c (consume c)"
| cancelled: "conn_step c (cancel c)"
| stopped: "conn_step c (c\<lparr>cn_running := False\<rparr>)"

lemma hub_step_conn:
  "hub_step h h' \<Longrightarrow> i < length (hb_conns h) \<Longrightarrow>
   i < length (hb_conns h') \<and> conn_step (hb_conns h ! i) (hb_conns h' ! i)"
proof (induction rule: hub_step.induct)
  case (subscribe h u)
  then show ?case by (auto simp: hub_Subscribe_def Let_def nth_append intro: conn_step.same)
next
  case (closed h h')
  then show ?case by (auto simp: hub_Close_Some intro: conn_step.intros)
next
  case (exit j h)
  then show ?case by (auto simp: goroutine_exit_def exit_enabled_def nth_upd_conn intro: conn_step.intros)
qed (auto simp: redis_publish_def goroutine_exit_def nth_upd_conn intro: conn_step.intros)

text \<open>New connections start empty.\<close>

lemma hub_step_new:
  "hub_step h h' \<Longrightarrow> length (hb_conns h) \<le> i \<Longrightarrow> i < length (hb_conns h') \<Longrightarrow>
   cn_pending (hb_conns h' ! i) = [] \<and> cn_ch (hb_conns h' ! i) = [] \<and> cn_read (hb_conns h' ! i) = [] \<and>
   cn_sent (hb_conns h' ! i) = []"
proof (induction rule: hub_step.induct)
  case (subscribe h u)
  then show ?case by (auto simp: hub_Subscribe_def Let_def nth_append split: if_splits)
qed (auto simp: redis_publish_def goroutine_exit_def hub_Close_Some)

lemma conn_step_user [simp]: "conn_step c c' \<Longrightarrow> cn_user c' = cn_user c"
  by (induction rule: conn_step.induct)
    (auto simp: enqueue_def lose_def on_message_def consume_def cancel_def split: list.split option.split)

lemma conn_step_stutter: "conn_step c c' \<Longrightarrow> stutter c c'"
  by (induction rule: conn_step.induct)
    (auto simp: cancel_def intro: stutter_enqueue stutter_lose stutter_message stutter_consume stutter_same)

definition conn_ok :: "conn \<Rightarrow> bool" where
  "conn_ok c \<longleftrightarrow> length (cn_ch c) \<le> chanBufSize \<and>
     subseq (cn_read c @ cn_ch c @ somes (cn_pending c)) (cn_sent c)"

lemma subseq_drop: "subseq (xs @ y # zs) ys \<Longrightarrow> subseq (xs @ zs) ys"
  by (metis subseq_order.trans subseq_append' list_emb_Cons subseq_order.order_refl)

lemma conn_step_ok: "conn_step c c' \<Longrightarrow> conn_ok c \<Longrightarrow> conn_ok c'"
proof (induction rule: conn_step.induct)
  case (enqueued c u m)
  have "subseq (cn_read c @ cn_ch c @ somes (cn_pending c) @ x) (cn_sent c @ x)" for x
    using enqueued list_emb_append_mono [of "(=)" "cn_read c @ cn_ch c @ somes (cn_pending c)" "cn_sent c" x x]
    by (simp add: conn_ok_def)
  with enqueued show ?case by (cases m) (auto simp: conn_ok_def enqueue_def)
next
  case (lost c)
  then show ?case
    using subseq_drop [of "cn_read c @ cn_ch c"]
    by (cases "cn_pending c"; cases "hd (cn_pending c)") (auto simp: conn_ok_def lose_def)
next
  case (message c)
  then show ?case
    using subseq_drop [of "cn_read c @ cn_ch c"]
    by (cases "cn_pending c"; cases "hd (cn_pending c)") (auto simp: conn_ok_def on_message_def)
next
  case (consumed c)
  then show ?case by (cases "cn_ch c") (auto simp: conn_ok_def consume_def)
qed (simp_all add: conn_ok_def cancel_def)

lemma hub_reachable_conn_ok: "hub_reachable h \<Longrightarrow> i < length (hb_conns h) \<Longrightarrow> conn_ok (hb_conns h ! i)"
proof (induction arbitrary: i rule: hub_reachable.induct)
  case start
  then show ?case by (simp add: NewRedisHub_def)
next
  case (step h h')
  show ?case
  proof (cases "i < length (hb_conns h)")
    case True
    with step show ?thesis using hub_step_conn conn_step_ok by blast
  next
    case False
    with hub_step_new [OF step(2), of i] step(4) show ?thesis by (simp add: conn_ok_def chanBufSize_def)
  qed
qed

section \<open>The connection table\<close>

text \<open>
  The table lists running connections of its users, each once, and a goroutine that runs without
  being listed has been cancelled by \<open>Close\<close>.
\<close>

definition table_ok :: "hub \<Rightarrow> bool" where
  "table_ok h \<longleftrightarrow>
     distinct (map snd (hb_reg h)) \<and>
     (\<forall>(u, i) \<in> set (hb_reg h). i < length (hb_conns h) \<and> cn_user (hb_conns h ! i) = u \<and>
        cn_running (hb_conns h ! i)) \<and>
     (\<forall>i < length (hb_conns h). cn_running (hb_conns h ! i) \<longrightarrow>
        i \<in> snd ` set (hb_reg h) \<or> cn_ctx_done (hb_conns h ! i)) \<and>
     (\<forall>u. registered u h \<le> maxConnsPerUser)"

lemma table_ok_cong:
  assumes "table_ok h" and "hb_reg h' = hb_reg h" and "length (hb_conns h') = length (hb_conns h)"
    and "\<And>i. i < length (hb_conns h) \<Longrightarrow> cn_user (hb_conns h' ! i) = cn_user (hb_conns h ! i) \<and>
      cn_running (hb_conns h' ! i) = cn_running (hb_conns h ! i) \<and>
      (cn_ctx_done (hb_conns h ! i) \<longrightarrow> cn_ctx_done (hb_conns h' ! i))"
  shows "table_ok h'"
  using assms by (fastforce simp: table_ok_def registered_def)

lemma conn_fields [simp]:
  "cn_running (enqueue u m c) = cn_running c" "cn_ctx_done (enqueue u m c) = cn_ctx_done c" "cn_user (enqueue u m c) = cn_user c"
  "cn_running (lose c) = cn_running c" "cn_ctx_done (lose c) = cn_ctx_done c" "cn_user (lose c) = cn_user c"
  "cn_running (on_message c) = cn_running c" "cn_ctx_done (on_message c) = cn_ctx_done c" "cn_user (on_message c) = cn_user c"
  "cn_running (consume c) = cn_running c" "cn_ctx_done (consume c) = cn_ctx_done c" "cn_user (consume c) = cn_user c"
  "cn_running (cancel c) = cn_running c" "cn_ctx_done (cancel c)" "cn_user (cancel c) = cn_user c"
  by (auto simp: enqueue_def lose_def on_message_def consume_def cancel_def split: list.split option.split)

lemma table_ok_upd:
  assumes "table_ok h" and "\<And>c. cn_user (f c) = cn_user c \<and> cn_running (f c) = cn_running c \<and>
    (cn_ctx_done c \<longrightarrow> cn_ctx_done (f c))" and "i < length (hb_conns h)"
  shows "table_ok (upd_conn i f h)"
  by (rule table_ok_cong [OF assms(1)]) (use assms(2,3) in \<open>auto simp: nth_upd_conn\<close>)

lemma filter_list_update_False:
  "i < length xs \<Longrightarrow> P (xs ! i) \<Longrightarrow> \<not> P y \<Longrightarrow> Suc (length (filter P (xs[i := y]))) = length (filter P xs)"
proof (induction xs arbitrary: i)
  case (Cons x xs)
  then show ?case by (cases i) auto
qed simp

lemma filter_list_update_le:
  "i < length xs \<Longrightarrow> (P y \<Longrightarrow> P (xs ! i)) \<Longrightarrow> length (filter P (xs[i := y])) \<le> length (filter P xs)"
proof (induction xs arbitrary: i)
  case (Cons x xs)
  show ?case
  proof (cases i)
    case 0
    with Cons.prems show ?thesis by auto
  next
    case (Suc j)
    with Cons.prems Cons.IH [of j] show ?thesis by auto
  qed
qed simp

lemma filter_filter_length: "length (filter P (filter Q xs)) \<le> length (filter P xs)"
  by (induction xs) auto

lemma exit_table_ok:
  assumes "table_ok h" and "i < length (hb_conns h)"
  shows "table_ok (goroutine_exit i h)"
proof -
  have "registered u (goroutine_exit i h) \<le> registered u h" for u
    by (simp add: registered_def goroutine_exit_def filter_filter_length del: filter_filter)
  then have "registered u (goroutine_exit i h) \<le> maxConnsPerUser" for u
    using assms(1) by (meson order_trans table_ok_def)
  moreover have "distinct (map snd (filter (\<lambda>(u, j). j \<noteq> i) (hb_reg h)))"
    using assms(1) by (simp add: table_ok_def distinct_map_filter)
  ultimately show ?thesis
    using assms by (fastforce simp: table_ok_def goroutine_exit_def nth_upd_conn)
qed

lemma hub_step_table_ok: "hub_step h h' \<Longrightarrow> table_ok h \<Longrightarrow> table_ok h'"
proof (induction rule: hub_step.induct)
  case (subscribe h u)
  show ?case
  proof (cases "maxConnsPerUser \<le> registered u h")
    case True
    with subscribe show ?thesis by (simp add: hub_Subscribe_def)
  next
    case False
    have "length (hb_conns h) \<notin> snd ` set (hb_reg h)" using subscribe by (auto simp: table_ok_def)
    with subscribe False show ?thesis
      by (auto simp: hub_Subscribe_def Let_def table_ok_def registered_def nth_append)
  qed
next
  case (publish h u m)
  then show ?case by (rule table_ok_cong) (auto simp: redis_publish_def)
next
  case (exit i h)
  then show ?case by (auto simp: exit_enabled_def intro: exit_table_ok)
next
  case (redis_closed i h)
  then show ?case by (auto intro: exit_table_ok)
next
  case (closed h h')
  then have reg: "hb_reg h' = []" and len: "length (hb_conns h') = length (hb_conns h)"
    and conns: "\<And>i. i < length (hb_conns h) \<Longrightarrow> hb_conns h' ! i =
        (if i \<in> snd ` set (hb_reg h) then cancel (hb_conns h ! i) else hb_conns h ! i)"
    unfolding hub_Close_Some by blast+
  have table: "i \<in> snd ` set (hb_reg h) \<or> cn_ctx_done (hb_conns h ! i)"
    if "i < length (hb_conns h)" and "cn_running (hb_conns h ! i)" for i
    using closed.prems that unfolding table_ok_def by blast
  have "cn_ctx_done (hb_conns h' ! i)" if "i < length (hb_conns h)" and "cn_running (hb_conns h' ! i)" for i
    using that conns [OF that(1)] table [OF that(1)] by (cases "i \<in> snd ` set (hb_reg h)") simp_all
  then show ?case by (simp add: table_ok_def registered_def reg len)
qed (auto intro!: table_ok_upd)

lemma hub_reachable_table_ok: "hub_reachable h \<Longrightarrow> table_ok h"
proof (induction rule: hub_reachable.induct)
  case start
  show ?case by (simp add: NewRedisHub_def table_ok_def registered_def)
next
  case (step h h')
  then show ?case by (blast intro: hub_step_table_ok)
qed

section \<open>Properties\<close>

text \<open>
  C31: in every reachable state of the hub no user has more than five streams in the table and no
  buffer holds more than sixteen events; the table lists only running goroutines, and one that runs
  without being listed has been cancelled, so that none is forgotten.
\<close>

theorem hub_bounds:
  assumes "hub_reachable h"
  shows "registered u h \<le> 5 \<and> list_all (\<lambda>c. length (cn_ch c) \<le> 16) (hb_conns h) \<and>
    list_all (\<lambda>(v, i). i < length (hb_conns h) \<and> cn_user (hb_conns h ! i) = v \<and> cn_running (hb_conns h ! i)) (hb_reg h) \<and>
    (i < length (hb_conns h) \<and> cn_running (hb_conns h ! i) \<longrightarrow>
       i \<in> snd ` set (hb_reg h) \<or> cn_ctx_done (hb_conns h ! i))"
  using hub_reachable_table_ok [OF assms] hub_reachable_conn_ok [OF assms]
  by (auto simp: table_ok_def maxConnsPerUser_def conn_ok_def chanBufSize_def list_all_length list_all_iff)

text \<open>
  C32: a stream never invents, repeats or reorders events. In every reachable state what its consumer
  has read, followed by what is buffered, is a subsequence of the events published to that user
  since the subscription.
\<close>

theorem stream_is_subsequence:
  assumes "hub_reachable h" and "i < length (hb_conns h)"
  shows "subseq (cn_read (hb_conns h ! i) @ cn_ch (hb_conns h ! i)) (cn_sent (hb_conns h ! i))"
proof -
  let ?c = "hb_conns h ! i"
  have "subseq ((cn_read ?c @ cn_ch ?c) @ []) ((cn_read ?c @ cn_ch ?c) @ somes (cn_pending ?c))"
    by (rule list_emb_append_mono) simp_all
  with hub_reachable_conn_ok [OF assms] show ?thesis
    unfolding conn_ok_def by (auto intro: subseq_order.trans)
qed

text \<open>
  C33: every subscription is a lossy channel. Whatever step the hub takes, seen from one connection it
  is a step of the queue whose head is passed on or lost, or no step at all.
\<close>

theorem hub_refines_lossy_channel:
  assumes "hub_step h h'" and "i < length (hb_conns h)"
  shows "i < length (hb_conns h') \<and>
    lossy_step\<^sup>=\<^sup>= (abs_conn (hb_conns h ! i)) (abs_conn (hb_conns h' ! i))"
proof -
  from hub_step_conn [OF assms] have len: "i < length (hb_conns h')"
    and "stutter (hb_conns h ! i) (hb_conns h' ! i)" by (auto intro: conn_step_stutter)
  then show ?thesis by (auto simp: stutter_def)
qed


definition running :: "hub \<Rightarrow> nat" where
  "running h = length (filter cn_running (hb_conns h))"

lemma running_upd:
  "i < length (hb_conns h) \<Longrightarrow> (\<And>c. cn_running (f c) \<Longrightarrow> cn_running c) \<Longrightarrow> running (upd_conn i f h) \<le> running h"
  by (simp add: running_def upd_conn_def filter_list_update_le)

lemma running_exit: "i < length (hb_conns h) \<Longrightarrow> running (goroutine_exit i h) \<le> running h"
  using running_upd [of i h "\<lambda>c. c\<lparr>cn_running := False\<rparr>"] by (simp add: goroutine_exit_def running_def)

lemma running_exit_enabled: "exit_enabled i h \<Longrightarrow> Suc (running (goroutine_exit i h)) = running h"
  by (simp add: exit_enabled_def running_def goroutine_exit_def upd_conn_def filter_list_update_False)

lemma hub_step_done: "hub_step h h' \<Longrightarrow> hb_done h \<Longrightarrow> hb_done h'"
  by (induction rule: hub_step.induct)
    (auto simp: hub_Subscribe_def Let_def redis_publish_def goroutine_exit_def hub_Close_def)

lemma hub_steps_done: "hub_step\<^sup>*\<^sup>* h h' \<Longrightarrow> hb_done h \<Longrightarrow> hb_done h'"
  by (induction rule: rtranclp_induct) (auto intro: hub_step_done)

lemma hub_step_running: "hub_step h h' \<Longrightarrow> running h' \<le> running h \<or> hb_done h' \<and> \<not> hb_done h \<or> (\<exists>u. h' = fst (hub_Subscribe u h))"
proof (induction rule: hub_step.induct)
  case (publish h u m)
  then show ?case by (simp add: running_def redis_publish_def filter_map comp_def)
next
  case (closed h h')
  then show ?case by (auto simp: hub_Close_def split: if_splits)
next
  case (exit i h)
  then show ?case by (simp add: exit_enabled_def running_exit)
next
  case (redis_closed i h)
  then show ?case by (simp add: running_exit)
qed (auto intro: running_upd)

text \<open>The goroutines leave one after another, until none runs.\<close>

definition exit_step :: "hub \<Rightarrow> hub \<Rightarrow> bool" where
  "exit_step h h' \<longleftrightarrow> (\<exists>i. exit_enabled i h \<and> h' = goroutine_exit i h)"

lemma done_can_exit: "hb_done h \<Longrightarrow> i < length (hb_conns h) \<Longrightarrow> cn_running (hb_conns h ! i) \<Longrightarrow> exit_enabled i h"
  by (simp add: exit_enabled_def)

lemma exits_drain: "hb_done h \<Longrightarrow> \<exists>h'. (exit_step ^^ running h) h h' \<and> running h' = 0"
proof (induction "running h" arbitrary: h)
  case 0
  then show ?case by (intro exI [of _ h]) simp
next
  case (Suc n)
  then obtain i where i: "exit_enabled i h"
    using done_can_exit [OF Suc.prems] unfolding running_def
    by (metis filter_False in_set_conv_nth length_0_conv nat.distinct(1))
  let ?h = "goroutine_exit i h"
  have n: "n = running ?h" using running_exit_enabled [OF i] Suc.hyps(2) by simp
  have "hb_done ?h" using Suc.prems by (simp add: goroutine_exit_def)
  with Suc.hyps(1) [OF n] obtain h' where "(exit_step ^^ n) ?h h'" "running h' = 0" unfolding n by blast
  moreover have "exit_step h ?h" using i by (auto simp: exit_step_def)
  ultimately show ?case unfolding Suc.hyps(2) [symmetric] by (metis relpowp_Suc_I2)
qed

text \<open>
  C34: a closed hub drains, whatever happens after \<open>Close\<close>. In every state that the hub may reach
  from there, subscriptions included, each goroutine that still runs can leave its loop; each that
  leaves makes one fewer, so that after as many departures as there are goroutines none runs; only a
  new subscription makes more; and a second \<open>Close\<close> panics.
\<close>

theorem closed_hub_drains:
  assumes "hub_Close h = Some h0" and "hub_step\<^sup>*\<^sup>* h0 h1"
  shows "list_all (\<lambda>i. cn_running (hb_conns h1 ! i) \<longrightarrow> exit_enabled i h1) [0..<length (hb_conns h1)] \<and>
    (exit_enabled i h1 \<longrightarrow> Suc (running (goroutine_exit i h1)) = running h1) \<and>
    (\<exists>h2. (exit_step ^^ running h1) h1 h2 \<and> running h2 = 0) \<and>
    (hub_step h1 h3 \<longrightarrow> running h3 \<le> running h1 \<or> (\<exists>u. h3 = fst (hub_Subscribe u h1))) \<and>
    hub_Close h1 = None"
proof -
  have "hb_done h0" using assms(1) by (auto simp: hub_Close_Some)
  with assms(2) have d: "hb_done h1" by (rule hub_steps_done)
  then show ?thesis
    using done_can_exit [OF d] running_exit_enabled exits_drain hub_step_running [of h1 h3]
    by (auto simp: list_all_iff hub_Close_def)
qed

section \<open>A run\<close>

definition sample_event :: event where
  "sample_event = \<lparr>ev_Type = ''new'', ev_Data = ''1''\<rparr>"

definition sample_hub :: hub where
  "sample_hub = upd_conn 0 on_message (redis_publish 7 (Some sample_event) (fst (hub_Subscribe 7 NewRedisHub)))"

lemma sample_hub_conns:
  "hb_conns sample_hub = [\<lparr>cn_user = 7, cn_pending = [], cn_ch = [sample_event], cn_ctx_done = False, cn_running = True,
     cn_sent = [sample_event], cn_read = []\<rparr>]"
  "hb_reg sample_hub = [(7, 0)]" "hb_done sample_hub = False"
  by (simp_all add: sample_hub_def upd_conn_def on_message_def redis_publish_def enqueue_def hub_Subscribe_def
      NewRedisHub_def registered_def maxConnsPerUser_def chanBufSize_def)

lemma sample_hub_reachable: "hub_reachable sample_hub"
proof -
  let ?h = "redis_publish 7 (Some sample_event) (fst (hub_Subscribe 7 NewRedisHub))"
  have "hub_reachable (fst (hub_Subscribe 7 NewRedisHub))" by (rule hub_reachable.step [OF start hub_step.subscribe])
  then have "hub_reachable ?h" by (rule hub_reachable.step [OF _ hub_step.publish])
  moreover have "hub_step ?h (upd_conn 0 on_message ?h)"
    by (rule hub_step.message)
      (simp_all add: redis_publish_def enqueue_def hub_Subscribe_def NewRedisHub_def registered_def maxConnsPerUser_def)
  ultimately show ?thesis unfolding sample_hub_def by (rule hub_reachable.step)
qed

theorem hub_bounds_witness: "registered 7 sample_hub \<le> 5 \<and> registered 7 sample_hub = 1"
  using hub_bounds [OF sample_hub_reachable, of 7] by (simp add: registered_def sample_hub_conns)

theorem stream_is_subsequence_witness:
  "subseq [sample_event] (cn_sent (hb_conns sample_hub ! 0))"
  using stream_is_subsequence [OF sample_hub_reachable, of 0] by (simp add: sample_hub_conns)

theorem hub_refines_lossy_channel_witness:
  "lossy_step\<^sup>=\<^sup>= (abs_conn (hb_conns sample_hub ! 0)) (abs_conn (hb_conns (upd_conn 0 consume sample_hub) ! 0))"
  using hub_refines_lossy_channel [OF hub_step.read [of 0 sample_hub], of 0] by (simp add: sample_hub_conns)

theorem closed_hub_drains_witness:
  "case hub_Close sample_hub of None \<Rightarrow> False
   | Some h \<Rightarrow> running h = 1 \<and> (\<exists>h'. (exit_step ^^ 1) h h' \<and> running h' = 0)"
proof -
  obtain h where h: "hub_Close sample_hub = Some h" and r: "running h = 1"
    by (simp add: hub_Close_def sample_hub_conns running_def enumerate_eq_zip cancel_def)
  from closed_hub_drains [OF h rtranclp.rtrancl_refl] have "\<exists>h'. (exit_step ^^ running h) h h' \<and> running h' = 0"
    by blast
  with h r show ?thesis by simp
qed

end
