(* ===== verification/Rate_Limit.thy ===== *)
theory Rate_Limit
  imports App_Error Calendar
begin

text \<open>
  \<open>internal/server/http/middleware/ratelimit.go\<close>: one token bucket per client address, with idle
  addresses evicted by a periodic sweep. The bucket is \<open>golang.org/x/time/rate\<close>: a fresh limiter
  \<open>new\<close> and its method \<open>allow\<close> are parameters. A request takes its two readings of the clock as one.
\<close>

section \<open>The limiter\<close>

record 'l visitor =
  vs_limiter :: 'l
  vs_lastSeen :: time

type_synonym 'l visitors = "(string \<times> 'l visitor) list"

definition ttl :: int where
  "ttl = 600 * second"

text \<open>\<open>get\<close> makes the visitor known and notes the time; the bucket it returns then decides.\<close>

definition get_visitor :: "'l \<Rightarrow> string \<Rightarrow> time \<Rightarrow> 'l visitors \<Rightarrow> 'l visitor" where
  "get_visitor new ip t vs =
     (case map_of vs ip of
        None \<Rightarrow> \<lparr>vs_limiter = new, vs_lastSeen = t\<rparr>
      | Some v \<Rightarrow> v\<lparr>vs_lastSeen := t\<rparr>)"

definition put_visitor :: "string \<Rightarrow> 'l visitor \<Rightarrow> 'l visitors \<Rightarrow> 'l visitors" where
  "put_visitor ip v vs = (ip, v) # filter (\<lambda>(k, _). k \<noteq> ip) vs"

definition request_allowed ::
  "'l \<Rightarrow> (time \<Rightarrow> 'l \<Rightarrow> bool \<times> 'l) \<Rightarrow> string \<Rightarrow> time \<Rightarrow> 'l visitors \<Rightarrow> bool \<times> 'l visitors" where
  "request_allowed new allow ip t vs =
     (let v = get_visitor new ip t vs in
      case allow t (vs_limiter v) of
        (ok, l) \<Rightarrow> (ok, put_visitor ip (v\<lparr>vs_limiter := l\<rparr>) vs))"

definition sweep :: "time \<Rightarrow> 'l visitors \<Rightarrow> 'l visitors" where
  "sweep t vs = filter (\<lambda>(ip, v). \<not> vs_lastSeen v < t - ttl) vs"

text \<open>The middleware: the handler's result, or status 429.\<close>

definition too_many :: gerr where
  "too_many = TooManyRequestsErrorf ''qua nhieu yeu cau, vui long thu lai sau''"

definition limiter_Middleware ::
  "'l \<Rightarrow> (time \<Rightarrow> 'l \<Rightarrow> bool \<times> 'l) \<Rightarrow> string \<Rightarrow> time \<Rightarrow> 'l visitors \<Rightarrow> (gerr + 'a) \<Rightarrow> (gerr + 'a) \<times> 'l visitors" where
  "limiter_Middleware new allow ip t vs handler =
     (case request_allowed new allow ip t vs of
        (ok, vs') \<Rightarrow> ((if ok then handler else Inl too_many), vs'))"

section \<open>Histories\<close>

datatype limiter_event = Request string time | Sweep time

fun event_time :: "limiter_event \<Rightarrow> time" where
  "event_time (Request ip t) = t"
| "event_time (Sweep t) = t"

text \<open>The decisions on the requests of a history, with sweeps or as if there were none.\<close>

fun decisions ::
  "bool \<Rightarrow> 'l \<Rightarrow> (time \<Rightarrow> 'l \<Rightarrow> bool \<times> 'l) \<Rightarrow> 'l visitors \<Rightarrow> limiter_event list \<Rightarrow> bool list" where
  "decisions sw new allow vs [] = []"
| "decisions sw new allow vs (Request ip t # es) =
     (case request_allowed new allow ip t vs of (ok, vs') \<Rightarrow> ok # decisions sw new allow vs' es)"
| "decisions sw new allow vs (Sweep t # es) =
     decisions sw new allow (if sw then sweep t vs else vs) es"

text \<open>
  Documented of a token bucket whose burst is refilled within the eviction time: \<open>ok s l\<close> says that
  \<open>l\<close> is a bucket last used no later than \<open>s\<close>, and after an idle time longer than that it decides
  and continues like a fresh one.
\<close>

definition refills :: "(time \<Rightarrow> 'l \<Rightarrow> bool) \<Rightarrow> 'l \<Rightarrow> (time \<Rightarrow> 'l \<Rightarrow> bool \<times> 'l) \<Rightarrow> bool" where
  "refills ok new allow \<longleftrightarrow>
     (\<forall>t. ok t new) \<and> (\<forall>s t l. ok s l \<longrightarrow> s \<le> t \<longrightarrow> ok t (snd (allow t l))) \<and>
     (\<forall>s t l. ok s l \<longrightarrow> s + ttl < t \<longrightarrow> allow t l = allow t new)"

section \<open>Sweeping is invisible\<close>

text \<open>
  The states of the two runs at time \<open>now\<close>: where an address has been evicted from the first, the
  second has a bucket that was last used too long ago to matter.
\<close>

definition swept_at ::
  "(time \<Rightarrow> 'l \<Rightarrow> bool) \<Rightarrow> time \<Rightarrow> 'l visitor option \<Rightarrow> 'l visitor option \<Rightarrow> bool" where
  "swept_at ok now ov ow \<longleftrightarrow>
     (case ow of
        None \<Rightarrow> ov = None
      | Some v \<Rightarrow> ok (vs_lastSeen v) (vs_limiter v) \<and> vs_lastSeen v \<le> now \<and>
          (ov = Some v \<or> ov = None \<and> vs_lastSeen v + ttl < now))"

definition swept_of ::
  "(time \<Rightarrow> 'l \<Rightarrow> bool) \<Rightarrow> time \<Rightarrow> 'l visitors \<Rightarrow> 'l visitors \<Rightarrow> bool" where
  "swept_of ok now vs ws \<longleftrightarrow> (\<forall>ip. swept_at ok now (map_of vs ip) (map_of ws ip))"

lemma swept_at_later: "swept_at ok s ov ow \<Longrightarrow> s \<le> t \<Longrightarrow> swept_at ok t ov ow"
  by (cases ow) (auto simp: swept_at_def)

lemma swept_at_sweep:
  "swept_at ok t ov ow \<Longrightarrow>
   swept_at ok t (case ov of None \<Rightarrow> None | Some v \<Rightarrow> if vs_lastSeen v < t - ttl then None else Some v) ow"
  by (cases ow; cases "vs_lastSeen (the ow) < t - ttl") (auto simp: swept_at_def)

lemma map_of_put: "map_of (put_visitor ip v vs) k = (if k = ip then Some v else map_of vs k)"
proof -
  have "map_of (filter (\<lambda>(k, _). k \<noteq> ip) vs) k = (if k = ip then None else map_of vs k)"
    by (induction vs) auto
  then show ?thesis by (auto simp: put_visitor_def)
qed

lemma map_of_sweep: "distinct (map fst vs) \<Longrightarrow>
  map_of (sweep t vs) k = (case map_of vs k of None \<Rightarrow> None | Some v \<Rightarrow> if vs_lastSeen v < t - ttl then None else Some v)"
proof (induction vs)
  case (Cons a vs)
  obtain ip v where a: "a = (ip, v)" by (cases a)
  have "map_of vs ip = None" using Cons.prems a by (auto simp: map_of_eq_None_iff)
  with Cons a show ?case by (auto simp: sweep_def split: option.split)
qed (simp add: sweep_def)

lemma distinct_put: "distinct (map fst vs) \<Longrightarrow> distinct (map fst (put_visitor ip v vs))"
  by (induction vs) (auto simp: put_visitor_def)

lemma distinct_sweep: "distinct (map fst vs) \<Longrightarrow> distinct (map fst (sweep t vs))"
  by (simp add: sweep_def distinct_map_filter)

lemma swept_of_later: "swept_of ok s vs ws \<Longrightarrow> s \<le> t \<Longrightarrow> swept_of ok t vs ws"
  unfolding swept_of_def by (blast intro: swept_at_later)

lemma swept_of_sweep:
  "swept_of ok t vs ws \<Longrightarrow> distinct (map fst vs) \<Longrightarrow> swept_of ok t (sweep t vs) ws"
  unfolding swept_of_def by (simp add: map_of_sweep swept_at_sweep)

lemma request_swept_of:
  assumes law: "refills ok new allow" and rel: "swept_of ok t vs ws"
    and vs: "request_allowed new allow ip t vs = (a, vs')" and ws: "request_allowed new allow ip t ws = (b, ws')"
  shows "a = b \<and> swept_of ok t vs' ws'"
proof -
  let ?l = "vs_limiter (get_visitor new ip t vs)" and ?m = "vs_limiter (get_visitor new ip t ws)"
  have at: "swept_at ok t (map_of vs ip) (map_of ws ip)" using rel by (simp add: swept_of_def)
  have new: "ok s new" and keep: "ok s l \<Longrightarrow> s \<le> u \<Longrightarrow> ok u (snd (allow u l))"
    and full: "ok s l \<Longrightarrow> s + ttl < u \<Longrightarrow> allow u l = allow u new" for s u l
    using law unfolding refills_def by (blast, blast, meson)
  have "allow t ?l = allow t ?m \<and> ok t (snd (allow t ?m))"
  proof (cases "map_of ws ip")
    case None
    with at show ?thesis
      using keep [OF new [of t] order_refl] by (simp_all add: swept_at_def get_visitor_def)
  next
    case (Some v)
    with at have v: "ok (vs_lastSeen v) (vs_limiter v)" "vs_lastSeen v \<le> t"
      and or: "map_of vs ip = Some v \<or> map_of vs ip = None \<and> vs_lastSeen v + ttl < t"
      by (simp_all add: swept_at_def)
    from Some keep [OF v] have "ok t (snd (allow t ?m))" by (simp add: get_visitor_def)
    moreover from or Some full [OF v(1)] have "allow t ?l = allow t ?m" by (auto simp: get_visitor_def)
    ultimately show ?thesis by blast
  qed
  then have same: "allow t ?l = allow t ?m" and okm: "ok t (snd (allow t ?m))" by simp_all
  let ?v = "\<lparr>vs_limiter = snd (allow t ?m), vs_lastSeen = t\<rparr>"
  have "get_visitor new ip t us\<lparr>vs_limiter := l\<rparr> = \<lparr>vs_limiter = l, vs_lastSeen = t\<rparr>" for us l
    by (simp add: get_visitor_def split: option.split)
  with vs ws same have eq: "a = b" "vs' = put_visitor ip ?v vs" "ws' = put_visitor ip ?v ws"
    by (auto simp: request_allowed_def Let_def split: prod.splits)
  with rel okm show ?thesis by (auto simp: swept_of_def swept_at_def map_of_put)
qed

lemma decisions_swept_of:
  assumes "refills ok new allow"
  shows "swept_of ok s vs ws \<Longrightarrow> distinct (map fst vs) \<Longrightarrow> sorted (s # map event_time es) \<Longrightarrow>
    decisions True new allow vs es = decisions False new allow ws es"
proof (induction es arbitrary: s vs ws)
  case (Cons e es)
  show ?case
  proof (cases e)
    case (Request ip t)
    obtain a vs' b ws' where r: "request_allowed new allow ip t vs = (a, vs')" "request_allowed new allow ip t ws = (b, ws')"
      by (metis surj_pair)
    have "swept_of ok t vs ws" using Cons.prems Request by (auto intro: swept_of_later)
    from request_swept_of [OF assms this r] have "a = b" and rel: "swept_of ok t vs' ws'" by simp_all
    moreover have "distinct (map fst vs')"
      using r(1) Cons.prems(2) by (auto simp: request_allowed_def Let_def distinct_put split: prod.splits)
    moreover have "sorted (t # map event_time es)" using Cons.prems(3) Request by simp
    ultimately show ?thesis using Cons.IH r Request by simp
  next
    case (Sweep t)
    have "swept_of ok t vs ws" using Cons.prems Sweep by (auto intro: swept_of_later)
    with swept_of_sweep [OF this Cons.prems(2)] distinct_sweep [OF Cons.prems(2)] Cons.prems(3) Sweep
    show ?thesis using Cons.IH by simp
  qed
qed simp

text \<open>
  C36: eviction never changes a decision. For a bucket that is full again within the ten minutes after
  which an idle address is forgotten, the limiter that sweeps lets through exactly the requests that
  one with unbounded memory would let through, whatever the history.
\<close>

theorem sweep_invisible:
  assumes "refills ok new allow" and "sorted (map event_time es)"
  shows "decisions True new allow [] es = decisions False new allow [] es"
proof (cases es)
  case (Cons e es')
  with assms(2) have "sorted (event_time e # map event_time es)" by simp
  then show ?thesis
    by (intro decisions_swept_of [OF assms(1), of "event_time e"]) (simp_all add: swept_of_def swept_at_def)
qed simp

text \<open>The login limiter: one token every twelve seconds, at most five (levels in nanoseconds).\<close>

definition login_allow :: "time \<Rightarrow> int \<times> time option \<Rightarrow> bool \<times> (int \<times> time option)" where
  "login_allow t b =
     (let elapsed = (case snd b of None \<Rightarrow> 0 | Some s \<Rightarrow> max 0 (t - s));
          level = min (60 * second) (fst b + elapsed) in
      if 12 * second \<le> level then (True, (level - 12 * second, Some t)) else (False, b))"

definition login_new :: "int \<times> time option" where
  "login_new = (60 * second, None)"

lemma login_refills:
  "refills (\<lambda>t b. 0 \<le> fst b \<and> (case snd b of None \<Rightarrow> b = login_new | Some s \<Rightarrow> s \<le> t)) login_new login_allow"
  by (auto simp: refills_def login_new_def login_allow_def ttl_def second_def Let_def split: option.splits)

theorem sweep_invisible_witness:
  "decisions True login_new login_allow []
     [Request ''a'' 0, Request ''a'' 1, Sweep (700 * second), Request ''a'' (701 * second)] = [True, True, True]"
  using sweep_invisible [OF login_refills, of "[Request ''a'' 0, Request ''a'' 1, Sweep (700 * second), Request ''a'' (701 * second)]"]
  by (simp add: second_def request_allowed_def get_visitor_def put_visitor_def login_new_def login_allow_def)

end
