(* ===== verification/Response_DTO.thy ===== *)
theory Response_DTO
  imports Calendar User_Repo Perm_Repo Audit_Repo User_Bulk
begin

text \<open>
  The response types of \<open>internal/server/http/dto\<close> and \<open>internal/domain/model/activity_log.go\<close> and
  the functions that fill them from the domain's values. A response is kept as the value that
  \<open>encoding/json\<close> is given.
\<close>

section \<open>Users\<close>

record UserResponse =
  us_ID :: int
  us_Username :: string
  us_FullName :: string
  us_Email :: "string option"
  us_Phone :: "string option"
  us_Role :: string
  us_Status :: string
  us_StaffCode :: "string option"
  us_AvatarURL :: "string option"
  us_EmploymentType :: string
  us_ForcePasswordChange :: bool
  us_CreatedAt :: string
  us_UpdatedAt :: string

definition ToUserResponse :: "user \<Rightarrow> UserResponse" where
  "ToUserResponse u =
     \<lparr>us_ID = usr_ID u, us_Username = usr_Username u, us_FullName = usr_FullName u,
      us_Email = usr_Email u, us_Phone = usr_Phone u, us_Role = usr_Role u, us_Status = usr_Status u,
      us_StaffCode = usr_StaffCode u, us_AvatarURL = usr_AvatarURL u,
      us_EmploymentType = usr_EmploymentType u, us_ForcePasswordChange = usr_ForcePasswordChange u,
      us_CreatedAt = format_rfc3339 (usr_CreatedAt u), us_UpdatedAt = format_rfc3339 (usr_UpdatedAt u)\<rparr>"

definition ToUserResponses :: "user list \<Rightarrow> UserResponse list" where
  "ToUserResponses us = map ToUserResponse us"

record LoginResponse =
  lr_Token :: string
  lr_User :: UserResponse
  lr_ForcePasswordChange :: bool

record InviteUserResponse =
  ir_User :: UserResponse
  ir_EmailSent :: bool
  ir_TemporaryPassword :: string

record BulkUserActionResponse =
  br_OK :: int
  br_Failed :: "BulkUserFailure list"

section \<open>Permissions\<close>

fun ToPermissionDefinitions :: "permission list \<Rightarrow> permission list" where
  "ToPermissionDefinitions [] = []"
| "ToPermissionDefinitions (Permission i n d acts children # ps) =
     Permission i n d acts (ToPermissionDefinitions children) # ToPermissionDefinitions ps"

definition ToActionDefinitions :: "action_def list \<Rightarrow> action_def list" where
  "ToActionDefinitions as = map (\<lambda>a. \<lparr>act_ID = act_ID a, act_Name = act_Name a\<rparr>) as"

record UserPermissionResponse =
  ur_rowID :: int
  ur_rowUserID :: int
  ur_UserFullName :: string
  ur_UserUsername :: string
  ur_UserStaffCode :: "string option"
  ur_PermissionCount :: int
  ur_Permissions :: pmap
  ur_Effective :: "pmap option" \<comment> \<open>None: omitted\<close>
  ur_rowCreatedAt :: string
  ur_rowUpdatedAt :: string
  ur_rowCreatedBy :: int
  ur_rowUpdatedBy :: int

definition ToUserPermissionResponse :: "UserPermission \<Rightarrow> UserPermissionResponse" where
  "ToUserPermissionResponse p =
     \<lparr>ur_rowID = up_ID p, ur_rowUserID = up_UserID p, ur_UserFullName = up_UserFullName p,
      ur_UserUsername = up_UserUsername p, ur_UserStaffCode = up_UserStaffCode p,
      ur_PermissionCount = up_PermissionCount p, ur_Permissions = up_Permissions p,
      ur_Effective = None, ur_rowCreatedAt = format_rfc3339 (up_CreatedAt p),
      ur_rowUpdatedAt = format_rfc3339 (up_UpdatedAt p), ur_rowCreatedBy = up_CreatedBy p,
      ur_rowUpdatedBy = up_UpdatedBy p\<rparr>"

definition ToUserPermissionResponses :: "UserPermission list \<Rightarrow> UserPermissionResponse list" where
  "ToUserPermissionResponses ps = map ToUserPermissionResponse ps"

section \<open>Announcements, notifications and settings\<close>

record AnnouncementResponse =
  as_ID :: int
  as_Title :: string
  as_Body :: string
  as_Priority :: string
  as_PublishedAt :: "string option"
  as_ExpiresAt :: "string option"
  as_CreatedAt :: string
  as_UpdatedAt :: string

definition ToAnnouncementResponse :: "announcement \<Rightarrow> AnnouncementResponse" where
  "ToAnnouncementResponse a =
     \<lparr>as_ID = an_ID a, as_Title = an_Title a, as_Body = an_Body a, as_Priority = an_Priority a,
      as_PublishedAt = map_option format_rfc3339 (an_PublishedAt a),
      as_ExpiresAt = map_option format_rfc3339 (an_ExpiresAt a),
      as_CreatedAt = format_rfc3339 (an_CreatedAt a), as_UpdatedAt = format_rfc3339 (an_UpdatedAt a)\<rparr>"

record NotificationResponse =
  ns_ID :: int
  ns_Type :: string
  ns_Category :: string
  ns_Title :: string
  ns_Body :: string
  ns_Message :: string
  ns_Link :: "string option"
  ns_RefType :: "string option"
  ns_RefID :: "int option"
  ns_IsRead :: bool
  ns_IsImportant :: bool
  ns_ReadAt :: "string option"
  ns_CreatedAt :: string

definition ToNotificationResponse :: "notification \<Rightarrow> NotificationResponse" where
  "ToNotificationResponse n =
     \<lparr>ns_ID = nt_ID n, ns_Type = nt_Type n, ns_Category = nt_Category n, ns_Title = nt_Title n,
      ns_Body = nt_Body n, ns_Message = nt_Body n, ns_Link = nt_Link n, ns_RefType = nt_RefType n,
      ns_RefID = nt_RefID n, ns_IsRead = nt_IsRead n, ns_IsImportant = nt_IsImportant n,
      ns_ReadAt = map_option format_rfc3339 (nt_ReadAt n), ns_CreatedAt = format_rfc3339 (nt_CreatedAt n)\<rparr>"

definition ToNotificationResponses :: "notification list \<Rightarrow> NotificationResponse list" where
  "ToNotificationResponses ns = map ToNotificationResponse ns"

record SettingResponse =
  ss_Key :: string
  ss_Value :: string
  ss_Description :: string
  ss_UpdatedAt :: time
  ss_UpdatedBy :: "int option"

definition ToSettingResponse :: "setting \<Rightarrow> SettingResponse" where
  "ToSettingResponse s =
     \<lparr>ss_Key = st_Key s, ss_Value = st_Value s, ss_Description = st_Description s,
      ss_UpdatedAt = st_UpdatedAt s, ss_UpdatedBy = st_UpdatedBy s\<rparr>"

section \<open>Activity log\<close>

record AuditLogRowResponse =
  lw_ID :: int
  lw_UserID :: "int option"
  lw_UserFullName :: "string option"
  lw_UserRole :: "string option"
  lw_Action :: string
  lw_EntityType :: string
  lw_EntityID :: "int option"
  lw_EntityName :: "string option"
  lw_Description :: "string option"
  lw_Method :: "string option"
  lw_Path :: "string option"
  lw_Metadata :: "string option" \<comment> \<open>the text of the JSON value, None: null\<close>
  lw_IPAddress :: "string option"
  lw_CreatedAt :: string

text \<open>\<open>json_valid\<close> is \<open>json.Unmarshal\<close> into \<open>any\<close> succeeding; an error leaves the zero value.\<close>

definition ToAuditLogRowResponse :: "(string \<Rightarrow> bool) \<Rightarrow> AuditLogRow \<Rightarrow> AuditLogRowResponse" where
  "ToAuditLogRowResponse json_valid r =
     (let meta = (case al_Metadata r of
                    None \<Rightarrow> None
                  | Some m \<Rightarrow> if m \<noteq> '''' \<and> m \<noteq> ''null'' \<and> json_valid m then Some m else None) in
      \<lparr>lw_ID = al_ID r, lw_UserID = al_UserID r, lw_UserFullName = al_UserFullName r,
       lw_UserRole = al_UserRole r, lw_Action = al_Action r, lw_EntityType = al_EntityType r,
       lw_EntityID = al_EntityID r, lw_EntityName = al_EntityName r,
       lw_Description = al_Description r, lw_Method = None, lw_Path = None, lw_Metadata = meta,
       lw_IPAddress = al_IPAddress r, lw_CreatedAt = al_CreatedAt r\<rparr>)"

definition ToAuditLogRowResponses :: "(string \<Rightarrow> bool) \<Rightarrow> AuditLogRow list \<Rightarrow> AuditLogRowResponse list" where
  "ToAuditLogRowResponses json_valid rows = map (ToAuditLogRowResponse json_valid) rows"

record AuditActorResponse =
  aw_UserID :: int
  aw_UserFullName :: string
  aw_UserRole :: string

definition ToAuditActorResponse :: "AuditActor \<Rightarrow> AuditActorResponse" where
  "ToAuditActorResponse a =
     \<lparr>aw_UserID = ac_UserID a, aw_UserFullName = ac_UserFullName a, aw_UserRole = ac_UserRole a\<rparr>"

definition ToAuditActorResponses :: "AuditActor list \<Rightarrow> AuditActorResponse list" where
  "ToAuditActorResponses as = map ToAuditActorResponse as"

text \<open>The tree the client is shown is the declared one.\<close>

lemma ToPermissionDefinitions_id [simp]: "ToPermissionDefinitions ps = ps"
  by (induction ps rule: ToPermissionDefinitions.induct) simp_all

end
