(* ===== verification/Handler_Base.thy ===== *)
theory Handler_Base
  imports Request_DTO Response_DTO Middleware Invite_UC Notif_UC Setting_UC Storage_Handler Avatar Staff_Code
begin

text \<open>
  What the HTTP handlers share: the request as the handlers read it, the responses of
  \<open>pkg/xhttp/response.go\<close>, the parsing helpers of \<open>internal/server/http/handler/helpers.go\<close> and the
  object graph. A handler is a computation in the request's context that returns a response; an
  error it returns, or hands to \<open>AppErrorResponse\<close>, is rendered by \<open>answer\<close>.
\<close>

section \<open>Requests\<close>

text \<open>The file of a multipart form: its announced size, and its content unless opening it fails.\<close>

record form_file =
  ff_Size :: int
  ff_Content :: "string option"

record http_request = request +
  hq_Param :: "(string \<times> string) list"
  hq_Query :: "(string \<times> string) list"
  hq_HasBody :: bool \<comment> \<open>\<open>ContentLength > 0\<close>\<close>
  hq_Avatar :: "form_file option"
  hq_Upload :: direct_req \<comment> \<open>the request of the direct upload\<close>

definition Param :: "http_request \<Rightarrow> string \<Rightarrow> string" where
  "Param rq name = (case map_of (hq_Param rq) name of None \<Rightarrow> '''' | Some v \<Rightarrow> v)"

definition QueryParam :: "http_request \<Rightarrow> string \<Rightarrow> string" where
  "QueryParam rq name = (case map_of (hq_Query rq) name of None \<Rightarrow> '''' | Some v \<Rightarrow> v)"

text \<open>
  The libraries: what \<open>c.Bind\<close> makes of a request for each type (None: an error; for the two types
  whose error is ignored or answered differently, what the struct holds or an error), the validator,
  and whether a text is JSON.
\<close>

record http_lib =
  bind_LoginRequest :: "http_request \<Rightarrow> LoginRequest option"
  bind_ChangePasswordRequest :: "http_request \<Rightarrow> ChangePasswordRequest option"
  bind_ForgotPasswordRequest :: "http_request \<Rightarrow> ForgotPasswordRequest option"
  bind_ResetPasswordByTokenRequest :: "http_request \<Rightarrow> ResetPasswordByTokenRequest option"
  bind_CreateUserRequest :: "http_request \<Rightarrow> CreateUserRequest option"
  bind_UpdateUserRequest :: "http_request \<Rightarrow> UpdateUserRequest option"
  bind_ResetPasswordRequest :: "http_request \<Rightarrow> ResetPasswordRequest"
  bind_UpdateProfileRequest :: "http_request \<Rightarrow> UpdateProfileRequest option"
  bind_ListUsersQuery :: "http_request \<Rightarrow> ListUsersQuery option"
  bind_NextCodeQuery :: "http_request \<Rightarrow> NextCodeQuery option"
  bind_InviteUserRequest :: "http_request \<Rightarrow> InviteUserRequest option"
  bind_BulkUserIDsRequest :: "http_request \<Rightarrow> BulkUserIDsRequest option"
  bind_IDParam :: "http_request \<Rightarrow> IDParam option"
  bind_CreateUserPermissionRequest :: "http_request \<Rightarrow> CreateUserPermissionRequest option"
  bind_UpdateUserPermissionRequest :: "http_request \<Rightarrow> UpdateUserPermissionRequest option"
  bind_ListUserPermissionsQuery :: "http_request \<Rightarrow> ListUserPermissionsQuery option"
  bind_AnnouncementRequest :: "http_request \<Rightarrow> AnnouncementRequest option"
  bind_SetSettingRequest :: "http_request \<Rightarrow> SetSettingRequest option"
  bind_SetImportantRequest :: "http_request \<Rightarrow> bool option"
  bind_requestUploadReq :: "http_request \<Rightarrow> requestUploadReq option"
  validate_Struct :: "struct_field list \<Rightarrow> field_error list"
  json_valid :: "string \<Rightarrow> bool"

section \<open>Parsing\<close>

definition parseIDParam :: "http_request \<Rightarrow> int comp" where
  "parseIDParam rq =
     (case ParseInt (Param rq ''id'') of
        (n, ok) \<Rightarrow> if \<not> ok \<or> n \<le> 0 then throw (BadRequestErrorf ''id khong hop le'') else ret n)"

definition safeInt64Param :: "http_request \<Rightarrow> string \<Rightarrow> int comp" where
  "safeInt64Param rq name =
     (case ParseInt (Param rq name) of
        (n, ok) \<Rightarrow> if \<not> ok \<or> n \<le> 0 then throw (BadRequestErrorf (name @ '' khong hop le'')) else ret n)"

definition mustInt :: "string \<Rightarrow> int" where
  "mustInt s = fst (ParseInt s)"

definition parsePeriodParams :: "http_request \<Rightarrow> int \<times> int" where
  "parsePeriodParams rq =
     (fst (ParseInt (QueryParam rq ''periodYear'')), fst (ParseInt (QueryParam rq ''periodMonth'')))"

definition positive_or :: "int \<Rightarrow> string \<Rightarrow> int" where
  "positive_or d s = (case ParseInt s of (n, ok) \<Rightarrow> if ok \<and> 0 < n then n else d)"

definition parsePage :: "http_request \<Rightarrow> int \<Rightarrow> int \<times> int" where
  "parsePage rq defaultLimit =
     (positive_or 1 (QueryParam rq ''page''), positive_or defaultLimit (QueryParam rq ''limit''))"

section \<open>Responses\<close>

datatype response_data =
    DNull
  | DText "(string \<times> string) list" \<comment> \<open>\<open>map[string]string\<close>\<close>
  | DCount int \<comment> \<open>under both \<open>count\<close> and \<open>unread\<close>\<close>
  | DOk
  | DNoReads
  | DUser UserResponse
  | DUsers "UserResponse list"
  | DLogin LoginResponse
  | DInvite InviteUserResponse
  | DBulk BulkUserActionResponse
  | DPermissionTree "permission list"
  | DActions "action_def list"
  | DPermissionMap pmap
  | DUserPermission UserPermissionResponse
  | DUserPermissions "UserPermissionResponse list"
  | DAnnouncement AnnouncementResponse
  | DAnnouncements "AnnouncementResponse list"
  | DNotification NotificationResponse
  | DNotifications "NotificationResponse list"
  | DSetting SettingResponse
  | DSettings "SettingResponse list"
  | DActors "AuditActorResponse list"
  | DUpload requestUploadResp

datatype body =
    Envelope response_data
  | PagedEnvelope response_data page_meta
  | FlatPage response_data page_meta int \<comment> \<open>\<open>PaginatedResponseWithMeta\<close> with \<open>unreadCount\<close>\<close>
  | LogPage "AuditLogRowResponse list" int
  | ErrorText string \<comment> \<open>\<open>{"error": ...}\<close>\<close>
  | ProblemBody problem "ValidationError list"
  | ObjectBody object_result
  | Stream "string list" \<comment> \<open>the frames written to an event stream\<close>
  | NoBody

record cookie =
  ck_Name :: string
  ck_Value :: string
  ck_Domain :: string
  ck_Secure :: bool
  ck_MaxAge :: int

record response =
  rs_Status :: int
  rs_Body :: body
  rs_Cookie :: "cookie option"

definition JSON :: "int \<Rightarrow> body \<Rightarrow> response" where
  "JSON status b = \<lparr>rs_Status = status, rs_Body = b, rs_Cookie = None\<rparr>"

definition SuccessResponse :: "response_data \<Rightarrow> response" where
  "SuccessResponse d = JSON 200 (Envelope d)"

definition CreatedResponse :: "response_data \<Rightarrow> response" where
  "CreatedResponse d = JSON 201 (Envelope d)"

definition NoContentResponse :: response where
  "NoContentResponse = JSON 204 NoBody"

definition PaginatedResponse :: "response_data \<Rightarrow> int \<Rightarrow> int \<Rightarrow> int \<Rightarrow> response" where
  "PaginatedResponse d page limit tot = JSON 200 (PagedEnvelope d (PaginatedMeta page limit tot))"

definition PaginatedResponseWithMeta :: "response_data \<Rightarrow> int \<Rightarrow> int \<Rightarrow> int \<Rightarrow> int \<Rightarrow> response" where
  "PaginatedResponseWithMeta items page limit tot unread =
     JSON 200 (FlatPage items (PaginatedMeta page limit tot) unread)"

definition BadRequestResponse :: "ValidationError list \<Rightarrow> response" where
  "BadRequestResponse errs =
     JSON 422 (ProblemBody \<lparr>pb_Title = ''Validation failed'', pb_Status = 422,
       pb_Detail = ''Du lieu gui len khong hop le.'', pb_Code = ''VALIDATION_FAILED'', pb_Field = ''''\<rparr> errs)"

definition problem_response :: "gerr \<Rightarrow> response" where
  "problem_response err =
     (let p = fst (AppErrorResponse err) in JSON (pb_Status p) (ProblemBody p []))"

text \<open>
  The fallback handler, for an error of the service or one of echo's own, which has a code and
  perhaps a text for its message. It writes nothing over a committed response.
\<close>

datatype handler_error = HTTPError int "string option" | ServiceError gerr

definition HTTPErrorHandler :: "bool \<Rightarrow> handler_error \<Rightarrow> response option" where
  "HTTPErrorHandler committed err =
     (if committed then None
      else
        (case err of
           HTTPError code message \<Rightarrow>
             (let msg = (case message of None \<Rightarrow> StatusText code | Some s \<Rightarrow> s) in
              Some (JSON code (ProblemBody \<lparr>pb_Title = StatusText code, pb_Status = code, pb_Detail = msg,
                pb_Code = ''HTTP_ERROR'', pb_Field = ''''\<rparr> [])))
         | ServiceError e \<Rightarrow> Some (problem_response e)))"

text \<open>
  What the client gets: the handler's response, or the rendering of its error, whether the handler
  passed it to \<open>AppErrorResponse\<close> or returned it.
\<close>

definition answer :: "gerr + response \<Rightarrow> response" where
  "answer r = (case r of Inl err \<Rightarrow> problem_response err | Inr resp \<Rightarrow> resp)"

lemma answer_returned: "HTTPErrorHandler False (ServiceError err) = Some (answer (Inl err))"
  by (simp add: HTTPErrorHandler_def answer_def)

text \<open>\<open>if errs := ReadAndValidateRequest(c, req); errs != nil { ... }\<close>, then the rest.\<close>

definition validated :: "ValidationError list + 'r \<Rightarrow> ('r \<Rightarrow> response comp) \<Rightarrow> response comp" where
  "validated r k = (case r of Inl errs \<Rightarrow> ret (BadRequestResponse errs) | Inr req \<Rightarrow> k req)"

section \<open>The application\<close>

record CookieConfig =
  cc_Name :: string
  cc_Domain :: string
  cc_Secure :: bool
  cc_MaxAgeSec :: int

record app =
  app_lib :: http_lib
  app_mw :: auth_mw
  app_auth :: auth_uc
  app_cookie :: CookieConfig
  app_invite :: invite_config
  app_avatars :: "string option" \<comment> \<open>the public address of the avatar store, if configured\<close>
  app_storage :: "storage_handler option"
  app_storageURL :: string
  app_internalKey :: string
  app_stream :: "ctx \<Rightarrow> response" \<comment> \<open>the outcome of an event stream, given by \<open>Sse\<close>\<close>
  app_version :: string

end
