(* ===== verification/Handlers.thy ===== *)
theory Handlers
  imports Handler_Base
begin

text \<open>
  The resource handlers of \<open>internal/server/http/handler\<close>, one definition each: read and validate
  the request, call the use case, shape the response. The object store's endpoints are those of
  \<open>Storage_Handler\<close>; the event stream writes to the connection of \<open>Hub\<close> and is not a value.
\<close>

section \<open>auth.go\<close>

definition session_cookie :: "CookieConfig \<Rightarrow> string \<Rightarrow> int \<Rightarrow> cookie option" where
  "session_cookie cc v age =
     (if cc_Name cc \<noteq> '''' then
        Some \<lparr>ck_Name = cc_Name cc, ck_Value = v, ck_Domain = cc_Domain cc, ck_Secure = cc_Secure cc,
          ck_MaxAge = age\<rparr>
      else None)"

definition AuthHandler_Login :: "app \<Rightarrow> http_request \<Rightarrow> ctx \<Rightarrow> response comp" where
  "AuthHandler_Login a rq cx =
     validated (ReadAndValidateRequest (validate_Struct (app_lib a)) id tagged_LoginRequest
       (bind_LoginRequest (app_lib a) rq)) (\<lambda>req.
     bind (authUC_Login (app_auth a) (rlg_Username req) (rlg_Password req) cx) (\<lambda>(token, user).
     ret ((SuccessResponse (DLogin \<lparr>lr_Token = token, lr_User = ToUserResponse user,
             lr_ForcePasswordChange = usr_ForcePasswordChange user\<rparr>))
          \<lparr>rs_Cookie := session_cookie (app_cookie a) token (cc_MaxAgeSec (app_cookie a))\<rparr>)))"

definition AuthHandler_Me :: "ctx \<Rightarrow> response comp" where
  "AuthHandler_Me cx = bind (authUC_Me cx) (\<lambda>user. ret (SuccessResponse (DUser (ToUserResponse user))))"

definition done_message :: "string \<Rightarrow> response" where
  "done_message m = SuccessResponse (DText [(''message'', m)])"

definition AuthHandler_ChangePassword :: "app \<Rightarrow> http_request \<Rightarrow> ctx \<Rightarrow> response comp" where
  "AuthHandler_ChangePassword a rq cx =
     validated (ReadAndValidateRequest (validate_Struct (app_lib a)) id tagged_ChangePasswordRequest
       (bind_ChangePasswordRequest (app_lib a) rq)) (\<lambda>req.
     bind (authUC_ChangePassword (rcp_CurrentPassword req) (rcp_NewPassword req) cx) (\<lambda>_.
     ret (done_message ''doi mat khau thanh cong'')))"

text \<open>The outcome of the request is not shown, so that it does not tell whether the account exists.\<close>

definition AuthHandler_ForgotPassword :: "app \<Rightarrow> http_request \<Rightarrow> ctx \<Rightarrow> response comp" where
  "AuthHandler_ForgotPassword a rq cx =
     validated (ReadAndValidateRequest (validate_Struct (app_lib a)) id tagged_ForgotPasswordRequest
       (bind_ForgotPasswordRequest (app_lib a) rq)) (\<lambda>req.
     bind (ignore (authUC_RequestPasswordReset (app_auth a) (rfp_Username req) cx)) (\<lambda>_.
     ret (done_message ''Neu tai khoan ton tai, link dat lai mat khau da duoc gui toi email dang ky. Hay kiem tra hop thu (ke ca thu rac).'')))"

definition AuthHandler_ResetPassword :: "app \<Rightarrow> http_request \<Rightarrow> ctx \<Rightarrow> response comp" where
  "AuthHandler_ResetPassword a rq cx =
     validated (ReadAndValidateRequest (validate_Struct (app_lib a)) id tagged_ResetPasswordByTokenRequest
       (bind_ResetPasswordByTokenRequest (app_lib a) rq)) (\<lambda>req.
     bind (authUC_ResetPassword (rrt_Token req) (rrt_NewPassword req) cx) (\<lambda>_.
     ret (done_message ''dat lai mat khau thanh cong'')))"

definition AuthHandler_Logout :: "app \<Rightarrow> ctx \<Rightarrow> response comp" where
  "AuthHandler_Logout a cx =
     bind (authUC_Logout (app_auth a) cx) (\<lambda>_.
     ret ((done_message ''da dang xuat'')\<lparr>rs_Cookie := session_cookie (app_cookie a) '''' (-1)\<rparr>))"

section \<open>user.go\<close>

definition validRoles :: "string list" where
  "validRoles = [''admin'', ''manager'', ''staff'']"

definition validStatuses :: "string list" where
  "validStatuses = [''active'', ''locked'']"

definition splitCSVWhitelist :: "string \<Rightarrow> string list \<Rightarrow> string list" where
  "splitCSVWhitelist csv allow =
     (if csv = '''' then []
      else filter (\<lambda>v. v \<noteq> '''' \<and> v \<in> set allow) (map TrimSpace (Split csv (CHR '',''))))"

definition user_response :: "user comp \<Rightarrow> response comp" where
  "user_response m = bind m (\<lambda>u. ret (SuccessResponse (DUser (ToUserResponse u))))"

definition UserHandler_GetMe :: "ctx \<Rightarrow> response comp" where
  "UserHandler_GetMe cx = user_response (userUC_Get (UserID cx))"

definition UserHandler_UpdateProfile :: "app \<Rightarrow> http_request \<Rightarrow> ctx \<Rightarrow> response comp" where
  "UserHandler_UpdateProfile a rq cx =
     validated (ReadAndValidateRequest (validate_Struct (app_lib a)) id tagged_UpdateProfileRequest
       (bind_UpdateProfileRequest (app_lib a) rq)) (\<lambda>req.
     user_response (userUC_UpdateProfile
       \<lparr>pi_FullName = rup_FullName req, pi_Email = rup_Email req, pi_Phone = rup_Phone req,
        pi_AvatarURL = rup_AvatarURL req, pi_Password = rup_Password req,
        pi_CurrentPassword = rup_CurrentPassword req\<rparr> cx))"

definition UserHandler_NextCode :: "app \<Rightarrow> http_request \<Rightarrow> response comp" where
  "UserHandler_NextCode a rq =
     validated (ReadAndValidateRequest (validate_Struct (app_lib a)) defaults_NextCodeQuery tagged_NextCodeQuery
       (bind_NextCodeQuery (app_lib a) rq)) (\<lambda>q.
     bind (userUC_NextStaffCode (rnc_Role q)) (\<lambda>code.
     ret (SuccessResponse (DText [(''nextCode'', code)]))))"

definition UserHandler_List :: "app \<Rightarrow> http_request \<Rightarrow> response comp" where
  "UserHandler_List a rq =
     validated (ReadAndValidateRequest (validate_Struct (app_lib a)) defaults_ListUsersQuery tagged_ListUsersQuery
       (bind_ListUsersQuery (app_lib a) rq)) (\<lambda>q.
     bind (userUC_List \<lparr>uf_Search = rlu_Search q, uf_Role = rlu_Role q, uf_Status = rlu_Status q,
             uf_Roles = splitCSVWhitelist (rlu_Roles q) validRoles,
             uf_Statuses = splitCSVWhitelist (rlu_Statuses q) validStatuses,
             uf_Page = NewPage (rlu_Page q) (rlu_Limit q)\<rparr>) (\<lambda>(us, tot).
     ret (PaginatedResponse (DUsers (ToUserResponses us)) (rlu_Page q) (rlu_Limit q) tot)))"

definition UserHandler_Create :: "app \<Rightarrow> http_request \<Rightarrow> ctx \<Rightarrow> response comp" where
  "UserHandler_Create a rq cx =
     validated (ReadAndValidateRequest (validate_Struct (app_lib a)) id tagged_CreateUserRequest
       (bind_CreateUserRequest (app_lib a) rq)) (\<lambda>req.
     bind (userUC_Create
       \<lparr>ci_Username = rcu_Username req, ci_Password = rcu_Password req, ci_FullName = rcu_FullName req,
        ci_Email = rcu_Email req, ci_Phone = rcu_Phone req, ci_StaffCode = rcu_StaffCode req,
        ci_Role = rcu_Role req, ci_EmploymentType = rcu_EmploymentType req,
        ci_ForcePasswordChange = rcu_ForcePasswordChange req\<rparr> cx) (\<lambda>u.
     ret (CreatedResponse (DUser (ToUserResponse u)))))"

definition UserHandler_Get :: "app \<Rightarrow> http_request \<Rightarrow> response comp" where
  "UserHandler_Get a rq =
     validated (ReadAndValidateRequest (validate_Struct (app_lib a)) id tagged_IDParam
       (bind_IDParam (app_lib a) rq)) (\<lambda>p. user_response (userUC_Get (rip_ID p)))"

definition UserHandler_Update :: "app \<Rightarrow> http_request \<Rightarrow> ctx \<Rightarrow> response comp" where
  "UserHandler_Update a rq cx =
     bind (parseIDParam rq) (\<lambda>i.
     validated (ReadAndValidateRequest (validate_Struct (app_lib a)) id tagged_UpdateUserRequest
       (bind_UpdateUserRequest (app_lib a) rq)) (\<lambda>req.
     user_response (userUC_Update i
       \<lparr>ui_FullName = ruu_FullName req, ui_Email = ruu_Email req, ui_Phone = ruu_Phone req,
        ui_Role = ruu_Role req, ui_StaffCode = ruu_StaffCode req,
        ui_EmploymentType = ruu_EmploymentType req\<rparr> cx)))"

text \<open>An empty password is replaced by twelve digits of eight random bytes, zero if reading them fails.\<close>

definition temporary_password :: "string \<Rightarrow> string comp" where
  "temporary_password pw =
     (if pw \<noteq> '''' then ret pw
      else
        bind (attempt (rand_Read 8)) (\<lambda>r.
        ret (take 12 (hex_EncodeToString
          (case r of Inl err \<Rightarrow> replicate 8 (CHR 0x00) | Inr b \<Rightarrow> b)))))"

definition UserHandler_ResetPassword :: "app \<Rightarrow> http_request \<Rightarrow> ctx \<Rightarrow> response comp" where
  "UserHandler_ResetPassword a rq cx =
     bind (parseIDParam rq) (\<lambda>i.
     bind (temporary_password (rrp_NewPassword (bind_ResetPasswordRequest (app_lib a) rq))) (\<lambda>newPw.
     bind (userUC_ResetPassword i newPw cx) (\<lambda>_.
     ret (SuccessResponse (DText [(''message'', ''dat lai mat khau thanh cong''),
                                 (''temporaryPassword'', newPw)])))))"

definition avatar_upload :: "app \<Rightarrow> http_request \<Rightarrow> int \<Rightarrow> ctx \<Rightarrow> response comp" where
  "avatar_upload a rq userID cx =
     (case hq_Avatar rq of
        None \<Rightarrow> throw (BadRequestErrorf ''thieu file avatar'')
      | Some fh \<Rightarrow>
          (case ff_Content fh of
             None \<Rightarrow> throw (BadRequestErrorf ''khong the mo file avatar'')
           | Some f \<Rightarrow> user_response (userUC_UploadAvatar (app_avatars a) userID (ff_Size fh) f cx)))"

definition UserHandler_UploadAvatarMe :: "app \<Rightarrow> http_request \<Rightarrow> ctx \<Rightarrow> response comp" where
  "UserHandler_UploadAvatarMe a rq cx = avatar_upload a rq (UserID cx) cx"

definition UserHandler_UploadAvatarByID :: "app \<Rightarrow> http_request \<Rightarrow> ctx \<Rightarrow> response comp" where
  "UserHandler_UploadAvatarByID a rq cx =
     validated (ReadAndValidateRequest (validate_Struct (app_lib a)) id tagged_IDParam
       (bind_IDParam (app_lib a) rq)) (\<lambda>p. avatar_upload a rq (rip_ID p) cx)"

text \<open>The temporary password is shown only when the e-mail that carries it was not sent.\<close>

definition UserHandler_Invite :: "app \<Rightarrow> http_request \<Rightarrow> ctx \<Rightarrow> response comp" where
  "UserHandler_Invite a rq cx =
     validated (ReadAndValidateRequest (validate_Struct (app_lib a)) id tagged_InviteUserRequest
       (bind_InviteUserRequest (app_lib a) rq)) (\<lambda>req.
     bind (userUC_Invite (app_invite a)
       \<lparr>ii_Email = riu_Email req, ii_FullName = riu_FullName req, ii_Role = riu_Role req,
        ii_StaffCode = riu_StaffCode req, ii_Phone = riu_Phone req\<rparr> cx) (\<lambda>(user, emailSent, tempPw).
     ret (CreatedResponse (DInvite \<lparr>ir_User = ToUserResponse user, ir_EmailSent = emailSent,
       ir_TemporaryPassword = (if \<not> emailSent then tempPw else '''')\<rparr>))))"

definition runBulk ::
  "app \<Rightarrow> http_request \<Rightarrow> (int list \<Rightarrow> ctx \<Rightarrow> (int \<times> BulkUserFailure list) comp) \<Rightarrow> ctx \<Rightarrow> response comp" where
  "runBulk a rq op cx =
     validated (ReadAndValidateRequest (validate_Struct (app_lib a)) id tagged_BulkUserIDsRequest
       (bind_BulkUserIDsRequest (app_lib a) rq)) (\<lambda>req.
     bind (op (case rbu_UserIDs req of None \<Rightarrow> [] | Some ids \<Rightarrow> ids) cx) (\<lambda>(ok, failed).
     ret (SuccessResponse (DBulk \<lparr>br_OK = ok,
       br_Failed = map (\<lambda>f. \<lparr>bf_UserID = bf_UserID f, bf_Reason = bf_Reason f\<rparr>) failed\<rparr>))))"

definition UserHandler_BulkLock :: "app \<Rightarrow> http_request \<Rightarrow> ctx \<Rightarrow> response comp" where
  "UserHandler_BulkLock a rq = runBulk a rq userUC_BulkLock"

definition UserHandler_BulkUnlock :: "app \<Rightarrow> http_request \<Rightarrow> ctx \<Rightarrow> response comp" where
  "UserHandler_BulkUnlock a rq = runBulk a rq userUC_BulkUnlock"

definition UserHandler_BulkDelete :: "app \<Rightarrow> http_request \<Rightarrow> ctx \<Rightarrow> response comp" where
  "UserHandler_BulkDelete a rq = runBulk a rq userUC_BulkDelete"

definition UserHandler_ToggleStatus :: "app \<Rightarrow> http_request \<Rightarrow> ctx \<Rightarrow> response comp" where
  "UserHandler_ToggleStatus a rq cx =
     validated (ReadAndValidateRequest (validate_Struct (app_lib a)) id tagged_IDParam
       (bind_IDParam (app_lib a) rq)) (\<lambda>p. user_response (userUC_ToggleStatus (rip_ID p) cx))"

section \<open>permission.go\<close>

definition toPermissionMap :: "(string \<times> (string \<times> bool) list option) list \<Rightarrow> pmap" where
  "toPermissionMap inp =
     List.map_filter (\<lambda>(r, acts). case acts of None \<Rightarrow> None | Some m \<Rightarrow> Some (r, m)) inp"

definition requested_permissions :: "UpdateUserPermissionRequest \<Rightarrow> pmap" where
  "requested_permissions req =
     (case ruw_Permissions req of None \<Rightarrow> [] | Some m \<Rightarrow> toPermissionMap m)"

definition PermissionHandler_Definitions :: "response comp" where
  "PermissionHandler_Definitions =
     ret (SuccessResponse (DPermissionTree (ToPermissionDefinitions PermissionsDefinitions)))"

definition PermissionHandler_Actions :: "response comp" where
  "PermissionHandler_Actions = ret (SuccessResponse (DActions (ToActionDefinitions ActionsDefinitions)))"

definition PermissionHandler_Me :: "ctx \<Rightarrow> response comp" where
  "PermissionHandler_Me cx =
     bind (permUC_EffectivePermissions (UserID cx) (Role cx = RoleAdmin)) (\<lambda>perms.
     ret (SuccessResponse (DPermissionMap perms)))"

definition permission_response :: "UserPermission comp \<Rightarrow> response comp" where
  "permission_response m = bind m (\<lambda>up. ret (SuccessResponse (DUserPermission (ToUserPermissionResponse up))))"

definition PermissionHandler_Create :: "app \<Rightarrow> http_request \<Rightarrow> ctx \<Rightarrow> response comp" where
  "PermissionHandler_Create a rq cx =
     validated (ReadAndValidateRequest (validate_Struct (app_lib a)) id tagged_CreateUserPermissionRequest
       (bind_CreateUserPermissionRequest (app_lib a) rq)) (\<lambda>req.
     bind (permUC_Create cx (rcw_UserID req)) (\<lambda>up.
     ret (CreatedResponse (DUserPermission (ToUserPermissionResponse up)))))"

definition PermissionHandler_Get :: "http_request \<Rightarrow> response comp" where
  "PermissionHandler_Get rq = bind (parseIDParam rq) (\<lambda>i. permission_response (permUC_GetByID i))"

definition PermissionHandler_List :: "app \<Rightarrow> http_request \<Rightarrow> response comp" where
  "PermissionHandler_List a rq =
     validated (ReadAndValidateRequest (validate_Struct (app_lib a)) defaults_ListUserPermissionsQuery
       tagged_ListUserPermissionsQuery (bind_ListUserPermissionsQuery (app_lib a) rq)) (\<lambda>q.
     bind (permUC_List \<lparr>pf_Search = rlw_Search q, pf_UserID = rlw_UserID q,
             pf_Page = NewPage (rlw_Page q) (rlw_Limit q)\<rparr>) (\<lambda>(rows, tot).
     ret (PaginatedResponse (DUserPermissions (ToUserPermissionResponses rows)) (rlw_Page q) (rlw_Limit q) tot)))"

definition PermissionHandler_Update :: "app \<Rightarrow> http_request \<Rightarrow> ctx \<Rightarrow> response comp" where
  "PermissionHandler_Update a rq cx =
     bind (parseIDParam rq) (\<lambda>i.
     validated (ReadAndValidateRequest (validate_Struct (app_lib a)) id tagged_UpdateUserPermissionRequest
       (bind_UpdateUserPermissionRequest (app_lib a) rq)) (\<lambda>req.
     permission_response (permUC_Update cx i (requested_permissions req))))"

text \<open>The effective permissions are added unless computing them fails.\<close>

definition with_effective :: "int \<Rightarrow> UserPermission \<Rightarrow> response comp" where
  "with_effective i up =
     bind (attempt (permUC_EffectivePermissions i False)) (\<lambda>r.
     ret (SuccessResponse (DUserPermission ((ToUserPermissionResponse up)
       \<lparr>ur_Effective := (case r of Inl err \<Rightarrow> None | Inr eff \<Rightarrow> Some eff)\<rparr>))))"

definition PermissionHandler_UpdateByUser :: "app \<Rightarrow> http_request \<Rightarrow> ctx \<Rightarrow> response comp" where
  "PermissionHandler_UpdateByUser a rq cx =
     bind (parseIDParam rq) (\<lambda>i.
     validated (ReadAndValidateRequest (validate_Struct (app_lib a)) id tagged_UpdateUserPermissionRequest
       (bind_UpdateUserPermissionRequest (app_lib a) rq)) (\<lambda>req.
     bind (permUC_UpdateByUserID cx i (requested_permissions req)) (with_effective i)))"

definition PermissionHandler_GetByUser :: "http_request \<Rightarrow> response comp" where
  "PermissionHandler_GetByUser rq =
     bind (parseIDParam rq) (\<lambda>i. bind (permUC_GetByUserID i) (with_effective i))"

definition PermissionHandler_Delete :: "http_request \<Rightarrow> ctx \<Rightarrow> response comp" where
  "PermissionHandler_Delete rq cx =
     bind (parseIDParam rq) (\<lambda>i. bind (permUC_Delete cx i) (\<lambda>_. ret NoContentResponse))"

section \<open>notification.go\<close>

definition NotificationHandler_ListAnnouncements :: "http_request \<Rightarrow> response comp" where
  "NotificationHandler_ListAnnouncements rq =
     (let includeAll = (QueryParam rq ''all'' = ''true'') in
      case parsePage rq 20 of (page, limit) \<Rightarrow>
        bind (notifUC_ListAnnouncements includeAll (NewPage page limit)) (\<lambda>(items, tot).
        ret (PaginatedResponse (DAnnouncements (map ToAnnouncementResponse items)) page limit tot)))"

definition NotificationHandler_GetAnnouncement :: "http_request \<Rightarrow> response comp" where
  "NotificationHandler_GetAnnouncement rq =
     bind (parseIDParam rq) (\<lambda>i.
     bind (notifUC_GetAnnouncement i) (\<lambda>an.
     ret (SuccessResponse (DAnnouncement (ToAnnouncementResponse an)))))"

definition announcement_input :: "AnnouncementRequest \<Rightarrow> AnnouncementInput" where
  "announcement_input req =
     \<lparr>ai_Title = rar_Title req, ai_Body = rar_Body req, ai_Priority = rar_Priority req,
      ai_PublishedAt = rar_PublishedAt req, ai_ExpiresAt = rar_ExpiresAt req\<rparr>"

definition NotificationHandler_CreateAnnouncement :: "app \<Rightarrow> http_request \<Rightarrow> ctx \<Rightarrow> response comp" where
  "NotificationHandler_CreateAnnouncement a rq cx =
     validated (ReadAndValidateRequest (validate_Struct (app_lib a)) id tagged_AnnouncementRequest
       (bind_AnnouncementRequest (app_lib a) rq)) (\<lambda>req.
     bind (notifUC_CreateAnnouncement (announcement_input req) cx) (\<lambda>an.
     ret (CreatedResponse (DAnnouncement (ToAnnouncementResponse an)))))"

definition NotificationHandler_UpdateAnnouncement :: "app \<Rightarrow> http_request \<Rightarrow> ctx \<Rightarrow> response comp" where
  "NotificationHandler_UpdateAnnouncement a rq cx =
     bind (parseIDParam rq) (\<lambda>i.
     validated (ReadAndValidateRequest (validate_Struct (app_lib a)) id tagged_AnnouncementRequest
       (bind_AnnouncementRequest (app_lib a) rq)) (\<lambda>req.
     bind (notifUC_UpdateAnnouncement i (announcement_input req) cx) (\<lambda>an.
     ret (SuccessResponse (DAnnouncement (ToAnnouncementResponse an))))))"

definition NotificationHandler_DeleteAnnouncement :: "http_request \<Rightarrow> ctx \<Rightarrow> response comp" where
  "NotificationHandler_DeleteAnnouncement rq cx =
     bind (parseIDParam rq) (\<lambda>i. bind (notifUC_DeleteAnnouncement i cx) (\<lambda>_. ret NoContentResponse))"

definition NotificationHandler_PublishToAll :: "http_request \<Rightarrow> response comp" where
  "NotificationHandler_PublishToAll rq =
     bind (parseIDParam rq) (\<lambda>i.
     bind (notifUC_GetAnnouncement i) (\<lambda>an.
     bind (notifUC_PublishToAll (an_Title an) (an_Body an) ''announcement'' (an_ID an)) (\<lambda>_.
     ret (SuccessResponse (DAnnouncement (ToAnnouncementResponse an))))))"

definition NotificationHandler_UnreadCount :: "ctx \<Rightarrow> response comp" where
  "NotificationHandler_UnreadCount cx =
     bind (notifUC_UnreadCount (UserID cx)) (\<lambda>n. ret (SuccessResponse (DCount n)))"

definition NotificationHandler_AnnouncementUnreadCount :: "ctx \<Rightarrow> response comp" where
  "NotificationHandler_AnnouncementUnreadCount cx =
     bind (notifUC_UnreadCount (UserID cx)) (\<lambda>n. ret (SuccessResponse (DCount n)))"

definition NotificationHandler_AnnouncementReply :: "response comp" where
  "NotificationHandler_AnnouncementReply = ret (SuccessResponse DOk)"

definition NotificationHandler_AnnouncementReads :: "response comp" where
  "NotificationHandler_AnnouncementReads = ret (SuccessResponse DNoReads)"

definition given :: "string \<Rightarrow> string option" where
  "given v = (if v \<noteq> '''' then Some v else None)"

text \<open>An error of the count leaves it zero.\<close>

definition NotificationHandler_ListMyNotifications :: "http_request \<Rightarrow> ctx \<Rightarrow> response comp" where
  "NotificationHandler_ListMyNotifications rq cx =
     (let userID = UserID cx;
          flt = \<lparr>nl_UnreadOnly = (QueryParam rq ''unread'' = ''true'' \<or> QueryParam rq ''unreadOnly'' = ''true''),
                 nl_ImportantOnly = (QueryParam rq ''important'' = ''true'' \<or> QueryParam rq ''importantOnly'' = ''true''),
                 nl_Category = QueryParam rq ''category'', nl_DateFrom = given (QueryParam rq ''dateFrom''),
                 nl_DateTo = given (QueryParam rq ''dateTo'')\<rparr> in
      case parsePage rq 20 of (page, limit) \<Rightarrow>
        bind (notifUC_ListForUserFiltered userID flt (NewPage page limit)) (\<lambda>(items, tot).
        bind (attempt (notifUC_UnreadCount userID)) (\<lambda>r.
        let unread = (case r of Inl err \<Rightarrow> 0 | Inr n \<Rightarrow> n) in
        ret (PaginatedResponseWithMeta (DNotifications (ToNotificationResponses items)) page limit tot unread))))"

definition NotificationHandler_MarkRead :: "http_request \<Rightarrow> ctx \<Rightarrow> response comp" where
  "NotificationHandler_MarkRead rq cx =
     bind (parseIDParam rq) (\<lambda>i. bind (notifUC_MarkRead i (UserID cx)) (\<lambda>_. ret NoContentResponse))"

definition NotificationHandler_MarkAllRead :: "ctx \<Rightarrow> response comp" where
  "NotificationHandler_MarkAllRead cx = bind (notifUC_MarkAllRead (UserID cx)) (\<lambda>_. ret NoContentResponse)"

text \<open>Reading a notification marks it as read; an error of that is ignored.\<close>

definition NotificationHandler_GetMyNotification :: "http_request \<Rightarrow> ctx \<Rightarrow> response comp" where
  "NotificationHandler_GetMyNotification rq cx =
     bind (parseIDParam rq) (\<lambda>i.
     bind (notifUC_GetForUser i (UserID cx)) (\<lambda>n.
     bind (if \<not> nt_IsRead n then ignore (notifUC_MarkRead i (UserID cx)) else ret ()) (\<lambda>_.
     ret (SuccessResponse (DNotification (ToNotificationResponse (n\<lparr>nt_IsRead := True\<rparr>)))))))"

definition NotificationHandler_MarkUnread :: "http_request \<Rightarrow> ctx \<Rightarrow> response comp" where
  "NotificationHandler_MarkUnread rq cx =
     bind (parseIDParam rq) (\<lambda>i. bind (notifUC_MarkUnread i (UserID cx)) (\<lambda>_. ret NoContentResponse))"

definition NotificationHandler_SetImportant :: "app \<Rightarrow> http_request \<Rightarrow> ctx \<Rightarrow> response comp" where
  "NotificationHandler_SetImportant a rq cx =
     bind (parseIDParam rq) (\<lambda>i.
     bind (if hq_HasBody rq then
             (case bind_SetImportantRequest (app_lib a) rq of
                None \<Rightarrow> throw (BadRequestErrorf ''body khong hop le'')
              | Some b \<Rightarrow> ret b)
           else ret True) (\<lambda>important.
     bind (notifUC_SetImportant i (UserID cx) important) (\<lambda>_. ret NoContentResponse)))"

section \<open>setting.go, activity_log.go and health.go\<close>

definition SettingHandler_List :: "response comp" where
  "SettingHandler_List =
     bind settingUC_GetAll (\<lambda>rows. ret (SuccessResponse (DSettings (map ToSettingResponse rows))))"

definition SettingHandler_Get :: "http_request \<Rightarrow> response comp" where
  "SettingHandler_Get rq =
     bind (settingUC_Get (Param rq ''key'')) (\<lambda>s. ret (SuccessResponse (DSetting (ToSettingResponse s))))"

text \<open>The request type has no tags, so that only binding can fail.\<close>

definition SettingHandler_Set :: "app \<Rightarrow> http_request \<Rightarrow> ctx \<Rightarrow> response comp" where
  "SettingHandler_Set a rq cx =
     validated (ReadAndValidateRequest (validate_Struct (app_lib a)) id (\<lambda>_. [])
       (bind_SetSettingRequest (app_lib a) rq)) (\<lambda>req.
     bind (settingUC_Set (Param rq ''key'') (rss_Value req) cx) (\<lambda>_. ret (SuccessResponse DNull)))"

definition audit_filter :: "http_request \<Rightarrow> AuditFilter" where
  "audit_filter rq =
     \<lparr>af_Search = QueryParam rq ''search'', af_Action = QueryParam rq ''action'',
      af_UserID = (let s = QueryParam rq ''userId'' in
                   if s \<noteq> '''' then (case ParseInt s of (uid, ok) \<Rightarrow> if ok then Some uid else None) else None),
      af_EntityType = QueryParam rq ''entityType'', af_DateFrom = QueryParam rq ''dateFrom'',
      af_DateTo = QueryParam rq ''dateTo'', af_Page = fst (ParseInt (QueryParam rq ''page'')),
      af_Limit = fst (ParseInt (QueryParam rq ''limit''))\<rparr>"

definition ActivityLogHandler_List :: "app \<Rightarrow> http_request \<Rightarrow> response comp" where
  "ActivityLogHandler_List a rq =
     bind (attempt (auditRepo_ListLogs (audit_filter rq))) (\<lambda>r.
     case r of
       Inl err \<Rightarrow> throw (InternalErrorf ''khong the truy van activity logs'')
     | Inr (rows, tot) \<Rightarrow> ret (JSON 200 (LogPage (ToAuditLogRowResponses (json_valid (app_lib a)) rows) tot)))"

definition ActivityLogHandler_ListUsers :: "response comp" where
  "ActivityLogHandler_ListUsers =
     bind (attempt auditRepo_ListActors) (\<lambda>r.
     case r of
       Inl err \<Rightarrow> throw (InternalErrorf ''khong the truy van users'')
     | Inr actors \<Rightarrow> ret (SuccessResponse (DActors (ToAuditActorResponses actors))))"

definition HealthHandler_Healthz :: "response comp" where
  "HealthHandler_Healthz = ret (SuccessResponse (DText [(''status'', ''ok'')]))"

definition HealthHandler_unavailable :: "string \<Rightarrow> gerr \<Rightarrow> response comp" where
  "HealthHandler_unavailable dep err = throw (Wrap (ServiceUnavailableErrorf (dep @ '' not ready'')) err)"

text \<open>The two pings are a statement and a command without effect.\<close>

definition HealthHandler_Readyz :: "response comp" where
  "HealthHandler_Readyz =
     bind (attempt (query (\<lambda>d. ()))) (\<lambda>r.
     case r of
       Inl err \<Rightarrow> HealthHandler_unavailable ''postgres'' err
     | Inr _ \<Rightarrow>
         bind (attempt (redis_call (\<lambda>t s. (s, ())))) (\<lambda>r.
         case r of
           Inl err \<Rightarrow> HealthHandler_unavailable ''redis'' err
         | Inr _ \<Rightarrow> ret (SuccessResponse (DText [(''status'', ''ready'')]))))"

definition HealthHandler_Version :: "app \<Rightarrow> response comp" where
  "HealthHandler_Version a =
     ret (SuccessResponse (DText [(''version'', app_version a), (''service'', ''backend'')]))"

section \<open>storage.go\<close>

definition StorageHandler_RequestUploadURL :: "app \<Rightarrow> storage_handler \<Rightarrow> http_request \<Rightarrow> response comp" where
  "StorageHandler_RequestUploadURL a h rq =
     bind (RequestUploadURL h (bind_requestUploadReq (app_lib a) rq)) (\<lambda>r. ret (SuccessResponse (DUpload r)))"

definition StorageHandler_DirectUpload :: "app \<Rightarrow> storage_handler \<Rightarrow> http_request \<Rightarrow> response comp" where
  "StorageHandler_DirectUpload a h rq =
     bind (DirectUpload h (app_storageURL a) (hq_Upload rq)) (\<lambda>_. ret NoContentResponse)"

definition StorageHandler_Serve :: "http_request \<Rightarrow> response comp" where
  "StorageHandler_Serve rq =
     bind (Serve (Param rq ''*'')) (\<lambda>r.
     ret (case r of None \<Rightarrow> JSON 404 NoBody | Some obj \<Rightarrow> JSON 200 (ObjectBody obj)))"

end
