(* ===== verification/Sse.thy ===== *)
theory Sse
  imports Handler_Base Hub
begin

text \<open>
  \<open>internal/server/http/handler/sse.go\<close>: one event stream. The loop reads its channel, a ticker
  and the request's context; a run is the list of what its \<open>select\<close> found, each with whether the
  write that follows reached the client.
\<close>

datatype sse_input =
    Received event
  | Channel_closed
  | Heartbeat
  | Client_gone

definition nl :: string where
  "nl = [CHR 0x0A]"

definition sse_frame :: "event \<Rightarrow> string \<Rightarrow> string" where
  "sse_frame ev payload = ''event: '' @ ev_Type ev @ nl @ ''data: '' @ payload @ nl @ nl"

definition heartbeat_frame :: string where
  "heartbeat_frame = '': heartbeat'' @ nl @ nl"

definition connected_frame :: string where
  "connected_frame = '': connected'' @ nl @ nl"

fun sse_loop :: "(event \<Rightarrow> string option) \<Rightarrow> (sse_input \<times> bool) list \<Rightarrow> string list" where
  "sse_loop marshal [] = []"
| "sse_loop marshal ((Received ev, ok) # ins) =
     (case marshal ev of
        None \<Rightarrow> sse_loop marshal ins
      | Some payload \<Rightarrow> if ok then sse_frame ev payload # sse_loop marshal ins else [])"
| "sse_loop marshal ((Heartbeat, ok) # ins) =
     (if ok then heartbeat_frame # sse_loop marshal ins else [])"
| "sse_loop marshal ((Channel_closed, ok) # ins) = []"
| "sse_loop marshal ((Client_gone, ok) # ins) = []"

text \<open>
  The hub after the subscription, and the outcome; the deferred cancellation is the step
  \<open>cancelled\<close> of the hub. \<open>greeted\<close> says whether the first write reached the client.
\<close>

definition SSEHandler_Stream ::
  "(event \<Rightarrow> string option) \<Rightarrow> bool \<Rightarrow> (sse_input \<times> bool) list \<Rightarrow> ctx \<Rightarrow> hub \<Rightarrow> hub \<times> response" where
  "SSEHandler_Stream marshal greeted ins cx h =
     (let userID = UserID cx in
      if userID = 0 then (h, JSON 401 (ErrorText ''unauthorized''))
      else
        (case hub_Subscribe userID h of
           (h', None) \<Rightarrow> (h', JSON 429 (ErrorText ''qua nhieu ket noi, vui long dong tab khac''))
         | (h', Some i) \<Rightarrow>
             (h', JSON 200 (Stream (if greeted then connected_frame # sse_loop marshal ins else [])))))"

section \<open>What a client sees\<close>

definition received :: "(sse_input \<times> bool) list \<Rightarrow> event list" where
  "received ins = List.map_filter (\<lambda>(i, ok). case i of Received ev \<Rightarrow> Some ev | _ \<Rightarrow> None) ins"

definition event_frames :: "(event \<Rightarrow> string option) \<Rightarrow> event list \<Rightarrow> string list" where
  "event_frames marshal evs =
     List.map_filter (\<lambda>ev. map_option (sse_frame ev) (marshal ev)) evs"

lemma received_simps [simp]:
  "received [] = []"
  "received ((Received ev, ok) # ins) = ev # received ins"
  "received ((Heartbeat, ok) # ins) = received ins"
  "received ((Channel_closed, ok) # ins) = received ins"
  "received ((Client_gone, ok) # ins) = received ins"
  by (simp_all add: received_def List.map_filter_def)

lemma event_frames_simps [simp]:
  "event_frames marshal [] = []"
  "event_frames marshal (ev # evs) =
     (case marshal ev of None \<Rightarrow> event_frames marshal evs
      | Some p \<Rightarrow> sse_frame ev p # event_frames marshal evs)"
  by (simp_all add: event_frames_def List.map_filter_def split: option.split)

text \<open>The frames of a run, heartbeats aside, are the frames of a prefix of the events received.\<close>

lemma sse_frames_in_order:
  "\<exists>evs. prefix evs (received ins) \<and>
     filter (\<lambda>f. f \<noteq> heartbeat_frame) (sse_loop marshal ins) = event_frames marshal evs"
proof (induction ins rule: sse_loop.induct)
  case (2 marshal ev ok ins)
  have frame: "sse_frame ev p \<noteq> heartbeat_frame" for p by (simp add: sse_frame_def heartbeat_frame_def)
  show ?case
  proof (cases "marshal ev")
    case None
    with 2 obtain evs where "prefix evs (received ins)"
      and "filter (\<lambda>f. f \<noteq> heartbeat_frame) (sse_loop marshal ins) = event_frames marshal evs" by blast
    with None show ?thesis by (intro exI [of _ "ev # evs"]) simp
  next
    case (Some p)
    show ?thesis
    proof (cases ok)
      case True
      with 2 Some obtain evs where "prefix evs (received ins)"
        and "filter (\<lambda>f. f \<noteq> heartbeat_frame) (sse_loop marshal ins) = event_frames marshal evs" by blast
      with Some True frame show ?thesis by (intro exI [of _ "ev # evs"]) simp
    next
      case False
      with Some show ?thesis by (intro exI [of _ "[]"]) simp
    qed
  qed
qed (auto intro: exI [of _ "[]"])

section \<open>When the loop ends\<close>

text \<open>
  The loop itself, over all that its \<open>select\<close> would ever find: \<open>f n\<close> is the outcome of turn \<open>n\<close>. It
  need not end, and then the value is \<open>None\<close>.
\<close>

partial_function (option) sse_run ::
  "(event \<Rightarrow> string option) \<Rightarrow> (nat \<Rightarrow> sse_input \<times> bool) \<Rightarrow> nat \<Rightarrow> string list option" where
  "sse_run marshal f n =
     (case f n of
        (Received ev, ok) \<Rightarrow>
          (case marshal ev of
             None \<Rightarrow> sse_run marshal f (Suc n)
           | Some payload \<Rightarrow>
               if ok then Option.bind (sse_run marshal f (Suc n)) (\<lambda>fs. Some (sse_frame ev payload # fs))
               else Some [])
      | (Heartbeat, ok) \<Rightarrow>
          if ok then Option.bind (sse_run marshal f (Suc n)) (\<lambda>fs. Some (heartbeat_frame # fs))
          else Some []
      | (Channel_closed, ok) \<Rightarrow> Some []
      | (Client_gone, ok) \<Rightarrow> Some [])"



text \<open>A turn that ends it: the channel is closed, the client is gone, or a write fails.\<close>

fun stops :: "(event \<Rightarrow> string option) \<Rightarrow> sse_input \<times> bool \<Rightarrow> bool" where
  "stops marshal (Received ev, ok) \<longleftrightarrow> marshal ev \<noteq> None \<and> \<not> ok"
| "stops marshal (Heartbeat, ok) \<longleftrightarrow> \<not> ok"
| "stops marshal (Channel_closed, ok) \<longleftrightarrow> True"
| "stops marshal (Client_gone, ok) \<longleftrightarrow> True"

lemma sse_run_stop: "stops marshal (f n) \<Longrightarrow> sse_run marshal f n = Some []"
  by (cases "(marshal, f n)" rule: stops.cases) (auto simp: sse_run.simps [of marshal f n])

lemma sse_loop_stop: "stops marshal i \<Longrightarrow> sse_loop marshal (i # ins) = []"
  by (cases "(marshal, i)" rule: stops.cases) auto

text \<open>What one further turn writes before the rest.\<close>

definition turn_frames :: "(event \<Rightarrow> string option) \<Rightarrow> sse_input \<times> bool \<Rightarrow> string list" where
  "turn_frames marshal i =
     (case i of
        (Received ev, ok) \<Rightarrow> (case marshal ev of None \<Rightarrow> [] | Some p \<Rightarrow> [sse_frame ev p])
      | (Heartbeat, ok) \<Rightarrow> [heartbeat_frame]
      | _ \<Rightarrow> [])"

lemma sse_run_turn:
  "\<not> stops marshal (f n) \<Longrightarrow>
     sse_run marshal f n = map_option (\<lambda>fs. turn_frames marshal (f n) @ fs) (sse_run marshal f (Suc n))"
  by (cases "(marshal, f n)" rule: stops.cases; cases "sse_run marshal f (Suc n)")
     (auto simp: sse_run.simps [of marshal f n] turn_frames_def split: option.split)

lemma sse_loop_turn:
  "\<not> stops marshal i \<Longrightarrow> sse_loop marshal (i # ins) = turn_frames marshal i @ sse_loop marshal ins"
  by (cases "(marshal, i)" rule: stops.cases) (auto simp: turn_frames_def split: option.split)

lemma sse_run_returns:
  "stops marshal (f (n + k)) \<Longrightarrow> \<forall>j < k. \<not> stops marshal (f (n + j)) \<Longrightarrow>
     sse_run marshal f n = Some (sse_loop marshal (map f [n..<Suc (n + k)]))"
proof (induction k arbitrary: n)
  case 0
  then show ?case by (simp add: sse_run_stop sse_loop_stop)
next
  case (Suc k)
  have "sse_run marshal f (Suc n) = Some (sse_loop marshal (map f [Suc n..<Suc (Suc n + k)]))"
    using Suc.prems by (intro Suc.IH) auto
  moreover have "\<not> stops marshal (f n)" using Suc.prems(2) by auto
  moreover have "map f [n..<Suc (n + Suc k)] = f n # map f [Suc n..<Suc (Suc n + k)]"
    by (simp add: upt_conv_Cons del: upt_Suc)
  ultimately show ?case by (simp add: sse_run_turn sse_loop_turn del: upt_Suc)
qed

lemma sse_run_stops:
  assumes "sse_run marshal f n = Some fs"
  shows "\<exists>j \<ge> n. stops marshal (f j)"
  using assms
proof (induction rule: sse_run.raw_induct [rotated, consumes 1, case_names turn])
  case (turn loop marshal f n fs)
  show ?case
  proof (cases "stops marshal (f n)")
    case True
    then show ?thesis by blast
  next
    case False
    then have "\<exists>fs'. loop marshal f (Suc n) = Some fs'"
      using turn(2) by (cases "(marshal, f n)" rule: stops.cases)
        (auto split: option.splits if_splits bind_splits)
    then obtain j where "Suc n \<le> j" and "stops marshal (f j)" using turn(1) by blast
    then show ?thesis by (intro exI [of _ j]) simp
  qed
qed

text \<open>
  C35: the loop of a stream ends if and only if at some turn its channel is closed, the client is
  gone or a write fails; and then it has written exactly what the list model writes for the turns
  up to the first such, and nothing after it.
\<close>

theorem sse_stream_ends:
  "sse_run marshal f 0 =
     (if \<exists>n. stops marshal (f n)
      then Some (sse_loop marshal (map f [0..<Suc (LEAST n. stops marshal (f n))]))
      else None)"
proof (cases "\<exists>n. stops marshal (f n)")
  case True
  let ?k = "LEAST n. stops marshal (f n)"
  have "stops marshal (f (0 + ?k))" using LeastI_ex [OF True] by simp
  moreover have "\<forall>j < ?k. \<not> stops marshal (f (0 + j))" by (auto dest: not_less_Least)
  ultimately have "sse_run marshal f 0 = Some (sse_loop marshal (map f [0..<Suc (0 + ?k)]))"
    by (rule sse_run_returns)
  with True show ?thesis by simp
next
  case False
  then have "sse_run marshal f 0 = None" using sse_run_stops [of marshal f 0] by fastforce
  with False show ?thesis by simp
qed

end

