(* ===== verification/Routes.thy ===== *)
theory Routes
  imports Handlers Sse Rate_Limit
begin

text \<open>
  \<open>internal/server/http/handler/handler.go\<close>: the routes, each with the middlewares of its groups
  and its own, outermost first, and its handler. Matching a request to a route is the router's;
  \<open>serve\<close> is what a matched request does.
\<close>

section \<open>The table\<close>

datatype endpoint =
    E_Healthz | E_Readyz | E_Version
  | E_Login | E_ForgotPassword | E_ResetByToken | E_Logout | E_AuthMe | E_ChangePassword
  | E_AnnUnreadCount | E_ListAnnouncements | E_GetAnnouncement | E_AnnReads | E_AnnReply
  | E_CreateAnnouncement | E_UpdateAnnouncement | E_DeleteAnnouncement | E_PublishToAll
  | E_ListMyNotifications | E_UnreadCount | E_Stream | E_GetMyNotification | E_MarkRead
  | E_MarkUnread | E_SetImportant | E_MarkAllRead
  | E_ListSettings | E_GetSetting | E_SetSetting
  | E_RequestUpload | E_DirectUpload | E_Serve
  | E_ActivityLogs | E_ActivityUsers
  | E_PermDefinitions | E_PermActions | E_PermMe | E_PermList | E_PermCreate | E_PermGet
  | E_PermUpdate | E_PermDelete | E_PermGetByUser | E_PermUpdateByUser
  | E_GetMe | E_UpdateProfile | E_AvatarMe | E_ListUsers | E_GetUser | E_NextCode | E_CreateUser
  | E_UpdateUser | E_ResetUserPassword | E_ToggleStatus | E_AvatarByID
  | E_Invite | E_BulkLock | E_BulkUnlock | E_BulkDelete

datatype gate = GLimit | GAuth | GRole "string list" | GPerm string string

record route =
  rt_Method :: string
  rt_Path :: string
  rt_Gates :: "gate list"
  rt_Endpoint :: endpoint

definition route :: "string \<Rightarrow> string \<Rightarrow> gate list \<Rightarrow> endpoint \<Rightarrow> route" where
  "route m p gs e = \<lparr>rt_Method = m, rt_Path = p, rt_Gates = gs, rt_Endpoint = e\<rparr>"

definition public_routes :: "route list" where
  "public_routes =
     [route ''GET'' ''/healthz'' [] E_Healthz,
      route ''GET'' ''/readyz'' [] E_Readyz,
      route ''GET'' ''/version'' [] E_Version]"

definition auth_routes :: "route list" where
  "auth_routes =
     [route ''POST'' ''/api/v1/auth/login'' [GLimit] E_Login,
      route ''POST'' ''/api/v1/auth/forgot-password'' [GLimit] E_ForgotPassword,
      route ''POST'' ''/api/v1/auth/reset-password'' [GLimit] E_ResetByToken,
      route ''POST'' ''/api/v1/auth/logout'' [GAuth] E_Logout,
      route ''GET'' ''/api/v1/auth/me'' [GAuth] E_AuthMe,
      route ''POST'' ''/api/v1/auth/change-password'' [GAuth] E_ChangePassword]"

definition admin_manager :: gate where
  "admin_manager = GRole [RoleAdmin, RoleManager]"

definition notification_routes :: "route list" where
  "notification_routes =
     [route ''GET'' ''/api/v1/announcements/unread-count'' [GAuth] E_AnnUnreadCount,
      route ''GET'' ''/api/v1/announcements'' [GAuth] E_ListAnnouncements,
      route ''GET'' ''/api/v1/announcements/:id'' [GAuth] E_GetAnnouncement,
      route ''GET'' ''/api/v1/announcements/:id/reads'' [GAuth] E_AnnReads,
      route ''POST'' ''/api/v1/announcements/:id/read'' [GAuth] E_MarkRead,
      route ''POST'' ''/api/v1/announcements/:id/reply'' [GAuth] E_AnnReply,
      route ''POST'' ''/api/v1/announcements'' [GAuth, admin_manager] E_CreateAnnouncement,
      route ''PUT'' ''/api/v1/announcements/:id'' [GAuth, admin_manager] E_UpdateAnnouncement,
      route ''DELETE'' ''/api/v1/announcements/:id'' [GAuth, admin_manager] E_DeleteAnnouncement,
      route ''POST'' ''/api/v1/announcements/:id/publish'' [GAuth, admin_manager] E_PublishToAll,
      route ''GET'' ''/api/v1/notifications'' [GAuth] E_ListMyNotifications,
      route ''GET'' ''/api/v1/notifications/unread-count'' [GAuth] E_UnreadCount,
      route ''GET'' ''/api/v1/notifications/stream'' [GAuth] E_Stream,
      route ''GET'' ''/api/v1/notifications/:id'' [GAuth] E_GetMyNotification,
      route ''POST'' ''/api/v1/notifications/:id/read'' [GAuth] E_MarkRead,
      route ''POST'' ''/api/v1/notifications/:id/unread'' [GAuth] E_MarkUnread,
      route ''POST'' ''/api/v1/notifications/:id/important'' [GAuth] E_SetImportant,
      route ''POST'' ''/api/v1/notifications/read-all'' [GAuth] E_MarkAllRead]"

definition setting_routes :: "route list" where
  "setting_routes =
     [route ''GET'' ''/api/v1/settings'' [GAuth, GRole [RoleAdmin]] E_ListSettings,
      route ''GET'' ''/api/v1/settings/:key'' [GAuth, GRole [RoleAdmin]] E_GetSetting,
      route ''PUT'' ''/api/v1/settings/:key'' [GAuth, GRole [RoleAdmin]] E_SetSetting]"

text \<open>No storage route is registered when the store is not configured.\<close>

definition storage_routes :: "bool \<Rightarrow> route list" where
  "storage_routes configured =
     (if \<not> configured then []
      else
        [route ''POST'' ''/api/v1/storage/uploads/request-url'' [GAuth] E_RequestUpload,
         route ''PUT'' ''/api/v1/storage/uploads/direct'' [] E_DirectUpload,
         route ''GET'' ''/api/v1/storage/*'' [] E_Serve])"

definition activity_routes :: "route list" where
  "activity_routes =
     [route ''GET'' ''/api/v1/activity-logs'' [GAuth] E_ActivityLogs,
      route ''GET'' ''/api/v1/activity-logs/users'' [GAuth] E_ActivityUsers]"

definition permission_routes :: "route list" where
  "permission_routes =
     [route ''GET'' ''/api/v1/permissions/definitions'' [GAuth] E_PermDefinitions,
      route ''GET'' ''/api/v1/permissions/actions'' [GAuth] E_PermActions,
      route ''GET'' ''/api/v1/permissions/me'' [GAuth] E_PermMe,
      route ''GET'' ''/api/v1/user-permissions'' [GAuth, GPerm ''users.permissions'' ''read''] E_PermList,
      route ''POST'' ''/api/v1/user-permissions'' [GAuth, GPerm ''users.permissions'' ''write''] E_PermCreate,
      route ''GET'' ''/api/v1/user-permissions/:id'' [GAuth, GPerm ''users.permissions'' ''read''] E_PermGet,
      route ''PUT'' ''/api/v1/user-permissions/:id'' [GAuth, GPerm ''users.permissions'' ''write''] E_PermUpdate,
      route ''DELETE'' ''/api/v1/user-permissions/:id'' [GAuth, GPerm ''users.permissions'' ''delete''] E_PermDelete,
      route ''GET'' ''/api/v1/users/:id/permissions'' [GAuth, GPerm ''users.permissions'' ''read''] E_PermGetByUser,
      route ''PUT'' ''/api/v1/users/:id/permissions'' [GAuth, GPerm ''users.permissions'' ''write''] E_PermUpdateByUser]"

definition user_routes :: "route list" where
  "user_routes =
     [route ''GET'' ''/api/v1/users/me'' [GAuth] E_GetMe,
      route ''PUT'' ''/api/v1/users/me'' [GAuth] E_UpdateProfile,
      route ''POST'' ''/api/v1/users/me/avatar'' [GAuth] E_AvatarMe,
      route ''GET'' ''/api/v1/users'' [GAuth, admin_manager] E_ListUsers,
      route ''GET'' ''/api/v1/users/:id'' [GAuth, admin_manager] E_GetUser,
      route ''GET'' ''/api/v1/users/next-code'' [GAuth, GPerm ''users'' ''write''] E_NextCode,
      route ''POST'' ''/api/v1/users'' [GAuth, GPerm ''users'' ''write''] E_CreateUser,
      route ''PUT'' ''/api/v1/users/:id'' [GAuth, GPerm ''users'' ''write''] E_UpdateUser,
      route ''POST'' ''/api/v1/users/:id/reset-password'' [GAuth, GPerm ''users'' ''write''] E_ResetUserPassword,
      route ''POST'' ''/api/v1/users/:id/toggle-status'' [GAuth, GPerm ''users'' ''write''] E_ToggleStatus,
      route ''POST'' ''/api/v1/users/:id/avatar'' [GAuth, GPerm ''users'' ''write''] E_AvatarByID,
      route ''POST'' ''/api/v1/users/invite'' [GAuth, admin_manager] E_Invite,
      route ''POST'' ''/api/v1/users/bulk-lock'' [GAuth, admin_manager] E_BulkLock,
      route ''POST'' ''/api/v1/users/bulk-unlock'' [GAuth, admin_manager] E_BulkUnlock,
      route ''DELETE'' ''/api/v1/users/bulk'' [GAuth, admin_manager] E_BulkDelete]"

definition routes :: "app \<Rightarrow> route list" where
  "routes a =
     public_routes @ auth_routes @ user_routes @ notification_routes @ setting_routes @
     permission_routes @ storage_routes (app_storage a \<noteq> None) @ activity_routes"

section \<open>Serving a request\<close>

text \<open>The storage endpoints exist only with a store.\<close>

definition stored :: "app \<Rightarrow> (storage_handler \<Rightarrow> response comp) \<Rightarrow> response comp" where
  "stored a k = (case app_storage a of None \<Rightarrow> throw (NotFoundErrorf ''Not Found'') | Some h \<Rightarrow> k h)"

fun handle :: "app \<Rightarrow> endpoint \<Rightarrow> http_request \<Rightarrow> ctx \<Rightarrow> response comp" where
  "handle a E_Healthz rq cx = HealthHandler_Healthz"
| "handle a E_Readyz rq cx = HealthHandler_Readyz"
| "handle a E_Version rq cx = HealthHandler_Version a"
| "handle a E_Login rq cx = AuthHandler_Login a rq cx"
| "handle a E_ForgotPassword rq cx = AuthHandler_ForgotPassword a rq cx"
| "handle a E_ResetByToken rq cx = AuthHandler_ResetPassword a rq cx"
| "handle a E_Logout rq cx = AuthHandler_Logout a cx"
| "handle a E_AuthMe rq cx = AuthHandler_Me cx"
| "handle a E_ChangePassword rq cx = AuthHandler_ChangePassword a rq cx"
| "handle a E_AnnUnreadCount rq cx = NotificationHandler_AnnouncementUnreadCount cx"
| "handle a E_ListAnnouncements rq cx = NotificationHandler_ListAnnouncements rq"
| "handle a E_GetAnnouncement rq cx = NotificationHandler_GetAnnouncement rq"
| "handle a E_AnnReads rq cx = NotificationHandler_AnnouncementReads"
| "handle a E_AnnReply rq cx = NotificationHandler_AnnouncementReply"
| "handle a E_CreateAnnouncement rq cx = NotificationHandler_CreateAnnouncement a rq cx"
| "handle a E_UpdateAnnouncement rq cx = NotificationHandler_UpdateAnnouncement a rq cx"
| "handle a E_DeleteAnnouncement rq cx = NotificationHandler_DeleteAnnouncement rq cx"
| "handle a E_PublishToAll rq cx = NotificationHandler_PublishToAll rq"
| "handle a E_ListMyNotifications rq cx = NotificationHandler_ListMyNotifications rq cx"
| "handle a E_UnreadCount rq cx = NotificationHandler_UnreadCount cx"
| "handle a E_Stream rq cx = ret (app_stream a cx)"
| "handle a E_GetMyNotification rq cx = NotificationHandler_GetMyNotification rq cx"
| "handle a E_MarkRead rq cx = NotificationHandler_MarkRead rq cx"
| "handle a E_MarkUnread rq cx = NotificationHandler_MarkUnread rq cx"
| "handle a E_SetImportant rq cx = NotificationHandler_SetImportant a rq cx"
| "handle a E_MarkAllRead rq cx = NotificationHandler_MarkAllRead cx"
| "handle a E_ListSettings rq cx = SettingHandler_List"
| "handle a E_GetSetting rq cx = SettingHandler_Get rq"
| "handle a E_SetSetting rq cx = SettingHandler_Set a rq cx"
| "handle a E_RequestUpload rq cx = stored a (\<lambda>h. StorageHandler_RequestUploadURL a h rq)"
| "handle a E_DirectUpload rq cx = stored a (\<lambda>h. StorageHandler_DirectUpload a h rq)"
| "handle a E_Serve rq cx = stored a (\<lambda>h. StorageHandler_Serve rq)"
| "handle a E_ActivityLogs rq cx = ActivityLogHandler_List a rq"
| "handle a E_ActivityUsers rq cx = ActivityLogHandler_ListUsers"
| "handle a E_PermDefinitions rq cx = PermissionHandler_Definitions"
| "handle a E_PermActions rq cx = PermissionHandler_Actions"
| "handle a E_PermMe rq cx = PermissionHandler_Me cx"
| "handle a E_PermList rq cx = PermissionHandler_List a rq"
| "handle a E_PermCreate rq cx = PermissionHandler_Create a rq cx"
| "handle a E_PermGet rq cx = PermissionHandler_Get rq"
| "handle a E_PermUpdate rq cx = PermissionHandler_Update a rq cx"
| "handle a E_PermDelete rq cx = PermissionHandler_Delete rq cx"
| "handle a E_PermGetByUser rq cx = PermissionHandler_GetByUser rq"
| "handle a E_PermUpdateByUser rq cx = PermissionHandler_UpdateByUser a rq cx"
| "handle a E_GetMe rq cx = UserHandler_GetMe cx"
| "handle a E_UpdateProfile rq cx = UserHandler_UpdateProfile a rq cx"
| "handle a E_AvatarMe rq cx = UserHandler_UploadAvatarMe a rq cx"
| "handle a E_ListUsers rq cx = UserHandler_List a rq"
| "handle a E_GetUser rq cx = UserHandler_Get a rq"
| "handle a E_NextCode rq cx = UserHandler_NextCode a rq"
| "handle a E_CreateUser rq cx = UserHandler_Create a rq cx"
| "handle a E_UpdateUser rq cx = UserHandler_Update a rq cx"
| "handle a E_ResetUserPassword rq cx = UserHandler_ResetPassword a rq cx"
| "handle a E_ToggleStatus rq cx = UserHandler_ToggleStatus a rq cx"
| "handle a E_AvatarByID rq cx = UserHandler_UploadAvatarByID a rq cx"
| "handle a E_Invite rq cx = UserHandler_Invite a rq cx"
| "handle a E_BulkLock rq cx = UserHandler_BulkLock a rq cx"
| "handle a E_BulkUnlock rq cx = UserHandler_BulkUnlock a rq cx"
| "handle a E_BulkDelete rq cx = UserHandler_BulkDelete a rq cx"

text \<open>\<open>admitted\<close> is the decision of the login limiter (\<open>Rate_Limit\<close>) on this request.\<close>

fun through :: "app \<Rightarrow> bool \<Rightarrow> http_request \<Rightarrow> gate list \<Rightarrow> (ctx \<Rightarrow> 'a comp) \<Rightarrow> ctx \<Rightarrow> 'a comp" where
  "through a admitted rq [] next cx = next cx"
| "through a admitted rq (GLimit # gs) next cx =
     (if admitted then through a admitted rq gs next cx else throw too_many)"
| "through a admitted rq (GAuth # gs) next cx =
     auth_Middleware (app_mw a) (request.truncate rq) (through a admitted rq gs next) cx"
| "through a admitted rq (GRole roles # gs) next cx =
     RequireRole roles (through a admitted rq gs next) cx"
| "through a admitted rq (GPerm res act # gs) next cx =
     RequirePermission (app_mw a) res act (through a admitted rq gs next) cx"

definition run_route :: "app \<Rightarrow> bool \<Rightarrow> route \<Rightarrow> http_request \<Rightarrow> ctx \<Rightarrow> response comp" where
  "run_route a admitted r rq = through a admitted rq (rt_Gates r) (handle a (rt_Endpoint r) rq)"

definition serve :: "app \<Rightarrow> bool \<Rightarrow> route \<Rightarrow> http_request \<Rightarrow> ctx \<Rightarrow> env \<Rightarrow> world \<Rightarrow> response \<times> world" where
  "serve a admitted r rq cx e w =
     (case run_route a admitted r rq cx e w of (res, w') \<Rightarrow> (answer res, w'))"

end
