(* ===== verification/Footprint.thy ===== *)
theory Footprint
  imports Routes
begin

text \<open>
  What a request can do to the database, as a calculus. A relation between the worlds before and
  after \<open>tolerates\<close> a set of tables when it allows the service's kinds of statement on those tables,
  a rollback, and anything outside the database. Every operation keeps every relation that tolerates
  the tables it writes; the theories that follow only choose relations.
\<close>

section \<open>Relations that tolerate statements\<close>

datatype table = TUsers | TPerms | TLog | TSettings | TAnns | TNotifs

text \<open>The tables can be enumerated, so that statements about all of them evaluate.\<close>

instantiation table :: enum
begin

definition enum_table :: "table list" where
  "enum_table = [TUsers, TPerms, TLog, TSettings, TAnns, TNotifs]"

definition enum_all_table :: "(table \<Rightarrow> bool) \<Rightarrow> bool" where
  "enum_all_table P \<longleftrightarrow> P TUsers \<and> P TPerms \<and> P TLog \<and> P TSettings \<and> P TAnns \<and> P TNotifs"

definition enum_ex_table :: "(table \<Rightarrow> bool) \<Rightarrow> bool" where
  "enum_ex_table P \<longleftrightarrow> P TUsers \<or> P TPerms \<or> P TLog \<or> P TSettings \<or> P TAnns \<or> P TNotifs"

instance
proof
  have univ: "t = TUsers \<or> t = TPerms \<or> t = TLog \<or> t = TSettings \<or> t = TAnns \<or> t = TNotifs" for t :: table
    by (cases t) simp_all
  then show "(UNIV :: table set) = set Enum.enum" by (auto simp: enum_table_def)
  show "distinct (Enum.enum :: table list)" by (simp add: enum_table_def)
  show "Enum.enum_all P \<longleftrightarrow> Ball UNIV P" for P :: "table \<Rightarrow> bool"
    using univ by (auto simp: enum_all_table_def) (metis univ)
  show "Enum.enum_ex P \<longleftrightarrow> Bex UNIV P" for P :: "table \<Rightarrow> bool"
    using univ by (auto simp: enum_ex_table_def) (metis univ)
qed

end

lemma all_tables: "(\<forall>t. P t) \<longleftrightarrow> P TUsers \<and> P TPerms \<and> P TLog \<and> P TSettings \<and> P TAnns \<and> P TNotifs"
  using fun_cong [OF enum_all, of P] by (simp only: enum_all_table_def)

definition allows :: "(world \<Rightarrow> world \<Rightarrow> bool) \<Rightarrow> (db \<Rightarrow> db) \<Rightarrow> bool" where
  "allows R f \<longleftrightarrow> (\<forall>w. R w (w\<lparr>w_db := f (w_db w)\<rparr>))"

definition allows_insert :: "(world \<Rightarrow> world \<Rightarrow> bool) \<Rightarrow> string \<Rightarrow> nat \<Rightarrow> (int \<Rightarrow> db \<Rightarrow> db) \<Rightarrow> bool" where
  "allows_insert R tbl k f \<longleftrightarrow>
     (\<forall>w. R w (w\<lparr>w_db := f (w_seq w tbl + 1) (w_db w), w_seq := (w_seq w)(tbl := w_seq w tbl + int k)\<rparr>))"

fun allows_table :: "(world \<Rightarrow> world \<Rightarrow> bool) \<Rightarrow> table \<Rightarrow> bool" where
  "allows_table R TUsers \<longleftrightarrow>
     (\<forall>mk. (\<forall>i. ur_ID (mk i) = i) \<longrightarrow> allows_insert R ''users'' 1 (\<lambda>i. users_update (\<lambda>rs. rs @ [mk i]))) \<and>
     (\<forall>P f. (\<forall>r. ur_ID (f r) = ur_ID r) \<longrightarrow> allows R (users_update (update_where P f)))"
| "allows_table R TPerms \<longleftrightarrow>
     (\<forall>mk. (\<forall>i. pr_ID (mk i) = i) \<longrightarrow>
        allows_insert R ''user_permissions'' 1 (\<lambda>i. user_permissions_update (\<lambda>rs. rs @ [mk i]))) \<and>
     (\<forall>P f. (\<forall>r. pr_ID (f r) = pr_ID r) \<longrightarrow> allows R (user_permissions_update (update_where P f))) \<and>
     (\<forall>P. allows R (user_permissions_update (delete_where P)))"
| "allows_table R TLog \<longleftrightarrow>
     (\<forall>mk. (\<forall>i. ar_ID (mk i) = i) \<longrightarrow>
        allows_insert R ''audit_log'' 1 (\<lambda>i. audit_log_update (\<lambda>rs. rs @ [mk i])))"
| "allows_table R TSettings \<longleftrightarrow> (\<forall>f. allows R (settings_update f))"
| "allows_table R TAnns \<longleftrightarrow>
     (\<forall>mk. allows_insert R ''announcements'' 1 (\<lambda>i. announcements_update (\<lambda>rs. rs @ [mk i]))) \<and>
     (\<forall>f. allows R (announcements_update f))"
| "allows_table R TNotifs \<longleftrightarrow>
     (\<forall>mk ns. (\<forall>n i. tr_ID (mk n i) = i) \<longrightarrow>
        allows_insert R ''notifications'' (length ns) (\<lambda>i. notifications_update (\<lambda>rs. rs @ number_rows mk i ns))) \<and>
     (\<forall>P f. (\<forall>r. tr_ID (f r) = tr_ID r) \<longrightarrow> allows R (notifications_update (update_where P f)))"

definition tolerates :: "(world \<Rightarrow> world \<Rightarrow> bool) \<Rightarrow> table set \<Rightarrow> bool" where
  "tolerates R T \<longleftrightarrow> frame R \<and> (\<forall>w w'. R w w' \<longrightarrow> R w (w'\<lparr>w_db := w_db w\<rparr>)) \<and>
     (\<forall>w w'. w_db w' = w_db w \<longrightarrow> w_seq w' = w_seq w \<longrightarrow> R w w') \<and> (\<forall>t \<in> T. allows_table R t)"

lemma tolerates_frame: "tolerates R T \<Longrightarrow> frame R"
  by (simp add: tolerates_def)

lemma tolerates_mono: "tolerates R T \<Longrightarrow> S \<subseteq> T \<Longrightarrow> tolerates R S"
  unfolding tolerates_def by blast

lemma tolerates_same: "tolerates R T \<Longrightarrow> w_db w' = w_db w \<Longrightarrow> w_seq w' = w_seq w \<Longrightarrow> R w w'"
  unfolding tolerates_def by blast

lemma tolerates_table: "tolerates R T \<Longrightarrow> t \<in> T \<Longrightarrow> allows_table R t"
  unfolding tolerates_def by blast

section \<open>Statements\<close>

lemma keeps_exec: "frame R \<Longrightarrow> allows R f \<Longrightarrow> keeps R (exec f)"
proof -
  assume R: "frame R" and f: "allows R f"
  have "R w ((tick w)\<lparr>w_db := f (w_db w)\<rparr>)" for w
    using f frame_trans [OF R frame_tick [OF R]] unfolding allows_def by (metis tick_simps(1))
  then show ?thesis using R by (auto simp: keeps_def exec_def stmt_def frame_tick split: option.split)
qed

lemma keeps_inserts: "frame R \<Longrightarrow> allows_insert R tbl k f \<Longrightarrow> keeps R (insert_rows tbl k f)"
proof -
  assume R: "frame R" and f: "allows_insert R tbl k f"
  have "R w ((tick w)\<lparr>w_db := f (w_seq w tbl + 1) (w_db w), w_seq := (w_seq w)(tbl := w_seq w tbl + int k)\<rparr>)" for w
    using f frame_trans [OF R frame_tick [OF R]] unfolding allows_insert_def by (metis tick_simps(1,2))
  then show ?thesis using R
    by (auto simp: keeps_def insert_rows_def Let_def frame_tick split: option.split)
qed

lemma insert_row_rows: "insert_row tbl f = insert_rows tbl 1 f"
  by (intro ext) (simp add: insert_row_def insert_rows_def Let_def split: option.split)

lemma keeps_insert: "frame R \<Longrightarrow> allows_insert R tbl 1 f \<Longrightarrow> keeps R (insert_row tbl f)"
  by (simp add: insert_row_rows keeps_inserts)

lemma keeps_Run:
  assumes "tolerates R T" and "\<And>cx. keeps R (fn cx)"
  shows "keeps R (Run cx fn)"
proof -
  have R: "frame R" and roll: "R w w' \<Longrightarrow> R w (w'\<lparr>w_db := w_db w\<rparr>)" for w w'
    using assms(1) unfolding tolerates_def by blast+
  have "R w (snd (Run cx fn e w))" for e w
  proof (cases "ctxKeyTx cx")
    case True
    then show ?thesis using assms(2) by (simp add: Run_def keeps_def)
  next
    case False
    obtain r w1 where r: "fn (With cx) e (tick w) = (r, w1)" by fastforce
    have "R (tick w) w1" using keepsD [OF assms(2) r] .
    then have w1: "R w (tick w1)" using R by (meson frame_tick frame_trans)
    with roll [OF w1] False r frame_tick [OF R] show ?thesis
      by (cases r) (auto simp: Run_def split: option.split)
  qed
  then show ?thesis by (simp add: keeps_def)
qed

section \<open>Calls outside the database\<close>

named_theorems footprint

lemma keeps_outside [footprint]:
  assumes "tolerates R T"
  shows "keeps R (redis_call f)" and "keeps R (store_call what key g)" and "keeps R (deliver msg)"
    and "keeps R (Send sender msg)" and "keeps R (hub_Publish u ev)" and "keeps R (rand_Read n)"
proof -
  have same: "keeps R m" if "\<And>e w. w_db (snd (m e w)) = w_db w \<and> w_seq (snd (m e w)) = w_seq w" for m :: "'x comp"
    unfolding keeps_def using tolerates_same [OF assms] that by blast
  show "keeps R (redis_call f)" by (rule same) (simp add: redis_call_def split: option.split prod.split)
  show "keeps R (store_call what key g)" by (rule same) (simp add: store_call_def split: option.split sum.split)
  show "keeps R (deliver msg)" by (rule same) (simp add: deliver_def split: option.split)
  show "keeps R (Send sender msg)" by (rule same) (simp add: Send_result [OF prod.collapse [symmetric]])
  show "keeps R (hub_Publish u ev)" by (rule same) (simp add: hub_Publish_def split: option.split)
  show "keeps R (rand_Read n)" by (rule same) (simp add: rand_Read_def split: option.split)
qed

section \<open>Operations\<close>

locale statements =
  fixes R :: "world \<Rightarrow> world \<Rightarrow> bool" and T :: "table set"
  assumes tol: "tolerates R T"
begin

lemma fr: "frame R"
  by (rule tolerates_frame [OF tol])

lemma case_prod_keeps: "(\<And>a b. keeps R (f a b)) \<Longrightarrow> keeps R (case p of (a, b) \<Rightarrow> f a b)"
  by (simp split: prod.split)

lemma Run_keeps: "(\<And>cx. keeps R (fn cx)) \<Longrightarrow> keeps R (Run cx fn)"
  by (rule keeps_Run [OF tol])

lemmas outside_keeps = keeps_outside [OF tol]

lemma users_insert:
  "TUsers \<in> T \<Longrightarrow> (\<And>i. ur_ID (mk i) = i) \<Longrightarrow> keeps R (insert_row ''users'' (\<lambda>i. users_update (\<lambda>rs. rs @ [mk i])))"
  using tolerates_table [OF tol, of TUsers] by (intro keeps_insert [OF fr]) simp

lemma users_update_keeps:
  "TUsers \<in> T \<Longrightarrow> (\<And>r. ur_ID (f r) = ur_ID r) \<Longrightarrow> keeps R (exec (users_update (update_where P f)))"
  using tolerates_table [OF tol, of TUsers] by (intro keeps_exec [OF fr]) simp

lemma perms_insert:
  "TPerms \<in> T \<Longrightarrow> (\<And>i. pr_ID (mk i) = i) \<Longrightarrow>
   keeps R (insert_row ''user_permissions'' (\<lambda>i. user_permissions_update (\<lambda>rs. rs @ [mk i])))"
  using tolerates_table [OF tol, of TPerms] by (intro keeps_insert [OF fr]) simp

lemma perms_update:
  "TPerms \<in> T \<Longrightarrow> (\<And>r. pr_ID (f r) = pr_ID r) \<Longrightarrow> keeps R (exec (user_permissions_update (update_where P f)))"
  using tolerates_table [OF tol, of TPerms] by (intro keeps_exec [OF fr]) simp

lemma perms_delete: "TPerms \<in> T \<Longrightarrow> keeps R (exec (user_permissions_update (delete_where P)))"
  using tolerates_table [OF tol, of TPerms] by (intro keeps_exec [OF fr]) simp

lemma log_insert:
  "TLog \<in> T \<Longrightarrow> (\<And>i. ar_ID (mk i) = i) \<Longrightarrow> keeps R (insert_row ''audit_log'' (\<lambda>i. audit_log_update (\<lambda>rs. rs @ [mk i])))"
  using tolerates_table [OF tol, of TLog] by (intro keeps_insert [OF fr]) simp

lemma settings_write: "TSettings \<in> T \<Longrightarrow> keeps R (exec_now (\<lambda>t. settings_update (f t)))"
proof -
  assume "TSettings \<in> T"
  then have "keeps R (exec (settings_update (f t)))" for t
    using tolerates_table [OF tol, of TSettings] by (intro keeps_exec [OF fr]) simp
  then show ?thesis by (simp add: keeps_def exec_now_def)
qed

lemma anns_insert: "TAnns \<in> T \<Longrightarrow> keeps R (insert_row ''announcements'' (\<lambda>i. announcements_update (\<lambda>rs. rs @ [mk i])))"
  using tolerates_table [OF tol, of TAnns] by (intro keeps_insert [OF fr]) simp

lemma anns_write: "TAnns \<in> T \<Longrightarrow> keeps R (exec (announcements_update f))"
  using tolerates_table [OF tol, of TAnns] by (intro keeps_exec [OF fr]) simp

lemma notifs_insert:
  "TNotifs \<in> T \<Longrightarrow> (\<And>n i. tr_ID (mk n i) = i) \<Longrightarrow>
   keeps R (insert_rows ''notifications'' (length ns) (\<lambda>i. notifications_update (\<lambda>rs. rs @ number_rows mk i ns)))"
  using tolerates_table [OF tol, of TNotifs] by (intro keeps_inserts [OF fr]) simp

lemma notifs_insert_one:
  "TNotifs \<in> T \<Longrightarrow> (\<And>i. tr_ID (mk i) = i) \<Longrightarrow>
   keeps R (insert_row ''notifications'' (\<lambda>i. notifications_update (\<lambda>rs. rs @ [mk i])))"
  using notifs_insert [of "\<lambda>_. mk" "[undefined]"] by (simp add: insert_row_rows)

lemma notifs_update:
  "TNotifs \<in> T \<Longrightarrow> (\<And>r. tr_ID (f r) = tr_ID r) \<Longrightarrow> keeps R (exec (notifications_update (update_where P f)))"
  using tolerates_table [OF tol, of TNotifs] by (intro keeps_exec [OF fr]) simp

lemmas statement_rules = fr case_prod_keeps Run_keeps outside_keeps users_insert users_update_keeps perms_insert
  perms_update perms_delete log_insert settings_write anns_insert anns_write notifs_insert notifs_insert_one
  notifs_update keeps_intros

subsection \<open>Repositories\<close>

lemma user_repository:
  "keeps R (userRepo_GetByID i)" "keeps R (userRepo_GetByUsername n)" "keeps R (userRepo_ExistsByUsername n)"
  "keeps R (userRepo_List q)" "keeps R (userRepo_StaffCodesWithPrefix p)" "keeps R (userRepo_FindByResetTokenHash h)"
  "keeps R (userRepo_MustForcePasswordChange i)"
  "TUsers \<in> T \<Longrightarrow> keeps R (userRepo_Create u)" "TUsers \<in> T \<Longrightarrow> keeps R (userRepo_Update u)"
  "TUsers \<in> T \<Longrightarrow> keeps R (userRepo_SoftDelete i by)" "TUsers \<in> T \<Longrightarrow> keeps R (userRepo_SetResetToken i h t)"
  unfolding userRepo_GetByID_def userRepo_GetByUsername_def userRepo_ExistsByUsername_def userRepo_List_def
    userRepo_StaffCodesWithPrefix_def userRepo_FindByResetTokenHash_def userRepo_MustForcePasswordChange_def
    userRepo_Create_def userRepo_Update_def userRepo_SoftDelete_def userRepo_SetResetToken_def
  by (intro statement_rules; simp)+

lemma permission_repository:
  "keeps R (permRepo_GetByID i)" "keeps R (permRepo_GetByUserID i)" "keeps R (permRepo_List q)"
  "TPerms \<in> T \<Longrightarrow> keeps R (permRepo_Create up)" "TPerms \<in> T \<Longrightarrow> keeps R (permRepo_Update up)"
  "TPerms \<in> T \<Longrightarrow> keeps R (permRepo_Delete i)"
  unfolding permRepo_GetByID_def permRepo_GetByUserID_def permRepo_List_def permRepo_Create_def
    permRepo_Update_def permRepo_Delete_def
  by (intro statement_rules; simp)+

lemma audit_repository:
  "TLog \<in> T \<Longrightarrow> keeps R (auditRepo_Write cx a)" "keeps R auditRepo_ListActors" "keeps R (auditRepo_ListLogs q)"
  unfolding auditRepo_Write_def auditRepo_ListActors_def auditRepo_ListLogs_def date_arg_def
  by (intro statement_rules; simp)+

lemma announcement_repository:
  "keeps R (annRepo_GetByID i)" "keeps R (annRepo_List b p)" "TAnns \<in> T \<Longrightarrow> keeps R (annRepo_Create x)"
  "TAnns \<in> T \<Longrightarrow> keeps R (annRepo_Update x)" "TAnns \<in> T \<Longrightarrow> keeps R (annRepo_SoftDelete i by)"
  unfolding annRepo_GetByID_def annRepo_List_def annRepo_Create_def annRepo_Update_def annRepo_SoftDelete_def
  by (intro statement_rules; simp)+

lemma notification_repository:
  "keeps R (notifRepo_ListForUserFiltered u q p)" "keeps R (notifRepo_GetByID i u)" "keeps R (notifRepo_UnreadCount u)"
  "TNotifs \<in> T \<Longrightarrow> keeps R (notifRepo_Create n)" "TNotifs \<in> T \<Longrightarrow> keeps R (notifRepo_BulkCreate ns)"
  "TNotifs \<in> T \<Longrightarrow> keeps R (notifRepo_MarkRead i u)" "TNotifs \<in> T \<Longrightarrow> keeps R (notifRepo_MarkUnread i u)"
  "TNotifs \<in> T \<Longrightarrow> keeps R (notifRepo_SetImportant i u b)" "TNotifs \<in> T \<Longrightarrow> keeps R (notifRepo_MarkAllRead u)"
  unfolding notifRepo_ListForUserFiltered_def notifRepo_GetByID_def notifRepo_UnreadCount_def notifRepo_Create_def
    notifRepo_BulkCreate_def notifRepo_MarkRead_def notifRepo_MarkUnread_def notifRepo_SetImportant_def
    notifRepo_MarkAllRead_def
  by (intro statement_rules; simp add: notification_row_def)+

lemma setting_repository:
  "keeps R settingRepo_GetAll" "keeps R (settingRepo_Get k)" "TSettings \<in> T \<Longrightarrow> keeps R (settingRepo_Set k v by)"
  unfolding settingRepo_GetAll_def settingRepo_Get_def settingRepo_Set_def
  by (intro statement_rules; simp)+

end

context statements
begin

lemmas repository_rules = user_repository permission_repository audit_repository announcement_repository
  notification_repository setting_repository statement_rules

lemma publish_all_keeps: "keeps R (publish_all ns)"
  by (induction ns) (auto simp: publishNew_def intro!: repository_rules)

lemma mail_and_random:
  "keeps R (Sign m u r)" "keeps R (Verify tok)" "keeps R (Revoke j x)"
  "keeps R (IsRevoked j)"
  unfolding Sign_def newJTI_def Verify_def Revoke_def IsRevoked_def redis_Set_def redis_Exists_def
  by (intro repository_rules; simp)+

lemma wrapped_keeps: "keeps R m \<Longrightarrow> keeps R (internal msg m)"
  unfolding internal_def by (intro repository_rules)

lemma parse_opt_keeps: "keeps R (parse_opt f s)"
  unfolding parse_opt_def by (intro repository_rules)

lemma seed_keeps: "TPerms \<in> T \<Longrightarrow> keeps R (seed_permissions u r by)"
  unfolding seed_permissions_def by (intro repository_rules; simp)

lemmas basic_rules = publish_all_keeps mail_and_random wrapped_keeps parse_opt_keeps seed_keeps repository_rules

subsection \<open>Use cases\<close>

lemma user_administration:
  "keeps R (userUC_Get i)" "keeps R (userUC_List q)" "keeps R (userUC_NextStaffCode r)"
  "{TUsers, TPerms, TLog} \<subseteq> T \<Longrightarrow> keeps R (userUC_Create ci cx)"
  "{TUsers, TLog} \<subseteq> T \<Longrightarrow> keeps R (userUC_Update i ui cx)"
  "{TUsers, TLog} \<subseteq> T \<Longrightarrow> keeps R (userUC_ResetPassword i p cx)"
  "{TUsers, TLog} \<subseteq> T \<Longrightarrow> keeps R (userUC_ToggleStatus i cx)"
  "{TUsers, TLog} \<subseteq> T \<Longrightarrow> keeps R (userUC_UpdateProfile pi cx)"
  unfolding userUC_Get_def userUC_List_def userUC_NextStaffCode_def userUC_Create_def userUC_Update_def
    userUC_ResetPassword_def userUC_ToggleStatus_def userUC_UpdateProfile_def
  by (intro basic_rules; simp)+

end

context statements
begin

lemma bulk_loop_keeps:
  assumes "\<And>cx u. keeps R (perform cx u)"
  shows "keeps R (bulk_loop cx perform ids seen ok fs)"
proof (induction ids arbitrary: seen ok fs)
  case (Cons i ids)
  have "keeps R (bulk_one cx perform i)"
    unfolding bulk_one_def using assms by (intro basic_rules)
  with Cons.IH show ?case by (auto intro!: basic_rules)
qed (simp add: keeps_ret fr)

lemma bulk_actions:
  "{TUsers, TLog} \<subseteq> T \<Longrightarrow> keeps R (userUC_BulkLock ids cx)"
  "{TUsers, TLog} \<subseteq> T \<Longrightarrow> keeps R (userUC_BulkUnlock ids cx)"
  "{TUsers, TLog} \<subseteq> T \<Longrightarrow> keeps R (userUC_BulkDelete ids cx)"
  unfolding userUC_BulkLock_def userUC_BulkUnlock_def userUC_BulkDelete_def bulkApply_def
    lock_one_def unlock_one_def delete_one_def
  by (intro bulk_loop_keeps basic_rules; simp)+

lemma invitation: "{TUsers, TPerms, TLog} \<subseteq> T \<Longrightarrow> keeps R (userUC_Invite cfg ii cx)"
  unfolding userUC_Invite_def invite_account_def invite_mail_def
  by (intro basic_rules; simp)

lemma avatars: "{TUsers, TLog} \<subseteq> T \<Longrightarrow> keeps R (userUC_UploadAvatar st i n b cx)"
  unfolding userUC_UploadAvatar_def store_Upload_def Let_def
  by (intro basic_rules; simp)

lemma permission_administration:
  "keeps R (permUC_GetByID i)" "keeps R (permUC_GetByUserID i)" "keeps R (permUC_List q)"
  "keeps R (permUC_EffectivePermissions i b)"
  "{TPerms, TLog} \<subseteq> T \<Longrightarrow> keeps R (permUC_Create cx i)" "{TPerms, TLog} \<subseteq> T \<Longrightarrow> keeps R (permUC_Update cx i m)"
  "{TPerms, TLog} \<subseteq> T \<Longrightarrow> keeps R (permUC_UpdateByUserID cx i m)" "{TPerms, TLog} \<subseteq> T \<Longrightarrow> keeps R (permUC_Delete cx i)"
  unfolding permUC_GetByID_def permUC_GetByUserID_def permUC_List_def permUC_EffectivePermissions_def
    permUC_Create_def permUC_Update_def permUC_UpdateByUserID_def permUC_Delete_def permUC_save_row_def
  by (intro basic_rules; simp)+

lemma authentication:
  "keeps R (authUC_Me cx)" "keeps R (authUC_Logout u cx)"
  "TLog \<in> T \<Longrightarrow> keeps R (authUC_Login u n p cx)"
  "{TUsers, TLog} \<subseteq> T \<Longrightarrow> keeps R (authUC_RequestPasswordReset u i cx)"
  "{TUsers, TLog} \<subseteq> T \<Longrightarrow> keeps R (authUC_ResetPassword t p cx)"
  "{TUsers, TLog} \<subseteq> T \<Longrightarrow> keeps R (authUC_ChangePassword p q cx)"
  unfolding authUC_Me_def authUC_Logout_def authUC_Login_def authUC_RequestPasswordReset_def issue_reset_token_def
    send_reset_mail_def authUC_ResetPassword_def authUC_ChangePassword_def
  by (intro basic_rules; simp)+

lemma notices:
  "keeps R (notifUC_GetAnnouncement i)" "keeps R (notifUC_ListAnnouncements b p)"
  "keeps R (notifUC_ListForUserFiltered u q p)" "keeps R (notifUC_GetForUser i u)" "keeps R (notifUC_UnreadCount u)"
  "{TAnns, TLog} \<subseteq> T \<Longrightarrow> keeps R (notifUC_CreateAnnouncement ai cx)"
  "{TAnns, TLog} \<subseteq> T \<Longrightarrow> keeps R (notifUC_UpdateAnnouncement i ai cx)"
  "{TAnns, TLog} \<subseteq> T \<Longrightarrow> keeps R (notifUC_DeleteAnnouncement i cx)"
  "TNotifs \<in> T \<Longrightarrow> keeps R (notifUC_MarkRead i u)" "TNotifs \<in> T \<Longrightarrow> keeps R (notifUC_MarkUnread i u)"
  "TNotifs \<in> T \<Longrightarrow> keeps R (notifUC_SetImportant i u b)" "TNotifs \<in> T \<Longrightarrow> keeps R (notifUC_MarkAllRead u)"
  "TNotifs \<in> T \<Longrightarrow> keeps R (notifUC_PublishToAll t body rt ri)"
  unfolding notifUC_GetAnnouncement_def notifUC_ListAnnouncements_def notifUC_ListForUserFiltered_def
    notifUC_GetForUser_def notifUC_UnreadCount_def notifUC_CreateAnnouncement_def notifUC_UpdateAnnouncement_def
    notifUC_DeleteAnnouncement_def announcement_audit_def notifUC_MarkRead_def notifUC_MarkUnread_def
    notifUC_SetImportant_def notifUC_MarkAllRead_def notifUC_PublishToAll_def pubRepo_BulkCreate_def
  by (intro basic_rules; simp)+

lemma system_settings:
  "keeps R settingUC_GetAll" "keeps R (settingUC_Get k)" "TSettings \<in> T \<Longrightarrow> keeps R (settingUC_Set k v cx)"
  unfolding settingUC_GetAll_def settingUC_Get_def settingUC_Set_def
  by (intro basic_rules; simp)+

lemma case_list_keeps: "keeps R a \<Longrightarrow> (\<And>x xs. keeps R (f x xs)) \<Longrightarrow> keeps R (case l of [] \<Rightarrow> a | x # xs \<Rightarrow> f x xs)"
  by (simp split: list.split)

lemma store_keeps: "keeps R (store_Upload url inp)" "keeps R (store_GetObject k)"
  unfolding store_Upload_def store_GetObject_def Let_def by (rule outside_keeps)+

lemma verify_keeps: "keeps R (verifyUploadToken h k ct tok)"
  unfolding verifyUploadToken_def by (intro case_list_keeps basic_rules)

lemma object_storage:
  "keeps R (RequestUploadURL h b)" "keeps R (DirectUpload h url rq)" "keeps R (Serve p)"
  unfolding RequestUploadURL_def DirectUpload_def Serve_def
  by (intro verify_keeps store_keeps basic_rules)+

end

section \<open>Handlers and gates\<close>

text \<open>The tables an endpoint writes.\<close>

fun footprint_of :: "endpoint \<Rightarrow> table set" where
  "footprint_of E_Login = {TLog}"
| "footprint_of E_ForgotPassword = {TUsers, TLog}"
| "footprint_of E_ResetByToken = {TUsers, TLog}"
| "footprint_of E_ChangePassword = {TUsers, TLog}"
| "footprint_of E_CreateAnnouncement = {TAnns, TLog}"
| "footprint_of E_UpdateAnnouncement = {TAnns, TLog}"
| "footprint_of E_DeleteAnnouncement = {TAnns, TLog}"
| "footprint_of E_PublishToAll = {TNotifs}"
| "footprint_of E_GetMyNotification = {TNotifs}"
| "footprint_of E_MarkRead = {TNotifs}"
| "footprint_of E_MarkUnread = {TNotifs}"
| "footprint_of E_SetImportant = {TNotifs}"
| "footprint_of E_MarkAllRead = {TNotifs}"
| "footprint_of E_SetSetting = {TSettings}"
| "footprint_of E_PermCreate = {TPerms, TLog}"
| "footprint_of E_PermUpdate = {TPerms, TLog}"
| "footprint_of E_PermDelete = {TPerms, TLog}"
| "footprint_of E_PermUpdateByUser = {TPerms, TLog}"
| "footprint_of E_UpdateProfile = {TUsers, TLog}"
| "footprint_of E_AvatarMe = {TUsers, TLog}"
| "footprint_of E_CreateUser = {TUsers, TPerms, TLog}"
| "footprint_of E_UpdateUser = {TUsers, TLog}"
| "footprint_of E_ResetUserPassword = {TUsers, TLog}"
| "footprint_of E_ToggleStatus = {TUsers, TLog}"
| "footprint_of E_AvatarByID = {TUsers, TLog}"
| "footprint_of E_Invite = {TUsers, TPerms, TLog}"
| "footprint_of E_BulkLock = {TUsers, TLog}"
| "footprint_of E_BulkUnlock = {TUsers, TLog}"
| "footprint_of E_BulkDelete = {TUsers, TLog}"
| "footprint_of _ = {}"

context statements
begin

lemmas use_case_rules = bulk_actions user_administration invitation avatars permission_administration authentication
  notices system_settings object_storage audit_repository fr case_prod_keeps outside_keeps keeps_intros

lemma validated_keeps: "(\<And>req. keeps R (k req)) \<Longrightarrow> keeps R (validated r k)"
  unfolding validated_def by (intro use_case_rules)

lemma parseIDParam_keeps: "keeps R (parseIDParam rq)"
  unfolding parseIDParam_def by (intro use_case_rules)

lemma with_effective_keeps: "keeps R (with_effective i up)"
  unfolding with_effective_def by (intro use_case_rules)

lemma user_response_keeps: "keeps R m \<Longrightarrow> keeps R (user_response m)"
  unfolding user_response_def by (intro use_case_rules)

lemma permission_response_keeps: "keeps R m \<Longrightarrow> keeps R (permission_response m)"
  unfolding permission_response_def by (intro use_case_rules)

lemmas handler_rules = validated_keeps parseIDParam_keeps with_effective_keeps user_response_keeps
  permission_response_keeps use_case_rules

lemma auth_handlers:
  "keeps R (AuthHandler_Me cx)" "keeps R (AuthHandler_Logout a cx)" "TLog \<in> T \<Longrightarrow> keeps R (AuthHandler_Login a rq cx)"
  "{TUsers, TLog} \<subseteq> T \<Longrightarrow> keeps R (AuthHandler_ChangePassword a rq cx)"
  "{TUsers, TLog} \<subseteq> T \<Longrightarrow> keeps R (AuthHandler_ForgotPassword a rq cx)"
  "{TUsers, TLog} \<subseteq> T \<Longrightarrow> keeps R (AuthHandler_ResetPassword a rq cx)"
  unfolding AuthHandler_Me_def AuthHandler_Logout_def AuthHandler_Login_def AuthHandler_ChangePassword_def
    AuthHandler_ForgotPassword_def AuthHandler_ResetPassword_def
  by (intro handler_rules; simp)+

lemma user_handlers:
  "keeps R (UserHandler_GetMe cx)" "keeps R (UserHandler_NextCode a rq)" "keeps R (UserHandler_List a rq)"
  "keeps R (UserHandler_Get a rq)"
  "{TUsers, TLog} \<subseteq> T \<Longrightarrow> keeps R (UserHandler_UpdateProfile a rq cx)"
  "{TUsers, TPerms, TLog} \<subseteq> T \<Longrightarrow> keeps R (UserHandler_Create a rq cx)"
  "{TUsers, TLog} \<subseteq> T \<Longrightarrow> keeps R (UserHandler_Update a rq cx)"
  "{TUsers, TLog} \<subseteq> T \<Longrightarrow> keeps R (UserHandler_ResetPassword a rq cx)"
  "{TUsers, TLog} \<subseteq> T \<Longrightarrow> keeps R (UserHandler_UploadAvatarMe a rq cx)"
  "{TUsers, TLog} \<subseteq> T \<Longrightarrow> keeps R (UserHandler_UploadAvatarByID a rq cx)"
  "{TUsers, TPerms, TLog} \<subseteq> T \<Longrightarrow> keeps R (UserHandler_Invite a rq cx)"
  "{TUsers, TLog} \<subseteq> T \<Longrightarrow> keeps R (UserHandler_ToggleStatus a rq cx)"
  unfolding UserHandler_GetMe_def UserHandler_NextCode_def UserHandler_List_def UserHandler_Get_def
    UserHandler_UpdateProfile_def UserHandler_Create_def UserHandler_Update_def UserHandler_ResetPassword_def
    temporary_password_def UserHandler_UploadAvatarMe_def UserHandler_UploadAvatarByID_def avatar_upload_def
    UserHandler_Invite_def UserHandler_ToggleStatus_def
  by (intro handler_rules; simp)+

lemma bulk_handlers:
  "{TUsers, TLog} \<subseteq> T \<Longrightarrow> keeps R (UserHandler_BulkLock a rq cx)"
  "{TUsers, TLog} \<subseteq> T \<Longrightarrow> keeps R (UserHandler_BulkUnlock a rq cx)"
  "{TUsers, TLog} \<subseteq> T \<Longrightarrow> keeps R (UserHandler_BulkDelete a rq cx)"
  unfolding UserHandler_BulkLock_def UserHandler_BulkUnlock_def UserHandler_BulkDelete_def runBulk_def
  by (intro handler_rules; simp)+

lemma permission_handlers:
  "keeps R PermissionHandler_Definitions" "keeps R PermissionHandler_Actions" "keeps R (PermissionHandler_Me cx)"
  "keeps R (PermissionHandler_Get rq)" "keeps R (PermissionHandler_List a rq)" "keeps R (PermissionHandler_GetByUser rq)"
  "{TPerms, TLog} \<subseteq> T \<Longrightarrow> keeps R (PermissionHandler_Create a rq cx)"
  "{TPerms, TLog} \<subseteq> T \<Longrightarrow> keeps R (PermissionHandler_Update a rq cx)"
  "{TPerms, TLog} \<subseteq> T \<Longrightarrow> keeps R (PermissionHandler_UpdateByUser a rq cx)"
  "{TPerms, TLog} \<subseteq> T \<Longrightarrow> keeps R (PermissionHandler_Delete rq cx)"
  unfolding PermissionHandler_Definitions_def PermissionHandler_Actions_def PermissionHandler_Me_def
    PermissionHandler_Get_def PermissionHandler_List_def PermissionHandler_GetByUser_def PermissionHandler_Create_def
    PermissionHandler_Update_def PermissionHandler_UpdateByUser_def PermissionHandler_Delete_def
  by (intro handler_rules; simp)+

lemma announcement_handlers:
  "keeps R (NotificationHandler_ListAnnouncements rq)" "keeps R (NotificationHandler_GetAnnouncement rq)"
  "keeps R (NotificationHandler_AnnouncementUnreadCount cx)" "keeps R NotificationHandler_AnnouncementReply"
  "keeps R NotificationHandler_AnnouncementReads"
  "{TAnns, TLog} \<subseteq> T \<Longrightarrow> keeps R (NotificationHandler_CreateAnnouncement a rq cx)"
  "{TAnns, TLog} \<subseteq> T \<Longrightarrow> keeps R (NotificationHandler_UpdateAnnouncement a rq cx)"
  "{TAnns, TLog} \<subseteq> T \<Longrightarrow> keeps R (NotificationHandler_DeleteAnnouncement rq cx)"
  "TNotifs \<in> T \<Longrightarrow> keeps R (NotificationHandler_PublishToAll rq)"
  unfolding NotificationHandler_ListAnnouncements_def NotificationHandler_GetAnnouncement_def
    NotificationHandler_AnnouncementUnreadCount_def NotificationHandler_AnnouncementReply_def
    NotificationHandler_AnnouncementReads_def NotificationHandler_CreateAnnouncement_def
    NotificationHandler_UpdateAnnouncement_def NotificationHandler_DeleteAnnouncement_def
    NotificationHandler_PublishToAll_def
  by (intro handler_rules; simp)+

lemma inbox_handlers:
  "keeps R (NotificationHandler_ListMyNotifications rq cx)" "keeps R (NotificationHandler_UnreadCount cx)"
  "TNotifs \<in> T \<Longrightarrow> keeps R (NotificationHandler_GetMyNotification rq cx)"
  "TNotifs \<in> T \<Longrightarrow> keeps R (NotificationHandler_MarkRead rq cx)"
  "TNotifs \<in> T \<Longrightarrow> keeps R (NotificationHandler_MarkUnread rq cx)"
  "TNotifs \<in> T \<Longrightarrow> keeps R (NotificationHandler_SetImportant a rq cx)"
  "TNotifs \<in> T \<Longrightarrow> keeps R (NotificationHandler_MarkAllRead cx)"
  unfolding NotificationHandler_ListMyNotifications_def NotificationHandler_UnreadCount_def
    NotificationHandler_GetMyNotification_def NotificationHandler_MarkRead_def NotificationHandler_MarkUnread_def
    NotificationHandler_SetImportant_def NotificationHandler_MarkAllRead_def
  by (intro handler_rules; simp)+

lemma other_handlers:
  "keeps R SettingHandler_List" "keeps R (SettingHandler_Get rq)" "TSettings \<in> T \<Longrightarrow> keeps R (SettingHandler_Set a rq cx)"
  "keeps R (ActivityLogHandler_List a rq)" "keeps R ActivityLogHandler_ListUsers"
  "keeps R HealthHandler_Healthz" "keeps R HealthHandler_Readyz" "keeps R (HealthHandler_Version a)"
  "keeps R (StorageHandler_RequestUploadURL a h rq)" "keeps R (StorageHandler_DirectUpload a h rq)"
  "keeps R (StorageHandler_Serve rq)"
  unfolding SettingHandler_List_def SettingHandler_Get_def SettingHandler_Set_def ActivityLogHandler_List_def
    ActivityLogHandler_ListUsers_def HealthHandler_Healthz_def HealthHandler_Readyz_def HealthHandler_unavailable_def
    HealthHandler_Version_def StorageHandler_RequestUploadURL_def StorageHandler_DirectUpload_def StorageHandler_Serve_def
  by (intro handler_rules; simp)+

lemma handle_keeps: "footprint_of ep \<subseteq> T \<Longrightarrow> keeps R (handle a ep rq cx)"
  by (cases ep)
    (simp_all add: auth_handlers user_handlers bulk_handlers permission_handlers announcement_handlers inbox_handlers
      other_handlers stored_def keeps_ret keeps_throw fr split: option.split)

lemma authenticate_keeps: "keeps R (authenticate m rq)"
  unfolding authenticate_def by (intro basic_rules)

lemma through_keeps: "(\<And>cx. keeps R (next cx)) \<Longrightarrow> keeps R (through a adm rq gs next cx)"
proof (induction a adm rq gs "next" cx rule: through.induct)
  case (3 a adm rq gs "next" cx)
  have "keeps R (through a adm rq gs next cx')" for cx' using 3 by blast
  then show ?case
    unfolding through.simps auth_Middleware_def by (intro authenticate_keeps basic_rules)
next
  case (5 a adm rq res act gs "next" cx)
  have "keeps R (through a adm rq gs next cx')" for cx' using 5 by blast
  then show ?case unfolding through.simps RequirePermission_def by (intro basic_rules)
qed (auto simp: RequireRole_def keeps_throw fr intro: keeps_if)

lemma run_route_keeps: "footprint_of (rt_Endpoint r) \<subseteq> T \<Longrightarrow> keeps R (run_route a adm r rq cx)"
  unfolding run_route_def by (intro through_keeps handle_keeps)

lemma serve_keeps: "footprint_of (rt_Endpoint r) \<subseteq> T \<Longrightarrow> R w (snd (serve a adm r rq cx e w))"
  using run_route_keeps [of r a adm rq cx] by (simp add: serve_def keeps_def split: prod.split) (metis snd_conv)

end

end
