(* ===== verification/System.thy ===== *)
theory System
  imports Footprint
begin

text \<open>
  The service as a whole: what any sequence of requests, through whatever routes, does to the
  database. Three relations instantiate the calculus of \<open>Footprint\<close>: the audit log grows, the
  primary keys stay in order, and an endpoint changes no table outside its footprint.
\<close>

section \<open>The relations\<close>

definition log_grows :: "world \<Rightarrow> world \<Rightarrow> bool" where
  "log_grows w w' \<longleftrightarrow> prefix (audit_log (w_db w)) (audit_log (w_db w'))"

text \<open>Keys are distinct, positive and not ahead of their sequence.\<close>

definition keys_in_order :: "world \<Rightarrow> bool" where
  "keys_in_order w \<longleftrightarrow> user_table.ids_ok w \<and> perm_table.ids_ok w \<and> audit_table.ids_ok w \<and> notification_table.ids_ok w"

definition keeps_order :: "world \<Rightarrow> world \<Rightarrow> bool" where
  "keeps_order w w' \<longleftrightarrow> (\<forall>t. w_seq w t \<le> w_seq w' t) \<and> (keys_in_order w \<longrightarrow> keys_in_order w')"

datatype table_rows =
    RUsers "userTuple list"
  | RPerms "userPermissionRow list"
  | RLog "auditRow list"
  | RSettings "settingRow list"
  | RAnns "announcementRow list"
  | RNotifs "notificationRow list"

fun rows_of :: "table \<Rightarrow> db \<Rightarrow> table_rows" where
  "rows_of TUsers d = RUsers (users d)"
| "rows_of TPerms d = RPerms (user_permissions d)"
| "rows_of TLog d = RLog (audit_log d)"
| "rows_of TSettings d = RSettings (settings d)"
| "rows_of TAnns d = RAnns (announcements d)"
| "rows_of TNotifs d = RNotifs (notifications d)"

lemma rows_of_other [simp]:
  "s \<noteq> TUsers \<Longrightarrow> rows_of s (users_update f1 d) = rows_of s d"
  "s \<noteq> TPerms \<Longrightarrow> rows_of s (user_permissions_update f2 d) = rows_of s d"
  "s \<noteq> TLog \<Longrightarrow> rows_of s (audit_log_update f3 d) = rows_of s d"
  "s \<noteq> TSettings \<Longrightarrow> rows_of s (settings_update f4 d) = rows_of s d"
  "s \<noteq> TAnns \<Longrightarrow> rows_of s (announcements_update f5 d) = rows_of s d"
  "s \<noteq> TNotifs \<Longrightarrow> rows_of s (notifications_update f6 d) = rows_of s d"
  by (cases s; simp)+

definition unchanged_outside :: "table set \<Rightarrow> world \<Rightarrow> world \<Rightarrow> bool" where
  "unchanged_outside T w w' \<longleftrightarrow> (\<forall>t. t \<in> T \<or> rows_of t (w_db w') = rows_of t (w_db w))"

lemma log_grows_tolerates: "tolerates log_grows UNIV"
proof -
  have "allows_table log_grows t" for t
    by (cases t) (auto simp: log_grows_def allows_def allows_insert_def)
  then show ?thesis
    by (auto simp: tolerates_def frame_def log_grows_def dest: prefix_order.trans)
qed

interpretation log: statements log_grows UNIV
  by unfold_locales (rule log_grows_tolerates)

lemma unchanged_tolerates: "tolerates (unchanged_outside T) T"
proof -
  have other: "s \<in> T \<or> rows_of s d' = rows_of s d" if "t \<in> T" and "s \<noteq> t \<Longrightarrow> rows_of s d' = rows_of s d" for s t d d'
    using that by auto
  have "allows_table (unchanged_outside T) t" if "t \<in> T" for t
    using that
    by (cases t)
      (auto simp: unchanged_outside_def allows_def allows_insert_def intro!: other [OF that] elim: rows_of.elims)
  moreover have "frame (unchanged_outside T)"
    unfolding frame_def unchanged_outside_def by (metis tick_simps(1))
  ultimately show ?thesis by (simp add: tolerates_def unchanged_outside_def)
qed

interpretation touch: statements "unchanged_outside T" T for T
  by unfold_locales (rule unchanged_tolerates)

text \<open>The order of the keys of a table, as a statement on the list of its keys and its sequence.\<close>

definition ordered :: "int list \<Rightarrow> int \<Rightarrow> bool" where
  "ordered ks s \<longleftrightarrow> distinct ks \<and> 0 \<le> s \<and> (\<forall>k \<in> set ks. 0 < k \<and> k \<le> s)"

lemma keys_in_order_ordered:
  "keys_in_order w \<longleftrightarrow>
     ordered (map ur_ID (users (w_db w))) (w_seq w ''users'') \<and>
     ordered (map pr_ID (user_permissions (w_db w))) (w_seq w ''user_permissions'') \<and>
     ordered (map ar_ID (audit_log (w_db w))) (w_seq w ''audit_log'') \<and>
     ordered (map tr_ID (notifications (w_db w))) (w_seq w ''notifications'')"
  by (simp add: keys_in_order_def ordered_def user_table.ids_ok_def perm_table.ids_ok_def audit_table.ids_ok_def
      notification_table.ids_ok_def)

lemma ordered_mono: "ordered ks s \<Longrightarrow> s \<le> s' \<Longrightarrow> ordered ks s'"
  by (fastforce simp: ordered_def)

lemma ordered_filter: "ordered (map f rs) s \<Longrightarrow> ordered (map f (filter P rs)) s"
  by (auto simp: ordered_def distinct_map_filter)

lemma ordered_insert: "ordered ks s \<Longrightarrow> ordered (ks @ [s + 1]) (s + 1)"
  by (fastforce simp: ordered_def)

lemma ordered_inserts: "ordered ks s \<Longrightarrow> ordered (ks @ map (\<lambda>n. s + 1 + int n) [0..<k]) (s + int k)"
proof (induction k)
  case (Suc k)
  from ordered_insert [OF Suc.IH [OF Suc.prems]] show ?case by (simp add: ac_simps)
qed simp

lemma map_number_rows:
  "(\<And>n i. f (mk n i) = i) \<Longrightarrow> map f (number_rows mk i ns) = map (\<lambda>n. i + int n) [0..<length ns]"
proof (induction ns arbitrary: i)
  case (Cons n ns)
  have "map (\<lambda>n. i + int n) [0..<Suc k] = i # map (\<lambda>n. i + 1 + int n) [0..<k]" for k
    by (induction k) simp_all
  with Cons show ?case by (simp del: upt_Suc)
qed simp

lemma order_tolerates: "tolerates keeps_order UNIV"
proof -
  have "allows_table keeps_order t" for t
    by (cases t)
      (auto simp: keeps_order_def keys_in_order_ordered allows_def allows_insert_def map_update_where delete_where_def
        ordered_insert map_number_rows ordered_inserts ordered_filter)
  moreover have "keeps_order w (w'\<lparr>w_db := w_db w\<rparr>)" if "keeps_order w w'" for w w'
    using that by (auto simp: keeps_order_def keys_in_order_ordered intro: ordered_mono)
  moreover have "frame keeps_order"
  proof -
    have "keeps_order a c" if "keeps_order a b" and "keeps_order b c" for a b c
      using that unfolding keeps_order_def by (meson order_trans)
    moreover have "keeps_order w w" and "keeps_order w (tick w)" for w
      by (simp_all add: keeps_order_def keys_in_order_ordered)
    ultimately show ?thesis unfolding frame_def by blast
  qed
  moreover have "keeps_order w w'" if "w_db w' = w_db w" and "w_seq w' = w_seq w" for w w'
    using that by (simp add: keeps_order_def keys_in_order_ordered)
  ultimately show ?thesis unfolding tolerates_def by blast
qed

interpretation order: statements keeps_order UNIV
  by unfold_locales (rule order_tolerates)

section \<open>Runs of the service\<close>

text \<open>Requests through any routes, in any order, and time passing between them.\<close>

inductive reaches :: "app \<Rightarrow> env \<Rightarrow> world \<Rightarrow> world \<Rightarrow> bool" for a e w where
  here: "reaches a e w w"
| request: "reaches a e w w1 \<Longrightarrow> r \<in> set (routes a) \<Longrightarrow> reaches a e w (snd (serve a adm r rq cx e w1))"
| idle: "reaches a e w w1 \<Longrightarrow> reaches a e w (tick w1)"

lemma reaches_keeps:
  assumes "reaches a e w w'" and "frame R" and "\<And>r adm rq cx w. R w (snd (serve a adm r rq cx e w))"
  shows "R w w'"
  using assms by (induction rule: reaches.induct) (blast intro: frame_refl frame_trans frame_tick)+

text \<open>
  C4: history is never rewritten. Whatever requests the service answers, the audit log only grows at
  its end, no sequence of keys goes back, and if the keys of the users, the permission rows, the log
  and the notifications were distinct, positive and covered by their sequences, they still are.
\<close>

theorem history_only_grows:
  assumes "reaches a e w w'"
  shows "prefix (audit_log (w_db w)) (audit_log (w_db w')) \<and> w_seq w t \<le> w_seq w' t \<and>
    (if keys_in_order w then keys_in_order w' else True)"
proof -
  have "log_grows w w'" and "keeps_order w w'"
    by (rule reaches_keeps [OF assms log.fr log.serve_keeps], simp)
      (rule reaches_keeps [OF assms order.fr order.serve_keeps], simp)
  then show ?thesis by (simp add: log_grows_def keeps_order_def)
qed

text \<open>
  C39: a request changes only the tables its endpoint is for, whatever it carries and however it
  fails.
\<close>

theorem endpoint_footprint:
  "t \<in> footprint_of (rt_Endpoint r) \<or>
   rows_of t (w_db (snd (serve a adm r rq cx e w))) = rows_of t (w_db w)"
  using touch.serve_keeps [of r "footprint_of (rt_Endpoint r)" w a adm rq cx e]
  by (simp add: unchanged_outside_def)

section \<open>Authorisation\<close>

lemma nothing_changed: "unchanged_outside {} w w' \<longleftrightarrow> w_db w' = w_db w"
proof
  assume "unchanged_outside {} w w'"
  then show "w_db w' = w_db w"
    unfolding unchanged_outside_def all_tables by (intro db.equality) simp_all
qed (simp add: unchanged_outside_def)

text \<open>The permissions the gate computes, and what each gate asks of the caller.\<close>

definition gate_permissions :: "app \<Rightarrow> env \<Rightarrow> db \<Rightarrow> int \<Rightarrow> string \<Rightarrow> pmap" where
  "gate_permissions a e d uid role =
     (if am_perms (app_mw a) then
        (case first_row pr_ID (\<lambda>r. pr_UserID r = uid) (user_permissions d) of
           None \<Rightarrow> RoleDefaultPermissions role
         | Some r \<Rightarrow> MergeOver (RoleDefaultPermissions role) (up_Permissions (perm_toDomain e r)))
      else RoleDefaultPermissions role)"

fun gate_ok :: "app \<Rightarrow> env \<Rightarrow> db \<Rightarrow> int \<Rightarrow> string \<Rightarrow> gate \<Rightarrow> bool" where
  "gate_ok a e d uid role (GRole roles) \<longleftrightarrow> role \<in> set roles"
| "gate_ok a e d uid role (GPerm res act) \<longleftrightarrow>
     role = RoleAdmin \<or> HasAction (gate_permissions a e d uid role) res act"
| "gate_ok a e d uid role _ \<longleftrightarrow> True"

lemma db_same: "keeps (unchanged_outside {}) m \<Longrightarrow> w_db (snd (m e w)) = w_db w"
  by (simp add: keeps_def nothing_changed [symmetric])

lemma bind_changes:
  assumes "w_db (snd (bind m f e w)) \<noteq> w_db w" and "keeps (unchanged_outside {}) m"
  obtains x w1 where "m e w = (Inr x, w1)" and "w_db w1 = w_db w" and "w_db (snd (f x e w1)) \<noteq> w_db w1"
proof -
  obtain r w1 where m: "m e w = (r, w1)" by fastforce
  with db_same [OF assms(2)] have "w_db w1 = w_db w" by (metis snd_conv)
  with m assms(1) show thesis by (cases r) (auto simp: bind_def intro: that)
qed

lemma gate_lookup:
  "bind (attempt (permRepo_GetByUserID uid)) (\<lambda>r. case r of Inl err \<Rightarrow> throw failed | Inr oup \<Rightarrow> ret (f oup)) e w = (Inr p, w1) \<Longrightarrow>
   p = f (map_option (perm_toDomain e) (first_row pr_ID (\<lambda>r. pr_UserID r = uid) (user_permissions (w_db w))))"
  by (simp add: bind_def attempt_def permRepo_GetByUserID_def ask_def query_def stmt_def throw_def ret_def
      split: option.splits)

text \<open>If the chain changed the database, every gate of it was passed.\<close>

lemma through_changes:
  "GAuth \<notin> set gs \<Longrightarrow> w_db (snd (through a adm rq gs next cx e w)) \<noteq> w_db w \<Longrightarrow>
   list_all (gate_ok a e (w_db w) (UserID cx) (Role cx)) gs"
proof (induction a adm rq gs "next" cx arbitrary: w rule: through.induct)
  case (5 a adm rq res act gs "next" cx)
  show ?case
  proof (cases "Role cx = RoleAdmin")
    case True
    with 5(3) have "w_db (snd (through a adm rq gs next cx e w)) \<noteq> w_db w" by (simp add: RequirePermission_def)
    with 5(1) [of cx w] 5(2) True show ?thesis by simp
  next
    case False
    let ?eff = "RoleDefaultPermissions (Role cx)"
    let ?m = "if am_perms (app_mw a) then
                 bind (attempt (permRepo_GetByUserID (UserID cx))) (\<lambda>r.
                 case r of
                   Inl err \<Rightarrow> throw (InternalErrorf ''loi kiem tra quyen'')
                 | Inr oup \<Rightarrow>
                     ret (case oup of None \<Rightarrow> ?eff | Some up \<Rightarrow> MergeOver ?eff (up_Permissions up)))
               else ret ?eff"
    have k: "keeps (unchanged_outside {}) ?m" by (intro touch.basic_rules)
    from 5(3) False have "w_db (snd (bind ?m (\<lambda>effective.
         if \<not> HasAction effective res act then throw (ForbiddenErrorf ''khong du quyen'')
         else through a adm rq gs next cx) e w)) \<noteq> w_db w"
      by (simp add: RequirePermission_def Let_def)
    then obtain p w1 where m: "?m e w = (Inr p, w1)" and db: "w_db w1 = w_db w"
      and "w_db (snd ((if \<not> HasAction p res act then throw (ForbiddenErrorf ''khong du quyen'')
         else through a adm rq gs next cx) e w1)) \<noteq> w_db w1"
      by (rule bind_changes [OF _ k])
    then have "HasAction p res act" and "w_db (snd (through a adm rq gs next cx e w1)) \<noteq> w_db w1"
      by (simp_all add: throw_def split: if_splits)
    moreover have "p = gate_permissions a e (w_db w) (UserID cx) (Role cx)"
    proof (cases "am_perms (app_mw a)")
      case True
      from gate_lookup [OF m [unfolded if_P [OF True]]] True show ?thesis
        by (simp add: gate_permissions_def split: option.split)
    next
      case False
      with m show ?thesis by (simp add: gate_permissions_def ret_def)
    qed
    ultimately show ?thesis using 5(1) [of cx w1] 5(2) db by simp
  qed
qed (auto simp: RequireRole_def throw_def list_ex_iff split: if_splits)

lemma auth_changes:
  assumes "w_db (snd (auth_Middleware m rq next cx e w)) \<noteq> w_db w"
  obtains c w1 w2 where "authenticate m rq e w = (Inr c, w1)" and "w_db w2 = w_db w"
    and "w_db (snd (next (claims_ctx c cx) e w2)) \<noteq> w_db w2"
proof -
  from assms obtain c w1 where auth: "authenticate m rq e w = (Inr c, w1)" and db: "w_db w1 = w_db w"
    and rest: "w_db (snd ((if am_users m \<and> \<not> isForcePwExempt (rq_Path rq) then
       bind (attempt (userRepo_MustForcePasswordChange (cl_UserID c))) (\<lambda>r.
       case r of
         Inl mErr \<Rightarrow> throw (InternalErrorf ''loi kiem tra trang thai mat khau'')
       | Inr must \<Rightarrow>
           if must then throw (ForcePasswordChangeErrorf ''vui long doi mat khau truoc khi tiep tuc'')
           else next (claims_ctx c cx))
     else next (claims_ctx c cx)) e w1)) \<noteq> w_db w1"
    unfolding auth_Middleware_def Let_def by (rule bind_changes [OF _ touch.authenticate_keeps])
  show thesis
  proof (cases "am_users m \<and> \<not> isForcePwExempt (rq_Path rq)")
    case False
    with rest show thesis by (intro that [OF auth db]) (simp only: if_False simp_thms)
  next
    case True
    have k: "keeps (unchanged_outside {}) (attempt (userRepo_MustForcePasswordChange (cl_UserID c)))"
      by (intro touch.basic_rules)
    from rest [unfolded if_P [OF True]] obtain r w2
      where "attempt (userRepo_MustForcePasswordChange (cl_UserID c)) e w1 = (Inr r, w2)"
        and db2: "w_db w2 = w_db w1" and "w_db (snd ((case r of
         Inl mErr \<Rightarrow> throw (InternalErrorf ''loi kiem tra trang thai mat khau'')
       | Inr must \<Rightarrow>
           if must then throw (ForcePasswordChangeErrorf ''vui long doi mat khau truoc khi tiep tuc'')
           else next (claims_ctx c cx)) e w2)) \<noteq> w_db w2"
      by (rule bind_changes [OF _ k])
    from this(3) have "w_db (snd (next (claims_ctx c cx) e w2)) \<noteq> w_db w2"
      by (cases r) (auto simp: throw_def split: if_splits)
    with db db2 show thesis by (intro that [OF auth, of w2]) simp_all
  qed
qed

lemma claims_ctx_user [simp]: "UserID (claims_ctx c cx) = cl_UserID c" "Role (claims_ctx c cx) = cl_Role c"
  by (auto simp: claims_ctx_def ctx_defs Let_def split: option.split)

text \<open>The routes: either authentication comes first and only once, or the endpoint is a public one.\<close>

definition public_endpoints :: "endpoint list" where
  "public_endpoints = [E_Healthz, E_Readyz, E_Version, E_Login, E_ForgotPassword, E_ResetByToken, E_DirectUpload, E_Serve]"

lemmas route_tables = routes_def public_routes_def auth_routes_def user_routes_def notification_routes_def
  setting_routes_def permission_routes_def storage_routes_def activity_routes_def

lemma routes_guarded:
  assumes "r \<in> set (routes a)"
  shows "rt_Endpoint r \<in> set public_endpoints \<or> (\<exists>gs. rt_Gates r = GAuth # gs \<and> GAuth \<notin> set gs)"
proof -
  have "list_all (\<lambda>r. rt_Endpoint r \<in> set public_endpoints \<or> (\<exists>gs. rt_Gates r = GAuth # gs \<and> GAuth \<notin> set gs)) (routes a)"
    by (simp add: route_tables route_def public_endpoints_def admin_manager_def)
  with assms show ?thesis by (simp add: list_all_iff)
qed

lemma serve_changes:
  assumes "r \<in> set (routes a)" and "w_db (snd (serve a adm r rq cx e w)) \<noteq> w_db w"
  shows "rt_Endpoint r \<in> {E_Login, E_ForgotPassword, E_ResetByToken} \<or>
    (\<exists>c w1. authenticate (app_mw a) (request.truncate rq) e w = (Inr c, w1) \<and>
       list_all (gate_ok a e (w_db w) (cl_UserID c) (cl_Role c)) (tl (rt_Gates r)))"
proof -
  have chg: "w_db (snd (run_route a adm r rq cx e w)) \<noteq> w_db w"
    using assms(2) by (simp add: serve_def split: prod.splits)
  from routes_guarded [OF assms(1)] show ?thesis
  proof
    assume "rt_Endpoint r \<in> set public_endpoints"
    moreover have "footprint_of (rt_Endpoint r) \<noteq> {}"
      using chg db_same [OF touch.run_route_keeps [of r "{}"]] by auto
    ultimately show ?thesis by (auto simp: public_endpoints_def)
  next
    assume "\<exists>gs. rt_Gates r = GAuth # gs \<and> GAuth \<notin> set gs"
    then obtain gs where gs: "rt_Gates r = GAuth # gs" "GAuth \<notin> set gs" by blast
    with chg obtain c w1 w2 where "authenticate (app_mw a) (request.truncate rq) e w = (Inr c, w1)"
      and db: "w_db w2 = w_db w"
      and "w_db (snd (through a adm rq gs (handle a (rt_Endpoint r) rq) (claims_ctx c cx) e w2)) \<noteq> w_db w2"
      unfolding run_route_def gs(1) through.simps by (elim auth_changes) blast
    with through_changes [OF gs(2) this(3)] gs(1) show ?thesis by auto
  qed
qed

text \<open>Who may change what, as the route table has it.\<close>

definition may_write :: "app \<Rightarrow> env \<Rightarrow> db \<Rightarrow> claims \<Rightarrow> endpoint \<Rightarrow> table \<Rightarrow> bool" where
  "may_write a e d c ep t \<longleftrightarrow>
     (let role = cl_Role c; granted = (\<lambda>res act. role = RoleAdmin \<or>
            HasAction (gate_permissions a e d (cl_UserID c) role) res act) in
      case t of
        TSettings \<Rightarrow> role = RoleAdmin
      | TAnns \<Rightarrow> role \<in> {RoleAdmin, RoleManager}
      | TUsers \<Rightarrow> ep \<in> {E_ChangePassword, E_UpdateProfile, E_AvatarMe} \<or> role \<in> {RoleAdmin, RoleManager} \<or>
          granted ''users'' ''write''
      | TPerms \<Rightarrow> role \<in> {RoleAdmin, RoleManager} \<or> granted ''users'' ''write'' \<or>
          granted ''users.permissions'' ''write'' \<or> granted ''users.permissions'' ''delete''
      | _ \<Rightarrow> True)"

lemma gates_clear:
  assumes "r \<in> set (routes a)" and "t \<in> footprint_of (rt_Endpoint r)"
    and "rt_Endpoint r \<notin> {E_Login, E_ForgotPassword, E_ResetByToken}"
    and "list_all (gate_ok a e d (cl_UserID c) (cl_Role c)) (tl (rt_Gates r))"
  shows "may_write a e d c (rt_Endpoint r) t"
proof -
  have "list_all (\<lambda>r. t \<in> footprint_of (rt_Endpoint r) \<longrightarrow>
      rt_Endpoint r \<notin> {E_Login, E_ForgotPassword, E_ResetByToken} \<longrightarrow>
      list_all (gate_ok a e d (cl_UserID c) (cl_Role c)) (tl (rt_Gates r)) \<longrightarrow>
      may_write a e d c (rt_Endpoint r) t) (routes a)"
    by (cases t) (auto simp: route_tables route_def admin_manager_def may_write_def Let_def)
  with assms show ?thesis by (simp add: list_all_iff)
qed

text \<open>
  C2: no write without clearance. If a request changed a table, then it was a login, a reset request
  or a reset by mailed token, or its token verified as the service's own, unexpired and not revoked,
  and its account and role were cleared for that table: settings by administrators only,
  announcements by administrators and managers, accounts by those two roles, by accounts with the
  effective permission to write users, or through the caller's own profile, and permission rows by
  the roles and permissions their routes ask for.
\<close>

theorem write_clearance:
  assumes "r \<in> set (routes a)" and "rows_of t (w_db (snd (serve a adm r rq cx e w))) \<noteq> rows_of t (w_db w)"
  shows "rt_Endpoint r \<in> {E_Login, E_ForgotPassword, E_ResetByToken} \<or>
    (\<exists>c. let tok = extract_token (app_mw a) (request.truncate rq) in
       jwt_parse e (clock e (w_tick w)) tok = Some c \<and> cl_Subject c = ''backend'' \<and>
       (if am_blacklist (app_mw a) \<and> cl_ID c \<noteq> ''''
        then kv_get (revokedKeyPrefix @ cl_ID c) (clock e (Suc (w_tick w))) (w_redis w) = None else True) \<and>
       may_write a e (w_db w) c (rt_Endpoint r) t)"
proof (cases "rt_Endpoint r \<in> {E_Login, E_ForgotPassword, E_ResetByToken}")
  case False
  have "w_db (snd (serve a adm r rq cx e w)) \<noteq> w_db w" using assms(2) by auto
  with serve_changes [OF assms(1)] False obtain c w1
    where auth: "authenticate (app_mw a) (request.truncate rq) e w = (Inr c, w1)"
      and gates: "list_all (gate_ok a e (w_db w) (cl_UserID c) (cl_Role c)) (tl (rt_Gates r))" by blast
  have "t \<in> footprint_of (rt_Endpoint r)"
    using endpoint_footprint [of t r a adm rq cx e w] assms(2) by blast
  from gates_clear [OF assms(1) this False gates] auth show ?thesis
    by (auto simp: authenticate_ok Verify_ok IsRevoked_ok Let_def intro!: exI [of _ c] split: if_splits)
qed simp

section \<open>Witnesses\<close>

text \<open>An administrator writes a setting.\<close>

definition sample_lib :: http_lib where
  "sample_lib = \<lparr>bind_LoginRequest = (\<lambda>_. None), bind_ChangePasswordRequest = (\<lambda>_. None),
     bind_ForgotPasswordRequest = (\<lambda>_. None), bind_ResetPasswordByTokenRequest = (\<lambda>_. None),
     bind_CreateUserRequest = (\<lambda>_. None), bind_UpdateUserRequest = (\<lambda>_. None),
     bind_ResetPasswordRequest = (\<lambda>_. \<lparr>rrp_NewPassword = ''''\<rparr>), bind_UpdateProfileRequest = (\<lambda>_. None),
     bind_ListUsersQuery = (\<lambda>_. None), bind_NextCodeQuery = (\<lambda>_. None), bind_InviteUserRequest = (\<lambda>_. None),
     bind_BulkUserIDsRequest = (\<lambda>_. None), bind_IDParam = (\<lambda>_. None),
     bind_CreateUserPermissionRequest = (\<lambda>_. None), bind_UpdateUserPermissionRequest = (\<lambda>_. None),
     bind_ListUserPermissionsQuery = (\<lambda>_. None), bind_AnnouncementRequest = (\<lambda>_. None),
     bind_SetSettingRequest = (\<lambda>_. Some \<lparr>rss_Value = ''v''\<rparr>), bind_SetImportantRequest = (\<lambda>_. None),
     bind_requestUploadReq = (\<lambda>_. None), validate_Struct = (\<lambda>_. []), json_valid = (\<lambda>_. False)\<rparr>"

definition sample_app :: app where
  "sample_app = \<lparr>app_lib = sample_lib, app_mw = sample_mw, app_auth = sample_auth,
     app_cookie = \<lparr>cc_Name = ''session'', cc_Domain = '''', cc_Secure = True, cc_MaxAgeSec = 3600\<rparr>,
     app_invite = sample_invite_config, app_avatars = None, app_storage = None, app_storageURL = '''',
     app_internalKey = '''', app_stream = (\<lambda>_. NoContentResponse), app_version = ''dev''\<rparr>"

lemma sample_app_mw [simp]: "app_mw sample_app = sample_mw"
  by (simp add: sample_app_def)

definition admin_claims :: claims where
  "admin_claims = sample_claims\<lparr>cl_UserID := 1, cl_Role := RoleAdmin\<rparr>"

definition admin_token :: string where
  "admin_token = the (sample_jwt_encode admin_claims)"

definition setting_request :: http_request where
  "setting_request = request.extend (token_request admin_token)
     \<lparr>hq_Param = [(''key'', ''k'')], hq_Query = [], hq_HasBody = True, hq_Avatar = None,
      hq_Upload = \<lparr>dq_key = '''', dq_ct = '''', dq_token = '''', dq_ContentType = '''', dq_Chunked = False, dq_Body = ''''\<rparr>\<rparr>"

definition setting_route :: route where
  "setting_route = route ''PUT'' ''/api/v1/settings/:key'' [GAuth, GRole [RoleAdmin]] E_SetSetting"

lemma setting_route_registered: "setting_route \<in> set (routes a)"
  by (simp add: setting_route_def route_tables)

lemma truncate_setting_request: "request.truncate setting_request = token_request admin_token"
  by (simp add: setting_request_def request.defs)

lemma admin_token_nonempty: "admin_token \<noteq> ''''"
  by (simp add: admin_token_def sample_jwt_encode_def enc_int_def)

lemma admin_parse:
  "jwt_parse sample_env (clock sample_env (w_tick sample_world)) (extract_token sample_mw (token_request admin_token)) =
     Some admin_claims"
proof -
  have "jwt_encode sample_env admin_claims = Some admin_token"
    by (simp add: sample_env_fields admin_token_def sample_jwt_encode_def)
  then show ?thesis
    using jwt_ok_sample_env admin_token_nonempty
    by (auto simp: jwt_ok_def admin_claims_def sample_claims_def sample_env_fields(3) sample_world_def second_def)
qed

definition after_setting :: world where
  "after_setting = snd (serve sample_app True setting_route setting_request background sample_env sample_world)"

lemma setting_stored: "rows_of TSettings (w_db after_setting) \<noteq> rows_of TSettings (w_db sample_world)"
proof -
  let ?next = "through sample_app True setting_request [GRole [RoleAdmin]] (handle sample_app E_SetSetting setting_request)"
  have "\<exists>w2. auth_Middleware sample_mw (token_request admin_token) ?next background sample_env sample_world =
      ?next (claims_ctx admin_claims background) sample_env w2 \<and> w_db w2 = w_db sample_world"
    using sample_db_users admin_token_nonempty
    by (intro auth_Middleware_passes [OF quiet_sample_env _ _ admin_parse])
      (auto simp: sample_env_fields(2) sample_world_def admin_claims_def sample_claims_def kv_get_def)
  then obtain w2 where run: "auth_Middleware sample_mw (token_request admin_token) ?next background sample_env
      sample_world = ?next (claims_ctx admin_claims background) sample_env w2" and db: "w_db w2 = sample_db" by auto
  have "Role (claims_ctx admin_claims background) = RoleAdmin" by (simp add: admin_claims_def)
  then have set: "?next (claims_ctx admin_claims background) sample_env w2 =
      bind (settingUC_Set ''k'' ''v'' (claims_ctx admin_claims background)) (\<lambda>_. ret (SuccessResponse DNull)) sample_env w2"
    by (simp add: RequireRole_def SettingHandler_Set_def validated_def ReadAndValidateRequest_def Let_def Param_def
        sample_app_def sample_lib_def setting_request_def request.defs)
  have "fst (settingUC_Set ''k'' ''v'' (claims_ctx admin_claims background) sample_env w2) = Inr ()"
    by (simp add: settingUC_Set_def internal_def settingRepo_Set_def exec_now_def run_steps)
  then obtain w3 where w3: "settingUC_Set ''k'' ''v'' (claims_ctx admin_claims background) sample_env w2 = (Inr (), w3)"
    by (metis prod.collapse)
  then have "settings (w_db w3) \<noteq> settings (w_db w2)"
    by (rule settingUC_Set_okE) (simp add: db sample_db_def empty_db_def upsert_def)
  moreover have "w_db after_setting = w_db w3"
    by (simp add: after_setting_def serve_def run_route_def setting_route_def route_def truncate_setting_request
        run [unfolded set] bind_def w3 ret_def)
  ultimately show ?thesis by (simp add: db)
qed

theorem history_only_grows_witness:
  "prefix (audit_log (w_db sample_world)) (audit_log (w_db after_setting)) \<and>
   w_seq sample_world ''users'' \<le> w_seq after_setting ''users'' \<and> keys_in_order after_setting"
proof -
  have "reaches sample_app sample_env sample_world after_setting"
    unfolding after_setting_def by (intro reaches.intros setting_route_registered)
  moreover have "keys_in_order sample_world"
    by (auto simp: keys_in_order_ordered ordered_def sample_defs)
  ultimately show ?thesis using history_only_grows [of sample_app sample_env sample_world after_setting "''users''"] by simp
qed

theorem write_clearance_witness:
  "\<exists>c. jwt_parse sample_env (clock sample_env 0) admin_token = Some c \<and>
     may_write sample_app sample_env sample_db c E_SetSetting TSettings"
  using write_clearance [OF setting_route_registered setting_stored [unfolded after_setting_def]]
  by (auto simp: setting_route_def route_def truncate_setting_request sample_app_mw admin_token_nonempty Let_def
      sample_world_def)

end
