(* ===== verification/Accountability.thy ===== *)
theory Accountability
  imports System
begin

text \<open>
  Accountability: a request to an endpoint that changes accounts, permissions or passwords one at a
  time either has no effect on the database or leaves one more row in the audit log, naming what was
  done. The contract of the use cases (\<open>audited_use_case\<close>) is carried through the handlers and the
  gates of their routes.
\<close>

section \<open>Accountable computations\<close>

fun accounted :: "string \<Rightarrow> string \<Rightarrow> world \<Rightarrow> (gerr + response) \<times> world \<Rightarrow> bool" where
  "accounted action rid w (Inl err, w') \<longleftrightarrow> w_db w' = w_db w"
| "accounted action rid w (Inr resp, w') \<longleftrightarrow>
     rs_Status resp = 422 \<and> w_db w' = w_db w \<or>
     (\<exists>row. audit_log (w_db w') = audit_log (w_db w) @ [row] \<and> entry_of action rid row)"

definition accountable :: "string \<Rightarrow> string \<Rightarrow> response comp \<Rightarrow> bool" where
  "accountable action rid m \<longleftrightarrow> (\<forall>e w. accounted action rid w (m e w))"

lemma accountable_throw: "accountable action rid (throw err)"
  by (simp add: accountable_def throw_def)

text \<open>A final step that only reads and always answers.\<close>

definition only_answers :: "'a comp \<Rightarrow> bool" where
  "only_answers m \<longleftrightarrow> (\<forall>e w. \<exists>x w'. m e w = (Inr x, w') \<and> w_db w' = w_db w)"

lemma only_answersE:
  assumes "only_answers m"
  obtains x w' where "m e w = (Inr x, w')" and "w_db w' = w_db w"
  using assms unfolding only_answers_def by blast

lemma only_answers_ret: "only_answers (ret x)"
  by (simp add: only_answers_def ret_def)

lemma only_answers_attempt:
  assumes "keeps (unchanged_outside {}) m" and "\<And>r. only_answers (f r)"
  shows "only_answers (bind (attempt m) f)"
  unfolding only_answers_def
proof (intro allI)
  fix e w
  obtain r w1 where m: "m e w = (r, w1)" by fastforce
  with db_same [OF assms(1)] have db: "w_db w1 = w_db w" by (metis snd_conv)
  obtain x w2 where "f r e w1 = (Inr x, w2)" "w_db w2 = w_db w1" by (rule only_answersE [OF assms(2)])
  with m db show "\<exists>x w'. bind (attempt m) f e w = (Inr x, w') \<and> w_db w' = w_db w"
    by (simp add: bind_def attempt_def)
qed

lemma atomic_auditedD:
  assumes "atomic_audited action op" and "\<not> ctxKeyTx cx" and "op cx e w = (r, w1)"
  shows "case r of Inl err \<Rightarrow> w_db w1 = w_db w
    | Inr y \<Rightarrow> \<exists>row. audit_log (w_db w1) = audit_log (w_db w) @ [row] \<and> entry_of action (RequestID cx) row"
  using assms(1) [unfolded atomic_audited_def, rule_format, OF assms(2), where e = e and w = w] assms(3) by simp

lemma accountable_op:
  assumes "atomic_audited action op" and "\<not> ctxKeyTx cx" and "RequestID cx = rid"
    and "\<And>x. only_answers (f x)"
  shows "accountable action rid (bind (op cx) f)"
  unfolding accountable_def
proof (intro allI)
  fix e w
  obtain r w1 where op: "op cx e w = (r, w1)" by fastforce
  note res = atomic_auditedD [OF assms(1,2) op, unfolded assms(3)]
  show "accounted action rid w (bind (op cx) f e w)"
  proof (cases r)
    case (Inl err)
    with res op show ?thesis by (simp add: bind_def)
  next
    case (Inr y)
    obtain x w2 where "f y e w1 = (Inr x, w2)" "w_db w2 = w_db w1" by (rule only_answersE [OF assms(4)])
    with res op Inr show ?thesis by (simp add: bind_def)
  qed
qed

lemma accounted_from: "w_db w1 = w_db w \<Longrightarrow> accounted action rid w1 res \<Longrightarrow> accounted action rid w res"
  by (cases "(action, rid, w, res)" rule: accounted.cases) simp_all

lemma accountable_after:
  assumes "keeps (unchanged_outside {}) m" and "\<And>x. accountable action rid (f x)"
  shows "accountable action rid (bind m f)"
  unfolding accountable_def
proof (intro allI)
  fix e w
  obtain r w1 where m: "m e w = (r, w1)" by fastforce
  with db_same [OF assms(1)] have db: "w_db w1 = w_db w" by (metis snd_conv)
  show "accounted action rid w (bind m f e w)"
  proof (cases r)
    case (Inl err)
    with m db show ?thesis by (simp add: bind_def)
  next
    case (Inr x)
    from assms(2) have "accounted action rid w1 (f x e w1)" unfolding accountable_def by blast
    with accounted_from [OF db] m Inr show ?thesis by (simp add: bind_def)
  qed
qed

lemma accountable_if: "accountable action rid m \<Longrightarrow> accountable action rid n \<Longrightarrow> accountable action rid (if b then m else n)"
  by simp

lemma accountable_sum:
  "(\<And>x. accountable action rid (f x)) \<Longrightarrow> (\<And>y. accountable action rid (g y)) \<Longrightarrow>
   accountable action rid (case r of Inl x \<Rightarrow> f x | Inr y \<Rightarrow> g y)"
  by (simp split: sum.split)

lemma accountable_validated: "(\<And>req. accountable action rid (k req)) \<Longrightarrow> accountable action rid (validated r k)"
  by (cases r) (simp_all add: validated_def accountable_def ret_def BadRequestResponse_def JSON_def)

lemma claims_ctx_tx [simp]: "ctxKeyTx (claims_ctx c cx) = ctxKeyTx cx"
  "RequestID (claims_ctx c cx) = RequestID cx"
  by (auto simp: claims_ctx_def ctx_defs Let_def split: option.split)

lemma accountable_through:
  "(\<And>cx. \<not> ctxKeyTx cx \<Longrightarrow> RequestID cx = rid \<Longrightarrow> accountable action rid (k cx)) \<Longrightarrow>
   \<not> ctxKeyTx cx \<Longrightarrow> RequestID cx = rid \<Longrightarrow>
   accountable action rid (through a adm rq gs k cx)"
proof (induction a adm rq gs k cx rule: through.induct)
  case (3 a adm rq gs k cx)
  then have passed: "accountable action rid (through a adm rq gs k (claims_ctx c cx))" for c by simp
  show ?case
    unfolding through.simps auth_Middleware_def Let_def
    by (intro accountable_after accountable_if accountable_sum accountable_throw passed touch.authenticate_keeps
        touch.basic_rules)
next
  case (5 a adm rq res act gs k cx)
  then show ?case
    unfolding through.simps RequirePermission_def Let_def
    by (intro accountable_after accountable_if accountable_sum accountable_throw touch.basic_rules) simp_all
qed (simp_all add: accountable_throw RequireRole_def)

section \<open>The endpoints\<close>

fun audit_action :: "endpoint \<Rightarrow> string option" where
  "audit_action E_CreateUser = Some AuditUserCreated"
| "audit_action E_UpdateUser = Some AuditUserUpdated"
| "audit_action E_ResetUserPassword = Some AuditUserPasswordReset"
| "audit_action E_ToggleStatus = Some AuditUserStatusToggled"
| "audit_action E_UpdateProfile = Some ''user.profile_updated''"
| "audit_action E_Invite = Some AuditUserInvited"
| "audit_action E_PermCreate = Some AuditUserPermissionCreated"
| "audit_action E_PermUpdate = Some AuditUserPermissionUpdated"
| "audit_action E_PermUpdateByUser = Some AuditUserPermissionUpdated"
| "audit_action E_PermDelete = Some AuditUserPermissionDeleted"
| "audit_action E_ChangePassword = Some ''user.password_changed''"
| "audit_action E_ResetByToken = Some ''auth.password_reset_completed''"
| "audit_action _ = None"

lemmas audited_operations = user_create.atomic user_update.atomic user_reset.atomic user_toggle.atomic
  user_profile.atomic user_invite.atomic perm_create.atomic perm_update.atomic perm_update_user.atomic
  perm_delete.atomic auth_change.atomic auth_reset.atomic

lemma parse_id_keeps: "keeps (unchanged_outside {}) (parseIDParam rq)"
  unfolding parseIDParam_def by (intro touch.basic_rules)

lemma temporary_password_keeps: "keeps (unchanged_outside {}) (temporary_password pw)"
  unfolding temporary_password_def by (intro touch.basic_rules)

lemma only_answers_effective: "only_answers (with_effective i up)"
  unfolding with_effective_def by (intro only_answers_attempt only_answers_ret touch.permission_administration)

lemma only_answers_case_prod: "(\<And>a b. only_answers (f a b)) \<Longrightarrow> only_answers (case p of (a, b) \<Rightarrow> f a b)"
  by (simp split: prod.split)

lemmas handler_rules = accountable_validated accountable_after [OF parse_id_keeps]
  accountable_after [OF temporary_password_keeps] accountable_op [OF audited_operations(1)]
  accountable_op [OF audited_operations(2)] accountable_op [OF audited_operations(3)]
  accountable_op [OF audited_operations(4)] accountable_op [OF audited_operations(5)]
  accountable_op [OF audited_operations(6)] accountable_op [OF audited_operations(7)]
  accountable_op [OF audited_operations(8)] accountable_op [OF audited_operations(9)]
  accountable_op [OF audited_operations(10)] accountable_op [OF audited_operations(11)]
  accountable_op [OF audited_operations(12)] only_answers_ret only_answers_effective only_answers_case_prod

lemma accountable_handlers:
  "\<not> ctxKeyTx cx \<Longrightarrow> audit_action ep = Some action \<Longrightarrow>
   accountable action (RequestID cx) (handle a ep rq cx)"
  by (cases ep;
      simp only: audit_action.simps handle.simps option.distinct option.inject UserHandler_Create_def UserHandler_Update_def
        UserHandler_ResetPassword_def UserHandler_ToggleStatus_def UserHandler_UpdateProfile_def
        UserHandler_Invite_def PermissionHandler_Create_def PermissionHandler_Update_def
        PermissionHandler_UpdateByUser_def PermissionHandler_Delete_def AuthHandler_ChangePassword_def
        AuthHandler_ResetPassword_def user_response_def permission_response_def;
      elim subst;
      intro handler_rules refl; assumption?)

lemma run_route_accounted:
  assumes "\<not> ctxKeyTx cx" and "audit_action (rt_Endpoint r) = Some action"
  shows "accounted action (RequestID cx) w (run_route a adm r rq cx e w)"
proof -
  have "accountable action (RequestID cx) (run_route a adm r rq cx)"
    unfolding run_route_def
    using assms by (intro accountable_through) (auto dest: accountable_handlers)
  then show ?thesis unfolding accountable_def by blast
qed

text \<open>
  C3: every change is accounted for. A request that creates, edits, invites, locks or unlocks an
  account, changes or resets a password, or edits permission rows, gets an error or a validation
  problem and leaves the whole database as it was, or it leaves exactly one more row in the audit
  log, with the action of its endpoint, and with a request id if the request has one.
\<close>

theorem changes_accounted_for:
  assumes "\<not> ctxKeyTx cx" and "audit_action (rt_Endpoint r) = Some action"
  shows "case run_route a adm r rq cx e w of
      (Inl err, w') \<Rightarrow> w_db w' = w_db w
    | (Inr resp, w') \<Rightarrow>
        rs_Status resp = 422 \<and> w_db w' = w_db w \<or>
        (\<exists>row. audit_log (w_db w') = audit_log (w_db w) @ [row] \<and> ar_Action row = action \<and>
          (ar_RequestID row \<noteq> '''' \<or> RequestID cx = ''''))"
  using run_route_accounted [OF assms, of w a adm rq e]
  by (cases "(action, RequestID cx, w, run_route a adm r rq cx e w)" rule: accounted.cases)
    (simp_all add: entry_of_def)

section \<open>Witness\<close>

text \<open>The reset by mailed token of \<open>Auth_UC\<close>, through its route.\<close>

definition reset_app :: app where
  "reset_app = sample_app\<lparr>app_lib := sample_lib\<lparr>bind_ResetPasswordByTokenRequest :=
     (\<lambda>_. Some \<lparr>rrt_Token = sample_reset_token, rrt_NewPassword = ''new-password''\<rparr>)\<rparr>\<rparr>"

definition reset_route :: route where
  "reset_route = route ''POST'' ''/api/v1/auth/reset-password'' [GLimit] E_ResetByToken"

theorem changes_accounted_for_witness:
  "\<exists>row. audit_log (w_db (snd (run_route reset_app True reset_route setting_request sample_ctx sample_env
       reset_requested_world))) = audit_log (w_db reset_requested_world) @ [row] \<and>
     ar_Action row = ''auth.password_reset_completed''"
proof -
  obtain w' where run: "authUC_ResetPassword sample_reset_token ''new-password'' sample_ctx sample_env
      reset_requested_world = (Inr (), w')" using sample_reset_runs by blast
  have "run_route reset_app True reset_route setting_request sample_ctx sample_env reset_requested_world =
      (Inr (done_message ''dat lai mat khau thanh cong''), w')"
    by (simp add: run_route_def reset_route_def route_def AuthHandler_ResetPassword_def validated_def
        ReadAndValidateRequest_def reset_app_def sample_app_def sample_lib_def bind_def run ret_def)
  with changes_accounted_for [where cx = sample_ctx and r = reset_route and a = reset_app and adm = True
      and rq = setting_request and e = sample_env and w = reset_requested_world]
  show ?thesis by (auto simp: reset_route_def route_def done_message_def SuccessResponse_def JSON_def)
qed

end
