(* ===== verification/Smtp.thy ===== *)
theory Smtp
  imports Mail Calendar
begin

text \<open>
  \<open>SMTPSender.Send\<close> of \<open>pkg/xmail/smtp.go\<close> as a dialogue: the commands it gives, in order, to a
  server of which only the answers are known. \<open>net/smtp\<close> carries the commands out.
\<close>

section \<open>The dialogue\<close>

text \<open>What goes wrong, if anything, when the server is dialled and at each command.\<close>

record smtp_server =
  sv_dial :: "string option"
  sv_hello :: "string option"
  sv_STARTTLS :: bool \<comment> \<open>the extension is offered\<close>
  sv_starttls :: "string option"
  sv_auth :: "string option"
  sv_mail :: "string option"
  sv_rcpt :: "string \<Rightarrow> string option"
  sv_data :: "string option"
  sv_write :: "string option"
  sv_close :: "string option" \<comment> \<open>the verdict on the message, read when the body is closed\<close>

datatype smtp_cmd =
    Hello string
  | StartTLS string
  | Auth string string
  | MailFrom string
  | Rcpt string
  | Data
  | Body string
  | EndData
  | Quit

type_synonym dialogue = "gerr option \<times> smtp_cmd list"

definition smtp_error :: "string \<Rightarrow> string \<Rightarrow> gerr" where
  "smtp_error what t = Wrapped (''smtp: '' @ what) (Plain t)"

definition give :: "smtp_cmd \<Rightarrow> string \<Rightarrow> string option \<Rightarrow> dialogue \<Rightarrow> dialogue" where
  "give c what answer rest =
     (case answer of
        Some t \<Rightarrow> (Some (smtp_error what t), [c])
      | None \<Rightarrow> (fst rest, c # snd rest))"

fun give_rcpts :: "(string \<Rightarrow> string option) \<Rightarrow> string list \<Rightarrow> dialogue \<Rightarrow> dialogue" where
  "give_rcpts answer [] rest = rest"
| "give_rcpts answer (a # as) rest = give (Rcpt a) (''rcpt '' @ a) (answer a) (give_rcpts answer as rest)"

text \<open>The body and its end, which \<open>defer wc.Close()\<close> gives whether or not the body was written.\<close>

definition give_body :: "string \<Rightarrow> smtp_server \<Rightarrow> dialogue" where
  "give_body mime sv =
     ((case sv_write sv of Some t \<Rightarrow> Some (smtp_error ''write body'' t) | None \<Rightarrow> None),
      [Body mime, EndData])"

definition conversation :: "mail_config \<Rightarrow> string list \<Rightarrow> string \<Rightarrow> smtp_server \<Rightarrow> dialogue" where
  "conversation cfg to mime sv =
     (let envelope =
            give (MailFrom (extractBareEmail (mc_From cfg))) ''mail from'' (sv_mail sv)
              (give_rcpts (sv_rcpt sv) to
                (give Data ''data'' (sv_data sv) (give_body mime sv)));
          authenticated =
            (if mc_Username cfg \<noteq> ''''
             then give (Auth (mc_Username cfg) (mc_Password cfg)) ''auth'' (sv_auth sv) envelope
             else envelope);
          secured =
            (if sv_STARTTLS sv then give (StartTLS (mc_Host cfg)) ''starttls'' (sv_starttls sv) authenticated
             else authenticated) in
      give (Hello ''localhost'') ''hello'' (sv_hello sv) secured)"

text \<open>\<open>ns\<close> is the reading of the clock that \<open>buildMIME\<close> takes for its boundary.\<close>

definition SMTPSender_Send :: "mail_config \<Rightarrow> message \<Rightarrow> int \<Rightarrow> smtp_server \<Rightarrow> dialogue" where
  "SMTPSender_Send cfg msg ns sv =
     (if \<not> IsConfigured cfg then (Some (Plain ''smtp: not configured (host/from empty)''), [])
      else if msg_To msg = [] then (Some (Plain ''smtp: no recipients''), [])
      else
        (case sv_dial sv of
           Some t \<Rightarrow> (Some (smtp_error ''dial'' t), [])
         | None \<Rightarrow>
             (case conversation cfg (msg_To msg) (buildMIME ns (mc_From cfg) msg) sv of
                (err, cmds) \<Rightarrow> (err, cmds @ [Quit]))))"

section \<open>The dial timeout\<close>

definition dial_deadline :: "time \<Rightarrow> time option \<Rightarrow> time" where
  "dial_deadline t ctx_deadline =
     (let deadline = t + 30 * second in
      case ctx_deadline of Some d \<Rightarrow> if d < deadline then d else deadline | None \<Rightarrow> deadline)"

definition dial_timeout :: "time \<Rightarrow> time \<Rightarrow> int" where
  "dial_timeout deadline t = (let timeout = deadline - t in if timeout \<le> 0 then 30 * second else timeout)"

text \<open>Dialling is bounded by half a minute, also when the caller's deadline has already passed.\<close>

lemma dial_bounded:
  "t \<le> t' \<Longrightarrow> 0 < dial_timeout (dial_deadline t d) t' \<and> dial_timeout (dial_deadline t d) t' \<le> 30 * second"
  by (auto simp: dial_timeout_def dial_deadline_def second_def Let_def split: option.split)

section \<open>What a successful dialogue was\<close>

lemma give_ok: "fst (give c what answer rest) = None \<longleftrightarrow> answer = None \<and> fst rest = None"
  by (simp add: give_def split: option.split)

lemma give_cmds: "answer = None \<Longrightarrow> snd (give c what answer rest) = c # snd rest"
  by (simp add: give_def)

lemma give_rcpts_ok:
  "fst (give_rcpts answer as rest) = None \<longleftrightarrow> list_all (\<lambda>a. answer a = None) as \<and> fst rest = None"
  by (induction as) (auto simp: give_ok)

lemma give_rcpts_cmds: "list_all (\<lambda>a. answer a = None) as \<Longrightarrow> snd (give_rcpts answer as rest) = map Rcpt as @ snd rest"
  by (induction as) (auto simp: give_cmds)

lemma give_body_ok: "fst (give_body mime sv) = None \<longleftrightarrow> sv_write sv = None"
  by (simp add: give_body_def split: option.split)

text \<open>The answers on which sending reports success: all of them but the last.\<close>

definition answers_well :: "mail_config \<Rightarrow> string list \<Rightarrow> smtp_server \<Rightarrow> bool" where
  "answers_well cfg to sv \<longleftrightarrow>
     sv_dial sv = None \<and> sv_hello sv = None \<and> (sv_STARTTLS sv \<longrightarrow> sv_starttls sv = None) \<and>
     (mc_Username cfg \<noteq> '''' \<longrightarrow> sv_auth sv = None) \<and> sv_mail sv = None \<and>
     list_all (\<lambda>a. sv_rcpt sv a = None) to \<and> sv_data sv = None \<and> sv_write sv = None"

definition whole_dialogue :: "mail_config \<Rightarrow> message \<Rightarrow> int \<Rightarrow> smtp_server \<Rightarrow> smtp_cmd list" where
  "whole_dialogue cfg msg ns sv =
     Hello ''localhost'' # (if sv_STARTTLS sv then [StartTLS (mc_Host cfg)] else []) @
     (if mc_Username cfg \<noteq> '''' then [Auth (mc_Username cfg) (mc_Password cfg)] else []) @
     MailFrom (extractBareEmail (mc_From cfg)) # map Rcpt (msg_To msg) @
     [Data, Body (buildMIME ns (mc_From cfg) msg), EndData, Quit]"

lemma conversation_ok:
  "sv_dial sv = None \<Longrightarrow> fst (conversation cfg to mime sv) = None \<longleftrightarrow> answers_well cfg to sv"
  by (auto simp: conversation_def answers_well_def Let_def give_ok give_rcpts_ok give_body_ok)

lemma conversation_cmds:
  "answers_well cfg (msg_To msg) sv \<Longrightarrow>
   snd (conversation cfg (msg_To msg) (buildMIME ns (mc_From cfg) msg) sv) @ [Quit] = whole_dialogue cfg msg ns sv"
  by (auto simp: conversation_def answers_well_def whole_dialogue_def Let_def give_cmds give_rcpts_cmds give_body_def)

text \<open>
  C26: the mail dialogue. Sending reports success exactly when the sender is configured, there is a
  recipient and every answer up to the writing of the body was good; the server's verdict on the
  message, which comes after the body, is not looked at. Then the commands were the greeting, the
  upgrade to TLS if it was offered, the authentication if there is a user name, the bare sender
  address, every recipient in order and the whole message; and every dialogue that was begun is
  ended with a farewell.
\<close>

theorem mail_dialogue:
  "(fst (SMTPSender_Send cfg msg ns sv) = None \<longleftrightarrow>
      IsConfigured cfg \<and> msg_To msg \<noteq> [] \<and> answers_well cfg (msg_To msg) sv) \<and>
   (if fst (SMTPSender_Send cfg msg ns sv) = None
    then snd (SMTPSender_Send cfg msg ns sv) = whole_dialogue cfg msg ns sv else True) \<and>
   (snd (SMTPSender_Send cfg msg ns sv) = [] \<or> last (snd (SMTPSender_Send cfg msg ns sv)) = Quit)"
proof (cases "IsConfigured cfg \<and> msg_To msg \<noteq> [] \<and> sv_dial sv = None")
  case True
  let ?c = "conversation cfg (msg_To msg) (buildMIME ns (mc_From cfg) msg) sv"
  from True have send: "SMTPSender_Send cfg msg ns sv = (fst ?c, snd ?c @ [Quit])"
    by (simp add: SMTPSender_Send_def split: prod.split)
  show ?thesis unfolding send using True by (auto simp: conversation_ok conversation_cmds)
next
  case False
  then show ?thesis by (auto simp: SMTPSender_Send_def answers_well_def split: option.split)
qed

text \<open>
  The use cases see one call that fails or not (\<open>smtp_Send\<close>). It stands for the dialogue with a
  server whose answers are the call's fault.
\<close>

lemma smtp_Send_dialogue:
  assumes "net_fault e (w_tick w) = None \<longleftrightarrow> answers_well cfg (msg_To msg) sv"
  shows "isl (fst (smtp_Send cfg msg e w)) \<longleftrightarrow> fst (SMTPSender_Send cfg msg ns sv) \<noteq> None"
  using assms mail_dialogue [of cfg msg ns sv]
  by (auto simp: smtp_Send_def deliver_def throw_def split: option.split)

end
