(* ===== verification/Config.thy ===== *)
theory Config
  imports Token Smtp Object_Store
begin

text \<open>
  \<open>internal/config/config.go\<close> with the settings of the packages it gathers, and the S3 provider's
  construction (\<open>pkg/xstorage\<close>). Reading and decoding the files is Viper's.
\<close>

section \<open>Settings\<close>

record HTTPConfig =
  hc_Host :: string
  hc_Port :: int
  hc_BaseURL :: string
  hc_ReadTimeout :: int
  hc_WriteTimeout :: int
  hc_CORSAllowOrigins :: "string list"
  hc_TrustedProxies :: "string list"

definition Addr :: "HTTPConfig \<Rightarrow> string" where
  "Addr h = hc_Host h @ '':'' @ itoa (hc_Port h)"

record postgres_config =
  pc_DSN :: string
  pc_MaxOpenConns :: int
  pc_MaxIdleConns :: int
  pc_ConnMaxLifetime :: int
  pc_LogLevel :: string

record redis_config =
  dc_Addr :: string
  dc_Password :: string
  dc_DB :: int

record AuthConfig = auth_config +
  ac_CookieName :: string
  ac_CookieSecure :: bool
  ac_CookieDomain :: string
  ac_ProfileCacheTTL :: int

record storage_config =
  oc_Provider :: string
  oc_Endpoint :: string
  oc_UseSSL :: bool
  oc_AccessKey :: string
  oc_SecretKey :: string
  oc_Bucket :: string
  oc_PublicBaseURL :: string
  oc_PresignGetTTL :: int
  oc_MaxUploadBytes :: int

record queue_config =
  qc_RedisAddr :: string
  qc_RedisDB :: int
  qc_Concurrency :: int

record logger_config =
  lc_Level :: string
  lc_Format :: string
  lc_Output :: string
  lc_TimeFormat :: string

record Config =
  cf_Env :: string
  cf_HTTP :: HTTPConfig
  cf_Postgres :: postgres_config
  cf_Redis :: redis_config
  cf_Auth :: AuthConfig
  cf_InternalAPIKey :: string
  cf_Storage :: storage_config
  cf_Queue :: queue_config
  cf_Logger :: logger_config
  cf_SMTP :: mail_config

text \<open>Two defaults of the packages: the verbosity of the database log and the workers of the queue.\<close>

datatype gorm_level = Silent | Error_only | Warn | Info

definition gormLogLevel :: "string \<Rightarrow> gorm_level" where
  "gormLogLevel s =
     (if s = ''silent'' then Silent else if s = ''error'' then Error_only
      else if s = ''info'' then Info else Warn)"

definition queue_concurrency :: "queue_config \<Rightarrow> int" where
  "queue_concurrency cfg = (let c = qc_Concurrency cfg in if c \<le> 0 then 10 else c)"

section \<open>Clients\<close>

text \<open>
  The connection pool and what the libraries answer while it is opened: the driver, the handle and
  the ping. A limit that is not set stays the library's.
\<close>

record db_library =
  dl_open :: "gerr option"
  dl_handle :: "gerr option"
  dl_ping :: "gerr option"

record pool =
  pl_DSN :: string
  pl_LogLevel :: gorm_level
  pl_MaxOpen :: "int option"
  pl_MaxIdle :: "int option"
  pl_MaxLifetime :: "int option"

definition if_positive :: "int \<Rightarrow> int option" where
  "if_positive n = (if 0 < n then Some n else None)"

definition NewDB :: "db_library \<Rightarrow> postgres_config \<Rightarrow> gerr + pool" where
  "NewDB lib cfg =
     (case dl_open lib of
        Some err \<Rightarrow> Inl err
      | None \<Rightarrow>
          (case dl_handle lib of
             Some err \<Rightarrow> Inl err
           | None \<Rightarrow>
               (case dl_ping lib of
                  Some err \<Rightarrow> Inl err
                | None \<Rightarrow>
                    Inr \<lparr>pl_DSN = pc_DSN cfg, pl_LogLevel = gormLogLevel (pc_LogLevel cfg),
                         pl_MaxOpen = if_positive (pc_MaxOpenConns cfg), pl_MaxIdle = if_positive (pc_MaxIdleConns cfg),
                         pl_MaxLifetime = if_positive (pc_ConnMaxLifetime cfg)\<rparr>)))"

definition xredis_New :: "gerr option \<Rightarrow> redis_config \<Rightarrow> gerr + redis_config" where
  "xredis_New ping cfg = (case ping of Some err \<Rightarrow> Inl err | None \<Rightarrow> Inr cfg)"

text \<open>What an environment variable gives, or a default.\<close>

definition envOr :: "(string \<Rightarrow> string) \<Rightarrow> string \<Rightarrow> string \<Rightarrow> string" where
  "envOr getenv k d = (let v = getenv k in if v \<noteq> '''' then v else d)"

section \<open>Validation\<close>

definition quoted :: "string \<Rightarrow> string" where
  "quoted s = [CHR 0x22] @ s @ [CHR 0x22]"

definition origins_message :: string where
  "origins_message = ''http.cors_allow_origins must list explicit origins (no '' @ quoted ''*'' @
     ''/empty - credentials are sent)''"

definition config_errors :: "Config \<Rightarrow> string list" where
  "config_errors c =
     (if hc_Port (cf_HTTP c) = 0 then [''http.port is required''] else []) @
     (if pc_DSN (cf_Postgres c) = '''' then [''postgres.dsn is required''] else []) @
     (if dc_Addr (cf_Redis c) = '''' then [''redis.addr is required''] else []) @
     (if length (ac_Secret (cf_Auth c)) < 32 then [''auth.jwt_secret must be at least 32 bytes''] else []) @
     (if cf_InternalAPIKey c = '''' then [''internal_api_key is required''] else []) @
     (if list_ex (\<lambda>origin. origin = ''*'' \<or> origin = '''') (hc_CORSAllowOrigins (cf_HTTP c))
      then [origins_message] else [])"

definition Validate :: "Config \<Rightarrow> gerr option" where
  "Validate c =
     (let errs = config_errors c in
      if errs \<noteq> [] then Some (Plain (''invalid config: '' @ Join errs ''; '')) else None)"

section \<open>Loading\<close>

text \<open>What reading a file comes to: not there, unreadable, or merged into what was read before.\<close>

datatype read_result = NotFound | Unreadable gerr | Merged

definition read_error :: "string \<Rightarrow> read_result \<Rightarrow> gerr option" where
  "read_error what r = (case r of Unreadable err \<Rightarrow> Some (Wrapped what err) | _ \<Rightarrow> None)"

text \<open>\<open>unmarshal\<close> decodes the files and the \<open>APP_*\<close> variables, given the environment's name.\<close>

definition Load ::
  "read_result \<Rightarrow> (string \<Rightarrow> read_result) \<Rightarrow> (string \<Rightarrow> gerr + Config) \<Rightarrow> string \<Rightarrow> gerr + Config" where
  "Load base overlay unmarshal env =
     (let env = (if env = '''' then ''dev'' else env) in
      case read_error ''read base.yaml'' base of
        Some err \<Rightarrow> Inl err
      | None \<Rightarrow>
          (case read_error (''merge '' @ env @ ''.yaml'') (overlay env) of
             Some err \<Rightarrow> Inl err
           | None \<Rightarrow>
               (case unmarshal env of
                  Inl err \<Rightarrow> Inl (Wrapped ''unmarshal config'' err)
                | Inr cfg \<Rightarrow>
                    (let cfg = (if cf_Env cfg = '''' then cfg\<lparr>cf_Env := env\<rparr> else cfg) in
                     case Validate cfg of Some err \<Rightarrow> Inl err | None \<Rightarrow> Inr cfg))))"

section \<open>The storage provider\<close>

text \<open>The answers of the S3 library while the provider is built.\<close>

record s3_library =
  s3_client :: "string option"
  s3_exists :: "string + bool"
  s3_make :: "string option"

record minio_provider =
  mp_bucket :: string
  mp_publicURL :: string
  mp_getTTL :: int

definition newMinIOProvider :: "s3_library \<Rightarrow> storage_config \<Rightarrow> gerr + minio_provider" where
  "newMinIOProvider s3lib cfg =
     (case s3_client s3lib of
        Some t \<Rightarrow> Inl (Wrapped ''xstorage: minio client'' (Plain t))
      | None \<Rightarrow>
          (case s3_exists s3lib of
             Inl t \<Rightarrow> Inl (Wrapped ''xstorage: bucket check'' (Plain t))
           | Inr there \<Rightarrow>
               (case (if \<not> there then s3_make s3lib else None) of
                  Some t \<Rightarrow> Inl (Wrapped (''xstorage: create bucket '' @ quoted (oc_Bucket cfg)) (Plain t))
                | None \<Rightarrow>
                    Inr \<lparr>mp_bucket = oc_Bucket cfg, mp_publicURL = TrimRight (oc_PublicBaseURL cfg) ''/'',
                         mp_getTTL = (if oc_PresignGetTTL cfg \<le> 0 then 15 * 60 * second else oc_PresignGetTTL cfg)\<rparr>)))"

definition xstorage_New :: "s3_library \<Rightarrow> storage_config \<Rightarrow> gerr + minio_provider" where
  "xstorage_New s3lib cfg =
     (if oc_Provider cfg \<in> {''minio'', ''r2'', ''s3'', ''''} then newMinIOProvider s3lib cfg
      else Inl (Plain (''xstorage: unknown provider '' @ quoted (oc_Provider cfg))))"

text \<open>The presigned addresses; \<open>presign\<close> is the library's, of a bucket, a key and a lifetime.\<close>

definition PresignGet :: "(string \<Rightarrow> string \<Rightarrow> int \<Rightarrow> string + string) \<Rightarrow> minio_provider \<Rightarrow> string \<Rightarrow> gerr + string" where
  "PresignGet presign p key =
     (let key = TrimLeft key ''/'' in
      case presign (mp_bucket p) key (mp_getTTL p) of
        Inl t \<Rightarrow> Inl (Wrapped (''xstorage: presign '' @ quoted key) (Plain t))
      | Inr u \<Rightarrow> Inr u)"

definition PresignPut ::
  "(string \<Rightarrow> string \<Rightarrow> int \<Rightarrow> string + string) \<Rightarrow> minio_provider \<Rightarrow> string \<Rightarrow> int \<Rightarrow> gerr + string" where
  "PresignPut presign p key ttl =
     (let key = TrimLeft key ''/''; ttl = (if ttl \<le> 0 then 15 * 60 * second else ttl) in
      case presign (mp_bucket p) key ttl of
        Inl t \<Rightarrow> Inl (Wrapped (''xstorage: presign-put '' @ quoted key) (Plain t))
      | Inr u \<Rightarrow> Inr u)"

section \<open>What an accepted configuration is\<close>

definition usable :: "Config \<Rightarrow> bool" where
  "usable c \<longleftrightarrow>
     hc_Port (cf_HTTP c) \<noteq> 0 \<and> pc_DSN (cf_Postgres c) \<noteq> '''' \<and> dc_Addr (cf_Redis c) \<noteq> '''' \<and>
     32 \<le> length (ac_Secret (cf_Auth c)) \<and> cf_InternalAPIKey c \<noteq> '''' \<and>
     list_all (\<lambda>origin. origin \<noteq> ''*'' \<and> origin \<noteq> '''') (hc_CORSAllowOrigins (cf_HTTP c))"

lemma Validate_usable: "Validate c = None \<longleftrightarrow> usable c"
proof -
  have "list_ex (\<lambda>origin. origin = ''*'' \<or> origin = '''') os \<longleftrightarrow>
      \<not> list_all (\<lambda>origin. origin \<noteq> ''*'' \<and> origin \<noteq> '''') os" for os
    by (auto simp: list_ex_iff list_all_iff)
  then show ?thesis by (simp add: Validate_def config_errors_def usable_def Let_def not_less)
qed

lemma Load_okE:
  assumes "Load base overlay unmarshal env = Inr cfg"
  obtains c where "unmarshal (if env = '''' then ''dev'' else env) = Inr c"
    and "cfg = (if cf_Env c = '''' then c\<lparr>cf_Env := if env = '''' then ''dev'' else env\<rparr> else c)"
    and "cf_Env cfg \<noteq> ''''" and "usable cfg"
  using assms by (auto simp: Load_def Let_def Validate_usable split: option.splits sum.splits if_splits)

end
