(* ===== verification/Request_Log.thy ===== *)
theory Request_Log
  imports Config Handler_Base
begin

text \<open>
  The logger (\<open>pkg/xlogger/logger.go\<close>) and the request log
  (\<open>pkg/xhttp/xmiddleware/logging.go\<close>). Zerolog writes the lines; which lines it is asked to write
  is modelled.
\<close>

section \<open>The logger\<close>

text \<open>Zerolog's levels, by its own numbers.\<close>

definition DebugLevel :: int where "DebugLevel = 0"
definition InfoLevel :: int where "InfoLevel = 1"
definition WarnLevel :: int where "WarnLevel = 2"
definition ErrorLevel :: int where "ErrorLevel = 3"

datatype log_value = LString string | LInt int | LBool bool | LDuration int | LNil

type_synonym log_field = "string \<times> log_value"

definition log_String :: "string \<Rightarrow> string \<Rightarrow> log_field" where
  "log_String k v = (k, LString v)"

definition log_Int :: "string \<Rightarrow> int \<Rightarrow> log_field" where
  "log_Int k v = (k, LInt v)"

definition log_Bool :: "string \<Rightarrow> bool \<Rightarrow> log_field" where
  "log_Bool k v = (k, LBool v)"

definition log_Dur :: "string \<Rightarrow> int \<Rightarrow> log_field" where
  "log_Dur k v = (k, LDuration v)"

text \<open>An error is logged by its text, what \<open>Error()\<close> gives; nil by nil.\<close>

definition errString :: "string option \<Rightarrow> log_value" where
  "errString err = (case err of None \<Rightarrow> LNil | Some txt \<Rightarrow> LString txt)"

definition log_Err :: "string option \<Rightarrow> log_field" where
  "log_Err err = (''error'', errString err)"

datatype log_output = Stdout | Stderr | LogFile string

record xlogger =
  xl_Level :: int
  xl_Output :: log_output
  xl_Console :: bool
  xl_TimeFormat :: string
  xl_Fields :: "log_field list"

record log_line =
  ll_Level :: int
  ll_Msg :: string
  ll_Fields :: "log_field list"

definition orDefault :: "string \<Rightarrow> string \<Rightarrow> string" where
  "orDefault v d = (if v = '''' then d else v)"

text \<open>The libraries: parsing a level, opening a file, and comparing under case folding.\<close>

record log_library =
  lib_ParseLevel :: "string \<Rightarrow> gerr + int"
  lib_OpenFile :: "string \<Rightarrow> gerr option"
  lib_EqualFold :: "string \<Rightarrow> string \<Rightarrow> bool"

definition log_writer :: "unicode \<Rightarrow> log_library \<Rightarrow> string \<Rightarrow> gerr + log_output" where
  "log_writer U lib out =
     (let o' = ToLower U (orDefault out ''stdout'') in
      if o' = ''stderr'' then Inr Stderr
      else if o' = ''stdout'' \<or> o' = '''' then Inr Stdout
      else (case lib_OpenFile lib out of Some err \<Rightarrow> Inl err | None \<Rightarrow> Inr (LogFile out)))"

definition xlogger_New :: "unicode \<Rightarrow> log_library \<Rightarrow> logger_config \<Rightarrow> gerr + xlogger" where
  "xlogger_New U lib cfg =
     (case lib_ParseLevel lib (ToLower U (orDefault (lc_Level cfg) ''info'')) of
        Inl err \<Rightarrow> Inl err
      | Inr level \<Rightarrow>
          (case log_writer U lib (lc_Output cfg) of
             Inl err \<Rightarrow> Inl err
           | Inr out \<Rightarrow>
               Inr \<lparr>xl_Level = level, xl_Output = out, xl_Console = lib_EqualFold lib (lc_Format cfg) ''console'',
                    xl_TimeFormat = orDefault (lc_TimeFormat cfg) ''2006-01-02T15:04:05Z07:00'', xl_Fields = []\<rparr>))"

definition xlogger_With :: "log_field list \<Rightarrow> xlogger \<Rightarrow> xlogger" where
  "xlogger_With fs l = l\<lparr>xl_Fields := xl_Fields l @ fs\<rparr>"

definition emit :: "xlogger \<Rightarrow> int \<Rightarrow> string \<Rightarrow> log_field list \<Rightarrow> log_line list" where
  "emit l level msg fs =
     (if level < xl_Level l then [] else [\<lparr>ll_Level = level, ll_Msg = msg, ll_Fields = xl_Fields l @ fs\<rparr>])"

section \<open>The request log\<close>

text \<open>What the middleware reads of a request: the header \<open>X-Request-ID\<close>, a fresh UUID, \<open>RealIP\<close>.\<close>

record log_request =
  rl_Header :: string
  rl_UUID :: string
  rl_RealIP :: string
  rl_Method :: string
  rl_Path :: string

definition request_id :: "log_request \<Rightarrow> string" where
  "request_id q = (if rl_Header q = '''' then rl_UUID q else rl_Header q)"

definition logged_ctx :: "log_request \<Rightarrow> ctx \<Rightarrow> ctx" where
  "logged_ctx q cx = WithClientIP (WithRequestID cx (request_id q)) (rl_RealIP q)"

text \<open>
  The status it reports, from the status of the response so far and the error the handler returned:
  echo's own errors carry a code, any other error counts as 500 unless the response says otherwise.
\<close>

definition logged_status :: "int \<Rightarrow> handler_error option \<Rightarrow> int" where
  "logged_status status err =
     (case err of
        None \<Rightarrow> status
      | Some (HTTPError code message) \<Rightarrow> code
      | Some (ServiceError e) \<Rightarrow> if status < 400 then 500 else status)"

text \<open>
  \<open>lat\<close> is the latency, \<open>raw\<close> the error \<open>AppErrorResponse\<close> left for the log, \<open>txt\<close> the text of an
  error.
\<close>

definition RequestLogging ::
  "(handler_error \<Rightarrow> string) \<Rightarrow> xlogger \<Rightarrow> log_request \<Rightarrow> int \<Rightarrow> int \<Rightarrow> handler_error option \<Rightarrow> gerr option \<Rightarrow>
   log_line list" where
  "RequestLogging txt l q lat status0 err raw =
     (let status = logged_status status0 err;
          fields = [log_String ''request_id'' (request_id q), log_String ''method'' (rl_Method q),
                    log_String ''path'' (rl_Path q), log_Int ''status'' status, log_Dur ''latency'' lat,
                    log_String ''ip'' (rl_RealIP q)] @
                   (case raw of None \<Rightarrow> [] | Some e \<Rightarrow> [log_Err (Some (txt (ServiceError e)))]) in
      if 500 \<le> status then
        emit l ErrorLevel ''http request''
          (fields @ (case err of None \<Rightarrow> [] | Some e \<Rightarrow> [log_Err (Some (txt e))]))
      else if 400 \<le> status then emit l WarnLevel ''http request'' fields
      else emit l InfoLevel ''http request'' fields)"

section \<open>The log and the client\<close>

text \<open>The status the client gets, when the response had not been written before the error came back.\<close>

definition client_status :: "int \<Rightarrow> handler_error option \<Rightarrow> int" where
  "client_status status err =
     (case err of
        None \<Rightarrow> status
      | Some e \<Rightarrow> (case HTTPErrorHandler False e of None \<Rightarrow> status | Some r \<Rightarrow> rs_Status r))"

text \<open>
  The reported status is the client's, with one exception: an error of the service that a handler
  returns instead of writing it, such as the one of a malformed id, is reported as 500.
\<close>

lemma logged_status_client:
  "logged_status status err =
     (case err of
        Some (ServiceError e) \<Rightarrow> if status < 400 then 500 else status
      | _ \<Rightarrow> client_status status err)"
  by (simp add: logged_status_def client_status_def HTTPErrorHandler_def JSON_def Let_def
      split: option.split handler_error.split)

lemma malformed_id_logged_as_500:
  "client_status 200 (Some (ServiceError (BadRequestErrorf ''id khong hop le''))) = 400 \<and>
   logged_status 200 (Some (ServiceError (BadRequestErrorf ''id khong hop le''))) = 500"
  by (simp add: logged_status_def client_status_def HTTPErrorHandler_def problem_response_def JSON_def Let_def
      BadRequestErrorf_def newf_def)

text \<open>One line for each request, at most, and never without a request id once the UUID is not empty.\<close>

lemma length_RequestLogging: "length (RequestLogging txt l q lat status err raw) \<le> 1"
  by (simp add: RequestLogging_def emit_def Let_def)

lemma RequestID_logged_ctx: "rl_UUID q \<noteq> '''' \<Longrightarrow> RequestID (logged_ctx q cx) \<noteq> ''''"
  by (simp add: logged_ctx_def request_id_def ctx_defs)

lemma logged_ctx_tx [simp]: "ctxKeyTx (logged_ctx q cx) = ctxKeyTx cx"
  by (simp add: logged_ctx_def ctx_defs)

end
