(* ===== verification/Container.thy ===== *)
theory Container
  imports Request_Log System
begin

text \<open>
  The composition root \<open>internal/di/wire.go\<close>: which object graph a configuration builds. The hub, the
  database and Redis belong to the world; what is left of the graph is the record \<open>app\<close>.
\<close>

section \<open>Wiring\<close>

definition frontend_base :: "HTTPConfig \<Rightarrow> string" where
  "frontend_base h =
     (case find (\<lambda>origin. origin \<noteq> '''') (hc_CORSAllowOrigins h) of
        Some origin \<Rightarrow> origin
      | None \<Rightarrow> hc_BaseURL h)"

definition chosen_mailer :: "mail_config \<Rightarrow> sender" where
  "chosen_mailer smtp = (if IsConfigured smtp then SMTPSender smtp else LoggerSender)"

text \<open>Whole seconds of a duration, towards zero.\<close>

definition whole_seconds :: "int \<Rightarrow> int" where
  "whole_seconds d = (if 0 \<le> d then d div second else - (- d div second))"

definition chosen_storage :: "s3_library \<Rightarrow> storage_config \<Rightarrow> gerr + minio_provider option" where
  "chosen_storage s3lib cfg =
     (if oc_Provider cfg \<noteq> '''' then
        (case xstorage_New s3lib cfg of
           Inl err \<Rightarrow> Inl (Wrapped ''init storage'' err)
         | Inr p \<Rightarrow> Inr (Some p))
      else Inr None)"

text \<open>
  \<open>lib\<close> stands for the framework's binding, \<open>mac\<close> for HMAC-SHA256 in hexadecimal under a key, and
  \<open>stream\<close> for the outcome of event streams.
\<close>

definition NewAppContainer ::
  "http_lib \<Rightarrow> s3_library \<Rightarrow> (string \<Rightarrow> string \<Rightarrow> string) \<Rightarrow> (ctx \<Rightarrow> response) \<Rightarrow> string \<Rightarrow> Config \<Rightarrow> gerr + app" where
  "NewAppContainer lib s3lib mac stream version cfg =
     (case NewManager (auth_config.truncate (cf_Auth cfg)) of
        Inl err \<Rightarrow> Inl err
      | Inr tokens \<Rightarrow>
          (case chosen_storage s3lib (cf_Storage cfg) of
             Inl err \<Rightarrow> Inl err
           | Inr storage \<Rightarrow>
               (let mailer = chosen_mailer (cf_SMTP cfg);
                    feBase = frontend_base (cf_HTTP cfg);
                    resetURL = TrimRight feBase ''/'' @ ''/reset-password'';
                    loginURL = TrimRight feBase ''/'' @ ''/login'' in
                Inr \<lparr>app_lib = lib,
                     app_mw = \<lparr>am_cookieName = ac_CookieName (cf_Auth cfg), am_blacklist = True, am_perms = True,
                               am_users = True\<rparr>,
                     app_auth = \<lparr>ax_tokens = tokens, ax_blacklist = True, ax_mailer = Some mailer,
                                 ax_resetURL = resetURL\<rparr>,
                     app_cookie = \<lparr>cc_Name = ac_CookieName (cf_Auth cfg), cc_Domain = ac_CookieDomain (cf_Auth cfg),
                                   cc_Secure = ac_CookieSecure (cf_Auth cfg),
                                   cc_MaxAgeSec = whole_seconds (ac_TTL (cf_Auth cfg))\<rparr>,
                     app_invite = \<lparr>ic_mailer = Some mailer, ic_loginURL = loginURL\<rparr>,
                     app_avatars = map_option mp_publicURL storage,
                     app_storage = map_option (\<lambda>_. NewStorageHandler (oc_MaxUploadBytes (cf_Storage cfg))
                                     (mac (ac_Secret (cf_Auth cfg))) (hc_BaseURL (cf_HTTP cfg))) storage,
                     app_storageURL = (case storage of None \<Rightarrow> '''' | Some p \<Rightarrow> mp_publicURL p),
                     app_internalKey = cf_InternalAPIKey cfg,
                     app_stream = stream,
                     app_version = version\<rparr>)))"

section \<open>What is wired\<close>

lemma chosen_storage_iff:
  "chosen_storage s3lib cfg = Inr None \<longleftrightarrow> oc_Provider cfg = ''''"
  by (auto simp: chosen_storage_def split: sum.split)

lemma NewManager_secret:
  "32 \<le> length (ac_Secret cfg) \<Longrightarrow>
   NewManager cfg = Inr \<lparr>mg_secret = ac_Secret cfg, mg_ttl = if ac_TTL cfg = 0 then 168 * hour else ac_TTL cfg\<rparr>"
  by (simp add: NewManager_def Let_def)

lemma truncate_auth [simp]:
  "ac_Secret (auth_config.truncate c) = ac_Secret c" "ac_TTL (auth_config.truncate c) = ac_TTL c"
  by (simp_all add: auth_config.defs)

text \<open>The session cookie lives as long as the token in it, provided the configuration sets the lifetime.\<close>

lemma cookie_lifetime:
  assumes "NewAppContainer lib s3lib mac stream version cfg = Inr a"
  shows "cc_MaxAgeSec (app_cookie a) = whole_seconds (ac_TTL (cf_Auth cfg))"
    and "mg_ttl (ax_tokens (app_auth a)) = (if ac_TTL (cf_Auth cfg) = 0 then 168 * hour else ac_TTL (cf_Auth cfg))"
  using assms by (auto simp: NewAppContainer_def NewManager_def Let_def split: sum.splits if_splits)

lemma frontend_base_origin:
  "list_all (\<lambda>origin. origin \<noteq> ''*'' \<and> origin \<noteq> '''') (hc_CORSAllowOrigins h) \<Longrightarrow>
   frontend_base h = (case hc_CORSAllowOrigins h of [] \<Rightarrow> hc_BaseURL h | origin # _ \<Rightarrow> origin)"
  by (cases "hc_CORSAllowOrigins h") (simp_all add: frontend_base_def)

text \<open>
  C27: an accepted configuration boots. When loading succeeds, wiring fails only if the configured
  object store does; otherwise tokens are signed with a secret of at least 32 bytes, uploads are
  signed with the same secret, the links in mails lead to the first allowed origin, every optional
  check of the middleware is switched on, and the storage routes exist exactly if a store is
  configured.
\<close>

theorem accepted_configuration_boots:
  assumes "Load base overlay unmarshal env = Inr cfg"
  shows "case NewAppContainer lib s3lib mac stream version cfg of
      Inl err \<Rightarrow> oc_Provider (cf_Storage cfg) \<noteq> '''' \<and> isl (xstorage_New s3lib (cf_Storage cfg))
    | Inr a \<Rightarrow>
        32 \<le> length (mg_secret (ax_tokens (app_auth a))) \<and>
        (case app_storage a of
           None \<Rightarrow> True
         | Some h \<Rightarrow> sh_mac h = mac (mg_secret (ax_tokens (app_auth a))) \<and> 0 < sh_maxUploadBytes h) \<and>
        (case hc_CORSAllowOrigins (cf_HTTP cfg) of
           [] \<Rightarrow> True
         | origin # _ \<Rightarrow> ax_resetURL (app_auth a) = TrimRight origin ''/'' @ ''/reset-password'' \<and>
             ic_loginURL (app_invite a) = TrimRight origin ''/'' @ ''/login'') \<and>
        am_blacklist (app_mw a) \<and> am_perms (app_mw a) \<and> am_users (app_mw a) \<and>
        (app_storage a = None \<longleftrightarrow> oc_Provider (cf_Storage cfg) = '''')"
proof -
  from assms have "usable cfg" by (rule Load_okE)
  then have secret: "32 \<le> length (ac_Secret (cf_Auth cfg))"
    and origins: "list_all (\<lambda>origin. origin \<noteq> ''*'' \<and> origin \<noteq> '''') (hc_CORSAllowOrigins (cf_HTTP cfg))"
    by (simp_all add: usable_def)
  have m: "NewManager (auth_config.truncate (cf_Auth cfg)) = Inr \<lparr>mg_secret = ac_Secret (cf_Auth cfg),
      mg_ttl = if ac_TTL (cf_Auth cfg) = 0 then 168 * hour else ac_TTL (cf_Auth cfg)\<rparr>"
    using secret by (simp add: NewManager_secret)
  show ?thesis
  proof (cases "chosen_storage s3lib (cf_Storage cfg)")
    case (Inl err)
    then show ?thesis
      by (auto simp: NewAppContainer_def m chosen_storage_def split: if_splits sum.splits)
  next
    case (Inr storage)
    then have "storage = None \<longleftrightarrow> oc_Provider (cf_Storage cfg) = ''''"
      by (auto simp: chosen_storage_def split: if_splits sum.splits)
    with Inr secret show ?thesis
      by (auto simp: NewAppContainer_def m Let_def NewStorageHandler_def frontend_base_origin [OF origins]
          split: option.split list.split)
  qed
qed

section \<open>Witness\<close>

definition sample_Config :: Config where
  "sample_Config =
     \<lparr>cf_Env = '''',
      cf_HTTP = \<lparr>hc_Host = ''0.0.0.0'', hc_Port = 8888, hc_BaseURL = ''http://localhost:8888'', hc_ReadTimeout = 0,
                 hc_WriteTimeout = 0, hc_CORSAllowOrigins = [''https://vtv.vn/''], hc_TrustedProxies = []\<rparr>,
      cf_Postgres = \<lparr>pc_DSN = ''postgres://'', pc_MaxOpenConns = 0, pc_MaxIdleConns = 0, pc_ConnMaxLifetime = 0,
                     pc_LogLevel = ''''\<rparr>,
      cf_Redis = \<lparr>dc_Addr = ''localhost:6379'', dc_Password = '''', dc_DB = 0\<rparr>,
      cf_Auth = \<lparr>ac_Secret = replicate 32 (CHR ''s''), ac_TTL = 0, ac_RefreshTTL = 0, ac_CookieName = ''session'',
                 ac_CookieSecure = True, ac_CookieDomain = '''', ac_ProfileCacheTTL = 0\<rparr>,
      cf_InternalAPIKey = ''key'',
      cf_Storage = \<lparr>oc_Provider = '''', oc_Endpoint = '''', oc_UseSSL = False, oc_AccessKey = '''', oc_SecretKey = '''',
                    oc_Bucket = '''', oc_PublicBaseURL = '''', oc_PresignGetTTL = 0, oc_MaxUploadBytes = 0\<rparr>,
      cf_Queue = \<lparr>qc_RedisAddr = '''', qc_RedisDB = 0, qc_Concurrency = 0\<rparr>,
      cf_Logger = \<lparr>lc_Level = '''', lc_Format = '''', lc_Output = '''', lc_TimeFormat = ''''\<rparr>,
      cf_SMTP = \<lparr>mc_Host = '''', mc_Port = 0, mc_Username = '''', mc_Password = '''', mc_From = ''''\<rparr>\<rparr>"

lemma sample_Load: "Load Merged (\<lambda>_. NotFound) (\<lambda>_. Inr sample_Config) '''' = Inr (sample_Config\<lparr>cf_Env := ''dev''\<rparr>)"
proof -
  have "usable (sample_Config\<lparr>cf_Env := ''dev''\<rparr>)" by (simp add: usable_def sample_Config_def)
  moreover have "cf_Env sample_Config = ''''" by (simp add: sample_Config_def)
  ultimately show ?thesis by (simp add: Load_def read_error_def Validate_usable [symmetric])
qed

definition sample_s3 :: s3_library where
  "sample_s3 = \<lparr>s3_client = None, s3_exists = Inr True, s3_make = None\<rparr>"

theorem accepted_configuration_boots_witness:
  "case NewAppContainer sample_lib sample_s3 (@) (\<lambda>_. NoContentResponse) ''dev'' (sample_Config\<lparr>cf_Env := ''dev''\<rparr>) of
     Inl err \<Rightarrow> False
   | Inr a \<Rightarrow> ax_resetURL (app_auth a) = TrimRight ''https://vtv.vn/'' ''/'' @ ''/reset-password''"
  using accepted_configuration_boots [OF sample_Load, where lib = sample_lib and s3lib = sample_s3 and mac = "(@)"
      and stream = "\<lambda>_. NoContentResponse" and version = "''dev''"]
  by (auto simp: sample_Config_def split: sum.splits)

end
