(* ===== verification/Api.thy ===== *)
theory Api
  imports Container Accountability IP_Ban
begin

text \<open>
  \<open>cmd/api/main.go\<close>: a request on its way through the server's own middlewares, outermost first: the
  request log, which gives the context its request id and address, the guard against scanners, and
  then the route. Recovering from panics, security headers and CORS are echo's.
\<close>

section \<open>The pipeline\<close>

text \<open>What echo's router answers when no route matches, rendered by the fallback handler.\<close>

definition not_found :: response where
  "not_found = JSON 404 (ProblemBody \<lparr>pb_Title = StatusText 404, pb_Status = 404, pb_Detail = ''Not Found'',
     pb_Code = ''HTTP_ERROR'', pb_Field = ''''\<rparr> [])"

lemma not_found_rendered: "HTTPErrorHandler False (HTTPError 404 (Some ''Not Found'')) = Some not_found"
  by (simp add: HTTPErrorHandler_def not_found_def)

definition routed :: "app \<Rightarrow> bool \<Rightarrow> log_request \<Rightarrow> route option \<Rightarrow> http_request \<Rightarrow> response comp" where
  "routed a admitted q matched rq =
     (case matched of
        None \<Rightarrow> ret not_found
      | Some r \<Rightarrow> run_route a admitted r rq (logged_ctx q background))"

text \<open>\<open>matched\<close> is the router's choice, \<open>admitted\<close> the login limiter's decision.\<close>

definition api ::
  "app \<Rightarrow> ban_config \<Rightarrow> bool \<Rightarrow> log_request \<Rightarrow> route option \<Rightarrow> http_request \<Rightarrow> env \<Rightarrow> world \<Rightarrow> response \<times> world" where
  "api a guard admitted q matched rq e w =
     (case ban_Middleware guard
             \<lparr>pb_IP = rl_RealIP q, pb_Path = rl_Path q, pb_Authorization = rq_Authorization rq\<rparr>
             (routed a admitted q matched rq) e w of
        (res, w') \<Rightarrow> (answer res, w'))"

section \<open>What it adds\<close>

text \<open>
  C5: a banned address gets nowhere. While an address is banned, and Redis answers, every request
  from it gets the same refusal and changes nothing in the world but the clock; for every other
  request the answer is the one of its route, whatever the guard notes down afterwards.
\<close>

theorem banned_address_refused:
  "if net_fault e (w_tick w) = None \<and> banned (rl_RealIP q) (clock e (w_tick w)) w
   then api a guard admitted q matched rq e w = (problem_response (ForbiddenErrorf ''truy cap bi chan''), tick w)
   else fst (api a guard admitted q matched rq e w) = answer (fst (routed a admitted q matched rq e (tick w)))"
  using ban_guard_decision [of e w "\<lparr>pb_IP = rl_RealIP q, pb_Path = rl_Path q, pb_Authorization = rq_Authorization rq\<rparr>"
      guard "routed a admitted q matched rq"]
  by (auto simp: api_def answer_def split: prod.split if_splits)

text \<open>The guard's own calls leave the database alone.\<close>

lemma guard_db:
  "w_db (snd (ban_Middleware guard p next e w)) = w_db w \<or>
   (\<exists>w1. w_db w1 = w_db w \<and> w_db (snd (ban_Middleware guard p next e w)) = w_db (snd (next e w1)) \<and>
      fst (ban_Middleware guard p next e w) = fst (next e w1))"
proof -
  have "\<exists>b. isBanned (pb_IP p) e w = (Inr b, tick w)"
    by (auto simp: isBanned_def redis_Exists_def redis_call_def bind_def attempt_def ret_def tick_def split: option.splits)
  then obtain b where b: "isBanned (pb_IP p) e w = (Inr b, tick w)" by blast
  obtain r w2 where n: "next e (tick w) = (r, w2)" by fastforce
  have s: "\<exists>w'. (if c then score guard ip else ret ()) e w2 = (Inr (), w') \<and> w_db w' = w_db w2" for c ip
    by (auto simp: score_def Let_def bind_def attempt_def ignore_def ret_def redis_IncrExpire_def
        redis_Set_def redis_Del_def redis_call_def split: option.split prod.split)
  obtain w3 where sc: "(if scanPathRe (pb_Path p) then score guard (pb_IP p) else ret ()) e w2 = (Inr (), w3)"
    and "w_db w3 = w_db w2" using s by blast
  with b n show ?thesis
    by (cases b) (auto simp: ban_Middleware_def bind_def attempt_def throw_def lift_def intro!: exI [of _ "tick w"])
qed

text \<open>So what holds of the routes holds of the server: here, that changes are accounted for.\<close>

lemma api_accounts:
  assumes "rl_UUID q \<noteq> ''''" and "audit_action (rt_Endpoint r) = Some action"
  shows "w_db (snd (api a guard admitted q (Some r) rq e w)) = w_db w \<or>
    (\<exists>row. audit_log (w_db (snd (api a guard admitted q (Some r) rq e w))) = audit_log (w_db w) @ [row] \<and>
       ar_Action row = action \<and> ar_RequestID row \<noteq> '''')"
proof -
  let ?p = "\<lparr>pb_IP = rl_RealIP q, pb_Path = rl_Path q, pb_Authorization = rq_Authorization rq\<rparr>"
  have snd_api: "snd (api a guard admitted q (Some r) rq e w) =
      snd (ban_Middleware guard ?p (routed a admitted q (Some r) rq) e w)"
    by (simp add: api_def split: prod.split)
  from guard_db [of guard ?p "routed a admitted q (Some r) rq" e w] show ?thesis
  proof
    assume "\<exists>w1. w_db w1 = w_db w \<and>
      w_db (snd (ban_Middleware guard ?p (routed a admitted q (Some r) rq) e w)) =
        w_db (snd (routed a admitted q (Some r) rq e w1)) \<and>
      fst (ban_Middleware guard ?p (routed a admitted q (Some r) rq) e w) = fst (routed a admitted q (Some r) rq e w1)"
    then obtain w1 where db: "w_db w1 = w_db w" and same: "w_db (snd (api a guard admitted q (Some r) rq e w)) =
        w_db (snd (run_route a admitted r rq (logged_ctx q background) e w1))"
      unfolding snd_api by (auto simp: routed_def)
    have tx: "\<not> ctxKeyTx (logged_ctx q background)" by (simp add: background_def)
    obtain res w2 where run: "run_route a admitted r rq (logged_ctx q background) e w1 = (res, w2)" by fastforce
    from run_route_accounted [OF tx assms(2), of w1 a admitted rq e] RequestID_logged_ctx [OF assms(1), of background]
    show ?thesis unfolding same run by (cases res) (auto simp: db entry_of_def)
  qed (simp add: snd_api)
qed

end
