(* ===== verification/Boot.thy ===== *)
theory Boot
  imports Api
begin

text \<open>
  The start of \<open>cmd/api/main.go\<close>, up to the point where it listens: every step that can stop the
  process, in order, with the message it dies with.
\<close>

text \<open>What the process finds: its environment, its files and the answers of the libraries.\<close>

record host =
  ht_getenv :: "string \<Rightarrow> string"
  ht_env_flag :: "string option"
  ht_base :: read_result
  ht_overlay :: "string \<Rightarrow> read_result"
  ht_unmarshal :: "string \<Rightarrow> gerr + Config"
  ht_unicode :: unicode
  ht_log :: log_library
  ht_db :: db_library
  ht_redis_ping :: "gerr option"
  ht_http :: http_lib
  ht_s3 :: s3_library
  ht_mac :: "string \<Rightarrow> string \<Rightarrow> string"
  ht_stream :: "ctx \<Rightarrow> response"

record server =
  sv_app :: app
  sv_logger :: xlogger
  sv_pool :: pool
  sv_guard :: ban_config
  sv_direct_ip :: bool \<comment> \<open>addresses are taken from the connection, not from headers\<close>
  sv_addr :: string

definition fatal :: "string \<Rightarrow> gerr + 'a \<Rightarrow> ('a \<Rightarrow> (string \<times> gerr) + 'b) \<Rightarrow> (string \<times> gerr) + 'b" where
  "fatal msg r k = (case r of Inl err \<Rightarrow> Inl (msg, err) | Inr x \<Rightarrow> k x)"

definition boot :: "host \<Rightarrow> string \<Rightarrow> (string \<times> gerr) + server" where
  "boot h version =
     (let env = (case ht_env_flag h of Some v \<Rightarrow> v | None \<Rightarrow> envOr (ht_getenv h) ''APP_ENV'' ''dev'') in
      fatal ''load config'' (Load (ht_base h) (ht_overlay h) (ht_unmarshal h) env) (\<lambda>cfg.
      fatal ''init logger'' (xlogger_New (ht_unicode h) (ht_log h) (cf_Logger cfg)) (\<lambda>logger.
      fatal ''connect postgres'' (NewDB (ht_db h) (cf_Postgres cfg)) (\<lambda>db.
      fatal ''connect redis'' (xredis_New (ht_redis_ping h) (cf_Redis cfg)) (\<lambda>rdb.
      fatal ''wire app'' (NewAppContainer (ht_http h) (ht_s3 h) (ht_mac h) (ht_stream h) version cfg) (\<lambda>a.
      Inr \<lparr>sv_app = a, sv_logger = logger, sv_pool = db, sv_guard = NewIPBanGuard DefaultConfig,
           sv_direct_ip = (hc_TrustedProxies (cf_HTTP cfg) = []), sv_addr = Addr (cf_HTTP cfg)\<rparr>))))))"

lemma fatal_ok: "fatal msg r k = Inr y \<longleftrightarrow> (\<exists>x. r = Inr x \<and> k x = Inr y)"
  by (cases r) (simp_all add: fatal_def)

text \<open>
  A server that listens has a valid configuration, a database and a Redis that answered, tokens signed
  with a secret of at least 32 bytes, and the guard's default thresholds; and it listens on a port.
\<close>

lemma booted:
  assumes "boot h version = Inr s"
  obtains cfg where "usable cfg" and "sv_addr s = hc_Host (cf_HTTP cfg) @ '':'' @ itoa (hc_Port (cf_HTTP cfg))"
    and "dl_ping (ht_db h) = None" and "ht_redis_ping h = None" and "sv_guard s = DefaultConfig"
    and "mg_secret (ax_tokens (app_auth (sv_app s))) = ac_Secret (cf_Auth cfg)"
    and "32 \<le> length (mg_secret (ax_tokens (app_auth (sv_app s))))"
proof -
  from assms obtain cfg env logger db rdb a where
    load: "Load (ht_base h) (ht_overlay h) (ht_unmarshal h) env = Inr cfg"
    and db: "NewDB (ht_db h) (cf_Postgres cfg) = Inr db" and rdb: "xredis_New (ht_redis_ping h) (cf_Redis cfg) = Inr rdb"
    and a: "NewAppContainer (ht_http h) (ht_s3 h) (ht_mac h) (ht_stream h) version cfg = Inr a"
    and s: "s = \<lparr>sv_app = a, sv_logger = logger, sv_pool = db, sv_guard = NewIPBanGuard DefaultConfig,
           sv_direct_ip = (hc_TrustedProxies (cf_HTTP cfg) = []), sv_addr = Addr (cf_HTTP cfg)\<rparr>"
    by (auto simp: boot_def Let_def fatal_ok)
  from load have "usable cfg" by (rule Load_okE)
  moreover from a \<open>usable cfg\<close> have "mg_secret (ax_tokens (app_auth a)) = ac_Secret (cf_Auth cfg)"
    by (auto simp: NewAppContainer_def usable_def NewManager_secret Let_def split: sum.splits)
  moreover have "NewIPBanGuard DefaultConfig = DefaultConfig"
    by (simp add: NewIPBanGuard_def DefaultConfig_def nanos_def)
  ultimately show ?thesis
    using db rdb by (intro that [of cfg])
      (auto simp: s Addr_def usable_def NewDB_def xredis_New_def split: option.splits)
qed

end
