(* ===== verification/Seed.thy ===== *)
theory Seed
  imports Auth_UC Mail
begin

text \<open>
  \<open>cmd/seed-admin/main.go\<close>: creating the first administrator from the command line. What the program
  prints is its result; \<open>die\<close> is its error.
\<close>

section \<open>The program\<close>

text \<open>\<open>base64.RawURLEncoding\<close>: the URL alphabet and no padding.\<close>

definition base64_RawURL :: "string \<Rightarrow> string" where
  "base64_RawURL s =
     map (\<lambda>c. if c = CHR ''+'' then CHR ''-'' else if c = CHR ''/'' then CHR ''_'' else c)
       (filter (\<lambda>c. c \<noteq> CHR ''='') (base64Encode s))"

definition die :: "string \<Rightarrow> 'a comp \<Rightarrow> 'a comp" where
  "die what m =
     bind (attempt m) (\<lambda>r. case r of Inl err \<Rightarrow> throw (Wrapped what err) | Inr x \<Rightarrow> ret x)"

datatype seed_result =
    AlreadyExists string int
  | CreatedAdmin int string string \<comment> \<open>id, user name, password\<close>

definition seed_password :: "string \<Rightarrow> string comp" where
  "seed_password password =
     (if password = '''' then bind (die ''rand'' (rand_Read 12)) (\<lambda>buf. ret (base64_RawURL buf))
      else ret password)"

definition seed_admin :: "string \<Rightarrow> string \<Rightarrow> string \<Rightarrow> seed_result comp" where
  "seed_admin username password fullName =
     bind (die ''lookup user'' (userRepo_GetByUsername username)) (\<lambda>existing.
     case existing of
       Some u \<Rightarrow> ret (AlreadyExists username (usr_ID u))
     | None \<Rightarrow>
         bind (seed_password password) (\<lambda>pw.
         bind (die ''hash'' (HashPassword pw)) (\<lambda>hash.
         bind (die ''create user'' (userRepo_Create
           (User0\<lparr>usr_Username := username, usr_PasswordHash := hash, usr_FullName := fullName,
              usr_Role := RoleAdmin, usr_Status := UserStatusActive, usr_StaffCode := Some ''ADMIN''\<rparr>))) (\<lambda>u.
         ret (CreatedAdmin (usr_ID u) username pw)))))"

section \<open>What it leaves\<close>

lemma die_ok [ok_iff]: "die what m e w = (Inr x, w') \<longleftrightarrow> m e w = (Inr x, w')"
  by (auto simp: die_def bind_def attempt_def throw_def ret_def split: prod.splits sum.splits)

text \<open>bcrypt accepts the password a hash was made of.\<close>

definition bcrypt_ok :: "env \<Rightarrow> bool" where
  "bcrypt_ok e \<longleftrightarrow> (\<forall>n p h. bcrypt_hash e n p = Some h \<longrightarrow> bcrypt_cmp e h p)"

lemma bcrypt_ok_sample_env [simp]: "bcrypt_ok sample_env"
  by (auto simp: bcrypt_ok_def sample_env_fields split: if_splits)

lemma seed_password_ok:
  "seed_password password e w = (Inr pw, w') \<Longrightarrow> same_db w w' \<and> (password = '''' \<or> pw = password)"
  by (auto simp: seed_password_def bind_ok die_ok ret_ok rand_Read_def same_db_def outside_db_def
      split: if_splits option.splits)

lemma seed_admin_created:
  assumes "seed_admin username password fullName e w = (Inr (CreatedAdmin i name pw), w')"
  obtains u n where "users (w_db w') = users (w_db w) @ [new_user_tuple u i]"
    and "\<forall>r \<in> set (users (w_db w)). \<not> same_username e username r"
    and "usr_Username u = username" and "bcrypt_hash e n pw = Some (usr_PasswordHash u)"
    and "usr_Role u = RoleAdmin" and "usr_Status u = UserStatusActive" and "name = username"
    and "audit_log (w_db w') = audit_log (w_db w)"
proof -
  from assms obtain w1 w2 hash w3 u where
    look: "userRepo_GetByUsername username e w = (Inr None, w1)"
    and pw: "seed_password password e w1 = (Inr pw, w2)"
    and hash: "HashPassword pw e w2 = (Inr hash, w3)"
    and new: "userRepo_Create (User0\<lparr>usr_Username := username, usr_PasswordHash := hash, usr_FullName := fullName,
              usr_Role := RoleAdmin, usr_Status := UserStatusActive, usr_StaffCode := Some ''ADMIN''\<rparr>) e w3 = (Inr u, w')"
    and i: "i = usr_ID u" "name = username"
    by (auto simp: seed_admin_def bind_ok die_ok ret_ok split: option.splits)
  have none: "\<forall>r \<in> set (users (w_db w)). \<not> same_username e username r" and "w_db w1 = w_db w"
    using userRepo_GetByUsername_effect [OF look] by (simp_all add: first_row_None same_db_def)
  moreover obtain n where "bcrypt_hash e n pw = Some hash" and "same_db w2 w3" by (rule HashPassword_okE [OF hash])
  ultimately have "w_db w3 = w_db w" and "bcrypt_hash e n pw = Some hash"
    using seed_password_ok [OF pw] by (simp_all add: same_db_def)
  with userRepo_Create_effect [OF new] i none show thesis by (intro that [of u n]) (auto simp: User0_def)
qed

text \<open>
  C28: the seeded administrator. When the program reports a new administrator, the table has exactly
  that one row more, the name was free, and the printed name and password log in as an active
  administrator, provided the name has no spaces around it; with spaces the account is out of reach,
  for a login trims the name and the program does not.
\<close>

theorem seeded_admin_logs_in:
  assumes "quiet e" and "bcrypt_ok e" and "\<And>n. rand_bytes e n 16 \<noteq> None" and "\<And>c. jwt_encode e c \<noteq> None"
    and "seed_admin username password fullName e w = (Inr (CreatedAdmin i name pw), w')"
  shows "length (users (w_db w')) = Suc (length (users (w_db w))) \<and>
    take (length (users (w_db w))) (users (w_db w')) = users (w_db w) \<and>
    (if TrimSpace username = username
     then \<exists>token user w2. authUC_Login u name pw cx e w' = (Inr (token, user), w2) \<and>
       usr_Role user = RoleAdmin \<and> usr_ID user = i \<and> usr_Status user = UserStatusActive
     else pg_lower e username = pg_lower e (TrimSpace username) \<or> login_account e name pw (w_db w') = None)"
proof -
  obtain v n where rows: "users (w_db w') = users (w_db w) @ [new_user_tuple v i]"
    and free: "\<forall>r \<in> set (users (w_db w)). \<not> same_username e username r"
    and v: "usr_Username v = username" "bcrypt_hash e n pw = Some (usr_PasswordHash v)"
      "usr_Role v = RoleAdmin" "usr_Status v = UserStatusActive" "name = username"
    using seed_admin_created [OF assms(5)] by metis
  show ?thesis
  proof (cases "TrimSpace username = username")
    case True
    have "first_row ur_ID (same_username e username) (users (w_db w')) = Some (new_user_tuple v i)"
      using free by (intro first_row_unique) (auto simp: rows same_username_def new_user_tuple_def v True)
    moreover have "bcrypt_cmp e (usr_PasswordHash v) pw" using assms(2) v(2) unfolding bcrypt_ok_def by blast
    ultimately have "login_account e name pw (w_db w') = Some (new_user_tuple v i)"
      by (simp add: login_account_def v(5) new_user_tuple_def)
    from Login_succeeds [OF assms(1) this _ assms(3,4), of u cx] True show ?thesis
      by (auto simp: rows new_user_tuple_def v user_toDomain_def)
  next
    case False
    have "login_account e name pw (w_db w') = None" if "pg_lower e username \<noteq> pg_lower e (TrimSpace username)"
    proof -
      have "first_row ur_ID (same_username e username) (users (w_db w')) = None"
        using free that by (auto simp: first_row_None rows same_username_def new_user_tuple_def v)
      then show ?thesis by (simp add: login_account_def v(5))
    qed
    then have "pg_lower e username = pg_lower e (TrimSpace username) \<or> login_account e name pw (w_db w') = None"
      by (cases "pg_lower e username = pg_lower e (TrimSpace username)") simp_all
    with False show ?thesis by (simp add: rows)
  qed
qed

text \<open>A name that is taken leaves the database as it was.\<close>

lemma seed_admin_exists:
  "seed_admin username password fullName e w = (Inr (AlreadyExists name i), w') \<Longrightarrow> w_db w' = w_db w"
  by (auto simp: seed_admin_def bind_ok die_ok ret_ok same_db_def split: option.splits dest!: userRepo_GetByUsername_effect)

section \<open>Witness\<close>

theorem seeded_admin_logs_in_witness:
  "\<exists>i w'. seed_admin ''admin'' ''secret-word'' ''Administrator'' sample_env sample_world =
       (Inr (CreatedAdmin i ''admin'' ''secret-word''), w') \<and>
     (\<exists>token user w2. authUC_Login sample_auth ''admin'' ''secret-word'' background sample_env w' = (Inr (token, user), w2) \<and>
        usr_Role user = RoleAdmin)"
proof -
  have "fst (seed_admin ''admin'' ''secret-word'' ''Administrator'' sample_env sample_world) =
      Inr (CreatedAdmin 4 ''admin'' ''secret-word'')" by code_simp
  then obtain i w' where run: "seed_admin ''admin'' ''secret-word'' ''Administrator'' sample_env sample_world =
      (Inr (CreatedAdmin i ''admin'' ''secret-word''), w')" by (metis prod.collapse)
  have trim: "TrimSpace ''admin'' = ''admin''" by code_simp
  from seeded_admin_logs_in [OF quiet_sample_env bcrypt_ok_sample_env _ _ run, where u = sample_auth and cx = background] sample_rand trim
  show ?thesis using run by auto
qed

end
