(* ===== verification/Migrate.thy ===== *)
theory Migrate
  imports Config
begin

text \<open>
  \<open>cmd/migrate/main.go\<close>: which migration a command line asks for and of which database. The migration
  itself is the library's; a \<open>migration\<close> is what it is told to do.
\<close>

text \<open>The flag, set from \<open>MIGRATE_DSN\<close> unless given; then the configuration, loaded only if needed.\<close>

definition resolvedDSN :: "(string \<Rightarrow> string) \<Rightarrow> string option \<Rightarrow> gerr + Config \<Rightarrow> gerr + string" where
  "resolvedDSN getenv dsn_flag loaded =
     (let dsn = (case dsn_flag of Some d \<Rightarrow> d | None \<Rightarrow> getenv ''MIGRATE_DSN'') in
      if dsn \<noteq> '''' then Inr dsn
      else (case loaded of
              Inl err \<Rightarrow> Inl (Wrapped ''load config'' err)
            | Inr cfg \<Rightarrow> Inr (pc_DSN (cf_Postgres cfg))))"

datatype migration = Up | Steps int | Version | Force int | Drop

definition migration_of :: "string list \<Rightarrow> gerr + migration" where
  "migration_of args =
     (let cmd = (case args of [] \<Rightarrow> ''up'' | a # as \<Rightarrow> a) in
      if cmd = ''up'' then Inr Up
      else if cmd = ''down'' then
        Inr (Steps (wrap64 (- (if 1 < length args then fst (ParseInt (args ! 1)) else 1))))
      else if cmd = ''version'' then Inr Version
      else if cmd = ''force'' then
        (if length args < 2 then Inl (Plain ''force requires a version'')
         else Inr (Force (fst (ParseInt (args ! 1)))))
      else if cmd = ''drop'' then Inr Drop
      else Inl (Plain (''unknown command '' @ quoted cmd @ '' (up|down|version|force|drop)'')))"

text \<open>
  The outcome of the library is success, no change or an error, and the first two are success; the
  version is only printed.
\<close>

datatype migrated = Done | NoChange | Failed gerr

definition migrate_exit :: "string \<Rightarrow> migrated \<Rightarrow> gerr option" where
  "migrate_exit cmd r = (case r of Failed err \<Rightarrow> Some (Wrapped cmd err) | _ \<Rightarrow> None)"

text \<open>A number on the command line is what is carried out, and going down never goes up.\<close>

lemma migration_numbers:
  assumes "in_int64 n"
  shows "migration_of [''force'', itoa n] = Inr (Force n)"
    and "0 \<le> n \<Longrightarrow> migration_of [''down'', itoa n] = Inr (Steps (- n))"
  using assms by (simp_all add: migration_of_def ParseInt_itoa in_int64_def min_int64_def max_int64_def)

text \<open>
  The errors of parsing are dropped: forcing anything that is no number forces version 0, which marks
  the database as empty.
\<close>

lemma force_garbage: "snd (ParseInt v) = False \<Longrightarrow> digits_val 0 v = None \<Longrightarrow> hd v \<noteq> CHR ''-'' \<Longrightarrow> hd v \<noteq> CHR ''+'' \<Longrightarrow>
    migration_of [''force'', v] = Inr (Force 0)"
  by (auto simp: migration_of_def ParseInt_def Let_def)

end
