(* ===== verification/VN_Time.thy ===== *)
theory VN_Time
  imports Calendar
begin

text \<open>
  \<open>pkg/xtime/xtime.go\<close>: the first and the last instant of a day and the first of a month in Vietnam.
  A location is the offset from UTC that is in force at each instant, as \<open>Location.lookup\<close> gives it.
  The host's time zone database is the argument \<open>LoadLocation\<close>; of Ho Chi Minh City it is documented
  to say that the clocks have been 7 hours ahead since 13 June 1975, when they last changed.
\<close>

section \<open>Dates to instants\<close>

text \<open>
  The day number of a date, as \<open>time.Date\<close> finds it: the inverse of \<open>civil\<close>. A day of the month out
  of range runs on into the months around.
\<close>

definition days_of :: "int \<Rightarrow> int \<Rightarrow> int \<Rightarrow> int" where
  "days_of y m d =
     (let y' = (if m \<le> 2 then y - 1 else y); era = y' div 400; yoe = y' mod 400;
          mp = (if 2 < m then m - 3 else m + 9);
          doy = (153 * mp + 2) div 5 + d - 1; doe = yoe * 365 + yoe div 4 - yoe div 100 + doy in
      era * 146097 + doe - 306)"

text \<open>The offset east of UTC, in seconds, in force at a second of Unix time.\<close>

type_synonym location = "int \<Rightarrow> int"
type_synonym zone_database = "string \<Rightarrow> location option"

definition FixedZone :: "string \<Rightarrow> int \<Rightarrow> location" where
  "FixedZone name offset = (\<lambda>_. offset)"

definition mustLoad :: "zone_database \<Rightarrow> string \<Rightarrow> location" where
  "mustLoad LoadLocation name =
     (case LoadLocation name of None \<Rightarrow> FixedZone ''ICT'' (7 * 3600) | Some loc \<Rightarrow> loc)"

definition VNLoc :: "zone_database \<Rightarrow> location" where
  "VNLoc LoadLocation = mustLoad LoadLocation ''Asia/Ho_Chi_Minh''"

text \<open>
  \<open>time.Date\<close> reads the clock as if it showed UTC, looks up the offset there, and looks it up again
  at the instant which that offset gives, in case the clocks changed in between.
\<close>

definition Date :: "int \<Rightarrow> int \<Rightarrow> int \<Rightarrow> int \<Rightarrow> int \<Rightarrow> int \<Rightarrow> int \<Rightarrow> location \<Rightarrow> time" where
  "Date y m d hh mm ss ns loc =
     (let u = days_of y m d * day + hh * hour + mm * (60 * second) + ss * second + ns;
          utc = u - loc (Unix u) * second in
      u - loc (Unix utc) * second)"

text \<open>What a clock in the zone shows; the readers of \<open>Calendar\<close> apply to it.\<close>

definition In :: "time \<Rightarrow> location \<Rightarrow> time" where
  "In t loc = t + loc (Unix t) * second"

definition ToVN :: "zone_database \<Rightarrow> time \<Rightarrow> time" where
  "ToVN zd t = In t (VNLoc zd)"

definition StartOfDayVN :: "zone_database \<Rightarrow> time \<Rightarrow> time" where
  "StartOfDayVN zd t =
     (let v = In t (VNLoc zd) in Date (Year v) (Month v) (Day v) 0 0 0 0 (VNLoc zd))"

definition EndOfDayVN :: "zone_database \<Rightarrow> time \<Rightarrow> time" where
  "EndOfDayVN zd t =
     (let v = In t (VNLoc zd) in Date (Year v) (Month v) (Day v) 23 59 59 (second - 1) (VNLoc zd))"

definition StartOfMonthVN :: "zone_database \<Rightarrow> time \<Rightarrow> time" where
  "StartOfMonthVN zd t =
     (let v = In t (VNLoc zd) in Date (Year v) (Month v) 1 0 0 0 0 (VNLoc zd))"

section \<open>The calendar\<close>

text \<open>The day of the era on which its year \<open>y\<close> begins.\<close>

definition year_start :: "int \<Rightarrow> int" where
  "year_start y = 365 * y + y div 4 - y div 100"

text \<open>\<open>year_of_era\<close> is monotone, so its values at the first and last days of the years decide it.\<close>

lemma fewer_multiples: "a \<le> b \<Longrightarrow> 1 < k \<Longrightarrow> a - a div k \<le> b - b div (k :: int)"
proof -
  assume ab: "a \<le> b" and k: "1 < k"
  have "b div k \<le> a div k + (b - a)"
  proof -
    have "b \<le> a + k * (b - a)" using ab k mult_right_mono [of 1 k "b - a"] by simp
    then have "b div k \<le> (a + k * (b - a)) div k" using k by (intro zdiv_mono1) simp_all
    also have "\<dots> = a div k + (b - a)" using k by simp
    finally show ?thesis .
  qed
  then show ?thesis by simp
qed

lemma year_of_era_mono: "a \<le> b \<Longrightarrow> year_of_era a \<le> year_of_era b"
proof -
  assume ab: "a \<le> b"
  have nested: "x div 146096 = x div 36524 div 4" for x :: int
    by (simp add: zdiv_zmult2_eq [symmetric])
  have "a - a div 1460 \<le> b - b div 1460" using ab by (rule fewer_multiples) simp
  moreover have "a div 36524 - a div 146096 \<le> b div 36524 - b div 146096"
    unfolding nested using ab by (intro fewer_multiples zdiv_mono1) simp_all
  ultimately have "a - a div 1460 + a div 36524 - a div 146096 \<le> b - b div 1460 + b div 36524 - b div 146096"
    by linarith
  then show ?thesis unfolding year_of_era_def by (intro zdiv_mono1) simp_all
qed

lemma year_boundaries:
  "list_all (\<lambda>y. year_of_era (year_start y) = y \<and> year_of_era (year_start (y + 1) - 1) = y) [0..399]"
  by code_simp

lemma year_boundary:
  assumes "0 \<le> y" and "y < 400"
  shows "year_of_era (year_start y) = y" and "year_of_era (year_start (y + 1) - 1) = y"
  using year_boundaries assms by (auto simp: list_all_iff)

lemma year_of_era_bounds:
  assumes "0 \<le> d" and "d < 146097"
  shows "0 \<le> year_of_era d \<and> year_of_era d < 400 \<and>
    year_start (year_of_era d) \<le> d \<and> (year_of_era d < 399 \<longrightarrow> d < year_start (year_of_era d + 1))"
proof -
  let ?y = "year_of_era d"
  have "year_of_era 0 = 0" and "year_of_era 146096 = 399" by (simp_all add: year_of_era_def)
  with year_of_era_mono [OF assms(1)] year_of_era_mono [of d 146096] assms(2)
  have y: "0 \<le> ?y" "?y < 400" by simp_all
  have "year_start ?y \<le> d"
  proof (rule ccontr)
    assume "\<not> year_start ?y \<le> d"
    then have le: "d \<le> year_start ?y - 1" by simp
    have "?y \<noteq> 0"
    proof
      assume "?y = 0"
      with le assms(1) show False by (simp add: year_start_def)
    qed
    with y have "year_of_era (year_start (?y - 1 + 1) - 1) = ?y - 1" by (intro year_boundary) simp_all
    with year_of_era_mono [OF le] show False by simp
  qed
  moreover have "d < year_start (?y + 1)" if "?y < 399"
  proof (rule ccontr)
    assume "\<not> d < year_start (?y + 1)"
    then have le: "year_start (?y + 1) \<le> d" by simp
    have "year_of_era (year_start (?y + 1)) = ?y + 1" using y that by (intro year_boundary) simp_all
    with year_of_era_mono [OF le] show False by simp
  qed
  ultimately show ?thesis using y by simp
qed

text \<open>A year has at most 366 days, the last of the era too, which ends on the leap day.\<close>

lemma year_length: "year_start (y + 1) - year_start y \<le> 366"
proof -
  have "(y + 1) div 4 \<le> y div 4 + 1" by presburger
  moreover have "y div 100 \<le> (y + 1) div 100" by (rule zdiv_mono1) simp_all
  moreover have "365 * (y + 1) + q' - c' - (365 * y + q - c) \<le> 366" if "q' \<le> q + 1" and "c \<le> c'"
    for q q' c c' :: int
    using that by simp
  ultimately show ?thesis unfolding year_start_def by blast
qed

lemma day_of_year_bounds:
  assumes "0 \<le> d" and "d < 146097"
  shows "0 \<le> d - year_start (year_of_era d) \<and> d - year_start (year_of_era d) \<le> 365"
proof (cases "year_of_era d < 399")
  case True
  with year_of_era_bounds [OF assms] year_length [of "year_of_era d"] show ?thesis by linarith
next
  case False
  with year_of_era_bounds [OF assms] have "year_of_era d = 399" by linarith
  with year_of_era_bounds [OF assms] assms(2) show ?thesis by (simp add: year_start_def)
qed

text \<open>The date of a day number leads back to it.\<close>

lemma days_of_civil:
  assumes "civil n = (y, m, d)"
  shows "days_of y m d = n" and "1 \<le> d" and "d \<le> 31" and "1 \<le> m" and "m \<le> 12"
proof -
  define z where "z = n + 306"
  define doe where "doe = z mod 146097"
  define yoe where "yoe = year_of_era doe"
  define doy where "doy = doe - (365 * yoe + yoe div 4 - yoe div 100)"
  define mp where "mp = (5 * doy + 2) div 153"
  have doe: "0 \<le> doe" "doe < 146097" unfolding doe_def by simp_all
  have doy: "0 \<le> doy" "doy \<le> 365"
    using day_of_year_bounds [OF doe] unfolding doy_def yoe_def year_start_def by linarith+
  then have mp: "0 \<le> mp" "mp \<le> 11" unfolding mp_def by linarith+
  have m: "m = (if mp < 10 then mp + 3 else mp - 9)" and d: "d = doy - (153 * mp + 2) div 5 + 1"
    and y: "y = yoe + z div 146097 * 400 + (if m \<le> 2 then 1 else 0)"
    using assms unfolding civil_def Let_def z_def [symmetric] doe_def [symmetric] yoe_def [symmetric]
      doy_def [symmetric] mp_def [symmetric] by auto
  have mp': "(if 2 < m then m - 3 else m + 9) = mp" using m mp by (auto split: if_splits)
  have y': "(if m \<le> 2 then y - 1 else y) = yoe + z div 146097 * 400" using y by simp
  have "days_of y m d = z div 146097 * 146097 + (yoe * 365 + yoe div 4 - yoe div 100 + doy) - 306"
    unfolding days_of_def Let_def mp' y' d
    using year_of_era_bounds [OF doe, folded yoe_def] by simp
  also have "\<dots> = z div 146097 * 146097 + doe - 306" unfolding doy_def by simp
  also have "\<dots> = n" unfolding doe_def z_def by simp
  finally show "days_of y m d = n" .
  show "1 \<le> d" unfolding d mp_def by linarith
  have "doy \<le> (153 * mp + 2 + 148) div 5" unfolding mp_def by linarith
  also have "\<dots> \<le> (153 * mp + 2) div 5 + 30" by linarith
  finally show "d \<le> 31" unfolding d by simp
  show "1 \<le> m" "m \<le> 12" using m mp by (auto split: if_splits)
qed

section \<open>Days and months in Vietnam\<close>

text \<open>
  The documented content of the time zone database, for an hour of day that is 7 hours ahead from
  some hours after the last change on.
\<close>

definition vn_since :: time where
  "vn_since = days_of 1975 6 13 * day"

definition vn_ahead :: int where
  "vn_ahead = 7 * hour"

definition tzdata_ok :: "zone_database \<Rightarrow> bool" where
  "tzdata_ok zd \<longleftrightarrow>
     (case zd ''Asia/Ho_Chi_Minh'' of None \<Rightarrow> True
      | Some loc \<Rightarrow> \<forall>u \<ge> Unix vn_since. loc u = 7 * 3600)"

lemma VNLoc_since: "tzdata_ok zd \<Longrightarrow> vn_since \<le> t \<Longrightarrow> VNLoc zd (Unix t) * second = vn_ahead"
  using Unix_mono [of vn_since t]
  by (auto simp: tzdata_ok_def VNLoc_def mustLoad_def FixedZone_def vn_ahead_def hour_def split: option.splits)

text \<open>The local day of an instant, counted from 0001-01-01.\<close>

definition local_day :: "time \<Rightarrow> int" where
  "local_day t = (t + vn_ahead) div day"

lemma day_pos: "0 < day"
  by (simp add: day_def hour_def second_def)

lemma vn_ahead_bounds: "0 \<le> vn_ahead" "vn_ahead < day"
  by (simp_all add: vn_ahead_def day_def hour_def second_def)

lemma ToVN_since: "tzdata_ok zd \<Longrightarrow> vn_since \<le> t \<Longrightarrow> In t (VNLoc zd) = t + vn_ahead"
  by (simp add: In_def VNLoc_since)

lemma Date_since:
  assumes "tzdata_ok zd" and "days_of y m d * day + hh * hour + mm * (60 * second) + ss * second + ns = u"
    and "vn_since + vn_ahead \<le> u"
  shows "Date y m d hh mm ss ns (VNLoc zd) = u - vn_ahead"
  using assms vn_ahead_bounds(1) by (simp add: Date_def Let_def VNLoc_since)

lemma days_of_local: "days_of (Year (t + vn_ahead)) (Month (t + vn_ahead)) d = local_day t + (d - Day (t + vn_ahead))"
proof -
  obtain y m d' where c: "civil (local_day t) = (y, m, d')" by (cases "civil (local_day t)") auto
  have "days_of y m d = days_of y m d' + (d - d')" by (simp add: days_of_def Let_def)
  with days_of_civil(1) [OF c] c show ?thesis
    by (simp add: Year_def Month_def Day_def local_day_def [symmetric])
qed

lemma Day_bounds: "1 \<le> Day v" "Day v \<le> 31"
  using days_of_civil(2,3) [of "v div day"] by (auto simp: Day_def split: prod.splits)

lemma local_day_of: "local_day t = k \<longleftrightarrow> k * day \<le> t + vn_ahead \<and> t + vn_ahead < k * day + day"
proof
  assume "local_day t = k"
  then have "t + vn_ahead = k * day + (t + vn_ahead) mod day" by (auto simp: local_day_def)
  with pos_mod_bound [OF day_pos, of "t + vn_ahead"] pos_mod_sign [OF day_pos, of "t + vn_ahead"]
  show "k * day \<le> t + vn_ahead \<and> t + vn_ahead < k * day + day" by linarith
next
  assume b: "k * day \<le> t + vn_ahead \<and> t + vn_ahead < k * day + day"
  show "local_day t = k" unfolding local_day_def
    by (rule int_div_pos_eq [of _ _ _ "t + vn_ahead - k * day"]) (use b in simp_all)
qed

lemmas local_day_bounds = local_day_of [THEN iffD1, OF refl]

lemma StartOfDayVN_eq:
  assumes "tzdata_ok zd" and "vn_since + day \<le> t"
  shows "StartOfDayVN zd t = local_day t * day - vn_ahead"
proof -
  have "In t (VNLoc zd) = t + vn_ahead" using assms day_pos by (intro ToVN_since) simp_all
  then show ?thesis
    using assms local_day_bounds [of t]
    by (simp add: StartOfDayVN_def Let_def) (rule Date_since, simp_all add: days_of_local)
qed

lemma end_of_day: "23 * hour + 59 * (60 * second) + 59 * second + (second - 1) = day - 1"
  by (simp add: day_def hour_def second_def)

lemma EndOfDayVN_eq:
  assumes "tzdata_ok zd" and "vn_since + day \<le> t"
  shows "EndOfDayVN zd t = local_day t * day - vn_ahead + day - 1"
proof -
  have "In t (VNLoc zd) = t + vn_ahead" using assms day_pos by (intro ToVN_since) simp_all
  then have "EndOfDayVN zd t = (local_day t * day + day - 1) - vn_ahead"
    using assms local_day_bounds [of t] end_of_day day_pos
    by (simp add: EndOfDayVN_def Let_def) (rule Date_since, simp_all add: days_of_local)
  then show ?thesis by simp
qed

lemma StartOfMonthVN_eq:
  assumes "tzdata_ok zd" and "vn_since + 32 * day \<le> t"
  shows "StartOfMonthVN zd t = local_day t * day - (Day (t + vn_ahead) - 1) * day - vn_ahead"
proof -
  define gone where "gone = (Day (t + vn_ahead) - 1) * day"
  have "In t (VNLoc zd) = t + vn_ahead" using assms day_pos by (intro ToVN_since) simp_all
  moreover have "gone \<le> 30 * day"
    unfolding gone_def using Day_bounds(2) [of "t + vn_ahead"] day_pos by (intro mult_right_mono) simp_all
  moreover have "days_of (Year (t + vn_ahead)) (Month (t + vn_ahead)) 1 * day = local_day t * day - gone"
    unfolding days_of_local gone_def by (simp add: left_diff_distrib distrib_right)
  ultimately show ?thesis
    unfolding gone_def [symmetric] using assms local_day_bounds [of t] day_pos
    by (simp add: StartOfMonthVN_def Let_def) (rule Date_since, simp_all)
qed

text \<open>
  C37: the day and the month of an instant from the second half of July 1975 on, on Vietnamese
  clocks. The day contains the instant and is one nanosecond short of 24 hours from its first to its
  last instant; all its instants have the same first instant and the next instant begins the next
  day; and the first of the month is a whole number of days before, as many as the date says. The
  time zone database is as documented, or missing. Before, the clocks changed several times, and the
  days of a change are not of 24 hours.
\<close>

theorem vietnamese_days:
  assumes "tzdata_ok zd" and "vn_since + 32 * day \<le> t"
  shows "StartOfDayVN zd t \<le> t \<and> t \<le> EndOfDayVN zd t \<and> EndOfDayVN zd t - StartOfDayVN zd t = day - 1 \<and>
   StartOfDayVN zd (StartOfDayVN zd t) = StartOfDayVN zd t \<and>
   StartOfDayVN zd (EndOfDayVN zd t) = StartOfDayVN zd t \<and>
   StartOfDayVN zd (EndOfDayVN zd t + 1) = StartOfDayVN zd t + day \<and>
   StartOfMonthVN zd t = StartOfDayVN zd t - (Day (ToVN zd t) - 1) * day \<and>
   1 \<le> Day (ToVN zd t) \<and> Day (ToVN zd t) \<le> 31"
proof -
  define k D where "k = local_day t" and "D = day"
  have D: "0 < D" "vn_since + 32 * D \<le> t" using day_pos assms(2) by (simp_all add: D_def)
  have b: "k * D \<le> t + vn_ahead" "t + vn_ahead < k * D + D"
    using local_day_bounds [of t] by (simp_all add: k_def D_def)
  have start: "StartOfDayVN zd t = k * D - vn_ahead" and "end": "EndOfDayVN zd t = k * D - vn_ahead + D - 1"
    using StartOfDayVN_eq [OF assms(1), of t] EndOfDayVN_eq [OF assms(1), of t] D by (simp_all add: k_def D_def)
  have days: "StartOfDayVN zd s = k' * D - vn_ahead" if "k \<le> k'" "k' * D \<le> s + vn_ahead" "s + vn_ahead < k' * D + D" for s k'
  proof -
    have "k * D \<le> k' * D" using that(1) D(1) by (intro mult_right_mono) simp_all
    with that b D have "vn_since + D \<le> s" by linarith
    moreover have "local_day s = k'" using that by (simp add: local_day_of D_def)
    ultimately show ?thesis using StartOfDayVN_eq [OF assms(1), of s] by (simp add: D_def)
  qed
  have "StartOfDayVN zd (k * D - vn_ahead) = k * D - vn_ahead"
    "StartOfDayVN zd (k * D - vn_ahead + D - 1) = k * D - vn_ahead"
    "StartOfDayVN zd (k * D - vn_ahead + D) = (k + 1) * D - vn_ahead"
    using D(1) by (intro days; simp add: algebra_simps)+
  moreover have "ToVN zd t = t + vn_ahead"
    unfolding ToVN_def using assms day_pos by (intro ToVN_since) simp_all
  moreover have "StartOfMonthVN zd t = k * D - (Day (t + vn_ahead) - 1) * D - vn_ahead"
    using StartOfMonthVN_eq [OF assms] by (simp add: k_def D_def)
  ultimately show ?thesis
    using b Day_bounds [of "t + vn_ahead"] unfolding start "end" D_def [symmetric] by (simp add: algebra_simps)
qed

text \<open>The witness: the last evening of February 2024 in UTC is the first of March in Vietnam.\<close>

definition sample_zones :: zone_database where
  "sample_zones name =
     (if name = ''Asia/Ho_Chi_Minh''
      then Some (\<lambda>u. if u < Unix (vn_since - 8 * hour) then 8 * 3600 else 7 * 3600) else None)"

lemma tzdata_ok_sample: "tzdata_ok sample_zones"
proof -
  have "Unix (vn_since - 8 * hour) \<le> Unix vn_since" by (intro Unix_mono) (simp add: hour_def second_def)
  then show ?thesis by (auto simp: tzdata_ok_def sample_zones_def)
qed

theorem vietnamese_days_witness:
  "let t = days_of 2024 2 29 * day + 18 * hour in
     StartOfDayVN sample_zones t \<le> t \<and> t \<le> EndOfDayVN sample_zones t \<and> Day (ToVN sample_zones t) \<le> 31"
proof -
  have "vn_since + 32 * day \<le> days_of 2024 2 29 * day + 18 * hour" by code_simp
  from vietnamese_days [OF tzdata_ok_sample this] show ?thesis unfolding Let_def by blast
qed

end
