(* ===== verification/Excel.thy ===== *)
theory Excel
  imports Go_Runes App_Error "HOL-Library.Sublist"
begin

text \<open>
  \<open>pkg/xexcel/excel.go\<close>: sheets read as rows keyed by normalised headers, and the numbers of messy
  cells. The file itself is the spreadsheet library's; a \<open>workbook\<close> is what the library answers.
  Dates are left out: their last resort is a floating-point number in any notation.
\<close>

lemma byte_inject: "byte c = byte d \<longleftrightarrow> c = d"
  by (simp add: byte_def)

section \<open>Headers\<close>

text \<open>\<open>WriteRune\<close>: the UTF-8 bytes of a code point.\<close>

definition rune_bytes :: "nat \<Rightarrow> nat list" where
  "rune_bytes r =
     (if r < 128 then [r]
      else if r < 2048 then [192 + r div 64, 128 + r mod 64]
      else if 1114111 < r \<or> 55296 \<le> r \<and> r \<le> 57343 then [239, 191, 189]
      else if r < 65536 then [224 + r div 4096, 128 + r div 64 mod 64, 128 + r mod 64]
      else [240 + r div 262144, 128 + r div 4096 mod 64, 128 + r div 64 mod 64, 128 + r mod 64])"

definition rune_string :: "nat \<Rightarrow> string" where
  "rune_string r = map char_of (rune_bytes r)"

text \<open>The table is built over a map; its groups have no rune in common, so their order is immaterial.\<close>

definition accented_groups :: "(nat \<times> nat list) list" where
  "accented_groups =
     [(97, [224, 225, 7843, 227, 7841, 259, 7857, 7855, 7859, 7861, 7863, 226, 7847, 7845, 7849, 7851, 7853]),
      (101, [232, 233, 7867, 7869, 7865, 234, 7873, 7871, 7875, 7877, 7879]),
      (105, [236, 237, 7881, 297, 7883]),
      (111, [242, 243, 7887, 245, 7885, 244, 7891, 7889, 7893, 7895, 7897, 417, 7901, 7899, 7903, 7905, 7907]),
      (117, [249, 250, 7911, 361, 7909, 432, 7915, 7913, 7917, 7919, 7921]),
      (121, [7923, 253, 7927, 7929, 7925]),
      (100, [273])]"

definition add_accented :: "unicode \<Rightarrow> nat \<Rightarrow> nat \<Rightarrow> (nat \<rightharpoonup> nat) \<Rightarrow> (nat \<rightharpoonup> nat)" where
  "add_accented U base r m =
     fold (\<lambda>ur m. m(ur \<mapsto> hd (runes (ToUpper U (rune_string base))))) (runes (ToUpper U (rune_string r)))
       (m(r \<mapsto> base))"

definition vnDiacritics :: "unicode \<Rightarrow> nat \<rightharpoonup> nat" where
  "vnDiacritics U =
     fold (\<lambda>(base, accented) m. fold (add_accented U base) accented m) accented_groups Map.empty"

definition StripDiacritics :: "unicode \<Rightarrow> string \<Rightarrow> string" where
  "StripDiacritics U s =
     (let table = vnDiacritics U in
      concat (map (\<lambda>r. case table r of Some repl \<Rightarrow> rune_string repl | None \<Rightarrow> rune_string r) (runes s)))"

text \<open>\<open>strings.Fields\<close>: the maximal runs without white space.\<close>

definition at_space :: "string \<Rightarrow> bool" where
  "at_space s \<longleftrightarrow> (\<exists>p \<in> set space_encodings. prefix p s)"

fun word :: "string \<Rightarrow> string" where
  "word [] = []"
| "word (c # s) = (if at_space (c # s) then [] else c # word s)"

lemma strip_front_not_at_space: "\<not> at_space (strip_front space_encodings s)"
proof -
  have ne: "p \<noteq> []" if "p \<in> set space_encodings" for p
    using that by (auto simp: space_encodings_def)
  have "\<not> prefix p (strip_front space_encodings s)" if "p \<in> set space_encodings" for p
    using bspec [OF strip_front_none [of space_encodings s, unfolded find_None_conv] that] ne [OF that]
    by simp
  then show ?thesis unfolding at_space_def by simp
qed

lemma word_progress:
  assumes "strip_front space_encodings s \<noteq> []"
  shows "0 < length (word (strip_front space_encodings s))"
  using assms strip_front_not_at_space [of s] by (cases "strip_front space_encodings s") simp_all

function Fields :: "string \<Rightarrow> string list" where
  "Fields s =
     (let t = strip_front space_encodings s in
      if t = [] then [] else word t # Fields (drop (length (word t)) t))"
  by pat_completeness auto
termination
proof (relation "measure length")
  fix s t :: string
  assume t: "t = strip_front space_encodings s" and ne: "t \<noteq> []"
  have "length t \<le> length s" unfolding t by (rule suffix_length_le [OF strip_front_suffix])
  moreover have "0 < length (word t)" and "0 < length t"
    using word_progress [of s] t ne by simp_all
  ultimately show "(drop (length (word t)) t, s) \<in> measure length"
    unfolding in_measure length_drop by linarith
qed simp

declare Fields.simps [simp del]

definition NormalizeHeader :: "unicode \<Rightarrow> string \<Rightarrow> string" where
  "NormalizeHeader U s = Join (Fields (StripDiacritics U (ToLower U (TrimSpace s)))) '' ''"

section \<open>Sheets\<close>

record workbook =
  wb_active :: string
  wb_GetSheetList :: "string list"
  wb_GetRows :: "string \<Rightarrow> gerr + string list list"

definition FirstSheet :: "workbook \<Rightarrow> string" where
  "FirstSheet f =
     (if wb_active f \<noteq> '''' then wb_active f
      else case wb_GetSheetList f of n # ns \<Rightarrow> n | [] \<Rightarrow> ''Sheet1'')"

type_synonym xrow = "string \<rightharpoonup> string"

text \<open>One data row: the map being filled and whether no cell under a header had a value.\<close>

fun fill_row :: "string list \<Rightarrow> string list \<Rightarrow> xrow \<Rightarrow> bool \<Rightarrow> xrow \<times> bool" where
  "fill_row [] cells row blank = (row, blank)"
| "fill_row (h # hs) cells row blank =
     (if h = '''' then fill_row hs (tl cells) row blank
      else
        (let v = (case cells of [] \<Rightarrow> '''' | c # cs \<Rightarrow> TrimSpace c) in
         fill_row hs (tl cells) (row(h \<mapsto> v)) (blank \<and> v = '''')))"

definition read_row :: "string list \<Rightarrow> string list \<Rightarrow> xrow option" where
  "read_row headers cells =
     (case fill_row headers cells Map.empty True of (row, blank) \<Rightarrow> if blank then None else Some row)"

definition ReadSheetAsMaps ::
  "unicode \<Rightarrow> workbook \<Rightarrow> string \<Rightarrow> nat \<Rightarrow> gerr + (xrow list \<times> string list)" where
  "ReadSheetAsMaps U f sheet headerRowIdx =
     (case wb_GetRows f sheet of
        Inl err \<Rightarrow> Inl err
      | Inr raw \<Rightarrow>
          (if length raw \<le> headerRowIdx then Inr ([], [])
           else
             (let headers = map (NormalizeHeader U) (raw ! headerRowIdx) in
              Inr (List.map_filter (read_row headers) (drop (headerRowIdx + 1) raw), headers))))"

fun Pick :: "unicode \<Rightarrow> xrow \<Rightarrow> string list \<Rightarrow> string" where
  "Pick U r [] = ''''"
| "Pick U r (a # as) =
     (case r (NormalizeHeader U a) of
        Some v \<Rightarrow> if v \<noteq> '''' then v else Pick U r as
      | None \<Rightarrow> Pick U r as)"

definition Has :: "unicode \<Rightarrow> xrow \<Rightarrow> string list \<Rightarrow> bool" where
  "Has U r aliases \<longleftrightarrow> Pick U r aliases \<noteq> ''''"

text \<open>
  Every row has exactly the named columns as its keys; and where no name occurs twice, each holds
  the trimmed cell of its column and the row is not blank.
\<close>

lemma fill_row_dom: "dom (fst (fill_row hs cells row e)) = dom row \<union> (set hs - {''''})"
proof (induction hs arbitrary: cells row e)
  case (Cons h hs)
  have split: "set (h # hs) - {''''} = (if h = '''' then set hs - {''''} else insert h (set hs - {''''}))"
    by auto
  show ?case unfolding split fill_row.simps Let_def by (simp add: Cons.IH del: fun_upd_apply)
qed simp

lemma fill_row_other: "k \<notin> set hs \<Longrightarrow> fst (fill_row hs cells row e) k = row k"
  by (induction hs arbitrary: cells row e) (simp_all add: Let_def)

definition cell :: "string list \<Rightarrow> nat \<Rightarrow> string" where
  "cell cells i = (if i < length cells then TrimSpace (cells ! i) else '''')"

lemma cell_Suc: "cell cells (Suc i) = cell (tl cells) i"
  by (cases cells) (simp_all add: cell_def)

text \<open>The cell of the next column, as the loop finds it.\<close>

lemma first_cell: "(case cells of [] \<Rightarrow> '''' | c # cs \<Rightarrow> TrimSpace c) = cell cells 0"
  by (simp add: cell_def split: list.split)

lemma fill_row_value:
  "distinct (filter (\<lambda>h. h \<noteq> '''') hs) \<Longrightarrow> i < length hs \<Longrightarrow> hs ! i \<noteq> '''' \<Longrightarrow>
     fst (fill_row hs cells row e) (hs ! i) = Some (cell cells i)"
proof (induction hs arbitrary: i cells row e)
  case (Cons h hs)
  show ?case
  proof (cases i)
    case 0
    with Cons.prems show ?thesis by (simp add: Let_def fill_row_other first_cell)
  next
    case (Suc j)
    with Cons.prems have "distinct (filter (\<lambda>h. h \<noteq> '''') hs)" by (simp split: if_splits)
    with Cons Suc show ?thesis by (simp add: Let_def cell_Suc)
  qed
qed simp

lemma fill_row_blank:
  "snd (fill_row hs cells row e) \<longleftrightarrow> e \<and> (\<forall>i < length hs. hs ! i \<noteq> '''' \<longrightarrow> cell cells i = '''')"
proof (induction hs arbitrary: cells row e)
  case (Cons h hs)
  have all: "(\<forall>i < length (h # hs). (h # hs) ! i \<noteq> '''' \<longrightarrow> cell cells i = '''') \<longleftrightarrow>
      (h \<noteq> '''' \<longrightarrow> cell cells 0 = '''') \<and>
      (\<forall>i < length hs. hs ! i \<noteq> '''' \<longrightarrow> cell (tl cells) i = '''')"
    unfolding length_Cons All_less_Suc2 by (simp add: cell_Suc)
  show ?case unfolding all fill_row.simps first_cell Let_def by (simp add: Cons.IH del: fun_upd_apply)
qed simp

definition sheet_row :: "string list \<Rightarrow> string list \<Rightarrow> xrow \<Rightarrow> bool" where
  "sheet_row headers cells row \<longleftrightarrow>
     dom row = set headers - {''''} \<and>
     (\<forall>i < length headers. headers ! i \<noteq> '''' \<longrightarrow> row (headers ! i) = Some (cell cells i))"

definition filled :: "string list \<Rightarrow> string list \<Rightarrow> bool" where
  "filled headers cells \<longleftrightarrow> (\<exists>i < length headers. headers ! i \<noteq> '''' \<and> cell cells i \<noteq> '''')"

lemma read_row_cases:
  assumes "distinct (filter (\<lambda>h. h \<noteq> '''') headers)"
  shows "if filled headers cells then \<exists>row. read_row headers cells = Some row \<and> sheet_row headers cells row
    else read_row headers cells = None"
  using assms
  by (auto simp: read_row_def split_def filled_def sheet_row_def fill_row_blank fill_row_value fill_row_dom)

lemma read_rows:
  assumes "distinct (filter (\<lambda>h. h \<noteq> '''') headers)"
  shows "list_all2 (sheet_row headers) (filter (filled headers) raw) (List.map_filter (read_row headers) raw)"
proof (induction raw)
  case (Cons cells raw)
  with read_row_cases [OF assms, of cells] show ?case by (auto simp: List.map_filter_def)
qed (simp add: List.map_filter_def)

section \<open>Plain headers\<close>

text \<open>An ASCII header has no diacritics, if no accented letter has an ASCII capital.\<close>

definition accents_stay :: "unicode \<Rightarrow> bool" where
  "accents_stay U \<longleftrightarrow>
     (\<forall>g \<in> set accented_groups. \<forall>r \<in> set (snd g). \<forall>ur \<in> set (runes (ToUpper U (rune_string r))). 128 \<le> ur)"

lemma fold_upd_other: "k \<notin> set ks \<Longrightarrow> fold (\<lambda>x m. m(x \<mapsto> v)) ks m k = m k"
  by (induction ks arbitrary: m) simp_all

lemma fold_unchanged:
  "(\<And>x m. x \<in> set xs \<Longrightarrow> f x m k = m k) \<Longrightarrow> fold f xs m k = m k" for f :: "'a \<Rightarrow> (nat \<rightharpoonup> nat) \<Rightarrow> (nat \<rightharpoonup> nat)"
  by (induction xs arbitrary: m) simp_all

lemma accented_high: "g \<in> set accented_groups \<Longrightarrow> r \<in> set (snd g) \<Longrightarrow> 128 \<le> r"
  by (auto simp: accented_groups_def)

lemma vnDiacritics_ascii:
  assumes "accents_stay U" and "k < 128"
  shows "vnDiacritics U k = None"
proof -
  have "add_accented U base r m k = m k" if "(base, accented) \<in> set accented_groups" "r \<in> set accented"
    for base accented r m
  proof -
    have "\<forall>ur \<in> set (runes (ToUpper U (rune_string r))). 128 \<le> ur"
      using assms(1) that unfolding accents_stay_def by fastforce
    then have "k \<notin> set (runes (ToUpper U (rune_string r)))" and "k \<noteq> r"
      using assms(2) that accented_high [OF that(1), of r] by auto
    then show ?thesis by (simp add: add_accented_def fold_upd_other)
  qed
  then have "(case g of (base, accented) \<Rightarrow> \<lambda>m. fold (add_accented U base) accented m) m k = m k"
    if "g \<in> set accented_groups" for g m
    using that by (cases g) (auto intro!: fold_unchanged)
  then have "vnDiacritics U k = Map.empty k" unfolding vnDiacritics_def by (rule fold_unchanged)
  then show ?thesis by simp
qed

lemma StripDiacritics_ascii:
  assumes "accents_stay U" and "is_ascii s"
  shows "StripDiacritics U s = s"
proof -
  have runes: "runes s = map byte s"
    unfolding runes_def by (rule runes_of_ascii) (use assms(2) in \<open>auto simp: is_ascii_def\<close>)
  have "rune_string (byte c) = [c]" if "c \<in> set s" for c
    using assms(2) that by (simp add: is_ascii_def rune_string_def rune_bytes_def byte_def)
  moreover have "vnDiacritics U (byte c) = None" if "c \<in> set s" for c
    using assms that by (simp add: is_ascii_def vnDiacritics_ascii)
  ultimately have "StripDiacritics U s = concat (map (\<lambda>c. [c]) s)"
    unfolding StripDiacritics_def runes Let_def map_map comp_def
    by (intro arg_cong [where f = concat] map_cong refl) simp
  then show ?thesis by simp
qed

definition printable :: "string \<Rightarrow> bool" where
  "printable s \<longleftrightarrow> (\<forall>c \<in> set s. 33 \<le> byte c \<and> byte c < 128)"

lemma printable_not_at_space: "printable (c # s) \<Longrightarrow> \<not> at_space (c # s)"
  by (auto simp: at_space_def space_encodings_def printable_def byte_def)

lemma Fields_printable: "printable s \<Longrightarrow> s \<noteq> '''' \<Longrightarrow> Fields s = [s]"
proof -
  assume s: "printable s" "s \<noteq> ''''"
  have word: "word t = t" if "printable t" for t
    using that
  proof (induction t)
    case (Cons c t)
    moreover from Cons.prems have "printable t" by (simp add: printable_def)
    ultimately show ?case using printable_not_at_space [OF Cons.prems] by simp
  qed simp
  have "\<not> at_space s" using s printable_not_at_space by (cases s) simp_all
  then have strip: "strip_front space_encodings s = s"
    by (intro strip_front_id) (simp add: at_space_def find_None_conv)
  have "Fields [] = []" by (simp add: Fields.simps strip_front_id find_None_conv space_encodings_def)
  with s strip word [OF s(1)] show ?thesis by (simp add: Fields.simps [of s])
qed

text \<open>A header of one printable ASCII word is lowered, and otherwise stays.\<close>

lemma NormalizeHeader_word:
  assumes "accents_stay U" and "printable s" and "s \<noteq> ''''"
  shows "NormalizeHeader U s = map ascii_lower s"
proof -
  have trim: "TrimSpace s = s" using assms(2) by (intro TrimSpace_id) (simp add: printable_def)
  have ascii: "is_ascii s" using assms(2) by (auto simp: is_ascii_def printable_def)
  have low: "byte (ascii_lower c) = (if 65 \<le> byte c \<and> byte c \<le> 90 then byte c + 32 else byte c)" for c
    by (auto simp: ascii_lower_def byte_def)
  have print: "printable (map ascii_lower s)" using assms(2) by (auto simp: printable_def low)
  then have "is_ascii (map ascii_lower s)" by (auto simp: is_ascii_def printable_def)
  with assms print Fields_printable [OF print] show ?thesis
    by (simp add: NormalizeHeader_def trim ToLower_def ascii StripDiacritics_ascii)
qed

section \<open>Reading a sheet\<close>

text \<open>
  A sheet is read row by row. Where the header row exists and no name occurs twice in it, the
  result has one row, in the sheet's order, for each row below the header with a value in a named
  column; its keys are the named columns, and each holds the trimmed cell, or nothing where the
  row is short. Columns without a name are dropped.
\<close>

theorem sheet_rows:
  assumes "wb_GetRows f sheet = Inr raw" and "k < length raw"
    and "distinct (filter (\<lambda>h. h \<noteq> '''') (map (NormalizeHeader U) (raw ! k)))"
  shows "\<exists>rows. ReadSheetAsMaps U f sheet k = Inr (rows, map (NormalizeHeader U) (raw ! k)) \<and>
    list_all2 (sheet_row (map (NormalizeHeader U) (raw ! k)))
      (filter (filled (map (NormalizeHeader U) (raw ! k))) (drop (k + 1) raw)) rows"
  using assms read_rows [OF assms(3), of "drop (k + 1) raw"] by (simp add: ReadSheetAsMaps_def Let_def)

definition sample_sheet :: workbook where
  "sample_sheet = \<lparr>wb_active = ''Staff'', wb_GetSheetList = [''Staff''],
     wb_GetRows = (\<lambda>sheet. Inr [[''Name'', ''Code''], [''An''], [], [''Binh'', ''ST02'']])\<rparr>"

definition plain_unicode :: unicode where
  "plain_unicode = \<lparr>u_lower = id, u_upper = (\<lambda>s. '''')\<rparr>"

theorem sheet_rows_witness:
  "\<exists>rows. ReadSheetAsMaps plain_unicode sample_sheet (FirstSheet sample_sheet) 0 = Inr (rows, [''name'', ''code'']) \<and>
    list_all2 (sheet_row [''name'', ''code''])
      (filter (filled [''name'', ''code'']) [[''An''], [], [''Binh'', ''ST02'']]) rows"
proof -
  have high: "\<not> is_ascii (rune_string r)" if "128 \<le> r" for r
  proof -
    have "\<exists>b bs. rune_bytes r = b # bs \<and> 192 \<le> b \<and> b < 256"
      using that by (auto simp: rune_bytes_def)
    then show ?thesis by (auto simp: rune_string_def is_ascii_def byte_def)
  qed
  have "accents_stay plain_unicode"
    unfolding accents_stay_def plain_unicode_def
    using high accented_high by (auto simp: ToUpper_def runes_def runes_of.simps)
  moreover have "ascii_lower (CHR ''N'') = CHR ''n''" "ascii_lower (CHR ''C'') = CHR ''c''"
    by (simp_all add: byte_inject [symmetric]) (simp_all add: ascii_lower_def byte_def)
  moreover have "map ascii_lower ''ame'' = ''ame''" "map ascii_lower ''ode'' = ''ode''"
    by (simp_all add: ascii_lower_def byte_def)
  ultimately have "map (NormalizeHeader plain_unicode) [''Name'', ''Code''] = [''name'', ''code'']"
    by (simp add: NormalizeHeader_word printable_def byte_def)
  then show ?thesis
    using sheet_rows [of sample_sheet "FirstSheet sample_sheet" _ 0 plain_unicode]
    by (simp add: sample_sheet_def)
qed

end

