(* ===== verification/Cell_Number.thy ===== *)
theory Cell_Number
  imports Excel
begin

text \<open>
  The numbers of messy cells in \<open>pkg/xexcel/excel.go\<close>: what \<open>cleanNumber\<close> keeps of a cell and which
  of its separators it takes for the decimal point, and the integer \<open>ParseInt\<close> reads from it. The
  decimal library is a parameter.
\<close>

section \<open>Cleaning\<close>

definition number_rune :: "nat \<Rightarrow> bool" where
  "number_rune r \<longleftrightarrow> 48 \<le> r \<and> r \<le> 57 \<or> r = 46 \<or> r = 44 \<or> r = 45 \<or> r = 43"

definition number_runes :: "string \<Rightarrow> string" where
  "number_runes s = concat (map rune_string (filter number_rune (runes s)))"

text \<open>\<open>strings.Replace(s, old, new, 1)\<close>, and \<open>strings.Count\<close> of a single byte.\<close>

definition Replace1 :: "string \<Rightarrow> string \<Rightarrow> string \<Rightarrow> string" where
  "Replace1 s old new =
     (let i = Index s old in
      if i < 0 then s else take (nat i) s @ new @ drop (nat i + length old) s)"

definition Count :: "string \<Rightarrow> char \<Rightarrow> nat" where
  "Count s c = length (filter (\<lambda>d. d = c) s)"

definition cleanNumber :: "string \<Rightarrow> string" where
  "cleanNumber s =
     (let s = TrimSpace s in
      if s = '''' then ''''
      else let c = number_runes s in
        if c = '''' then ''''
        else
          let lastDot = LastIndex c ''.''; lastComma = LastIndex c '','' in
          if 0 \<le> lastDot \<and> 0 \<le> lastComma then
            (if lastDot < lastComma then Replace1 (ReplaceAll c ''.'' '''') '','' ''.''
             else ReplaceAll c '','' '''')
          else if 0 \<le> lastComma then
            (if int (length c) - lastComma - 1 = 3 \<and> 1 \<le> Count c (CHR '','') \<and>
                \<not> Contains (take (nat lastComma) c) ''.''
             then ReplaceAll c '','' ''''
             else ReplaceAll (Replace1 c '','' ''.'') '','' '''')
          else if 1 < Count c (CHR ''.'') then
            (let i = nat (LastIndex c ''.'') in ReplaceAll (take i c) ''.'' '''' @ drop i c)
          else c)"

section \<open>Parsing\<close>

text \<open>
  \<open>strconv.ParseFloat\<close> of a number in plain decimal notation, as \<open>int64\<close> sees it: the integer part
  of the double nearest to \<open>a / b\<close>, ties to even, with 53 significant bits; \<open>None\<close> beyond the
  largest double. Doubles below one half have more bits than are kept here, and integer part 0.
\<close>

fun bit_size :: "nat \<Rightarrow> nat" where
  "bit_size n = (if n = 0 then 0 else Suc (bit_size (n div 2)))"

declare bit_size.simps [simp del]

definition round_half_even :: "nat \<Rightarrow> nat \<Rightarrow> nat" where
  "round_half_even a b =
     (let q = a div b; r = a mod b in if b < 2 * r \<or> b = 2 * r \<and> odd q then q + 1 else q)"

definition double_floor :: "nat \<Rightarrow> nat \<Rightarrow> nat option" where
  "double_floor a b =
     (let L = bit_size (a div b);
          r = (if L \<le> 53 then round_half_even (a * 2 ^ (53 - L)) b div 2 ^ (53 - L)
               else round_half_even a (b * 2 ^ (L - 53)) * 2 ^ (L - 53)) in
      if 2 ^ 1024 \<le> r then None else Some r)"

text \<open>
  \<open>int64(f)\<close>; out of range the value depends on the processor, and is the smallest integer on amd64.
\<close>

definition int64_of :: "int \<Rightarrow> int" where
  "int64_of i = (if in_int64 i then i else min_int64)"

definition ParseFloat_int64 :: "string \<Rightarrow> int option" where
  "ParseFloat_int64 c =
     (let neg = (c \<noteq> [] \<and> hd c = CHR ''-'');
          body = (if c \<noteq> [] \<and> (hd c = CHR ''-'' \<or> hd c = CHR ''+'') then tl c else c) in
      case SplitN2 body (CHR ''.'') of
        [ip] \<Rightarrow>
          (if ip = '''' then None
           else Option.bind (digits_val 0 ip) (\<lambda>a.
             map_option (\<lambda>v. int64_of (if neg then - int v else int v)) (double_floor a 1)))
      | [ip, fp] \<Rightarrow>
          (if ip @ fp = '''' then None
           else Option.bind (digits_val 0 (ip @ fp)) (\<lambda>a.
             map_option (\<lambda>v. int64_of (if neg then - int v else int v)) (double_floor a (10 ^ length fp))))
      | _ \<Rightarrow> None)"

definition excel_ParseInt :: "string \<Rightarrow> int \<times> bool" where
  "excel_ParseInt s =
     (let c = cleanNumber s in
      if c = '''' then (0, False)
      else case ParseInt c of
        (i, ok) \<Rightarrow>
          (if ok then (i, True)
           else case ParseFloat_int64 c of Some i \<Rightarrow> (i, True) | None \<Rightarrow> (0, False)))"

definition ParseDecimal :: "(string \<Rightarrow> 'd option) \<Rightarrow> 'd \<Rightarrow> string \<Rightarrow> 'd \<times> bool" where
  "ParseDecimal NewFromString decimal_Zero s =
     (let c = cleanNumber s in
      if c = '''' then (decimal_Zero, False)
      else case NewFromString c of Some d \<Rightarrow> (d, True) | None \<Rightarrow> (decimal_Zero, False))"

section \<open>What is kept\<close>

definition number_char :: "char \<Rightarrow> bool" where
  "number_char c \<longleftrightarrow> is_digit c \<or> c \<in> set ''.,-+''"



lemma number_char_byte: "number_char c \<longleftrightarrow> number_rune (byte c)"
proof -
  have "byte c = 46 \<longleftrightarrow> c = CHR ''.''" "byte c = 44 \<longleftrightarrow> c = CHR '',''"
    "byte c = 45 \<longleftrightarrow> c = CHR ''-''" "byte c = 43 \<longleftrightarrow> c = CHR ''+''"
    unfolding byte_inject [symmetric] by (simp_all add: byte_def)
  then show ?thesis by (simp add: number_char_def number_rune_def is_digit_def)
qed

lemma number_runes_eq: "number_runes s = filter number_char s"
proof -
  have "filter number_rune rs = filter number_rune (filter (\<lambda>r. r < 128) rs)" for rs
    by (auto simp: number_rune_def intro!: filter_cong)
  then have "filter number_rune (runes s) = filter number_rune (map byte s)"
    using filter_ascii_runes [of s] by metis
  then have "number_runes s = concat (map rune_string (map byte (filter number_char s)))"
    by (simp add: number_runes_def filter_map comp_def number_char_byte [abs_def])
  also have "\<dots> = concat (map (\<lambda>c. [c]) (filter number_char s))"
    unfolding map_map comp_def
    by (intro arg_cong [where f = concat] map_cong refl)
       (auto simp: number_char_byte number_rune_def rune_string_def rune_bytes_def byte_def)
  finally show ?thesis by simp
qed

lemma filter_strip_front:
  "\<forall>p \<in> set encs. filter P p = [] \<Longrightarrow> filter P (strip_front encs s) = filter P s"
proof (induction encs s rule: strip_front.induct)
  case (1 encs s)
  show ?case
  proof (cases "find (\<lambda>p. p \<noteq> [] \<and> prefix p s) encs")
    case None
    then show ?thesis by (simp add: strip_front_id)
  next
    case (Some p)
    then have "prefix p s" and "filter P p = []"
      using find_Some_in_set [OF Some] 1(2) by simp_all
    then have "filter P s = filter P (drop (length p) s)"
      by (metis prefix_drop_length append_Nil filter_append)
    with 1 Some show ?thesis by (simp add: strip_front.simps [of encs s])
  qed
qed

lemma number_runes_TrimSpace: "filter number_char (TrimSpace s) = filter number_char s"
proof -
  have enc: "\<forall>p \<in> set space_encodings. filter number_char p = []"
    by (simp add: space_encodings_def number_char_def is_digit_def byte_def)
  then have "\<forall>p \<in> set (map rev space_encodings). filter number_char p = []"
    by (auto simp: rev_filter [symmetric])
  from filter_strip_front [OF this, of "rev (strip_front space_encodings s)"]
  have "filter number_char (TrimSpace s) = filter number_char (strip_front space_encodings s)"
    by (simp add: TrimSpace_def rev_filter [symmetric])
  with filter_strip_front [OF enc] show ?thesis by simp
qed

text \<open>So the separators decide, and nothing else of the cell.\<close>

definition separated :: "string \<Rightarrow> string" where
  "separated c =
     (let lastDot = LastIndex c ''.''; lastComma = LastIndex c '','' in
      if 0 \<le> lastDot \<and> 0 \<le> lastComma then
        (if lastDot < lastComma then Replace1 (ReplaceAll c ''.'' '''') '','' ''.''
         else ReplaceAll c '','' '''')
      else if 0 \<le> lastComma then
        (if int (length c) - lastComma - 1 = 3 \<and> 1 \<le> Count c (CHR '','') \<and>
            \<not> Contains (take (nat lastComma) c) ''.''
         then ReplaceAll c '','' ''''
         else ReplaceAll (Replace1 c '','' ''.'') '','' '''')
      else if 1 < Count c (CHR ''.'') then
        (let i = nat (LastIndex c ''.'') in ReplaceAll (take i c) ''.'' '''' @ drop i c)
      else c)"

lemma cleanNumber_separated: "cleanNumber s = separated (filter number_char s)"
proof -
  have "separated '''' = ''''" by (simp add: separated_def Count_def)
  moreover have "filter number_char s = ''''" if "TrimSpace s = ''''"
    using number_runes_TrimSpace [of s] that by simp
  ultimately show ?thesis
    unfolding cleanNumber_def Let_def separated_def [unfolded Let_def, symmetric] number_runes_eq
      number_runes_TrimSpace
    by simp
qed

section \<open>Separators\<close>

lemma ReplaceAll_char: "ReplaceAll s [a] [] = filter (\<lambda>c. c \<noteq> a) s"
  by (induction s) (simp_all add: ReplaceAll_match ReplaceAll_skip)

lemma LastIndex_char: "0 \<le> LastIndex s [a] \<longleftrightarrow> a \<in> set s"
  by (induction s) (simp_all add: Let_def)

lemma Contains_char: "Contains s [a] \<longleftrightarrow> a \<in> set s"
  by (auto simp: Contains_iff in_set_conv_decomp)

lemma LastIndex_less: "LastIndex s [a] < int (length s)"
  by (induction s) (simp_all add: Let_def)

lemma LastIndex_append: "a \<notin> set q \<Longrightarrow> LastIndex (p @ q) [a] = LastIndex p [a]"
proof (induction p)
  case Nil
  then show ?case using LastIndex_char [of q a] LastIndex_ge [of q "[a]"] by simp
next
  case (Cons c p)
  then show ?case by (simp add: Let_def)
qed

lemma LastIndex_at: "a \<notin> set q \<Longrightarrow> LastIndex (p @ a # q) [a] = int (length p)"
proof -
  assume q: "a \<notin> set q"
  have "LastIndex (p @ [a]) [a] = int (length p)" by (induction p) (simp_all add: Let_def)
  with LastIndex_append [OF q, of "p @ [a]"] show ?thesis by simp
qed

lemma Index_at: "a \<notin> set p \<Longrightarrow> Index (p @ a # q) [a] = int (length p)"
  by (induction p) (simp_all add: Let_def)

lemma Replace1_at: "a \<notin> set p \<Longrightarrow> Replace1 (p @ a # q) [a] new = p @ new @ q"
  by (simp add: Replace1_def Index_at)

lemma filter_Join: "\<forall>g \<in> set gs. a \<notin> set g \<Longrightarrow> filter (\<lambda>c. c \<noteq> a) (Join gs [a]) = concat gs"
proof (induction gs "[a]" rule: Join.induct)
  case (2 s)
  then show ?case by (auto simp: filter_id_conv)
next
  case (3 s t ts)
  then have "filter (\<lambda>c. c \<noteq> a) s = s" by (auto simp: filter_id_conv)
  with 3 show ?case by simp
qed simp

lemma set_Join_sep: "\<forall>g \<in> set gs. a \<notin> set g \<Longrightarrow> a \<in> set (Join gs [a]) \<longleftrightarrow> 2 \<le> length gs"
  by (induction gs "[a]" rule: Join.induct) auto

lemma Join_last: "2 \<le> length gs \<Longrightarrow> Join gs sep = Join (butlast gs) sep @ sep @ last gs"
  by (induction gs sep rule: Join.induct) (auto simp: Suc_le_eq)

text \<open>The groups of a number, and the fraction, are digits.\<close>

definition digit_groups :: "string list \<Rightarrow> bool" where
  "digit_groups gs \<longleftrightarrow> gs \<noteq> [] \<and> (\<forall>g \<in> set gs. \<forall>c \<in> set g. is_digit c)"

text \<open>All that matters of a group is that it has no separator; the first may hold the sign too.\<close>

definition plain_groups :: "string list \<Rightarrow> bool" where
  "plain_groups gs \<longleftrightarrow> gs \<noteq> [] \<and> (\<forall>g \<in> set gs. CHR ''.'' \<notin> set g \<and> CHR '','' \<notin> set g)"

lemma digits_no_separator: "\<forall>c \<in> set s. is_digit c \<Longrightarrow> CHR ''.'' \<notin> set s \<and> CHR '','' \<notin> set s"
  by (auto simp: is_digit_def byte_def)

lemma digit_groups_plain: "digit_groups gs \<Longrightarrow> plain_groups gs"
  using digits_no_separator by (auto simp: digit_groups_def plain_groups_def)

lemma groups_no_separator:
  assumes "plain_groups gs"
  shows "\<forall>g \<in> set gs. CHR ''.'' \<notin> set g" and "\<forall>g \<in> set gs. CHR '','' \<notin> set g"
  using assms by (auto simp: plain_groups_def)

text \<open>A sign belongs to the first group.\<close>

definition sign_first :: "string \<Rightarrow> string list \<Rightarrow> string list" where
  "sign_first sg gs = (sg @ hd gs) # tl gs"

lemma sign_first:
  assumes "digit_groups gs" and "sg \<in> {'''', ''-'', ''+''}"
  shows "plain_groups (sign_first sg gs)" and "length (sign_first sg gs) = length gs"
    and "Join (sign_first sg gs) sep = sg @ Join gs sep" and "concat (sign_first sg gs) = sg @ concat gs"
proof -
  obtain g gs' where gs: "gs = g # gs'" using assms(1) by (cases gs) (auto simp: digit_groups_def)
  show "plain_groups (sign_first sg gs)"
    using digit_groups_plain [OF assms(1)] assms(2) by (auto simp: gs sign_first_def plain_groups_def)
  show "length (sign_first sg gs) = length gs" "concat (sign_first sg gs) = sg @ concat gs"
    by (simp_all add: gs sign_first_def)
  show "Join (sign_first sg gs) sep = sg @ Join gs sep"
    by (cases gs') (simp_all add: gs sign_first_def)
qed

lemma Join_other:
  assumes "plain_groups gs"
  shows "CHR ''.'' \<notin> set (Join gs '','')" and "CHR '','' \<notin> set (Join gs ''.'')"
    and "CHR ''.'' \<notin> set (concat gs)" and "CHR '','' \<notin> set (concat gs)"
  using groups_no_separator [OF assms] set_Join [of gs "'',''"] set_Join [of gs "''.''"] by auto

lemma separated_point:
  assumes gs: "plain_groups gs" and frac: "\<forall>c \<in> set frac. is_digit c"
  shows "separated (Join gs '','' @ ''.'' @ frac) = concat gs @ ''.'' @ frac"
proof -
  let ?J = "Join gs '',''"
  let ?c = "?J @ CHR ''.'' # frac"
  note none = digits_no_separator [OF frac] Join_other [OF gs]
  have dot: "LastIndex ?c ''.'' = int (length ?J)" using none by (simp add: LastIndex_at)
  have comma: "LastIndex ?c '','' = LastIndex ?J '',''" using none by (simp add: LastIndex_append)
  have "separated ?c = concat gs @ ''.'' @ frac"
  proof (cases "2 \<le> length gs")
    case True
    then have "0 \<le> LastIndex ?J '',''"
      using set_Join_sep [OF groups_no_separator(2) [OF gs]] by (simp add: LastIndex_char)
    moreover have "LastIndex ?J '','' < int (length ?J)" by (rule LastIndex_less)
    moreover have "filter (\<lambda>c. c \<noteq> CHR '','') frac = frac" using none by (auto simp: filter_id_conv)
    ultimately show ?thesis
      by (simp add: separated_def dot comma ReplaceAll_char filter_Join [OF groups_no_separator(2) [OF gs]])
  next
    case False
    with gs obtain g where g: "gs = [g]" by (cases gs) (auto simp: plain_groups_def Suc_le_eq)
    have "\<not> 0 \<le> LastIndex ?J '',''"
      using False set_Join_sep [OF groups_no_separator(2) [OF gs]] by (simp add: LastIndex_char)
    moreover have "Count ?c (CHR ''.'') = 1"
      using none g by (simp add: Count_def filter_empty_conv) (metis (mono_tags))
    ultimately show ?thesis using g dot comma by (simp add: separated_def)
  qed
  then show ?thesis by simp
qed

lemma separated_comma:
  assumes gs: "plain_groups gs" and frac: "\<forall>c \<in> set frac. is_digit c"
  shows "separated (Join gs ''.'' @ '','' @ frac) =
    (if length gs = 1 \<and> length frac = 3 then concat gs @ frac else concat gs @ ''.'' @ frac)"
proof -
  let ?J = "Join gs ''.''"
  let ?c = "?J @ CHR '','' # frac"
  note none = digits_no_separator [OF frac] Join_other [OF gs]
  have comma: "LastIndex ?c '','' = int (length ?J)" using none by (simp add: LastIndex_at)
  have dot: "LastIndex ?c ''.'' = LastIndex ?J ''.''"
    using none LastIndex_append [of "CHR ''.''" "CHR '','' # frac" ?J] by simp
  have "separated ?c = (if length gs = 1 \<and> length frac = 3 then concat gs @ frac else concat gs @ ''.'' @ frac)"
  proof (cases "2 \<le> length gs")
    case True
    then have "0 \<le> LastIndex ?J ''.''"
      using set_Join_sep [OF groups_no_separator(1) [OF gs]] by (simp add: LastIndex_char)
    moreover have "LastIndex ?J ''.'' < int (length ?J)" by (rule LastIndex_less)
    moreover have "filter (\<lambda>c. c \<noteq> CHR ''.'') frac = frac" using none by (auto simp: filter_id_conv)
    ultimately show ?thesis
      using none True
      by (simp add: separated_def dot comma ReplaceAll_char Replace1_at
          filter_Join [OF groups_no_separator(1) [OF gs]])
  next
    case False
    with gs obtain g where g: "gs = [g]" by (cases gs) (auto simp: plain_groups_def Suc_le_eq)
    have "\<not> 0 \<le> LastIndex ?J ''.''"
      using False set_Join_sep [OF groups_no_separator(1) [OF gs]] by (simp add: LastIndex_char)
    moreover have "filter (\<lambda>c. c \<noteq> CHR '','') frac = frac" "filter (\<lambda>c. c \<noteq> CHR '','') g = g"
      using none g by (auto simp: filter_id_conv)
    ultimately show ?thesis
      using none g False dot comma
      by (simp add: separated_def ReplaceAll_char Replace1_at Count_def Contains_char)
  qed
  then show ?thesis by simp
qed

lemma separated_groups:
  assumes gs: "plain_groups gs" and two: "2 \<le> length gs" and three: "length (last gs) = 3"
  shows "separated (Join gs '','') = concat gs"
proof -
  let ?J = "Join gs '',''" and ?p = "Join (butlast gs) '',''"
  have J: "?J = ?p @ CHR '','' # last gs" using Join_last [OF two, of "'',''"] by simp
  have "last gs \<in> set gs" using gs by (simp add: plain_groups_def)
  then have "CHR '','' \<notin> set (last gs)" using groups_no_separator(2) [OF gs] by blast
  then have comma: "LastIndex ?J '','' = int (length ?p)" unfolding J by (rule LastIndex_at)
  have dot: "\<not> 0 \<le> LastIndex ?J ''.''" using Join_other(1) [OF gs] by (simp add: LastIndex_char)
  have "\<not> Contains ?p ''.''"
    using Join_other(1) [OF gs] unfolding J by (auto simp: Contains_iff)
  moreover have "1 \<le> Count ?J (CHR '','')" unfolding J by (simp add: Count_def)
  moreover have "take (length ?p) ?J = ?p" and "int (length ?J) - int (length ?p) - 1 = 3"
    unfolding J using three by simp_all
  ultimately show ?thesis
    using dot by (simp add: separated_def comma ReplaceAll_char filter_Join [OF groups_no_separator(2) [OF gs]])
qed

lemma separated_digits: "\<forall>c \<in> set s. is_digit c \<Longrightarrow> separated s = s"
  using digits_no_separator [of s] LastIndex_char [of s "CHR ''.''"] LastIndex_char [of s "CHR '',''"]
  by (auto simp: separated_def Count_def filter_empty_conv)

section \<open>Numbers in both conventions\<close>

text \<open>
  C38: a decimal number, with a sign or without, is read the same in either convention, with commas
  between the groups and a decimal point or with points and a decimal comma, whatever currency signs,
  letters, percent signs or spaces stand around and between its characters: the result is its sign,
  its digits and one point. There is one exception: a single group followed by a comma and three
  digits, as in \<open>0,125\<close>, reads as an integer with a group separator.
\<close>

theorem number_conventions:
  assumes "digit_groups gs" and "\<forall>c \<in> set frac. is_digit c" and "sg \<in> {'''', ''-'', ''+''}"
    and "filter number_char s = sg @ Join gs '','' @ ''.'' @ frac"
    and "filter number_char t = sg @ Join gs ''.'' @ '','' @ frac"
  shows "cleanNumber s = sg @ concat gs @ ''.'' @ frac \<and>
    cleanNumber t =
      (if length gs = 1 \<and> length frac = 3 then sg @ concat gs @ frac else sg @ concat gs @ ''.'' @ frac)"
  using separated_point [OF sign_first(1) [OF assms(1,3)] assms(2)]
    separated_comma [OF sign_first(1) [OF assms(1,3)] assms(2)]
  by (simp add: cleanNumber_separated assms(4,5) sign_first [OF assms(1,3)])

theorem number_conventions_witness:
  "cleanNumber ''USD -1,234.56'' = ''-1234.56'' \<and> cleanNumber ''-1.234,56 %'' = ''-1234.56''"
proof -
  have "digit_groups [''1'', ''234'']" by (simp add: digit_groups_def is_digit_def byte_def)
  moreover have "\<forall>c \<in> set ''56''. is_digit c" by (simp add: is_digit_def byte_def)
  moreover have "filter number_char ''USD -1,234.56'' = ''-'' @ Join [''1'', ''234''] '','' @ ''.'' @ ''56''"
    "filter number_char ''-1.234,56 %'' = ''-'' @ Join [''1'', ''234''] ''.'' @ '','' @ ''56''"
    by (simp_all add: number_char_def is_digit_def byte_def)
  ultimately show ?thesis
    using number_conventions [of "[''1'', ''234'']" "''56''" "''-''" "''USD -1,234.56''" "''-1.234,56 %''"] by simp
qed

text \<open>The exception at work: a decimal comma before three digits is dropped, a point is kept.\<close>

lemma three_decimals_after_comma: "cleanNumber ''0,125'' = ''0125''" "cleanNumber ''0.125'' = ''0.125''"
  by (simp_all add: cleanNumber_separated number_char_def is_digit_def byte_def separated_def Count_def
      ReplaceAll_char Contains_char)

text \<open>
  An integer is read back from its digits, plain or with commas between groups, the last of three
  digits, whatever else stands in the cell.
\<close>

theorem grouped_integer_read:
  assumes "concat gs = nat_digits n" and "int n \<le> max_int64"
    and "2 \<le> length gs \<and> length (last gs) = 3 \<or> length gs = 1"
    and "filter number_char s = Join gs '',''"
  shows "excel_ParseInt s = (int n, True)"
proof -
  have gs: "digit_groups gs"
    using assms(1,3) nat_digits_digits [of n] unfolding digit_groups_def by (metis UN_I list.size(3) not_numeral_le_zero set_concat zero_neq_one)
  have "separated (Join gs '','') = concat gs"
  proof (cases "length gs = 1")
    case True
    then obtain g where g: "gs = [g]" by (auto simp: length_Suc_conv)
    with gs show ?thesis by (simp add: digit_groups_def separated_digits)
  next
    case False
    with assms(3) digit_groups_plain [OF gs] show ?thesis by (auto intro: separated_groups)
  qed
  then have "cleanNumber s = nat_digits n" using assms(1,4) by (simp add: cleanNumber_separated)
  moreover have "ParseInt (nat_digits n) = (int n, True)"
    using ParseInt_itoa [of "int n"] assms(2) by (simp add: itoa_def in_int64_def min_int64_def)
  ultimately show ?thesis by (simp add: excel_ParseInt_def)
qed

theorem grouped_integer_read_witness: "excel_ParseInt ''1,234 VND'' = (1234, True)"
proof -
  have "digit 1 = CHR ''1''" "digit 2 = CHR ''2''" "digit 3 = CHR ''3''" "digit 4 = CHR ''4''"
    by (simp_all add: byte_inject [symmetric] byte_digit) (simp_all add: byte_def)
  then have "nat_digits 1234 = ''1234''" by (simp add: nat_digits.simps)
  moreover have "filter number_char ''1,234 VND'' = Join [''1'', ''234''] '',''"
    by (simp add: number_char_def is_digit_def byte_def)
  ultimately show ?thesis
    using grouped_integer_read [of "[''1'', ''234'']" 1234 "''1,234 VND''"] by (simp add: max_int64_def)
qed

text \<open>A single group after a point is taken for decimals, and cut; and so is the last of several.\<close>

lemma points_are_decimal:
  "excel_ParseInt ''1.234'' = (1, True)" "excel_ParseInt ''1.234.567'' = (1234, True)"
proof -
  have clean: "cleanNumber ''1.234'' = ''1.234''" "cleanNumber ''1.234.567'' = ''1234.567''"
    by (simp_all add: cleanNumber_separated number_char_def is_digit_def byte_def separated_def Count_def
        ReplaceAll_char)
  have "double_floor 1234 1000 = Some 1" "double_floor 1234567 1000 = Some 1234"
    by (simp_all add: double_floor_def bit_size.simps round_half_even_def Let_def)
  then have float: "ParseFloat_int64 ''1.234'' = Some 1" "ParseFloat_int64 ''1234.567'' = Some 1234"
    by (simp_all add: ParseFloat_int64_def SplitN2_def is_digit_def byte_def int64_of_def in_int64_def
        min_int64_def max_int64_def)
  have "ParseInt ''1.234'' = (0, False)" "ParseInt ''1234.567'' = (0, False)"
    by (simp_all add: ParseInt_def is_digit_def byte_def)
  with clean float show "excel_ParseInt ''1.234'' = (1, True)" "excel_ParseInt ''1.234.567'' = (1234, True)"
    by (simp_all add: excel_ParseInt_def)
qed

end
