(* ===== verification/Spec2Isabelle.thy ===== *)
theory Spec2Isabelle
  imports Invite_UC User_Bulk Staff_Code Perm_UC Mail_Templates Middleware IP_Ban Request_DTO Setting_UC Storage_Handler Avatar
    Hub Rate_Limit Accountability Sse Smtp Container Boot Seed Migrate VN_Time Cell_Number
begin

text \<open>
  A model of the VTV backend (Go, module \<open>vtv.vn/backend\<close>): accounts and permissions, authentication,
  announcements and notifications, settings, file storage, and the HTTP server around them.

  \<^bold>\<open>The program.\<close> A request passes the server's own middlewares (\<open>cmd/api/main.go\<close>: request log, guard
  against scanners), then those of its route (\<open>internal/server/http/middleware\<close>: token, forced password
  change, role or permission gate, login limiter), reaches a handler (\<open>internal/server/http/handler\<close>),
  which decodes a DTO (\<open>dto\<close>) and calls a use case (\<open>internal/usecase\<close>); use cases run repositories
  (\<open>internal/repository\<close>) in one transaction and write an audit row in it. Outside the database there
  are Redis (revoked tokens, bans, the channel of notification events), an SMTP server and an S3 store.

  \<^bold>\<open>How it is modelled.\<close> \<open>World\<close> has the state: a record of tables as lists of rows, the Redis keyspace,
  the outbox of sent mails, the object store and a counter of external steps. A computation \<open>'a comp\<close>
  takes the environment and the world to an error or a value, and the world after. The environment
  has what the code calls and does not define: clock, randomness, bcrypt, JWT, SHA-256, the database's
  \<open>lower\<close> and collation, JSON codecs, and a fault for every step that can fail, so every error path is
  a branch. SQL is read as relational operations. Instants and durations are nanoseconds; \<open>int\<close> and
  \<open>int64\<close> are integers with the bounds of \<open>Prelude\<close>, and \<open>wrap64\<close> where the code can overflow. Strings
  are bytes. Vietnamese texts of messages are transliterated to ASCII.

  \<^bold>\<open>Theories, from the bottom.\<close>
  \<^item> \<open>Prelude\<close>: collections, bounds, lists. \<open>Go_Strings\<close>, \<open>Go_Runes\<close>, \<open>Calendar\<close>, \<open>Go_Regexp\<close>: what is
    used of \<open>strings\<close>, \<open>strconv\<close>, \<open>unicode/utf8\<close>, \<open>time\<close>, \<open>regexp\<close> (a parser of patterns, and a matcher
    proved equal to an inductive semantics).
  \<^item> \<open>App_Error\<close> (\<open>pkg/xhttp\<close> errors and responses), \<open>Request_Context\<close> (\<open>pkg/xhttp/context.go\<close>),
    \<open>Permission_Map\<close>, \<open>Domain_Model\<close> (\<open>internal/domain\<close>), \<open>World\<close> (with \<open>pkg/xpostgres\<close> transactions).
  \<^item> \<open>Tables\<close> and the repositories \<open>User_Repo\<close>, \<open>Perm_Repo\<close>, \<open>Audit_Repo\<close>, \<open>Notif_Repo\<close>
    (\<open>internal/repository\<close>); \<open>Redis\<close>, \<open>Object_Store\<close> (\<open>pkg/xstorage\<close>); \<open>Sample\<close>: the concrete environment
    and world of the witnesses.
  \<^item> \<open>Token\<close> (\<open>pkg/xauth\<close>), \<open>Mail\<close>, \<open>Smtp\<close> (\<open>pkg/xmail\<close>), \<open>Mail_Templates\<close> (the mails of the use cases).
  \<^item> \<open>Use_Case\<close> and the use cases (\<open>internal/usecase\<close>): \<open>User_UC\<close>, \<open>User_Bulk\<close>, \<open>Invite_UC\<close>,
    \<open>Staff_Code\<close>, \<open>Avatar\<close>, \<open>Perm_UC\<close>, \<open>Auth_UC\<close>, \<open>Notif_UC\<close>, \<open>Setting_UC\<close>.
  \<^item> \<open>Middleware\<close>, \<open>Rate_Limit\<close>, \<open>IP_Ban\<close> (\<open>pkg/xratelimit\<close>), \<open>Hub\<close> (\<open>pkg/xnotify\<close>), \<open>Sse\<close>,
    \<open>Storage_Handler\<close>, \<open>Validation\<close>, \<open>Request_DTO\<close>, \<open>Response_DTO\<close>, \<open>Handler_Base\<close>, \<open>Handlers\<close>, \<open>Routes\<close>
    (the handlers and the route table).
  \<^item> \<open>Footprint\<close>, \<open>System\<close>, \<open>Accountability\<close>: the service as one transition function \<open>handle\<close> over
    requests, and what every sequence of requests keeps.
  \<^item> \<open>Config\<close>, \<open>Request_Log\<close>, \<open>Container\<close> (\<open>internal/config\<close>, \<open>pkg/xlogger\<close>, \<open>pkg/xhttp/xmiddleware\<close>,
    \<open>internal/di\<close>), \<open>Api\<close>, \<open>Boot\<close>, \<open>Seed\<close>, \<open>Migrate\<close> (\<open>cmd\<close>).
  \<^item> \<open>VN_Time\<close> (\<open>pkg/xtime\<close>), \<open>Excel\<close>, \<open>Cell_Number\<close> (\<open>pkg/xexcel\<close>), which nothing calls yet.

  \<^bold>\<open>Interfaces.\<close> Locales state the contracts between the parts, each interpreted on the model's own
  operations: \<open>id_table\<close> (keys of a table), \<open>ttl_store\<close> (Redis), \<open>blob_store\<close> (objects),
  \<open>audited_use_case\<close> (all or nothing, one audit row), \<open>bulk_client\<close> (bulk operations item by item),
  \<open>inbox_op\<close> (an operation of one user's inbox), \<open>statements\<close> (a relation that every statement of the
  service respects).

  \<^bold>\<open>What is shown.\<close> Access: protected handlers run only for a verified, unrevoked token; login, logout,
  reset links and password changes do what they promise and nothing more; gates and saved permissions
  agree; upload tokens open one path, up to collisions of the MAC, and reads stay inside it; banned
  addresses get nowhere, and the pattern of scanner paths catches what its text says. Data:
  each change is accounted for in the audit log, which only grows; keys stay distinct; a request
  changes the tables of its endpoint and no other; emissions are all or nothing; inboxes are private.
  Bounds: tokens, uploads, broadcasts, streams per user, local days since the clocks last changed. The
  hub refines a lossy channel and drains after \<open>Close\<close>; a stream ends exactly when it should; eviction
  in the limiter is invisible.

  \<^bold>\<open>Simplifications.\<close> SQL's \<open>now()\<close> is read when its statement runs, not at the start of the transaction,
  which is the same up to the duration of a transaction. A Redis lifetime is kept to the nanosecond,
  where the client truncates to milliseconds. A subscription's goroutine closes its channel and leaves
  the table of the hub in one step. Writing an object of known size stores exactly that many bytes, or
  fails when the reader yields fewer.

  \<^bold>\<open>Loops.\<close> All loops are structural or have a measure, except that of an event stream, which is a
  \<open>partial_function\<close> over everything its \<open>select\<close> will find and need not end. The hub is a step relation
  whose steps are its critical sections, so every interleaving of them is covered. No fuel is used.

  \<^bold>\<open>Not modelled.\<close> The framework: echo's routing, binding of requests to structs, CORS
  (which answers preflight requests before the guard against scanners sees them), security headers, recovery
  from panics, response headers other than the cookie, and serialisation to JSON. What the libraries do inside:
  the drivers of Postgres, Redis, S3 and SMTP, Viper, zerolog, golang-migrate and excelize; the code around them
  is modelled over their answers. The queue and the worker, which register no job, and the shutdown of the
  processes. \<open>RegisterValidation\<close>, which nothing calls, and \<open>xexcel.ParseDate\<close>, which
  falls back on a floating-point number in any notation.
\<close>

end
